(* ===== verification/Prelude.thy ===== *)
theory Prelude
  imports Main "HOL-Library.Word"
begin

text \<open>
  The vocabulary every other theory of the development is written in:
  \<^item> the machine integers of the Rust sources (\<open>u8\<close> to \<open>u128\<close>) and \<open>Pubkey\<close>, as words;
  \<^item> \<open>Result\<close> as a sum whose left side is the error, with \<open>and_then\<close> for the \<open>?\<close> operator
    (and \<open>Result::and_then\<close>), \<open>ok_or\<close>, \<open>map_err\<close>, and \<open>err_if\<close> for an early
    \<open>return Err(..)\<close> under a condition;
  \<^item> the checked and saturating arithmetic of the integer types, each with one lemma that
    restates it over \<open>nat\<close>; with these lemmas (collection \<open>arith_iffs\<close>) and the ones on
    results (collection \<open>res_simps\<close>) a goal about the code becomes a goal about \<open>nat\<close>.
\<close>

named_theorems res_simps \<open>when a chain of fallible calls succeeds\<close>
named_theorems arith_iffs \<open>checked arithmetic, read over nat\<close>

section \<open>Integer types\<close>

type_synonym u8 = "8 word"
type_synonym u16 = "16 word"
type_synonym u32 = "32 word"
type_synonym u64 = "64 word"
type_synonym u128 = "128 word"

text \<open>A \<open>Pubkey\<close> is 32 bytes; \<open>Pubkey::default()\<close> is all zeroes, the word \<open>0\<close>.\<close>

type_synonym pubkey = "256 word"

abbreviation u64_MAX :: u64 where
  "u64_MAX \<equiv> - 1"

section \<open>Results\<close>

definition and_then :: "'e + 'a \<Rightarrow> ('a \<Rightarrow> 'e + 'b) \<Rightarrow> 'e + 'b" where
  "and_then r f = (case r of Inl e \<Rightarrow> Inl e | Inr x \<Rightarrow> f x)"

definition ok_or :: "'a option \<Rightarrow> 'e \<Rightarrow> 'e + 'a" where
  "ok_or x e = (case x of None \<Rightarrow> Inl e | Some y \<Rightarrow> Inr y)"

definition map_err :: "('e \<Rightarrow> 'f) \<Rightarrow> 'e + 'a \<Rightarrow> 'f + 'a" where
  "map_err f r = (case r of Inl e \<Rightarrow> Inl (f e) | Inr x \<Rightarrow> Inr x)"

definition err_if :: "bool \<Rightarrow> 'e \<Rightarrow> 'e + unit" where
  "err_if b e = (if b then Inl e else Inr ())"

definition is_ok :: "'e + 'a \<Rightarrow> bool" where
  "is_ok r = (case r of Inl _ \<Rightarrow> False | Inr _ \<Rightarrow> True)"

lemma and_then_simps [simp]:
  "and_then (Inl e) f = Inl e"
  "and_then (Inr x) f = f x"
  by (simp_all add: and_then_def)

lemma ok_or_simps [simp]:
  "ok_or None e = Inl e"
  "ok_or (Some y) e = Inr y"
  by (simp_all add: ok_or_def)

lemma map_err_simps [simp]:
  "map_err f (Inl e) = Inl (f e)"
  "map_err f (Inr x) = Inr x"
  by (simp_all add: map_err_def)

lemma err_if_simps [simp]:
  "err_if True e = Inl e"
  "err_if False e = Inr ()"
  by (simp_all add: err_if_def)

lemma is_ok_simps [simp]:
  "is_ok (Inl e) = False"
  "is_ok (Inr x) = True"
  by (simp_all add: is_ok_def)

lemma and_then_Inr_iff [res_simps]:
  "and_then r f = Inr y \<longleftrightarrow> (\<exists>x. r = Inr x \<and> f x = Inr y)"
  by (cases r) simp_all

lemma and_then_Inl_iff:
  "and_then r f = Inl e \<longleftrightarrow> r = Inl e \<or> (\<exists>x. r = Inr x \<and> f x = Inl e)"
  by (cases r) simp_all

lemma ok_or_Inr_iff [res_simps]: "ok_or x e = Inr y \<longleftrightarrow> x = Some y"
  by (cases x) simp_all

lemma ok_or_Inl_iff: "ok_or x e = Inl e' \<longleftrightarrow> x = None \<and> e' = e"
  by (cases x) auto

lemma map_err_Inr_iff [res_simps]: "map_err f r = Inr y \<longleftrightarrow> r = Inr y"
  by (cases r) simp_all

lemma map_err_Inl_iff: "map_err f r = Inl e \<longleftrightarrow> (\<exists>e'. r = Inl e' \<and> e = f e')"
  by (cases r) auto

lemma err_if_Inr_iff [res_simps]: "err_if b e = Inr u \<longleftrightarrow> \<not> b"
  by (cases b) simp_all

lemma err_if_Inl_iff: "err_if b e = Inl e' \<longleftrightarrow> b \<and> e' = e"
  by (cases b) auto

lemma is_ok_iff: "is_ok r \<longleftrightarrow> (\<exists>x. r = Inr x)"
  by (cases r) simp_all

lemma bind_Some_iff [res_simps]:
  "Option.bind x f = Some y \<longleftrightarrow> (\<exists>z. x = Some z \<and> f z = Some y)"
  by (cases x) simp_all

section \<open>Checked arithmetic\<close>

definition checked_add :: "'a::len word \<Rightarrow> 'a word \<Rightarrow> 'a word option" where
  "checked_add a b = (if unat a + unat b < 2 ^ LENGTH('a) then Some (a + b) else None)"

definition checked_sub :: "'a::len word \<Rightarrow> 'a word \<Rightarrow> 'a word option" where
  "checked_sub a b = (if b \<le> a then Some (a - b) else None)"

definition checked_mul :: "'a::len word \<Rightarrow> 'a word \<Rightarrow> 'a word option" where
  "checked_mul a b = (if unat a * unat b < 2 ^ LENGTH('a) then Some (a * b) else None)"

definition checked_div :: "'a::len word \<Rightarrow> 'a word \<Rightarrow> 'a word option" where
  "checked_div a b = (if b = 0 then None else Some (a div b))"

definition checked_rem :: "'a::len word \<Rightarrow> 'a word \<Rightarrow> 'a word option" where
  "checked_rem a b = (if b = 0 then None else Some (a mod b))"

definition saturating_sub :: "'a::len word \<Rightarrow> 'a word \<Rightarrow> 'a word" where
  "saturating_sub a b = (if b \<le> a then a - b else 0)"

text \<open>
  \<open>div_ceil\<close> as the standard library computes it. Every call in the sources divides by the
  constant \<open>MAX_BPS\<close>, so the panic at zero is out of reach.
\<close>

definition div_ceil :: "'a::len word \<Rightarrow> 'a word \<Rightarrow> 'a word" where
  "div_ceil a b = (let d = a div b; r = a mod b in if 0 < r then d + 1 else d)"

text \<open>A lossless \<open>as u128\<close>, and \<open>try_into\<close> to a narrower type.\<close>

definition as_u128 :: "'a::len word \<Rightarrow> u128" where
  "as_u128 a = ucast a"

definition try_narrow :: "'a::len word \<Rightarrow> 'b::len word option" where
  "try_narrow a = (if unat a < 2 ^ LENGTH('b) then Some (ucast a) else None)"

lemma unat_bound [simp]: "unat (a :: 'a::len word) < 2 ^ LENGTH('a)"
  by (rule unsigned_less)

lemma unat_bound_u64: "unat (a :: u64) < 18446744073709551616"
  using unat_bound [of a] by simp

lemma unat_of_nat_u64 [simp]: "n < 2 ^ 64 \<Longrightarrow> unat (word_of_nat n :: u64) = n"
  by (simp add: unsigned_of_nat take_bit_nat_eq_self)

lemma unat_u64_MAX: "unat u64_MAX = 18446744073709551615"
  by (simp add: unsigned_minus_1_eq_mask mask_eq_exp_minus_1)

lemma unat_bound_u16: "unat (a :: u16) < 65536"
  using unat_bound [of a] by simp

lemma checked_add_iff [arith_iffs]: "checked_add a b = Some c \<longleftrightarrow> unat a + unat b = unat c"
proof -
  have "unat a + unat b < 2 ^ LENGTH('a) \<Longrightarrow> unat (a + b) = unat a + unat b"
    by (simp add: unat_word_ariths)
  then show ?thesis
    using unat_bound [of c] by (auto simp: checked_add_def word_unat_eq_iff)
qed

lemma checked_sub_iff [arith_iffs]: "checked_sub a b = Some c \<longleftrightarrow> unat a = unat b + unat c"
proof (cases "b \<le> a")
  case True
  then have "unat (a - b) = unat a - unat b" and "unat b \<le> unat a"
    by (simp_all add: unat_sub word_le_nat_alt)
  then show ?thesis
    using True by (auto simp: checked_sub_def word_unat_eq_iff)
next
  case False
  then show ?thesis
    by (auto simp: checked_sub_def word_le_nat_alt)
qed

lemma checked_mul_iff [arith_iffs]: "checked_mul a b = Some c \<longleftrightarrow> unat a * unat b = unat c"
proof -
  have "unat a * unat b < 2 ^ LENGTH('a) \<Longrightarrow> unat (a * b) = unat a * unat b"
    by (simp add: unat_word_ariths)
  then show ?thesis
    using unat_bound [of c] by (auto simp: checked_mul_def word_unat_eq_iff)
qed

lemma checked_div_iff [arith_iffs]:
  "checked_div a b = Some c \<longleftrightarrow> 0 < unat b \<and> unat c = unat a div unat b"
  by (cases "b = 0") (auto simp: checked_div_def unat_gt_0 word_unat_eq_iff [of "a div b"] unat_div)

lemma checked_rem_iff [arith_iffs]:
  "checked_rem a b = Some c \<longleftrightarrow> 0 < unat b \<and> unat c = unat a mod unat b"
  by (cases "b = 0") (auto simp: checked_rem_def unat_gt_0 word_unat_eq_iff [of "a mod b"] unat_mod)

lemma unat_saturating_sub [simp]: "unat (saturating_sub a b) = unat a - unat b"
  by (auto simp: saturating_sub_def unat_sub word_le_nat_alt)

lemma unat_as_u128 [simp]:
  "unat (as_u128 (a :: u64)) = unat a"
  "unat (as_u128 (c :: u16)) = unat c"
  using unat_bound [of a] unat_bound [of c]
  by (simp_all add: as_u128_def unsigned_ucast_eq take_bit_nat_eq_self)

lemma try_narrow_iff [arith_iffs]: "try_narrow a = Some c \<longleftrightarrow> unat a = unat c"
  for a :: "'a::len word" and c :: "'b::len word"
proof -
  have "unat (ucast a :: 'b word) = unat a mod 2 ^ LENGTH('b)"
    by (simp add: unsigned_ucast_eq take_bit_eq_mod)
  moreover have "unat c < 2 ^ LENGTH('b)"
    by simp
  ultimately show ?thesis
    by (auto simp: try_narrow_def word_unat_eq_iff simp del: unat_bound)
qed

lemma checked_add_ok:
  "unat a + unat b < 2 ^ LENGTH('a) \<Longrightarrow> \<exists>c. checked_add a b = Some c \<and> unat c = unat a + unat b"
  for a b :: "'a::len word"
  by (simp add: checked_add_def unat_word_ariths)

lemma checked_sub_ok:
  "unat b \<le> unat a \<Longrightarrow> \<exists>c. checked_sub a b = Some c \<and> unat c = unat a - unat b"
  for a b :: "'a::len word"
  by (simp add: checked_sub_def unat_sub word_le_nat_alt)

lemma u64_of_nat: "n < 2 ^ 64 \<Longrightarrow> \<exists>w :: u64. unat w = n"
  using unat_of_nat_u64 by blast

text \<open>The rounded-up quotient over \<open>nat\<close> and its characteristic bounds.\<close>

definition ceil_div :: "nat \<Rightarrow> nat \<Rightarrow> nat" where
  "ceil_div a b = (if a mod b = 0 then a div b else a div b + 1)"

lemma ceil_div_mult: "ceil_div a b * b = (if a mod b = 0 then a else a - a mod b + b)"
  using div_mult_mod_eq [of a b] by (auto simp: ceil_div_def simp flip: minus_mod_eq_div_mult)

lemma ceil_div_upper: "0 < b \<Longrightarrow> a \<le> ceil_div a b * b"
  unfolding ceil_div_mult using mod_less_divisor [of b a] mod_less_eq_dividend [of a b]
  by (split if_split) linarith

lemma ceil_div_lower: "0 < b \<Longrightarrow> ceil_div a b * b < a + b"
  using mod_less_eq_dividend [of a b] by (simp add: ceil_div_mult)

lemma unat_div_ceil: "0 < unat b \<Longrightarrow> unat (div_ceil a b) = ceil_div (unat a) (unat b)"
proof (cases "unat a mod unat b = 0")
  case True
  then have "a mod b = 0"
    by (simp add: word_unat_eq_iff unat_mod)
  with True show ?thesis
    by (simp add: div_ceil_def ceil_div_def unat_div)
next
  assume b: "0 < unat b"
  case False
  then have r: "0 < a mod b"
    by (simp add: word_less_nat_alt unat_mod)
  have "unat a div unat b < unat a"
  proof (rule div_less_dividend)
    show "1 < unat b" using False b by (cases "unat b = 1") auto
    show "0 < unat a" using False by (cases "unat a") auto
  qed
  then have "unat a div unat b + 1 < 2 ^ LENGTH('a)"
    using unat_bound [of a] by linarith
  with r False show ?thesis
    by (simp add: div_ceil_def ceil_div_def unat_word_ariths unat_div)
qed

lemma ceil_div_le: "0 < b \<Longrightarrow> a \<le> c * b \<Longrightarrow> ceil_div a b \<le> c"
proof -
  assume b: "0 < b" and "a \<le> c * b"
  then have "ceil_div a b * b < (c + 1) * b"
    using ceil_div_lower [OF b, of a] by (simp add: algebra_simps)
  then show ?thesis
    by (metis Suc_eq_plus1 less_Suc_eq_le mult_less_cancel2)
qed

lemma ceil_div_eq_0_iff: "0 < b \<Longrightarrow> ceil_div a b = 0 \<longleftrightarrow> a = 0"
  using ceil_div_upper [of b a] by (cases "a = 0") (auto simp: ceil_div_def)

end
