(* ===== verification/Errors.thy ===== *)
theory Errors
  imports Prelude
begin

text \<open>
  The error types of the programs and their conversion to \<open>ProgramError\<close>:
  \<open>VaultError\<close> (\<open>vault_sdk/src/error.rs\<close>)
  and \<open>CoreError\<close> (\<open>core/src/error.rs\<close>); \<open>RestakingError\<close> is in \<open>Restaking_Core\<close>.
  \<open>ProgramError\<close> itself belongs to \<open>solana_program\<close>; the constructors are the ones the
  sources name. \<open>Panic\<close> stands for a Rust panic, which the runtime turns into a failed
  instruction, and \<open>CpiFailed\<close> for the failure of a program called by a cross-program
  invocation. Every failure rolls the whole instruction back, so a failing operation has an
  error and no state.
\<close>

section \<open>VaultError\<close>

datatype (plugins only: size) vault_error =
    VaultSlashUnderflow
  | VaultInitialAmountFailed
  | VaultInsufficientFunds
  | VaultOverflow
  | VaultOperatorAdminInvalid
  | VaultAdminInvalid
  | VaultCapacityAdminInvalid
  | VaultMintBurnAdminInvalid
  | VaultDelegationAdminInvalid
  | VaultDelegateAssetAdminInvalid
  | VaultCapacityExceeded
  | VaultSlasherAdminInvalid
  | VaultNcnAdminInvalid
  | VaultFeeAdminInvalid
  | ConfigAdminInvalid
  | ConfigFeeAdminInvalid
  | VaultFeeCapExceeded
  | VaultFeeChangeTooSoon
  | VaultFeeBumpTooLarge
  | VaultUnderflow
  | VaultUpdateNeeded
  | VaultIsUpdated
  | VaultOperatorDelegationUpdateNeeded
  | VaultOperatorDelegationIsUpdated
  | VaultUpdateIncorrectIndex
  | VaultUpdateStateNotFinishedUpdating
  | VaultSecurityOverflow
  | VaultSlashIncomplete
  | VaultSecurityUnderflow
  | SlippageError
  | VaultStakerWithdrawalTicketNotWithdrawable
  | VaultNcnSlasherTicketFailedCooldown
  | VaultNcnSlasherTicketFailedWarmup
  | VaultNcnTicketFailedCooldown
  | VaultNcnTicketFailedWarmup
  | VaultNcnTicketUnslashable
  | OperatorVaultTicketUnslashable
  | NcnOperatorStateUnslashable
  | VaultNcnSlasherTicketUnslashable
  | NcnVaultTicketUnslashable
  | NcnVaultSlasherTicketUnslashable
  | VaultMaxSlashedPerOperatorExceeded
  | VaultStakerWithdrawalTicketInvalidStaker
  | SlasherOverflow
  | NcnOverflow
  | OperatorOverflow
  | VaultDelegationZero
  | VaultCooldownZero
  | VaultBurnZero
  | VaultEnqueueWithdrawalAmountZero
  | VaultMintZero
  | VaultIsPaused
  | InvalidDepositor
  | InvalidDepositTokenAccount
  | NoSupportedMintBalanceChange
  | InvalidEpochLength
  | VaultRewardFeeDeltaTooLarge
  | VaultRewardFeeIsZero
  | VrtOutCannotBeZero
  | NonZeroAdditionalAssetsNeededForWithdrawalAtEndOfUpdate
  | ArithmeticOverflow
  | ArithmeticUnderflow
  | DivisionByZero

text \<open>The discriminant of each variant, \<open>e as u32\<close>.\<close>

primrec vault_error_code :: "vault_error \<Rightarrow> u32" where
  "vault_error_code VaultSlashUnderflow = 1000"
| "vault_error_code VaultInitialAmountFailed = 1001"
| "vault_error_code VaultInsufficientFunds = 1002"
| "vault_error_code VaultOverflow = 1003"
| "vault_error_code VaultOperatorAdminInvalid = 1004"
| "vault_error_code VaultAdminInvalid = 1005"
| "vault_error_code VaultCapacityAdminInvalid = 1006"
| "vault_error_code VaultMintBurnAdminInvalid = 1007"
| "vault_error_code VaultDelegationAdminInvalid = 1008"
| "vault_error_code VaultDelegateAssetAdminInvalid = 1009"
| "vault_error_code VaultCapacityExceeded = 1010"
| "vault_error_code VaultSlasherAdminInvalid = 1011"
| "vault_error_code VaultNcnAdminInvalid = 1012"
| "vault_error_code VaultFeeAdminInvalid = 1013"
| "vault_error_code ConfigAdminInvalid = 1014"
| "vault_error_code ConfigFeeAdminInvalid = 1015"
| "vault_error_code VaultFeeCapExceeded = 1016"
| "vault_error_code VaultFeeChangeTooSoon = 1017"
| "vault_error_code VaultFeeBumpTooLarge = 1018"
| "vault_error_code VaultUnderflow = 1019"
| "vault_error_code VaultUpdateNeeded = 1020"
| "vault_error_code VaultIsUpdated = 1021"
| "vault_error_code VaultOperatorDelegationUpdateNeeded = 1022"
| "vault_error_code VaultOperatorDelegationIsUpdated = 1023"
| "vault_error_code VaultUpdateIncorrectIndex = 1024"
| "vault_error_code VaultUpdateStateNotFinishedUpdating = 1025"
| "vault_error_code VaultSecurityOverflow = 1026"
| "vault_error_code VaultSlashIncomplete = 1027"
| "vault_error_code VaultSecurityUnderflow = 1028"
| "vault_error_code SlippageError = 1029"
| "vault_error_code VaultStakerWithdrawalTicketNotWithdrawable = 1030"
| "vault_error_code VaultNcnSlasherTicketFailedCooldown = 1031"
| "vault_error_code VaultNcnSlasherTicketFailedWarmup = 1032"
| "vault_error_code VaultNcnTicketFailedCooldown = 1033"
| "vault_error_code VaultNcnTicketFailedWarmup = 1034"
| "vault_error_code VaultNcnTicketUnslashable = 1035"
| "vault_error_code OperatorVaultTicketUnslashable = 1036"
| "vault_error_code NcnOperatorStateUnslashable = 1037"
| "vault_error_code VaultNcnSlasherTicketUnslashable = 1038"
| "vault_error_code NcnVaultTicketUnslashable = 1039"
| "vault_error_code NcnVaultSlasherTicketUnslashable = 1040"
| "vault_error_code VaultMaxSlashedPerOperatorExceeded = 1041"
| "vault_error_code VaultStakerWithdrawalTicketInvalidStaker = 1042"
| "vault_error_code SlasherOverflow = 1043"
| "vault_error_code NcnOverflow = 1044"
| "vault_error_code OperatorOverflow = 1045"
| "vault_error_code VaultDelegationZero = 1046"
| "vault_error_code VaultCooldownZero = 1047"
| "vault_error_code VaultBurnZero = 1048"
| "vault_error_code VaultEnqueueWithdrawalAmountZero = 1049"
| "vault_error_code VaultMintZero = 1050"
| "vault_error_code VaultIsPaused = 1051"
| "vault_error_code InvalidDepositor = 1052"
| "vault_error_code InvalidDepositTokenAccount = 1053"
| "vault_error_code NoSupportedMintBalanceChange = 1054"
| "vault_error_code InvalidEpochLength = 1055"
| "vault_error_code VaultRewardFeeDeltaTooLarge = 1056"
| "vault_error_code VaultRewardFeeIsZero = 1057"
| "vault_error_code VrtOutCannotBeZero = 1058"
| "vault_error_code NonZeroAdditionalAssetsNeededForWithdrawalAtEndOfUpdate = 1059"
| "vault_error_code ArithmeticOverflow = 3000"
| "vault_error_code ArithmeticUnderflow = 3001"
| "vault_error_code DivisionByZero = 3002"

section \<open>CoreError\<close>

datatype core_error = BadEpochLength

primrec core_error_code :: "core_error \<Rightarrow> u32" where
  "core_error_code BadEpochLength = 0"

section \<open>ProgramError\<close>

datatype program_error =
    Custom u32
  | InvalidArgument
  | InvalidInstructionData
  | InvalidAccountData
  | InvalidAccountOwner
  | IncorrectProgramId
  | MissingRequiredSignature
  | AccountAlreadyInitialized
  | NotEnoughAccountKeys
  | IllegalOwner
  | ProgramArithmeticOverflow
  | InvalidSeeds
  | MaxSeedLengthExceeded
  | UninitializedAccount
  | CpiFailed u32
  | Panic

definition program_error_of_vault :: "vault_error \<Rightarrow> program_error" where
  "program_error_of_vault e = Custom (vault_error_code e)"

definition program_error_of_core :: "core_error \<Rightarrow> program_error" where
  "program_error_of_core e = Custom (core_error_code e)"

text \<open>\<open>?\<close> in a function that returns \<open>ProgramError\<close>, applied to a \<open>VaultError\<close> result.\<close>

abbreviation vault_res :: "vault_error + 'a \<Rightarrow> program_error + 'a" where
  "vault_res \<equiv> map_err program_error_of_vault"

abbreviation core_res :: "core_error + 'a \<Rightarrow> program_error + 'a" where
  "core_res \<equiv> map_err program_error_of_core"

text \<open>No two vault errors share a code, so a client can tell them apart.\<close>

lemma vault_error_code_range:
  "unat (vault_error_code e) \<in> {1000..1059} \<union> {3000..3002}"
  by (cases e) simp_all

definition vault_errors :: "vault_error list" where
  "vault_errors =
     [VaultSlashUnderflow, VaultInitialAmountFailed, VaultInsufficientFunds, VaultOverflow,
      VaultOperatorAdminInvalid, VaultAdminInvalid, VaultCapacityAdminInvalid,
      VaultMintBurnAdminInvalid, VaultDelegationAdminInvalid, VaultDelegateAssetAdminInvalid,
      VaultCapacityExceeded, VaultSlasherAdminInvalid, VaultNcnAdminInvalid,
      VaultFeeAdminInvalid, ConfigAdminInvalid, ConfigFeeAdminInvalid, VaultFeeCapExceeded,
      VaultFeeChangeTooSoon, VaultFeeBumpTooLarge, VaultUnderflow, VaultUpdateNeeded,
      VaultIsUpdated, VaultOperatorDelegationUpdateNeeded, VaultOperatorDelegationIsUpdated,
      VaultUpdateIncorrectIndex, VaultUpdateStateNotFinishedUpdating, VaultSecurityOverflow,
      VaultSlashIncomplete, VaultSecurityUnderflow, SlippageError,
      VaultStakerWithdrawalTicketNotWithdrawable, VaultNcnSlasherTicketFailedCooldown,
      VaultNcnSlasherTicketFailedWarmup, VaultNcnTicketFailedCooldown,
      VaultNcnTicketFailedWarmup, VaultNcnTicketUnslashable, OperatorVaultTicketUnslashable,
      NcnOperatorStateUnslashable, VaultNcnSlasherTicketUnslashable, NcnVaultTicketUnslashable,
      NcnVaultSlasherTicketUnslashable, VaultMaxSlashedPerOperatorExceeded,
      VaultStakerWithdrawalTicketInvalidStaker, SlasherOverflow, NcnOverflow, OperatorOverflow,
      VaultDelegationZero, VaultCooldownZero, VaultBurnZero, VaultEnqueueWithdrawalAmountZero,
      VaultMintZero, VaultIsPaused, InvalidDepositor, InvalidDepositTokenAccount,
      NoSupportedMintBalanceChange, InvalidEpochLength, VaultRewardFeeDeltaTooLarge,
      VaultRewardFeeIsZero, VrtOutCannotBeZero,
      NonZeroAdditionalAssetsNeededForWithdrawalAtEndOfUpdate, ArithmeticOverflow,
      ArithmeticUnderflow, DivisionByZero]"

definition vault_error_of_code :: "u32 \<Rightarrow> vault_error option" where
  "vault_error_of_code c = map_of (map (\<lambda>e. (vault_error_code e, e)) vault_errors) c"

lemma vault_error_of_code_inverse: "vault_error_of_code (vault_error_code e) = Some e"
  by (cases e) (simp_all add: vault_error_of_code_def vault_errors_def)

lemma vault_error_code_inj: "vault_error_code e = vault_error_code e' \<longleftrightarrow> e = e'"
  by (metis option.inject vault_error_of_code_inverse)

lemma program_error_of_vault_inj [simp]:
  "program_error_of_vault e = program_error_of_vault e' \<longleftrightarrow> e = e'"
  by (simp add: program_error_of_vault_def vault_error_code_inj)

lemma program_error_of_vault_not_core [simp]:
  "program_error_of_vault e \<noteq> program_error_of_core e'"
  using vault_error_code_range [of e]
  by (cases e'; cases "vault_error_code e = 0")
     (auto simp: program_error_of_vault_def program_error_of_core_def)

end
