(* ===== verification/Jsm_Core.thy ===== *)
theory Jsm_Core
  imports Errors
begin

text \<open>
  The part of \<open>jito_jsm_core\<close> (\<open>core/src/lib.rs\<close>, \<open>core/src/loader.rs\<close>) that does not look
  into account data: \<open>get_epoch\<close>, and the flags an instruction carries with each account
  (\<open>AccountInfo::key\<close>, \<open>is_signer\<close>, \<open>is_writable\<close>) with \<open>load_signer\<close>. What an account holds
  (lamports, owner, data) is in the bank of theory \<open>Accounts\<close>, so that two entries of the
  account list with the same key denote the same account.
\<close>

record account_info =
  ai_key :: pubkey
  ai_is_signer :: bool
  ai_is_writable :: bool

definition load_signer :: "account_info \<Rightarrow> bool \<Rightarrow> program_error + unit" where
  "load_signer info expect_writable =
     and_then (err_if (\<not> ai_is_signer info) MissingRequiredSignature) (\<lambda>_.
     err_if (expect_writable \<and> \<not> ai_is_writable info) InvalidAccountData)"

definition get_epoch :: "u64 \<Rightarrow> u64 \<Rightarrow> core_error + u64" where
  "get_epoch slot epoch_length = ok_or (checked_div slot epoch_length) BadEpochLength"

lemma load_signer_iff [res_simps]:
  "load_signer info w = Inr u \<longleftrightarrow> ai_is_signer info \<and> (w \<longrightarrow> ai_is_writable info)"
  by (auto simp: load_signer_def res_simps)

lemma get_epoch_iff [res_simps]:
  "get_epoch slot len = Inr e \<longleftrightarrow> 0 < unat len \<and> unat e = unat slot div unat len"
  by (simp add: get_epoch_def res_simps arith_iffs)

lemma get_epoch_Inl_iff: "get_epoch slot len = Inl e \<longleftrightarrow> len = 0"
  by (cases e) (auto simp: get_epoch_def ok_or_Inl_iff checked_div_def)

lemma get_epoch_Inr: "len \<noteq> 0 \<Longrightarrow> get_epoch slot len = Inr (slot div len)"
  by (simp add: get_epoch_def checked_div_def)

lemma epoch_mono: "slot \<le> slot' \<Longrightarrow> slot div len \<le> slot' div (len :: u64)"
  by (simp add: word_le_nat_alt unat_div div_le_mono)

end
