(* ===== verification/Delegation_State.thy ===== *)
theory Delegation_State
  imports Jsm_Core
begin

text \<open>
  \<open>DelegationState\<close> (\<open>vault_core/src/delegation_state.rs\<close>): the stake of one operator, or of a
  whole vault, split into active stake, stake enqueued for cooldown and stake cooling down.
  A method that takes \<open>&mut self\<close> returns the new value; its intermediate values are not
  visible to a caller, since every error rolls the instruction back.
\<close>

section \<open>Definitions\<close>

record delegation_state =
  staked_amount :: u64
  enqueued_for_cooldown_amount :: u64
  cooling_down_amount :: u64

definition ds_default :: delegation_state where
  "ds_default = \<lparr>staked_amount = 0, enqueued_for_cooldown_amount = 0, cooling_down_amount = 0\<rparr>"

definition ds_new :: "u64 \<Rightarrow> u64 \<Rightarrow> u64 \<Rightarrow> delegation_state" where
  "ds_new staked enqueued cooling =
     \<lparr>staked_amount = staked, enqueued_for_cooldown_amount = enqueued, cooling_down_amount = cooling\<rparr>"

definition ds_subtract :: "delegation_state \<Rightarrow> delegation_state \<Rightarrow> vault_error + delegation_state" where
  "ds_subtract self other =
     and_then (ok_or (checked_sub (staked_amount self) (staked_amount other))
       VaultSecurityUnderflow) (\<lambda>staked.
     and_then (ok_or (checked_sub (enqueued_for_cooldown_amount self) (enqueued_for_cooldown_amount other))
       VaultSecurityUnderflow) (\<lambda>enqueued.
     and_then (ok_or (checked_sub (cooling_down_amount self) (cooling_down_amount other))
       VaultSecurityUnderflow) (\<lambda>cooling.
     Inr (self\<lparr>staked_amount := staked, enqueued_for_cooldown_amount := enqueued,
               cooling_down_amount := cooling\<rparr>))))"

definition ds_accumulate :: "delegation_state \<Rightarrow> delegation_state \<Rightarrow> vault_error + delegation_state" where
  "ds_accumulate self other =
     and_then (ok_or (checked_add (staked_amount self) (staked_amount other))
       VaultSecurityOverflow) (\<lambda>staked.
     and_then (ok_or (checked_add (enqueued_for_cooldown_amount self) (enqueued_for_cooldown_amount other))
       VaultSecurityOverflow) (\<lambda>enqueued.
     and_then (ok_or (checked_add (cooling_down_amount self) (cooling_down_amount other))
       VaultSecurityOverflow) (\<lambda>cooling.
     Inr (self\<lparr>staked_amount := staked, enqueued_for_cooldown_amount := enqueued,
               cooling_down_amount := cooling\<rparr>))))"

definition total_security :: "delegation_state \<Rightarrow> vault_error + u64" where
  "total_security self =
     ok_or (Option.bind (checked_add (staked_amount self) (enqueued_for_cooldown_amount self))
              (\<lambda>x. checked_add x (cooling_down_amount self)))
       VaultSecurityOverflow"

definition ds_update :: "delegation_state \<Rightarrow> delegation_state" where
  "ds_update self =
     self\<lparr>cooling_down_amount := enqueued_for_cooldown_amount self, enqueued_for_cooldown_amount := 0\<rparr>"

text \<open>The closure \<open>apply_slash\<close> of \<open>slash\<close>: the amount and the remaining slash it leaves.\<close>

definition apply_slash :: "u64 \<Rightarrow> u64 \<Rightarrow> vault_error + u64 \<times> u64" where
  "apply_slash amount remaining_slash =
     (if amount = 0 \<or> remaining_slash = 0 then Inr (amount, remaining_slash)
      else
        let slash_amount = min amount remaining_slash in
        and_then (ok_or (checked_sub amount slash_amount) VaultSecurityUnderflow) (\<lambda>amount'.
        and_then (ok_or (checked_sub remaining_slash slash_amount) VaultSecurityUnderflow) (\<lambda>remaining'.
        Inr (amount', remaining'))))"

definition ds_slash :: "delegation_state \<Rightarrow> u64 \<Rightarrow> vault_error + delegation_state" where
  "ds_slash self slash_amount =
     and_then (total_security self) (\<lambda>total_security_amount.
     and_then (err_if (total_security_amount < slash_amount) VaultSlashUnderflow) (\<lambda>_.
     and_then (apply_slash (staked_amount self) slash_amount) (\<lambda>(staked, remaining).
     and_then (apply_slash (enqueued_for_cooldown_amount self) remaining) (\<lambda>(enqueued, remaining).
     and_then (apply_slash (cooling_down_amount self) remaining) (\<lambda>(cooling, remaining).
     and_then (err_if (0 < remaining) VaultSlashIncomplete) (\<lambda>_.
     Inr (self\<lparr>staked_amount := staked, enqueued_for_cooldown_amount := enqueued,
               cooling_down_amount := cooling\<rparr>)))))))"

definition ds_cooldown :: "delegation_state \<Rightarrow> u64 \<Rightarrow> vault_error + delegation_state" where
  "ds_cooldown self amount =
     and_then (err_if (amount = 0) VaultCooldownZero) (\<lambda>_.
     and_then (ok_or (checked_sub (staked_amount self) amount) VaultSecurityUnderflow) (\<lambda>staked.
     and_then (ok_or (checked_add (enqueued_for_cooldown_amount self) amount) VaultSecurityOverflow) (\<lambda>enqueued.
     Inr (self\<lparr>staked_amount := staked, enqueued_for_cooldown_amount := enqueued\<rparr>))))"

definition ds_delegate :: "delegation_state \<Rightarrow> u64 \<Rightarrow> vault_error + delegation_state" where
  "ds_delegate self amount =
     and_then (err_if (amount = 0) VaultDelegationZero) (\<lambda>_.
     and_then (ok_or (checked_add (staked_amount self) amount) VaultSecurityOverflow) (\<lambda>staked.
     Inr (self\<lparr>staked_amount := staked\<rparr>)))"

section \<open>The abstract view\<close>

text \<open>
  Abstractly a delegation state is three natural numbers and its security their sum. The
  operations below are those of the code as they act on the numbers.
\<close>

definition ds_total :: "delegation_state \<Rightarrow> nat" where
  "ds_total d = unat (staked_amount d) + unat (enqueued_for_cooldown_amount d) + unat (cooling_down_amount d)"

lemma total_security_iff [res_simps]: "total_security d = Inr n \<longleftrightarrow> unat n = ds_total d"
proof -
  have "unat (staked_amount d) + unat (enqueued_for_cooldown_amount d) = unat (word_of_nat (unat (staked_amount d) + unat (enqueued_for_cooldown_amount d)) :: u64)"
    if "unat n = ds_total d"
  proof -
    have "unat (staked_amount d) + unat (enqueued_for_cooldown_amount d) < 2 ^ 64"
      using that unat_bound_u64 [of n] by (simp add: ds_total_def)
    then show ?thesis by (rule unat_of_nat_u64 [symmetric])
  qed
  then show ?thesis
    by (auto simp: total_security_def res_simps arith_iffs ds_total_def)
qed

lemma total_security_ok: "ds_total d < 2 ^ 64 \<Longrightarrow> \<exists>n. total_security d = Inr n"
  by (rule exI [of _ "word_of_nat (ds_total d)"]) (simp add: res_simps)

lemma ds_subtract_iff [res_simps]:
  "ds_subtract d e = Inr f \<longleftrightarrow>
     unat (staked_amount d) = unat (staked_amount e) + unat (staked_amount f)
   \<and> unat (enqueued_for_cooldown_amount d) = unat (enqueued_for_cooldown_amount e) + unat (enqueued_for_cooldown_amount f)
   \<and> unat (cooling_down_amount d) = unat (cooling_down_amount e) + unat (cooling_down_amount f)"
  by (cases d; cases e; cases f) (auto simp: ds_subtract_def res_simps arith_iffs)

lemma ds_accumulate_iff [res_simps]:
  "ds_accumulate d e = Inr f \<longleftrightarrow>
     unat (staked_amount d) + unat (staked_amount e) = unat (staked_amount f)
   \<and> unat (enqueued_for_cooldown_amount d) + unat (enqueued_for_cooldown_amount e) = unat (enqueued_for_cooldown_amount f)
   \<and> unat (cooling_down_amount d) + unat (cooling_down_amount e) = unat (cooling_down_amount f)"
  by (cases d; cases e; cases f) (auto simp: ds_accumulate_def res_simps arith_iffs)

lemma ds_cooldown_iff [res_simps]:
  "ds_cooldown d n = Inr f \<longleftrightarrow>
     0 < unat n \<and> unat (staked_amount d) = unat n + unat (staked_amount f)
   \<and> unat (enqueued_for_cooldown_amount d) + unat n = unat (enqueued_for_cooldown_amount f)
   \<and> cooling_down_amount f = cooling_down_amount d"
  by (cases d; cases f) (auto simp: ds_cooldown_def res_simps arith_iffs unat_gt_0)

lemma ds_delegate_iff [res_simps]:
  "ds_delegate d n = Inr f \<longleftrightarrow>
     0 < unat n \<and> unat (staked_amount d) + unat n = unat (staked_amount f)
   \<and> enqueued_for_cooldown_amount f = enqueued_for_cooldown_amount d
   \<and> cooling_down_amount f = cooling_down_amount d"
  by (cases d; cases f) (auto simp: ds_delegate_def res_simps arith_iffs unat_gt_0)

lemma ds_update_simps [simp]:
  "staked_amount (ds_update d) = staked_amount d"
  "enqueued_for_cooldown_amount (ds_update d) = 0"
  "cooling_down_amount (ds_update d) = enqueued_for_cooldown_amount d"
  by (simp_all add: ds_update_def)

lemma ds_default_simps [simp]:
  "staked_amount ds_default = 0"
  "enqueued_for_cooldown_amount ds_default = 0"
  "cooling_down_amount ds_default = 0"
  "ds_total ds_default = 0"
  by (simp_all add: ds_default_def ds_total_def)

lemma apply_slash_eq:
  "\<exists>a r. apply_slash amount remaining = Inr (a, r)
     \<and> unat a = unat amount - unat remaining \<and> unat r = unat remaining - unat amount"
proof (cases "remaining \<le> amount")
  case True
  then show ?thesis
    by (auto simp: apply_slash_def checked_sub_def min_def unat_sub word_le_nat_alt)
next
  case False
  then show ?thesis
    by (auto simp: apply_slash_def checked_sub_def min_def unat_sub word_le_nat_alt)
qed

text \<open>The slashed amounts: stake first, then the enqueued stake, then the stake cooling down.\<close>

lemma ds_slash_Inr:
  assumes "unat n \<le> ds_total d" and "ds_total d < 2 ^ 64"
  shows "\<exists>d'. ds_slash d n = Inr d'
    \<and> unat (staked_amount d') = unat (staked_amount d) - unat n
    \<and> unat (enqueued_for_cooldown_amount d')
        = unat (enqueued_for_cooldown_amount d) - (unat n - unat (staked_amount d))
    \<and> unat (cooling_down_amount d')
        = unat (cooling_down_amount d) - (unat n - unat (staked_amount d) - unat (enqueued_for_cooldown_amount d))"
proof -
  obtain t where t: "total_security d = Inr t" "unat t = ds_total d"
    using total_security_ok [OF assms(2)] by (auto simp: res_simps)
  obtain s r1 where s: "apply_slash (staked_amount d) n = Inr (s, r1)"
    "unat s = unat (staked_amount d) - unat n" "unat r1 = unat n - unat (staked_amount d)"
    using apply_slash_eq by blast
  obtain e r2 where e: "apply_slash (enqueued_for_cooldown_amount d) r1 = Inr (e, r2)"
    "unat e = unat (enqueued_for_cooldown_amount d) - unat r1"
    "unat r2 = unat r1 - unat (enqueued_for_cooldown_amount d)"
    using apply_slash_eq by blast
  obtain c r3 where c: "apply_slash (cooling_down_amount d) r2 = Inr (c, r3)"
    "unat c = unat (cooling_down_amount d) - unat r2" "unat r3 = unat r2 - unat (cooling_down_amount d)"
    using apply_slash_eq by blast
  have "\<not> t < n" and "unat r3 = 0"
    using assms t s e c by (auto simp: word_less_nat_alt ds_total_def)
  then show ?thesis
    using t s e c by (auto simp: ds_slash_def word_less_nat_alt)
qed

section \<open>Properties\<close>

text \<open>
  Claim C28. Slashing takes exactly the requested amount, first from the active stake, then
  from the stake enqueued for cooldown, then from the stake cooling down, and fails only when
  the total security does not fit in 64 bits or is smaller than the amount: the defensive
  errors inside the routine (underflow, incomplete slash) can never be returned.
\<close>

theorem ds_slash_exact:
  "case ds_slash d n of
     Inr d' \<Rightarrow> ds_total d' + unat n = ds_total d
       \<and> unat (staked_amount d') = unat (staked_amount d) - unat n
       \<and> unat (enqueued_for_cooldown_amount d')
           = unat (enqueued_for_cooldown_amount d) - (unat n - unat (staked_amount d))
       \<and> unat (cooling_down_amount d')
           = unat (cooling_down_amount d) - (unat n - unat (staked_amount d) - unat (enqueued_for_cooldown_amount d))
   | Inl e \<Rightarrow> e = VaultSecurityOverflow \<and> 2 ^ 64 \<le> ds_total d
       \<or> e = VaultSlashUnderflow \<and> ds_total d < 2 ^ 64 \<and> ds_total d < unat n"
proof (cases "ds_total d < 2 ^ 64")
  case False
  then have "total_security d \<noteq> Inr t" for t
    using unat_bound_u64 [of t] by (auto simp: total_security_iff)
  then have "total_security d = Inl VaultSecurityOverflow"
    by (cases "total_security d") (auto simp: total_security_def ok_or_Inl_iff)
  then show ?thesis using False by (simp add: ds_slash_def)
next
  case True
  show ?thesis
  proof (cases "unat n \<le> ds_total d")
    case True
    then obtain d' where "ds_slash d n = Inr d'"
      and "unat (staked_amount d') = unat (staked_amount d) - unat n"
      and "unat (enqueued_for_cooldown_amount d')
        = unat (enqueued_for_cooldown_amount d) - (unat n - unat (staked_amount d))"
      and "unat (cooling_down_amount d')
        = unat (cooling_down_amount d) - (unat n - unat (staked_amount d) - unat (enqueued_for_cooldown_amount d))"
      using ds_slash_Inr [OF True \<open>ds_total d < 2 ^ 64\<close>] by blast
    moreover from this have "ds_total d' + unat n = ds_total d"
      using True unfolding ds_total_def by linarith
    ultimately show ?thesis by simp
  next
    case False
    obtain t where "total_security d = Inr t" "unat t = ds_total d"
      using total_security_ok [OF True] by (auto simp: res_simps)
    then show ?thesis
      using False True by (simp add: ds_slash_def word_less_nat_alt)
  qed
qed

end
