(* ===== verification/Vault_Config.thy ===== *)
theory Vault_Config
  imports Jsm_Core
begin

text \<open>
  The vault program's configuration account (\<open>vault_core/src/config.rs\<close>): the program-wide
  fee limits, the counter that numbers the vaults, and the rounded-up program fee. All fees of
  the vault program are shares in basis points rounded up, so the arithmetic of one such share
  (\<open>bps_fee\<close>, the expression the sources repeat in four places) is treated once here.
\<close>

section \<open>Definitions\<close>

text \<open>\<open>MAX_BPS\<close> of \<open>vault_core/src/lib.rs\<close>: one hundred percent in basis points.\<close>

definition MAX_BPS :: u16 where
  "MAX_BPS = 10000"

text \<open>\<open>DEFAULT_SLOTS_PER_EPOCH\<close> of the runtime.\<close>

definition DEFAULT_SLOTS_PER_EPOCH :: u64 where
  "DEFAULT_SLOTS_PER_EPOCH = 432000"

record vault_config =
  c_admin :: pubkey
  c_restaking_program :: pubkey
  c_epoch_length :: u64
  c_num_vaults :: u64
  c_deposit_withdrawal_fee_cap_bps :: u16
  c_fee_rate_of_change_bps :: u16
  c_fee_bump_bps :: u16
  c_program_fee_bps :: u16
  c_program_fee_wallet :: pubkey
  c_fee_admin :: pubkey
  c_bump :: u8

definition DEFAULT_FEES_CAP_BPS :: u16 where
  "DEFAULT_FEES_CAP_BPS = 2000"

definition DEFAULT_FEE_RATE_OF_CHANGE_BPS :: u16 where
  "DEFAULT_FEE_RATE_OF_CHANGE_BPS = 2500"

definition DEFAULT_FEE_BUMP_BPS :: u16 where
  "DEFAULT_FEE_BUMP_BPS = 10"

definition vault_config_new :: "pubkey \<Rightarrow> pubkey \<Rightarrow> pubkey \<Rightarrow> u16 \<Rightarrow> u8 \<Rightarrow> vault_config" where
  "vault_config_new admin restaking_program program_fee_wallet program_fee_bps bump =
     \<lparr>c_admin = admin,
      c_restaking_program = restaking_program,
      c_epoch_length = DEFAULT_SLOTS_PER_EPOCH,
      c_num_vaults = 0,
      c_deposit_withdrawal_fee_cap_bps = DEFAULT_FEES_CAP_BPS,
      c_fee_rate_of_change_bps = DEFAULT_FEE_RATE_OF_CHANGE_BPS,
      c_fee_bump_bps = DEFAULT_FEE_BUMP_BPS,
      c_program_fee_bps = program_fee_bps,
      c_program_fee_wallet = program_fee_wallet,
      c_fee_admin = admin,
      c_bump = bump\<rparr>"

definition get_epoch_from_slot :: "vault_config \<Rightarrow> u64 \<Rightarrow> vault_error + u64" where
  "get_epoch_from_slot c slot = ok_or (checked_div slot (c_epoch_length c)) InvalidEpochLength"

definition config_set_program_fee_bps :: "vault_config \<Rightarrow> u16 \<Rightarrow> program_error + vault_config" where
  "config_set_program_fee_bps c new_fee_bps =
     and_then (err_if (MAX_BPS < new_fee_bps) InvalidInstructionData) (\<lambda>_.
     Inr (c\<lparr>c_program_fee_bps := new_fee_bps\<rparr>))"

definition set_deposit_withdrawal_fee_cap_bps :: "vault_config \<Rightarrow> u16 \<Rightarrow> vault_error + vault_config" where
  "set_deposit_withdrawal_fee_cap_bps c fee_cap_bps =
     and_then (err_if (MAX_BPS < fee_cap_bps) VaultFeeCapExceeded) (\<lambda>_.
     Inr (c\<lparr>c_deposit_withdrawal_fee_cap_bps := fee_cap_bps\<rparr>))"

definition set_fee_rate_of_change_bps :: "vault_config \<Rightarrow> u16 \<Rightarrow> vault_error + vault_config" where
  "set_fee_rate_of_change_bps c fee_rate_of_change_bps =
     and_then (err_if (MAX_BPS < fee_rate_of_change_bps) VaultFeeCapExceeded) (\<lambda>_.
     Inr (c\<lparr>c_fee_rate_of_change_bps := fee_rate_of_change_bps\<rparr>))"

definition set_fee_bump_bps :: "vault_config \<Rightarrow> u16 \<Rightarrow> vault_error + vault_config" where
  "set_fee_bump_bps c fee_bump_bps =
     and_then (err_if (MAX_BPS < fee_bump_bps) VaultFeeCapExceeded) (\<lambda>_.
     Inr (c\<lparr>c_fee_bump_bps := fee_bump_bps\<rparr>))"

definition increment_num_vaults :: "vault_config \<Rightarrow> vault_error + vault_config" where
  "increment_num_vaults c =
     and_then (ok_or (checked_add (c_num_vaults c) 1) VaultOverflow) (\<lambda>num_vaults.
     Inr (c\<lparr>c_num_vaults := num_vaults\<rparr>))"

text \<open>
  The expression \<open>(x as u128).checked_mul(bps as u128).map(|x| x.div_ceil(MAX_BPS as u128))
  .and_then(|x| x.try_into().ok())\<close> shared by the program, deposit, withdrawal and reward fees.
\<close>

definition bps_fee :: "u16 \<Rightarrow> u64 \<Rightarrow> u64 option" where
  "bps_fee bps x =
     Option.bind (map_option (\<lambda>x. div_ceil x (as_u128 MAX_BPS)) (checked_mul (as_u128 x) (as_u128 bps)))
       try_narrow"

definition calculate_program_fee :: "u16 \<Rightarrow> u64 \<Rightarrow> vault_error + u64" where
  "calculate_program_fee program_fee_bps vrt_amount = ok_or (bps_fee program_fee_bps vrt_amount) VaultOverflow"

definition config_check_admin :: "vault_config \<Rightarrow> pubkey \<Rightarrow> vault_error + unit" where
  "config_check_admin c admin = err_if (c_admin c \<noteq> admin) ConfigAdminInvalid"

definition config_set_admin :: "vault_config \<Rightarrow> pubkey \<Rightarrow> vault_config" where
  "config_set_admin c new_admin = c\<lparr>c_admin := new_admin, c_fee_admin := new_admin\<rparr>"

section \<open>Shares in basis points\<close>

lemma unat_MAX_BPS [simp]: "unat MAX_BPS = 10000"
  by (simp add: MAX_BPS_def)

text \<open>The fee on \<open>n\<close> at \<open>b\<close> basis points, over \<open>nat\<close>.\<close>

definition fee_of :: "nat \<Rightarrow> nat \<Rightarrow> nat" where
  "fee_of b n = ceil_div (n * b) 10000"

lemma checked_mul_u128_fits:
  "\<exists>p. checked_mul (as_u128 (x :: u64)) (as_u128 (y :: u64)) = Some p"
  "\<exists>p. checked_mul (as_u128 (x :: u64)) (as_u128 (b :: u16)) = Some p"
proof -
  have "unat x * unat y < 2 ^ 64 * 2 ^ 64"
    by (rule mult_strict_mono') (use unat_bound [of x] unat_bound [of y] in simp_all)
  then show "\<exists>p. checked_mul (as_u128 x) (as_u128 y) = Some p"
    by (simp add: checked_mul_def)
  have "unat x * unat b < 2 ^ 64 * 2 ^ 64"
    by (rule mult_strict_mono') (use unat_bound [of x] unat_bound [of b] in simp_all)
  then show "\<exists>p. checked_mul (as_u128 x) (as_u128 b) = Some p"
    by (simp add: checked_mul_def)
qed

lemma bps_fee_iff [arith_iffs]: "bps_fee bps x = Some f \<longleftrightarrow> unat f = fee_of (unat bps) (unat x)"
proof -
  obtain p where p: "checked_mul (as_u128 x) (as_u128 bps) = Some p"
    using checked_mul_u128_fits(2) by blast
  then have "unat x * unat bps = unat p"
    by (simp add: arith_iffs)
  then show ?thesis
    unfolding bps_fee_def p by (auto simp: try_narrow_iff unat_div_ceil fee_of_def)
qed

lemma fee_of_le: "b \<le> 10000 \<Longrightarrow> fee_of b n \<le> n"
  unfolding fee_of_def by (rule ceil_div_le) simp_all

lemma fee_of_0 [simp]: "fee_of b 0 = 0" "fee_of 0 n = 0"
  by (simp_all add: fee_of_def ceil_div_eq_0_iff)

lemma fee_of_pos: "0 < b \<Longrightarrow> 0 < n \<Longrightarrow> 0 < fee_of b n"
  using ceil_div_eq_0_iff [of 10000 "n * b"] by (auto simp: fee_of_def)

lemma bps_fee_ok: "unat bps \<le> 10000 \<Longrightarrow> \<exists>f. bps_fee bps x = Some f"
proof -
  assume "unat bps \<le> 10000"
  then have "fee_of (unat bps) (unat x) < 2 ^ 64"
    using fee_of_le [of "unat bps" "unat x"] unat_bound_u64 [of x] by simp
  then show ?thesis
    by (intro exI [of _ "word_of_nat (fee_of (unat bps) (unat x))"]) (simp add: bps_fee_iff)
qed

end
