(* ===== verification/Vault_State.thy ===== *)
theory Vault_State
  imports Delegation_State Vault_Config
begin

text \<open>
  The \<open>Vault\<close> account (\<open>vault_core/src/vault.rs\<close>): its data, its constructor, the counters
  and setters, and the checks of its roles. The arithmetic of fees, minting, burning and
  delegating is in theory \<open>Vault_Ops\<close>.
\<close>

section \<open>Definitions\<close>

record burn_summary =
  bs_vault_fee_amount :: u64
  bs_program_fee_amount :: u64
  bs_burn_amount :: u64
  bs_out_amount :: u64

record mint_summary =
  ms_vrt_to_depositor :: u64
  ms_vrt_to_fee_wallet :: u64

record vault =
  v_base :: pubkey
  v_vrt_mint :: pubkey
  v_supported_mint :: pubkey
  v_vrt_supply :: u64
  v_tokens_deposited :: u64
  v_deposit_capacity :: u64
  v_delegation_state :: delegation_state
  v_additional_assets_need_unstaking :: u64
  v_vrt_enqueued_for_cooldown_amount :: u64
  v_vrt_cooling_down_amount :: u64
  v_vrt_ready_to_claim_amount :: u64
  v_admin :: pubkey
  v_delegation_admin :: pubkey
  v_operator_admin :: pubkey
  v_ncn_admin :: pubkey
  v_slasher_admin :: pubkey
  v_capacity_admin :: pubkey
  v_fee_admin :: pubkey
  v_delegate_asset_admin :: pubkey
  v_fee_wallet :: pubkey
  v_mint_burn_admin :: pubkey
  v_metadata_admin :: pubkey
  v_vault_index :: u64
  v_ncn_count :: u64
  v_operator_count :: u64
  v_slasher_count :: u64
  v_last_fee_change_slot :: u64
  v_last_full_state_update_slot :: u64
  v_deposit_fee_bps :: u16
  v_withdrawal_fee_bps :: u16
  v_next_withdrawal_fee_bps :: u16
  v_reward_fee_bps :: u16
  v_program_fee_bps :: u16
  v_bump :: u8
  v_is_paused :: bool
  v_last_start_state_update_slot :: u64

definition MAX_REWARD_DELTA_BPS :: u16 where
  "MAX_REWARD_DELTA_BPS = 50"

definition MIN_WITHDRAWAL_SLIPPAGE_BPS :: u16 where
  "MIN_WITHDRAWAL_SLIPPAGE_BPS = 50"

definition DEFAULT_INITIALIZATION_TOKEN_AMOUNT :: u64 where
  "DEFAULT_INITIALIZATION_TOKEN_AMOUNT = 10000"

text \<open>\<open>Pubkey::default()\<close>.\<close>

definition pubkey_default :: pubkey where
  "pubkey_default = 0"

definition vault_new :: "pubkey \<Rightarrow> pubkey \<Rightarrow> pubkey \<Rightarrow> u64 \<Rightarrow> pubkey \<Rightarrow> u16 \<Rightarrow> u16 \<Rightarrow> u16 \<Rightarrow> u16 \<Rightarrow> u8 \<Rightarrow> u64
    \<Rightarrow> vault_error + vault" where
  "vault_new vrt_mint supported_mint admin vault_index base deposit_fee_bps withdrawal_fee_bps
     reward_fee_bps program_fee_bps_from_config bump current_slot =
     and_then (err_if (MAX_BPS < deposit_fee_bps) VaultFeeCapExceeded) (\<lambda>_.
     and_then (err_if (MAX_BPS < withdrawal_fee_bps) VaultFeeCapExceeded) (\<lambda>_.
     and_then (err_if (MAX_BPS < reward_fee_bps) VaultFeeCapExceeded) (\<lambda>_.
     Inr \<lparr>v_base = base,
          v_vrt_mint = vrt_mint,
          v_supported_mint = supported_mint,
          v_vrt_supply = 0,
          v_tokens_deposited = 0,
          v_deposit_capacity = u64_MAX,
          v_delegation_state = ds_default,
          v_additional_assets_need_unstaking = 0,
          v_vrt_enqueued_for_cooldown_amount = 0,
          v_vrt_cooling_down_amount = 0,
          v_vrt_ready_to_claim_amount = 0,
          v_admin = admin,
          v_delegation_admin = admin,
          v_operator_admin = admin,
          v_ncn_admin = admin,
          v_slasher_admin = admin,
          v_capacity_admin = admin,
          v_fee_admin = admin,
          v_delegate_asset_admin = admin,
          v_fee_wallet = admin,
          v_mint_burn_admin = pubkey_default,
          v_metadata_admin = admin,
          v_vault_index = vault_index,
          v_ncn_count = 0,
          v_operator_count = 0,
          v_slasher_count = 0,
          v_last_fee_change_slot = current_slot,
          v_last_full_state_update_slot = current_slot,
          v_deposit_fee_bps = deposit_fee_bps,
          v_withdrawal_fee_bps = withdrawal_fee_bps,
          v_next_withdrawal_fee_bps = withdrawal_fee_bps,
          v_reward_fee_bps = reward_fee_bps,
          v_program_fee_bps = program_fee_bps_from_config,
          v_bump = bump,
          v_is_paused = False,
          v_last_start_state_update_slot = current_slot\<rparr>)))"

subsection \<open>Counters and amounts\<close>

definition increment_tokens_deposited :: "vault \<Rightarrow> u64 \<Rightarrow> vault_error + vault" where
  "increment_tokens_deposited v amount =
     and_then (ok_or (checked_add (v_tokens_deposited v) amount) VaultOverflow) (\<lambda>tokens_deposited.
     Inr (v\<lparr>v_tokens_deposited := tokens_deposited\<rparr>))"

definition decrement_tokens_deposited :: "vault \<Rightarrow> u64 \<Rightarrow> vault_error + vault" where
  "decrement_tokens_deposited v amount =
     and_then (ok_or (checked_sub (v_tokens_deposited v) amount) VaultUnderflow) (\<lambda>tokens_deposited.
     Inr (v\<lparr>v_tokens_deposited := tokens_deposited\<rparr>))"

definition increment_slasher_count :: "vault \<Rightarrow> vault_error + vault" where
  "increment_slasher_count v =
     and_then (ok_or (checked_add (v_slasher_count v) 1) SlasherOverflow) (\<lambda>slasher_count.
     Inr (v\<lparr>v_slasher_count := slasher_count\<rparr>))"

definition increment_ncn_count :: "vault \<Rightarrow> vault_error + vault" where
  "increment_ncn_count v =
     and_then (ok_or (checked_add (v_ncn_count v) 1) NcnOverflow) (\<lambda>ncn_count.
     Inr (v\<lparr>v_ncn_count := ncn_count\<rparr>))"

definition increment_operator_count :: "vault \<Rightarrow> vault_error + vault" where
  "increment_operator_count v =
     and_then (ok_or (checked_add (v_operator_count v) 1) OperatorOverflow) (\<lambda>operator_count.
     Inr (v\<lparr>v_operator_count := operator_count\<rparr>))"

definition vault_set_program_fee_bps :: "vault \<Rightarrow> u16 \<Rightarrow> program_error + vault" where
  "vault_set_program_fee_bps v program_fee_bps =
     and_then (err_if (MAX_BPS < program_fee_bps) InvalidInstructionData) (\<lambda>_.
     Inr (v\<lparr>v_program_fee_bps := program_fee_bps\<rparr>))"

definition increment_vrt_supply :: "vault \<Rightarrow> u64 \<Rightarrow> vault_error + vault" where
  "increment_vrt_supply v amount =
     and_then (ok_or (checked_add (v_vrt_supply v) amount) VaultOverflow) (\<lambda>vrt_supply.
     Inr (v\<lparr>v_vrt_supply := vrt_supply\<rparr>))"

definition decrement_vrt_supply :: "vault \<Rightarrow> u64 \<Rightarrow> vault_error + vault" where
  "decrement_vrt_supply v amount =
     and_then (ok_or (checked_sub (v_vrt_supply v) amount) VaultUnderflow) (\<lambda>vrt_supply.
     Inr (v\<lparr>v_vrt_supply := vrt_supply\<rparr>))"

definition decrement_vrt_ready_to_claim_amount :: "vault \<Rightarrow> u64 \<Rightarrow> vault_error + vault" where
  "decrement_vrt_ready_to_claim_amount v amount =
     and_then (ok_or (checked_sub (v_vrt_ready_to_claim_amount v) amount) VaultUnderflow) (\<lambda>n.
     Inr (v\<lparr>v_vrt_ready_to_claim_amount := n\<rparr>))"

definition increment_vrt_ready_to_claim_amount :: "vault \<Rightarrow> u64 \<Rightarrow> vault_error + vault" where
  "increment_vrt_ready_to_claim_amount v amount =
     and_then (ok_or (checked_add (v_vrt_ready_to_claim_amount v) amount) VaultOverflow) (\<lambda>n.
     Inr (v\<lparr>v_vrt_ready_to_claim_amount := n\<rparr>))"

definition increment_vrt_enqueued_for_cooldown_amount :: "vault \<Rightarrow> u64 \<Rightarrow> vault_error + vault" where
  "increment_vrt_enqueued_for_cooldown_amount v amount =
     and_then (ok_or (checked_add (v_vrt_enqueued_for_cooldown_amount v) amount) VaultOverflow) (\<lambda>n.
     Inr (v\<lparr>v_vrt_enqueued_for_cooldown_amount := n\<rparr>))"

definition decrement_additional_assets_need_unstaking :: "vault \<Rightarrow> u64 \<Rightarrow> vault_error + vault" where
  "decrement_additional_assets_need_unstaking v amount =
     and_then (ok_or (checked_sub (v_additional_assets_need_unstaking v) amount) VaultUnderflow) (\<lambda>n.
     Inr (v\<lparr>v_additional_assets_need_unstaking := n\<rparr>))"

definition initialize_vault_override_deposit_fee_bps :: "vault \<Rightarrow> u16 \<Rightarrow> account_info \<Rightarrow> program_error + vault" where
  "initialize_vault_override_deposit_fee_bps v deposit_fee_bps base =
     and_then (err_if (\<not> ai_is_signer base) MissingRequiredSignature) (\<lambda>_.
     and_then (vault_res (err_if (MAX_BPS < deposit_fee_bps) VaultFeeCapExceeded)) (\<lambda>_.
     Inr (v\<lparr>v_deposit_fee_bps := deposit_fee_bps\<rparr>)))"

subsection \<open>Checks\<close>

definition check_is_paused :: "vault \<Rightarrow> vault_error + unit" where
  "check_is_paused v = err_if (v_is_paused v) VaultIsPaused"

definition check_vrt_mint :: "vault \<Rightarrow> pubkey \<Rightarrow> program_error + unit" where
  "check_vrt_mint v vrt_mint = err_if (v_vrt_mint v \<noteq> vrt_mint) InvalidAccountData"

definition vault_check_admin :: "vault \<Rightarrow> pubkey \<Rightarrow> program_error + unit" where
  "vault_check_admin v admin = vault_res (err_if (v_admin v \<noteq> admin) VaultAdminInvalid)"

definition check_delegation_admin :: "vault \<Rightarrow> pubkey \<Rightarrow> vault_error + unit" where
  "check_delegation_admin v delegation_admin =
     err_if (v_delegation_admin v \<noteq> delegation_admin) VaultDelegationAdminInvalid"

definition check_operator_admin :: "vault \<Rightarrow> pubkey \<Rightarrow> vault_error + unit" where
  "check_operator_admin v operator_admin =
     err_if (v_operator_admin v \<noteq> operator_admin) VaultOperatorAdminInvalid"

definition check_ncn_admin :: "vault \<Rightarrow> pubkey \<Rightarrow> vault_error + unit" where
  "check_ncn_admin v ncn_admin = err_if (v_ncn_admin v \<noteq> ncn_admin) VaultNcnAdminInvalid"

definition check_slasher_admin :: "vault \<Rightarrow> pubkey \<Rightarrow> vault_error + unit" where
  "check_slasher_admin v slasher_admin =
     err_if (v_slasher_admin v \<noteq> slasher_admin) VaultSlasherAdminInvalid"

definition check_capacity_admin :: "vault \<Rightarrow> pubkey \<Rightarrow> vault_error + unit" where
  "check_capacity_admin v capacity_admin =
     err_if (v_capacity_admin v \<noteq> capacity_admin) VaultCapacityAdminInvalid"

definition check_fee_admin :: "vault \<Rightarrow> pubkey \<Rightarrow> vault_error + unit" where
  "check_fee_admin v fee_admin = err_if (v_fee_admin v \<noteq> fee_admin) VaultFeeAdminInvalid"

definition check_delegate_asset_admin :: "vault \<Rightarrow> pubkey \<Rightarrow> vault_error + unit" where
  "check_delegate_asset_admin v delegate_asset_admin =
     err_if (v_delegate_asset_admin v \<noteq> delegate_asset_admin) VaultDelegateAssetAdminInvalid"

definition update_secondary_admin :: "vault \<Rightarrow> pubkey \<Rightarrow> pubkey \<Rightarrow> vault" where
  "update_secondary_admin v old_admin new_admin =
     (let repl = (\<lambda>k. if k = old_admin then new_admin else k) in
      v\<lparr>v_delegation_admin := repl (v_delegation_admin v),
        v_operator_admin := repl (v_operator_admin v),
        v_ncn_admin := repl (v_ncn_admin v),
        v_slasher_admin := repl (v_slasher_admin v),
        v_capacity_admin := repl (v_capacity_admin v),
        v_fee_wallet := repl (v_fee_wallet v),
        v_mint_burn_admin := repl (v_mint_burn_admin v),
        v_delegate_asset_admin := repl (v_delegate_asset_admin v),
        v_fee_admin := repl (v_fee_admin v),
        v_metadata_admin := repl (v_metadata_admin v)\<rparr>)"

definition is_update_needed :: "vault \<Rightarrow> u64 \<Rightarrow> u64 \<Rightarrow> program_error + bool" where
  "is_update_needed v slot epoch_length =
     and_then (core_res (get_epoch (v_last_full_state_update_slot v) epoch_length)) (\<lambda>last_updated_epoch.
     and_then (core_res (get_epoch slot epoch_length)) (\<lambda>current_epoch.
     Inr (last_updated_epoch < current_epoch)))"

definition check_update_state_ok :: "vault \<Rightarrow> u64 \<Rightarrow> u64 \<Rightarrow> program_error + unit" where
  "check_update_state_ok v slot epoch_length =
     and_then (is_update_needed v slot epoch_length) (\<lambda>needed.
     vault_res (err_if needed VaultUpdateNeeded))"

definition check_mint_burn_admin :: "vault \<Rightarrow> account_info option \<Rightarrow> vault_error + unit" where
  "check_mint_burn_admin v mint_burn_admin =
     (if v_mint_burn_admin v \<noteq> pubkey_default then
        case mint_burn_admin of
          Some burn_signer \<Rightarrow>
            and_then (map_err (\<lambda>_. VaultMintBurnAdminInvalid) (load_signer burn_signer False)) (\<lambda>_.
            err_if (ai_key burn_signer \<noteq> v_mint_burn_admin v) VaultMintBurnAdminInvalid)
        | None \<Rightarrow> Inl VaultMintBurnAdminInvalid
      else Inr ())"

section \<open>When the operations succeed\<close>

lemma vault_counter_iffs [res_simps]:
  "increment_tokens_deposited v n = Inr v' \<longleftrightarrow>
     (\<exists>m. unat (v_tokens_deposited v) + unat n = unat m \<and> v' = v\<lparr>v_tokens_deposited := m\<rparr>)"
  "decrement_tokens_deposited v n = Inr v' \<longleftrightarrow>
     (\<exists>m. unat (v_tokens_deposited v) = unat n + unat m \<and> v' = v\<lparr>v_tokens_deposited := m\<rparr>)"
  "increment_vrt_supply v n = Inr v' \<longleftrightarrow>
     (\<exists>m. unat (v_vrt_supply v) + unat n = unat m \<and> v' = v\<lparr>v_vrt_supply := m\<rparr>)"
  "decrement_vrt_supply v n = Inr v' \<longleftrightarrow>
     (\<exists>m. unat (v_vrt_supply v) = unat n + unat m \<and> v' = v\<lparr>v_vrt_supply := m\<rparr>)"
  "increment_vrt_ready_to_claim_amount v n = Inr v' \<longleftrightarrow>
     (\<exists>m. unat (v_vrt_ready_to_claim_amount v) + unat n = unat m \<and> v' = v\<lparr>v_vrt_ready_to_claim_amount := m\<rparr>)"
  "decrement_vrt_ready_to_claim_amount v n = Inr v' \<longleftrightarrow>
     (\<exists>m. unat (v_vrt_ready_to_claim_amount v) = unat n + unat m \<and> v' = v\<lparr>v_vrt_ready_to_claim_amount := m\<rparr>)"
  "increment_vrt_enqueued_for_cooldown_amount v n = Inr v' \<longleftrightarrow>
     (\<exists>m. unat (v_vrt_enqueued_for_cooldown_amount v) + unat n = unat m
        \<and> v' = v\<lparr>v_vrt_enqueued_for_cooldown_amount := m\<rparr>)"
  "decrement_additional_assets_need_unstaking v n = Inr v' \<longleftrightarrow>
     (\<exists>m. unat (v_additional_assets_need_unstaking v) = unat n + unat m
        \<and> v' = v\<lparr>v_additional_assets_need_unstaking := m\<rparr>)"
  by (auto simp: increment_tokens_deposited_def decrement_tokens_deposited_def increment_vrt_supply_def
      decrement_vrt_supply_def increment_vrt_ready_to_claim_amount_def decrement_vrt_ready_to_claim_amount_def
      increment_vrt_enqueued_for_cooldown_amount_def decrement_additional_assets_need_unstaking_def
      res_simps arith_iffs)

lemma vault_check_iffs [res_simps]:
  "check_is_paused v = Inr u \<longleftrightarrow> \<not> v_is_paused v"
  "check_vrt_mint v k = Inr u \<longleftrightarrow> v_vrt_mint v = k"
  "vault_check_admin v k = Inr u \<longleftrightarrow> v_admin v = k"
  "check_delegation_admin v k = Inr u \<longleftrightarrow> v_delegation_admin v = k"
  "check_operator_admin v k = Inr u \<longleftrightarrow> v_operator_admin v = k"
  "check_ncn_admin v k = Inr u \<longleftrightarrow> v_ncn_admin v = k"
  "check_slasher_admin v k = Inr u \<longleftrightarrow> v_slasher_admin v = k"
  "check_capacity_admin v k = Inr u \<longleftrightarrow> v_capacity_admin v = k"
  "check_fee_admin v k = Inr u \<longleftrightarrow> v_fee_admin v = k"
  "check_delegate_asset_admin v k = Inr u \<longleftrightarrow> v_delegate_asset_admin v = k"
  by (simp_all add: check_is_paused_def check_vrt_mint_def vault_check_admin_def check_delegation_admin_def
      check_operator_admin_def check_ncn_admin_def check_slasher_admin_def check_capacity_admin_def
      check_fee_admin_def check_delegate_asset_admin_def res_simps)

lemma is_update_needed_iff [res_simps]:
  "is_update_needed v slot len = Inr b \<longleftrightarrow>
     0 < unat len \<and> b = (unat (v_last_full_state_update_slot v) div unat len < unat slot div unat len)"
  by (cases "len = 0")
     (auto simp: is_update_needed_def get_epoch_def checked_div_def word_less_nat_alt unat_div unat_gt_0)

lemma check_update_state_ok_iff [res_simps]:
  "check_update_state_ok v slot len = Inr u \<longleftrightarrow>
     0 < unat len \<and> unat slot div unat len \<le> unat (v_last_full_state_update_slot v) div unat len"
  by (auto simp: check_update_state_ok_def res_simps)

text \<open>A vault that names a mint/burn admin lets nobody mint or burn without that signer.\<close>

lemma check_mint_burn_admin_iff [res_simps]:
  "check_mint_burn_admin v signer = Inr u \<longleftrightarrow>
     (v_mint_burn_admin v = pubkey_default \<or>
      (\<exists>s. signer = Some s \<and> ai_is_signer s \<and> ai_key s = v_mint_burn_admin v))"
  by (auto simp: check_mint_burn_admin_def res_simps split: option.splits)

section \<open>Registration counters\<close>

text \<open>
  An account that numbers what is registered under it: reading the counter gives the index of
  the next registration, and incrementing it is the only way it changes during one. The law
  is what every \<open>increment_*\<close> method promises: one more, or an error at the top of the range.
\<close>

locale registry =
  fixes count :: "'s \<Rightarrow> u64"
    and register :: "'s \<Rightarrow> 'e + 's"
  assumes register_Inr: "register s = Inr s' \<Longrightarrow> unat (count s') = unat (count s) + 1"
    and register_Inl: "register s = Inl e \<Longrightarrow> count s = u64_MAX"
begin

text \<open>The indexes handed out by \<open>k\<close> registrations in a row.\<close>

primrec register_all :: "nat \<Rightarrow> 's \<Rightarrow> 'e + u64 list \<times> 's" where
  "register_all 0 s = Inr ([], s)"
| "register_all (Suc k) s =
     and_then (register s) (\<lambda>s'. and_then (register_all k s') (\<lambda>(is, t). Inr (count s # is, t)))"

lemma register_all_indexes:
  "register_all k s = Inr (is, t) \<Longrightarrow>
     map unat is = [unat (count s)..<unat (count s) + k] \<and> unat (count t) = unat (count s) + k"
proof (induction k arbitrary: s "is")
  case (Suc k)
  then obtain s' is' where s': "register s = Inr s'" "register_all k s' = Inr (is', t)" "is = count s # is'"
    by (auto simp: res_simps)
  have "map unat is' = [unat (count s')..<unat (count s') + k] \<and> unat (count t) = unat (count s') + k"
    by (rule Suc.IH [OF s'(2)])
  then show ?case using register_Inr [OF s'(1)] s'(3) by (simp add: upt_conv_Cons)
qed simp

lemma register_all_distinct:
  assumes "register_all k s = Inr (is, t)"
  shows "distinct is"
  using register_all_indexes [OF assms] by (metis distinct_map distinct_upt)

lemma register_all_ok:
  "unat (count s) + k < 2 ^ 64 \<Longrightarrow> \<exists>is t. register_all k s = Inr (is, t)"
proof (induction k arbitrary: s)
  case (Suc k)
  have "register s \<noteq> Inl e" for e
    using Suc.prems register_Inl [of s e] by (auto simp: unat_u64_MAX)
  then obtain s' where s': "register s = Inr s'"
    by (cases "register s") auto
  then have "unat (count s') + k < 2 ^ 64"
    using Suc.prems register_Inr by fastforce
  then show ?case using Suc.IH [of s'] s' by auto
qed simp

end

lemma checked_add_1_cases:
  "checked_add n 1 = Some m \<Longrightarrow> unat m = unat n + 1"
  "checked_add n 1 = None \<Longrightarrow> n = u64_MAX" for n :: u64
proof -
  show "checked_add n 1 = Some m \<Longrightarrow> unat m = unat n + 1"
    by (simp add: arith_iffs)
  assume "checked_add n 1 = None"
  then have "unat n = unat u64_MAX"
    using unat_bound_u64 [of n] by (simp add: checked_add_def unat_u64_MAX split: if_splits)
  then show "n = u64_MAX" by (simp only: word_unat_eq_iff)
qed

interpretation vault_reg: registry c_num_vaults increment_num_vaults
  by unfold_locales
     (auto simp: increment_num_vaults_def and_then_Inr_iff ok_or_Inr_iff and_then_Inl_iff ok_or_Inl_iff
       dest: checked_add_1_cases)

interpretation ncn_reg: registry v_ncn_count increment_ncn_count
  by unfold_locales
     (auto simp: increment_ncn_count_def and_then_Inr_iff ok_or_Inr_iff and_then_Inl_iff ok_or_Inl_iff
       dest: checked_add_1_cases)

interpretation operator_reg: registry v_operator_count increment_operator_count
  by unfold_locales
     (auto simp: increment_operator_count_def and_then_Inr_iff ok_or_Inr_iff and_then_Inl_iff ok_or_Inl_iff
       dest: checked_add_1_cases)

interpretation slasher_reg: registry v_slasher_count increment_slasher_count
  by unfold_locales
     (auto simp: increment_slasher_count_def and_then_Inr_iff ok_or_Inr_iff and_then_Inl_iff ok_or_Inl_iff
       dest: checked_add_1_cases)

end
