(* ===== verification/Slot_Toggle.thy ===== *)
theory Slot_Toggle
  imports Jsm_Core
begin

text \<open>
  \<open>SlotToggle\<close> (\<open>core/src/slot_toggle.rs\<close>): the opt-in state every NCN, operator, vault and
  slasher ticket carries. The state is not stored; it is computed from the slots of the last
  activation and deactivation and the current slot. The theory shows that, as time passes and
  the two operations are called, the computed state walks round the cycle Inactive, WarmUp,
  Active, Cooldown, one step at a time, and that a warm-up or cooldown lasts through the whole
  epoch after the one it starts in.
\<close>

section \<open>Definitions\<close>

record slot_toggle =
  slot_added :: u64
  slot_removed :: u64

datatype slot_toggle_state = Inactive | WarmUp | Active | Cooldown

definition toggle_new :: "u64 \<Rightarrow> slot_toggle" where
  "toggle_new slot = \<lparr>slot_added = slot, slot_removed = slot\<rparr>"

definition toggle_state :: "slot_toggle \<Rightarrow> u64 \<Rightarrow> u64 \<Rightarrow> program_error + slot_toggle_state" where
  "toggle_state t slot epoch_length =
     and_then (core_res (get_epoch slot epoch_length)) (\<lambda>current_epoch.
     if slot_added t = slot_removed t then Inr Inactive
     else if slot_added t < slot_removed t then
       and_then (core_res (get_epoch (slot_removed t) epoch_length)) (\<lambda>slot_removed_epoch.
       and_then (ok_or (checked_add slot_removed_epoch 1) ProgramArithmeticOverflow) (\<lambda>last.
       Inr (if last < current_epoch then Inactive else Cooldown)))
     else
       and_then (core_res (get_epoch (slot_added t) epoch_length)) (\<lambda>slot_added_epoch.
       and_then (ok_or (checked_add slot_added_epoch 1) ProgramArithmeticOverflow) (\<lambda>last.
       Inr (if last < current_epoch then Active else WarmUp))))"

definition toggle_activate :: "slot_toggle \<Rightarrow> u64 \<Rightarrow> u64 \<Rightarrow> program_error + slot_toggle \<times> bool" where
  "toggle_activate t slot epoch_length =
     and_then (toggle_state t slot epoch_length) (\<lambda>s.
     case s of
       Inactive \<Rightarrow>
         if slot_added t = slot then Inr (t, False)
         else Inr (t\<lparr>slot_added := slot\<rparr>, True)
     | _ \<Rightarrow> Inr (t, False))"

definition toggle_deactivate :: "slot_toggle \<Rightarrow> u64 \<Rightarrow> u64 \<Rightarrow> program_error + slot_toggle \<times> bool" where
  "toggle_deactivate t slot epoch_length =
     and_then (toggle_state t slot epoch_length) (\<lambda>s.
     case s of
       Active \<Rightarrow> Inr (t\<lparr>slot_removed := slot\<rparr>, True)
     | _ \<Rightarrow> Inr (t, False))"

definition toggle_is_active_or_cooldown :: "slot_toggle \<Rightarrow> u64 \<Rightarrow> u64 \<Rightarrow> program_error + bool" where
  "toggle_is_active_or_cooldown t slot epoch_length =
     and_then (toggle_state t slot epoch_length) (\<lambda>s. Inr (s = Active \<or> s = Cooldown))"

definition toggle_is_active :: "slot_toggle \<Rightarrow> u64 \<Rightarrow> u64 \<Rightarrow> program_error + bool" where
  "toggle_is_active t slot epoch_length =
     and_then (toggle_state t slot epoch_length) (\<lambda>s. Inr (s = Active))"

section \<open>The state over natural numbers\<close>

abbreviation epoch_of :: "u64 \<Rightarrow> u64 \<Rightarrow> nat" where
  "epoch_of slot len \<equiv> unat slot div unat len"

definition toggle_state_at :: "slot_toggle \<Rightarrow> u64 \<Rightarrow> u64 \<Rightarrow> slot_toggle_state" where
  "toggle_state_at t slot len =
     (if slot_added t = slot_removed t then Inactive
      else if slot_added t < slot_removed t then
        (if epoch_of (slot_removed t) len + 1 < epoch_of slot len then Inactive else Cooldown)
      else (if epoch_of (slot_added t) len + 1 < epoch_of slot len then Active else WarmUp))"

lemma toggle_state_InrD:
  "toggle_state t slot len = Inr s \<Longrightarrow> s = toggle_state_at t slot len \<and> len \<noteq> 0"
  by (auto simp: toggle_state_def toggle_state_at_def res_simps arith_iffs word_less_nat_alt
      split: if_splits)

lemma epoch_succ_no_overflow: "2 \<le> unat len \<Longrightarrow> checked_add (slot div len) 1 = Some (slot div len + 1)"
  for slot len :: u64
proof -
  assume "2 \<le> unat len"
  then have "unat slot div unat len \<le> unat slot div 2"
    by (simp add: div_le_mono2)
  then show ?thesis
    using unat_bound_u64 [of slot] by (simp add: checked_add_def unat_div)
qed

lemma toggle_state_Inr:
  assumes "2 \<le> unat len"
  shows "toggle_state t slot len = Inr (toggle_state_at t slot len)"
proof -
  have "len \<noteq> 0" using assms by auto
  then have "\<exists>s. toggle_state t slot len = Inr s"
    using epoch_succ_no_overflow [OF assms]
    by (simp add: toggle_state_def get_epoch_Inr)
  then show ?thesis using toggle_state_InrD by blast
qed

definition toggle_wf :: "slot_toggle \<Rightarrow> u64 \<Rightarrow> bool" where
  "toggle_wf t slot \<longleftrightarrow> slot_added t \<le> slot \<and> slot_removed t \<le> slot"

lemma epoch_of_mono: "a \<le> b \<Longrightarrow> epoch_of a len \<le> epoch_of b len"
  by (simp add: word_le_nat_alt div_le_mono)

lemma activate_iff:
  "toggle_activate t slot len = Inr (t', b) \<longleftrightarrow>
     (\<exists>s. toggle_state t slot len = Inr s \<and> b = (s = Inactive \<and> slot_added t \<noteq> slot)
        \<and> t' = (if b then t\<lparr>slot_added := slot\<rparr> else t))"
proof (cases "toggle_state t slot len")
  case (Inr s)
  then show ?thesis by (cases s) (auto simp: toggle_activate_def)
qed (simp add: toggle_activate_def)

lemma deactivate_iff:
  "toggle_deactivate t slot len = Inr (t', b) \<longleftrightarrow>
     (\<exists>s. toggle_state t slot len = Inr s \<and> b = (s = Active)
        \<and> t' = (if b then t\<lparr>slot_removed := slot\<rparr> else t))"
proof (cases "toggle_state t slot len")
  case (Inr s)
  then show ?thesis by (cases s) (auto simp: toggle_deactivate_def)
qed (simp add: toggle_deactivate_def)

text \<open>A successful activation happens strictly after the last deactivation, and the converse.\<close>

lemma activate_TrueD:
  assumes "toggle_activate t slot len = Inr (t', True)" and "toggle_wf t slot"
  shows "t' = t\<lparr>slot_added := slot\<rparr>" and "slot_removed t < slot"
proof -
  have s: "toggle_state t slot len = Inr Inactive" and t': "t' = t\<lparr>slot_added := slot\<rparr>"
    and ne: "slot_added t \<noteq> slot"
    using assms(1) by (auto simp: activate_iff)
  show "t' = t\<lparr>slot_added := slot\<rparr>" by (rule t')
  have "toggle_state_at t slot len = Inactive"
    using toggle_state_InrD [OF s] by simp
  then have "slot_added t = slot_removed t \<or> epoch_of (slot_removed t) len < epoch_of slot len"
    by (auto simp: toggle_state_at_def split: if_splits)
  then show "slot_removed t < slot"
    using assms(2) ne epoch_of_mono [of slot "slot_removed t" len]
    by (auto simp: toggle_wf_def order_less_le)
qed

lemma deactivate_TrueD:
  assumes "toggle_deactivate t slot len = Inr (t', True)"
  shows "t' = t\<lparr>slot_removed := slot\<rparr>" and "slot_added t < slot"
proof -
  have s: "toggle_state t slot len = Inr Active" and t': "t' = t\<lparr>slot_removed := slot\<rparr>"
    using assms by (auto simp: deactivate_iff)
  show "t' = t\<lparr>slot_removed := slot\<rparr>" by (rule t')
  have "toggle_state_at t slot len = Active"
    using toggle_state_InrD [OF s] by simp
  then have "epoch_of (slot_added t) len < epoch_of slot len"
    by (auto simp: toggle_state_at_def split: if_splits)
  then show "slot_added t < slot"
    using epoch_of_mono [of slot "slot_added t" len] by (auto simp: not_less [symmetric])
qed

lemma activate_FalseD: "toggle_activate t slot len = Inr (t', False) \<Longrightarrow> t' = t"
  by (auto simp: activate_iff)

lemma deactivate_FalseD: "toggle_deactivate t slot len = Inr (t', False) \<Longrightarrow> t' = t"
  by (auto simp: deactivate_iff)

section \<open>Steps of a ticket's toggle over time\<close>

text \<open>
  A state of the machine is a toggle and the current slot. Time moves forward by any number of
  slots; in between, anyone with the right admin key may try to activate or deactivate.
\<close>

inductive toggle_step :: "u64 \<Rightarrow> slot_toggle \<times> u64 \<Rightarrow> slot_toggle \<times> u64 \<Rightarrow> bool" for len where
  tick: "slot \<le> slot' \<Longrightarrow> toggle_step len (t, slot) (t, slot')"
| activate: "toggle_activate t slot len = Inr (t', b) \<Longrightarrow> toggle_step len (t, slot) (t', slot)"
| deactivate: "toggle_deactivate t slot len = Inr (t', b) \<Longrightarrow> toggle_step len (t, slot) (t', slot)"

inductive toggle_reachable :: "u64 \<Rightarrow> slot_toggle \<times> u64 \<Rightarrow> bool" for len where
  created: "toggle_reachable len (toggle_new slot, slot)"
| step: "toggle_reachable len c \<Longrightarrow> toggle_step len c c' \<Longrightarrow> toggle_reachable len c'"

inductive_cases toggle_stepE: "toggle_step len (t, slot) c"

lemma toggle_step_wf:
  assumes "toggle_step len (t, slot) (t', slot')" and "toggle_wf t slot"
  shows "toggle_wf t' slot'"
  using assms
proof (cases rule: toggle_step.cases)
  case tick
  then show ?thesis using assms(2) by (auto simp: toggle_wf_def)
next
  case (activate b)
  then show ?thesis using assms(2) by (auto simp: toggle_wf_def activate_iff)
next
  case (deactivate b)
  then show ?thesis using assms(2) by (auto simp: toggle_wf_def deactivate_iff)
qed

lemma toggle_reachable_wf: "toggle_reachable len c \<Longrightarrow> toggle_wf (fst c) (snd c)"
proof (induction rule: toggle_reachable.induct)
  case (created slot)
  show ?case by (simp add: toggle_new_def toggle_wf_def)
next
  case (step c c')
  then show ?case using toggle_step_wf by (metis prod.collapse)
qed

text \<open>The documented life cycle.\<close>

fun toggle_next :: "slot_toggle_state \<Rightarrow> slot_toggle_state" where
  "toggle_next Inactive = WarmUp"
| "toggle_next WarmUp = Active"
| "toggle_next Active = Cooldown"
| "toggle_next Cooldown = Inactive"

lemma toggle_tick_cycle:
  assumes "slot \<le> slot'"
  shows "toggle_state_at t slot' len = toggle_state_at t slot len
    \<or> toggle_state_at t slot len \<in> {WarmUp, Cooldown}
      \<and> toggle_state_at t slot' len = toggle_next (toggle_state_at t slot len)"
  using epoch_of_mono [OF assms, of len] by (auto simp: toggle_state_at_def)

lemma toggle_activate_cycle:
  assumes "toggle_activate t slot len = Inr (t', True)" and "toggle_wf t slot"
  shows "toggle_state_at t slot len = Inactive" and "toggle_state_at t' slot len = WarmUp"
proof -
  have "toggle_state t slot len = Inr Inactive"
    using assms(1) by (auto simp: activate_iff)
  then show "toggle_state_at t slot len = Inactive"
    using toggle_state_InrD by force
  show "toggle_state_at t' slot len = WarmUp"
    using activate_TrueD [OF assms] by (auto simp: toggle_state_at_def)
qed

lemma toggle_deactivate_cycle:
  assumes "toggle_deactivate t slot len = Inr (t', True)"
  shows "toggle_state_at t slot len = Active" and "toggle_state_at t' slot len = Cooldown"
proof -
  have "toggle_state t slot len = Inr Active"
    using assms(1) by (auto simp: deactivate_iff)
  then show "toggle_state_at t slot len = Active"
    using toggle_state_InrD by force
  show "toggle_state_at t' slot len = Cooldown"
    using deactivate_TrueD [OF assms] by (auto simp: toggle_state_at_def)
qed

section \<open>Properties\<close>

text \<open>
  Claim C29. The state of a ticket's toggle only ever moves round its documented life cycle.
  Take any toggle reachable from its creation by activations, deactivations and the passing of
  time, and any further step. If the state can be computed before and after the step, it is
  unchanged or it is the next one in the cycle Inactive, WarmUp, Active, Cooldown, Inactive.
\<close>

theorem toggle_life_cycle:
  assumes "toggle_reachable len (t, slot)"
    and "toggle_step len (t, slot) (t', slot')"
    and "toggle_state t slot len = Inr s"
    and "toggle_state t' slot' len = Inr s'"
  shows "s' = s \<or> s' = toggle_next s"
proof -
  have wf: "toggle_wf t slot"
    using toggle_reachable_wf [OF assms(1)] by simp
  have s: "s = toggle_state_at t slot len" and s': "s' = toggle_state_at t' slot' len"
    using assms(3,4) toggle_state_InrD by blast+
  from assms(2) show ?thesis
  proof (cases rule: toggle_step.cases)
    case tick
    then show ?thesis using toggle_tick_cycle s s' by auto
  next
    case (activate b)
    then show ?thesis
      using toggle_activate_cycle [of t slot len t'] activate_FalseD [of t slot len t'] wf s s'
      by (cases b) auto
  next
    case (deactivate b)
    then show ?thesis
      using toggle_deactivate_cycle [of t slot len t'] deactivate_FalseD [of t slot len t'] s s'
      by (cases b) auto
  qed
qed

theorem toggle_life_cycle_witness:
  "toggle_next Inactive = WarmUp
   \<and> (WarmUp = Inactive \<or> WarmUp = toggle_next Inactive)"
proof -
  have r: "toggle_reachable 150 (toggle_new 100, 101)"
    by (rule toggle_reachable.step [OF toggle_reachable.created]) (rule toggle_step.tick, simp)
  have st: "toggle_step 150 (toggle_new 100, 101) (\<lparr>slot_added = 101, slot_removed = 100\<rparr>, 101)"
    by (rule toggle_step.activate [where b = True])
       (simp add: toggle_activate_def toggle_state_def toggle_new_def get_epoch_def checked_div_def)
  have "toggle_state (toggle_new 100) 101 150 = Inr Inactive"
    and "toggle_state \<lparr>slot_added = 101, slot_removed = 100\<rparr> 101 150 = Inr WarmUp"
    by (simp_all add: toggle_state_def toggle_new_def get_epoch_def checked_div_def checked_add_def)
  then show ?thesis using toggle_life_cycle [OF r st] by simp
qed

text \<open>
  Claim C30. Warm-up and cooldown last one full epoch beyond the epoch they start in. With an
  epoch of at least two slots, once a toggle whose recorded slots lie in the past has been
  activated at a slot, its state at any later slot is WarmUp through the following epoch and
  Active after it; once it has been deactivated, the state is Cooldown through the following
  epoch and Inactive after it. In particular the state can always be computed.
\<close>

theorem toggle_schedule:
  assumes "2 \<le> unat len" and "slot_added t \<le> slot" and "slot_removed t \<le> slot"
    and "slot \<le> now"
  shows "(toggle_activate t slot len = Inr (t', True) \<longrightarrow>
           toggle_state t' now len = Inr (if epoch_of now len \<le> epoch_of slot len + 1 then WarmUp else Active))
       \<and> (toggle_deactivate t slot len = Inr (t', True) \<longrightarrow>
           toggle_state t' now len = Inr (if epoch_of now len \<le> epoch_of slot len + 1 then Cooldown else Inactive))"
proof (intro conjI impI)
  assume "toggle_activate t slot len = Inr (t', True)"
  moreover have "toggle_wf t slot" using assms by (simp add: toggle_wf_def)
  ultimately have "t' = t\<lparr>slot_added := slot\<rparr>" and "slot_removed t < slot"
    using activate_TrueD by blast+
  then show "toggle_state t' now len = Inr (if epoch_of now len \<le> epoch_of slot len + 1 then WarmUp else Active)"
    unfolding toggle_state_Inr [OF assms(1)] by (auto simp: toggle_state_at_def)
next
  assume "toggle_deactivate t slot len = Inr (t', True)"
  then have "t' = t\<lparr>slot_removed := slot\<rparr>" and "slot_added t < slot"
    using deactivate_TrueD by blast+
  then show "toggle_state t' now len = Inr (if epoch_of now len \<le> epoch_of slot len + 1 then Cooldown else Inactive)"
    unfolding toggle_state_Inr [OF assms(1)] by (auto simp: toggle_state_at_def)
qed

theorem toggle_schedule_witness:
  "toggle_activate (toggle_new 100) 101 150 = Inr (\<lparr>slot_added = 101, slot_removed = 100\<rparr>, True)
   \<and> toggle_state \<lparr>slot_added = 101, slot_removed = 100\<rparr> 251 150 = Inr WarmUp
   \<and> toggle_state \<lparr>slot_added = 101, slot_removed = 100\<rparr> 401 150 = Inr Active"
proof -
  have a: "toggle_activate (toggle_new 100) 101 150 = Inr (\<lparr>slot_added = 101, slot_removed = 100\<rparr>, True)"
    by (simp add: toggle_activate_def toggle_state_def toggle_new_def get_epoch_def checked_div_def)
  show ?thesis
    using a toggle_schedule [of 150 "toggle_new 100" 101 251 "\<lparr>slot_added = 101, slot_removed = 100\<rparr>"]
      toggle_schedule [of 150 "toggle_new 100" 101 401 "\<lparr>slot_added = 101, slot_removed = 100\<rparr>"]
    by (simp add: toggle_new_def)
qed

end
