(* ===== verification/Vault_Tickets.thy ===== *)
theory Vault_Tickets
  imports Vault_State Slot_Toggle
begin

text \<open>
  The accounts that hang off a vault: the withdrawal ticket of a staker, the delegation to one
  operator, the support tickets for an NCN and its slashers with the record of what was slashed,
  and the tracker of an epoch's update (\<open>vault_core/src/vault_staker_withdrawal_ticket.rs\<close>,
  \<open>vault_operator_delegation.rs\<close>, \<open>vault_ncn_ticket.rs\<close>, \<open>vault_ncn_slasher_ticket.rs\<close>,
  \<open>vault_ncn_slasher_operator_ticket.rs\<close>, \<open>vault_update_state_tracker.rs\<close>).
\<close>

section \<open>Definitions\<close>

subsection \<open>Withdrawal ticket\<close>

record withdrawal_ticket =
  wt_vault :: pubkey
  wt_staker :: pubkey
  wt_base :: pubkey
  wt_vrt_amount :: u64
  wt_slot_unstaked :: u64
  wt_bump :: u8

definition withdrawal_ticket_new :: "pubkey \<Rightarrow> pubkey \<Rightarrow> pubkey \<Rightarrow> u64 \<Rightarrow> u64 \<Rightarrow> u8 \<Rightarrow> withdrawal_ticket" where
  "withdrawal_ticket_new vault staker base vrt_amount slot_unstaked bump =
     \<lparr>wt_vault = vault, wt_staker = staker, wt_base = base, wt_vrt_amount = vrt_amount,
      wt_slot_unstaked = slot_unstaked, wt_bump = bump\<rparr>"

definition check_staker :: "withdrawal_ticket \<Rightarrow> pubkey \<Rightarrow> vault_error + unit" where
  "check_staker t staker = err_if (wt_staker t \<noteq> staker) VaultStakerWithdrawalTicketInvalidStaker"

definition is_withdrawable :: "withdrawal_ticket \<Rightarrow> u64 \<Rightarrow> u64 \<Rightarrow> program_error + bool" where
  "is_withdrawable t slot epoch_length =
     and_then (core_res (get_epoch slot epoch_length)) (\<lambda>current_epoch.
     and_then (core_res (get_epoch (wt_slot_unstaked t) epoch_length)) (\<lambda>epoch_unstaked.
     and_then (vault_res (ok_or (checked_add epoch_unstaked 1) ArithmeticOverflow)) (\<lambda>limit.
     if current_epoch \<le> limit then Inr False else Inr True)))"

subsection \<open>Delegation to an operator\<close>

record operator_delegation =
  vod_vault :: pubkey
  vod_operator :: pubkey
  vod_delegation_state :: delegation_state
  vod_last_update_slot :: u64
  vod_index :: u64
  vod_bump :: u8

definition operator_delegation_new :: "pubkey \<Rightarrow> pubkey \<Rightarrow> u64 \<Rightarrow> u8 \<Rightarrow> u64 \<Rightarrow> operator_delegation" where
  "operator_delegation_new vault operator index bump slot =
     \<lparr>vod_vault = vault, vod_operator = operator, vod_delegation_state = ds_default,
      vod_last_update_slot = slot, vod_index = index, vod_bump = bump\<rparr>"

definition check_is_already_updated :: "operator_delegation \<Rightarrow> u64 \<Rightarrow> u64 \<Rightarrow> program_error + unit" where
  "check_is_already_updated d slot epoch_length =
     and_then (core_res (get_epoch (vod_last_update_slot d) epoch_length)) (\<lambda>last_update_epoch.
     and_then (core_res (get_epoch slot epoch_length)) (\<lambda>current_epoch.
     vault_res (err_if (current_epoch \<le> last_update_epoch) VaultOperatorDelegationIsUpdated)))"

definition operator_delegation_update :: "operator_delegation \<Rightarrow> u64 \<Rightarrow> u64 \<Rightarrow> program_error + operator_delegation" where
  "operator_delegation_update d slot epoch_length =
     and_then (core_res (get_epoch (vod_last_update_slot d) epoch_length)) (\<lambda>last_update_epoch.
     and_then (core_res (get_epoch slot epoch_length)) (\<lambda>current_epoch.
     and_then (vault_res (ok_or (checked_sub current_epoch last_update_epoch) ArithmeticUnderflow)) (\<lambda>epoch_diff.
     let ds = vod_delegation_state d;
         ds' = (if epoch_diff = 0 then ds
                else if epoch_diff = 1 then ds_update ds
                else ds_update (ds_update ds)) in
     Inr (d\<lparr>vod_delegation_state := ds', vod_last_update_slot := slot\<rparr>))))"

subsection \<open>NCN and slasher tickets\<close>

record vault_ncn_ticket =
  vnt_vault :: pubkey
  vnt_ncn :: pubkey
  vnt_index :: u64
  vnt_state :: slot_toggle
  vnt_bump :: u8

definition vault_ncn_ticket_new :: "pubkey \<Rightarrow> pubkey \<Rightarrow> u64 \<Rightarrow> u8 \<Rightarrow> u64 \<Rightarrow> vault_ncn_ticket" where
  "vault_ncn_ticket_new vault ncn index bump slot =
     \<lparr>vnt_vault = vault, vnt_ncn = ncn, vnt_index = index, vnt_state = toggle_new slot, vnt_bump = bump\<rparr>"

record vault_ncn_slasher_ticket =
  vnst_vault :: pubkey
  vnst_ncn :: pubkey
  vnst_slasher :: pubkey
  vnst_max_slashable_per_epoch :: u64
  vnst_index :: u64
  vnst_state :: slot_toggle
  vnst_bump :: u8

definition vault_ncn_slasher_ticket_new ::
    "pubkey \<Rightarrow> pubkey \<Rightarrow> pubkey \<Rightarrow> u64 \<Rightarrow> u64 \<Rightarrow> u8 \<Rightarrow> u64 \<Rightarrow> vault_ncn_slasher_ticket" where
  "vault_ncn_slasher_ticket_new vault ncn slasher max_slashable_per_epoch index bump slot =
     \<lparr>vnst_vault = vault, vnst_ncn = ncn, vnst_slasher = slasher,
      vnst_max_slashable_per_epoch = max_slashable_per_epoch, vnst_index = index,
      vnst_state = toggle_new slot, vnst_bump = bump\<rparr>"

record vault_ncn_slasher_operator_ticket =
  vnsot_vault :: pubkey
  vnsot_ncn :: pubkey
  vnsot_slasher :: pubkey
  vnsot_operator :: pubkey
  vnsot_epoch :: u64
  vnsot_slashed :: u64
  vnsot_bump :: u8

definition vault_ncn_slasher_operator_ticket_new ::
    "pubkey \<Rightarrow> pubkey \<Rightarrow> pubkey \<Rightarrow> pubkey \<Rightarrow> u64 \<Rightarrow> u8 \<Rightarrow> vault_ncn_slasher_operator_ticket" where
  "vault_ncn_slasher_operator_ticket_new vault ncn slasher operator epoch bump =
     \<lparr>vnsot_vault = vault, vnsot_ncn = ncn, vnsot_slasher = slasher, vnsot_operator = operator,
      vnsot_epoch = epoch, vnsot_slashed = 0, vnsot_bump = bump\<rparr>"

definition increment_slashed ::
    "vault_ncn_slasher_operator_ticket \<Rightarrow> u64 \<Rightarrow> vault_error + vault_ncn_slasher_operator_ticket" where
  "increment_slashed t amount =
     and_then (ok_or (checked_add (vnsot_slashed t) amount) VaultMaxSlashedPerOperatorExceeded) (\<lambda>slashed.
     Inr (t\<lparr>vnsot_slashed := slashed\<rparr>))"

definition check_slashing_amount_not_exceeded ::
    "vault_ncn_slasher_operator_ticket \<Rightarrow> u64 \<Rightarrow> u64 \<Rightarrow> program_error + unit" where
  "check_slashing_amount_not_exceeded t slash_amount max_slashable_per_epoch =
     and_then (vault_res (ok_or (checked_add (vnsot_slashed t) slash_amount) ArithmeticOverflow)) (\<lambda>amount_after_slash.
     vault_res (err_if (max_slashable_per_epoch < amount_after_slash) VaultMaxSlashedPerOperatorExceeded))"

subsection \<open>Update state tracker\<close>

record update_state_tracker =
  vust_vault :: pubkey
  vust_ncn_epoch :: u64
  vust_last_updated_index :: u64
  vust_delegation_state :: delegation_state
  vust_withdrawal_allocation_method :: u8

definition update_state_tracker_new :: "pubkey \<Rightarrow> u64 \<Rightarrow> u8 \<Rightarrow> update_state_tracker" where
  "update_state_tracker_new vault ncn_epoch withdrawal_allocation_method =
     \<lparr>vust_vault = vault, vust_ncn_epoch = ncn_epoch, vust_last_updated_index = u64_MAX,
      vust_delegation_state = ds_default,
      vust_withdrawal_allocation_method = withdrawal_allocation_method\<rparr>"

definition check_and_update_index :: "update_state_tracker \<Rightarrow> u64 \<Rightarrow> u64 \<Rightarrow> vault_error + update_state_tracker" where
  "check_and_update_index t index num_operators =
     and_then
       (if vust_last_updated_index t = u64_MAX then
          and_then (ok_or (checked_rem (vust_ncn_epoch t) num_operators) DivisionByZero) (\<lambda>start_index.
          err_if (index \<noteq> start_index) VaultUpdateIncorrectIndex)
        else
          and_then (ok_or (Option.bind (checked_add (vust_last_updated_index t) 1)
                             (\<lambda>i. checked_rem i num_operators)) ArithmeticOverflow) (\<lambda>next_index.
          err_if (index \<noteq> next_index) VaultUpdateIncorrectIndex)) (\<lambda>_.
     Inr (t\<lparr>vust_last_updated_index := index\<rparr>))"

definition all_operators_updated :: "update_state_tracker \<Rightarrow> u64 \<Rightarrow> vault_error + bool" where
  "all_operators_updated t num_operators =
     (if vust_last_updated_index t = u64_MAX then Inr False
      else
        and_then (ok_or (checked_rem (vust_ncn_epoch t) num_operators) DivisionByZero) (\<lambda>start_index.
        if start_index = 0 then
          and_then (ok_or (checked_sub num_operators 1) ArithmeticUnderflow) (\<lambda>last.
          Inr (vust_last_updated_index t = last))
        else
          and_then (ok_or (checked_sub start_index 1) ArithmeticUnderflow) (\<lambda>last.
          Inr (vust_last_updated_index t = last))))"

section \<open>Lemmas\<close>

lemma check_staker_iff [res_simps]: "check_staker t k = Inr u \<longleftrightarrow> wt_staker t = k"
  by (simp add: check_staker_def res_simps)

lemma is_withdrawable_iff [res_simps]:
  "is_withdrawable t slot len = Inr b \<longleftrightarrow>
     0 < unat len \<and> unat (wt_slot_unstaked t) div unat len + 1 < 2 ^ 64
     \<and> b = (unat (wt_slot_unstaked t) div unat len + 1 < unat slot div unat len)"
proof -
  have "unat (wt_slot_unstaked t div len + 1) = unat (wt_slot_unstaked t) div unat len + 1"
    if "unat (wt_slot_unstaked t) div unat len + 1 < 18446744073709551616"
    using that by (simp add: unat_word_ariths unat_div)
  then show ?thesis
    by (cases "len = 0")
       (auto simp: is_withdrawable_def get_epoch_def checked_div_def checked_add_def unat_div
          word_le_nat_alt unat_gt_0)
qed

lemma check_is_already_updated_iff [res_simps]:
  "check_is_already_updated d slot len = Inr u \<longleftrightarrow>
     0 < unat len \<and> unat (vod_last_update_slot d) div unat len < unat slot div unat len"
  by (cases "len = 0")
     (auto simp: check_is_already_updated_def get_epoch_def checked_div_def unat_div word_le_nat_alt
        unat_gt_0 res_simps)

text \<open>The number of times an operator's cooldowns move on, over \<open>nat\<close>.\<close>

definition ds_after :: "nat \<Rightarrow> delegation_state \<Rightarrow> delegation_state" where
  "ds_after k d = (if k = 0 then d else if k = 1 then ds_update d else ds_update (ds_update d))"

lemma ds_after_simps [simp]:
  "staked_amount (ds_after k d) = staked_amount d"
  "ds_total (ds_after k d) \<le> ds_total d"
  by (simp_all add: ds_after_def ds_total_def)

lemma ds_after_unat:
  "(if w = 0 then d else if w = 1 then ds_update d else ds_update (ds_update d)) = ds_after (unat w) d"
  for w :: u64
proof -
  have "unat w = 1 \<longleftrightarrow> w = 1"
    by (metis unat_1 word_unat_eq_iff)
  then show ?thesis by (auto simp: ds_after_def unat_eq_0)
qed

lemma operator_delegation_update_iff [res_simps]:
  "operator_delegation_update d slot len = Inr d' \<longleftrightarrow>
     (let k0 = unat (vod_last_update_slot d) div unat len; k = unat slot div unat len in
      0 < unat len \<and> k0 \<le> k
      \<and> d' = d\<lparr>vod_delegation_state := ds_after (k - k0) (vod_delegation_state d),
                vod_last_update_slot := slot\<rparr>)"
proof (cases "len = 0")
  case True
  then show ?thesis by (simp add: operator_delegation_update_def get_epoch_def checked_div_def)
next
  case False
  then have "0 < unat len" by (simp add: unat_gt_0)
  then show ?thesis
    using False unfolding operator_delegation_update_def ds_after_unat Let_def
    by (auto simp: get_epoch_Inr checked_sub_def unat_div word_le_nat_alt unat_sub)
qed

end
