(* ===== verification/Restaking_Core.thy ===== *)
theory Restaking_Core
  imports Vault_State Slot_Toggle
begin

text \<open>
  The accounts of the restaking program (\<open>restaking_core/src\<close>): its configuration, the NCNs and
  operators with their admins and counters, and the opt-in tickets between NCNs, operators and
  vaults; and its error codes (\<open>restaking_sdk/src/error.rs\<close>). Error names that the vault program
  also uses carry the prefix \<open>Restaking\<close>.
\<close>

section \<open>Definitions\<close>

subsection \<open>Errors\<close>

datatype (plugins only: size) restaking_error =
    NcnOperatorAdminInvalid
  | NcnCooldownOperatorFailed
  | NcnSlasherAdminInvalid
  | NcnVaultAdminInvalid
  | NcnAdminInvalid
  | NcnDelegateAdminInvalid
  | NcnVaultSlasherTicketFailedCooldown
  | NcnVaultTicketFailedCooldown
  | NcnWarmupOperatorFailed
  | NcnVaultSlasherTicketFailedWarmup
  | NcnVaultTicketFailedWarmup
  | OperatorNcnAdminInvalid
  | OperatorVaultAdminInvalid
  | OperatorAdminInvalid
  | OperatorDelegateAdminInvalid
  | OperatorCooldownNcnFailed
  | OperatorVaultTicketFailedCooldown
  | OperatorVaultTicketFailedWarmup
  | OperatorWarmupNcnFailed
  | OperatorFeeCapExceeded
  | RestakingNcnOverflow
  | RestakingOperatorOverflow
  | RestakingVaultOverflow
  | RestakingSlasherOverflow
  | RestakingInvalidEpochLength
  | RestakingConfigAdminInvalid
  | RestakingArithmeticOverflow
  | RestakingArithmeticUnderflow
  | RestakingDivisionByZero

primrec restaking_error_code :: "restaking_error \<Rightarrow> u32" where
  "restaking_error_code NcnOperatorAdminInvalid = 1000"
| "restaking_error_code NcnCooldownOperatorFailed = 1001"
| "restaking_error_code NcnSlasherAdminInvalid = 1002"
| "restaking_error_code NcnVaultAdminInvalid = 1003"
| "restaking_error_code NcnAdminInvalid = 1004"
| "restaking_error_code NcnDelegateAdminInvalid = 1005"
| "restaking_error_code NcnVaultSlasherTicketFailedCooldown = 1006"
| "restaking_error_code NcnVaultTicketFailedCooldown = 1007"
| "restaking_error_code NcnWarmupOperatorFailed = 1008"
| "restaking_error_code NcnVaultSlasherTicketFailedWarmup = 1009"
| "restaking_error_code NcnVaultTicketFailedWarmup = 1010"
| "restaking_error_code OperatorNcnAdminInvalid = 2000"
| "restaking_error_code OperatorVaultAdminInvalid = 2001"
| "restaking_error_code OperatorAdminInvalid = 2002"
| "restaking_error_code OperatorDelegateAdminInvalid = 2003"
| "restaking_error_code OperatorCooldownNcnFailed = 2004"
| "restaking_error_code OperatorVaultTicketFailedCooldown = 2005"
| "restaking_error_code OperatorVaultTicketFailedWarmup = 2006"
| "restaking_error_code OperatorWarmupNcnFailed = 2007"
| "restaking_error_code OperatorFeeCapExceeded = 2008"
| "restaking_error_code RestakingNcnOverflow = 2009"
| "restaking_error_code RestakingOperatorOverflow = 2010"
| "restaking_error_code RestakingVaultOverflow = 2011"
| "restaking_error_code RestakingSlasherOverflow = 2012"
| "restaking_error_code RestakingInvalidEpochLength = 2013"
| "restaking_error_code RestakingConfigAdminInvalid = 2014"
| "restaking_error_code RestakingArithmeticOverflow = 3000"
| "restaking_error_code RestakingArithmeticUnderflow = 3001"
| "restaking_error_code RestakingDivisionByZero = 3002"

definition program_error_of_restaking :: "restaking_error \<Rightarrow> program_error" where
  "program_error_of_restaking e = Custom (restaking_error_code e)"

abbreviation restaking_res :: "restaking_error + 'a \<Rightarrow> program_error + 'a" where
  "restaking_res \<equiv> map_err program_error_of_restaking"

subsection \<open>Configuration\<close>

record restaking_config =
  rc_admin :: pubkey
  rc_vault_program :: pubkey
  rc_ncn_count :: u64
  rc_operator_count :: u64
  rc_epoch_length :: u64
  rc_bump :: u8

definition restaking_config_new :: "pubkey \<Rightarrow> pubkey \<Rightarrow> u8 \<Rightarrow> restaking_config" where
  "restaking_config_new admin vault_program bump =
     \<lparr>rc_admin = admin, rc_vault_program = vault_program, rc_ncn_count = 0, rc_operator_count = 0,
      rc_epoch_length = DEFAULT_SLOTS_PER_EPOCH, rc_bump = bump\<rparr>"

definition config_increment_ncn_count :: "restaking_config \<Rightarrow> restaking_error + restaking_config" where
  "config_increment_ncn_count c =
     and_then (ok_or (checked_add (rc_ncn_count c) 1) RestakingNcnOverflow) (\<lambda>ncn_count.
     Inr (c\<lparr>rc_ncn_count := ncn_count\<rparr>))"

definition config_increment_operator_count :: "restaking_config \<Rightarrow> restaking_error + restaking_config" where
  "config_increment_operator_count c =
     and_then (ok_or (checked_add (rc_operator_count c) 1) RestakingOperatorOverflow) (\<lambda>operator_count.
     Inr (c\<lparr>rc_operator_count := operator_count\<rparr>))"

definition restaking_config_set_admin :: "restaking_config \<Rightarrow> pubkey \<Rightarrow> restaking_config" where
  "restaking_config_set_admin c new_admin = c\<lparr>rc_admin := new_admin\<rparr>"

subsection \<open>NCN\<close>

record ncn =
  ncn_base :: pubkey
  ncn_admin :: pubkey
  ncn_operator_admin :: pubkey
  ncn_vault_admin :: pubkey
  ncn_slasher_admin :: pubkey
  ncn_delegate_admin :: pubkey
  ncn_metadata_admin :: pubkey
  ncn_weight_table_admin :: pubkey
  ncn_ncn_program_admin :: pubkey
  ncn_index :: u64
  ncn_operator_count :: u64
  ncn_vault_count :: u64
  ncn_slasher_count :: u64
  ncn_bump :: u8

definition ncn_new :: "pubkey \<Rightarrow> pubkey \<Rightarrow> u64 \<Rightarrow> u8 \<Rightarrow> ncn" where
  "ncn_new base admin index bump =
     \<lparr>ncn_base = base, ncn_admin = admin, ncn_operator_admin = admin, ncn_vault_admin = admin,
      ncn_slasher_admin = admin, ncn_delegate_admin = admin, ncn_metadata_admin = admin,
      ncn_weight_table_admin = admin, ncn_ncn_program_admin = admin, ncn_index = index,
      ncn_operator_count = 0, ncn_vault_count = 0, ncn_slasher_count = 0, ncn_bump = bump\<rparr>"

definition ncn_increment_operator_count :: "ncn \<Rightarrow> restaking_error + ncn" where
  "ncn_increment_operator_count n =
     and_then (ok_or (checked_add (ncn_operator_count n) 1) RestakingOperatorOverflow) (\<lambda>c.
     Inr (n\<lparr>ncn_operator_count := c\<rparr>))"

definition ncn_increment_vault_count :: "ncn \<Rightarrow> restaking_error + ncn" where
  "ncn_increment_vault_count n =
     and_then (ok_or (checked_add (ncn_vault_count n) 1) RestakingVaultOverflow) (\<lambda>c.
     Inr (n\<lparr>ncn_vault_count := c\<rparr>))"

definition ncn_increment_slasher_count :: "ncn \<Rightarrow> restaking_error + ncn" where
  "ncn_increment_slasher_count n =
     and_then (ok_or (checked_add (ncn_slasher_count n) 1) RestakingSlasherOverflow) (\<lambda>c.
     Inr (n\<lparr>ncn_slasher_count := c\<rparr>))"

definition ncn_check_admin :: "ncn \<Rightarrow> pubkey \<Rightarrow> restaking_error + unit" where
  "ncn_check_admin n admin = err_if (ncn_admin n \<noteq> admin) NcnAdminInvalid"

definition ncn_check_delegate_admin :: "ncn \<Rightarrow> pubkey \<Rightarrow> restaking_error + unit" where
  "ncn_check_delegate_admin n delegate_admin =
     err_if (ncn_delegate_admin n \<noteq> delegate_admin) NcnDelegateAdminInvalid"

definition ncn_update_secondary_admin :: "ncn \<Rightarrow> pubkey \<Rightarrow> pubkey \<Rightarrow> ncn" where
  "ncn_update_secondary_admin n old_admin new_admin =
     (let repl = (\<lambda>k. if k = old_admin then new_admin else k) in
      n\<lparr>ncn_operator_admin := repl (ncn_operator_admin n),
        ncn_vault_admin := repl (ncn_vault_admin n),
        ncn_slasher_admin := repl (ncn_slasher_admin n),
        ncn_delegate_admin := repl (ncn_delegate_admin n),
        ncn_metadata_admin := repl (ncn_metadata_admin n),
        ncn_weight_table_admin := repl (ncn_weight_table_admin n),
        ncn_ncn_program_admin := repl (ncn_ncn_program_admin n)\<rparr>)"

subsection \<open>Operator\<close>

record operator =
  op_base :: pubkey
  op_admin :: pubkey
  op_ncn_admin :: pubkey
  op_vault_admin :: pubkey
  op_delegate_admin :: pubkey
  op_metadata_admin :: pubkey
  op_voter :: pubkey
  op_index :: u64
  op_ncn_count :: u64
  op_vault_count :: u64
  op_operator_fee_bps :: u16
  op_bump :: u8

definition operator_new :: "pubkey \<Rightarrow> pubkey \<Rightarrow> u64 \<Rightarrow> u16 \<Rightarrow> u8 \<Rightarrow> operator" where
  "operator_new base admin index operator_fee_bps bump =
     \<lparr>op_base = base, op_admin = admin, op_ncn_admin = admin, op_vault_admin = admin,
      op_delegate_admin = admin, op_metadata_admin = admin, op_voter = admin, op_index = index,
      op_ncn_count = 0, op_vault_count = 0, op_operator_fee_bps = operator_fee_bps, op_bump = bump\<rparr>"

definition operator_increment_ncn_count :: "operator \<Rightarrow> restaking_error + operator" where
  "operator_increment_ncn_count o1 =
     and_then (ok_or (checked_add (op_ncn_count o1) 1) RestakingNcnOverflow) (\<lambda>c.
     Inr (o1\<lparr>op_ncn_count := c\<rparr>))"

definition operator_increment_vault_count :: "operator \<Rightarrow> restaking_error + operator" where
  "operator_increment_vault_count o1 =
     and_then (ok_or (checked_add (op_vault_count o1) 1) RestakingVaultOverflow) (\<lambda>c.
     Inr (o1\<lparr>op_vault_count := c\<rparr>))"

definition operator_check_admin :: "operator \<Rightarrow> pubkey \<Rightarrow> restaking_error + unit" where
  "operator_check_admin o1 admin = err_if (op_admin o1 \<noteq> admin) OperatorAdminInvalid"

definition operator_check_delegate_admin :: "operator \<Rightarrow> pubkey \<Rightarrow> restaking_error + unit" where
  "operator_check_delegate_admin o1 delegate_admin =
     err_if (op_delegate_admin o1 \<noteq> delegate_admin) OperatorDelegateAdminInvalid"

definition operator_update_secondary_admin :: "operator \<Rightarrow> pubkey \<Rightarrow> pubkey \<Rightarrow> operator" where
  "operator_update_secondary_admin o1 old_admin new_admin =
     (let repl = (\<lambda>k. if k = old_admin then new_admin else k) in
      o1\<lparr>op_ncn_admin := repl (op_ncn_admin o1),
         op_vault_admin := repl (op_vault_admin o1),
         op_voter := repl (op_voter o1),
         op_delegate_admin := repl (op_delegate_admin o1),
         op_metadata_admin := repl (op_metadata_admin o1)\<rparr>)"

subsection \<open>Tickets\<close>

record ncn_operator_state =
  nos_ncn :: pubkey
  nos_operator :: pubkey
  nos_index :: u64
  nos_ncn_opt_in_state :: slot_toggle
  nos_operator_opt_in_state :: slot_toggle
  nos_bump :: u8

definition ncn_operator_state_new :: "pubkey \<Rightarrow> pubkey \<Rightarrow> u64 \<Rightarrow> u8 \<Rightarrow> u64 \<Rightarrow> ncn_operator_state" where
  "ncn_operator_state_new ncn operator index bump slot =
     \<lparr>nos_ncn = ncn, nos_operator = operator, nos_index = index, nos_ncn_opt_in_state = toggle_new slot,
      nos_operator_opt_in_state = toggle_new slot, nos_bump = bump\<rparr>"

record ncn_vault_ticket =
  nvt_ncn :: pubkey
  nvt_vault :: pubkey
  nvt_index :: u64
  nvt_state :: slot_toggle
  nvt_bump :: u8

definition ncn_vault_ticket_new :: "pubkey \<Rightarrow> pubkey \<Rightarrow> u64 \<Rightarrow> u8 \<Rightarrow> u64 \<Rightarrow> ncn_vault_ticket" where
  "ncn_vault_ticket_new ncn vault index bump slot =
     \<lparr>nvt_ncn = ncn, nvt_vault = vault, nvt_index = index, nvt_state = toggle_new slot, nvt_bump = bump\<rparr>"

record operator_vault_ticket =
  ovt_operator :: pubkey
  ovt_vault :: pubkey
  ovt_index :: u64
  ovt_state :: slot_toggle
  ovt_bump :: u8

definition operator_vault_ticket_new :: "pubkey \<Rightarrow> pubkey \<Rightarrow> u64 \<Rightarrow> u8 \<Rightarrow> u64 \<Rightarrow> operator_vault_ticket" where
  "operator_vault_ticket_new operator vault index bump slot =
     \<lparr>ovt_operator = operator, ovt_vault = vault, ovt_index = index, ovt_state = toggle_new slot, ovt_bump = bump\<rparr>"

record ncn_vault_slasher_ticket =
  nvst_ncn :: pubkey
  nvst_vault :: pubkey
  nvst_slasher :: pubkey
  nvst_max_slashable_per_epoch :: u64
  nvst_index :: u64
  nvst_state :: slot_toggle
  nvst_bump :: u8

definition ncn_vault_slasher_ticket_new ::
    "pubkey \<Rightarrow> pubkey \<Rightarrow> pubkey \<Rightarrow> u64 \<Rightarrow> u64 \<Rightarrow> u8 \<Rightarrow> u64 \<Rightarrow> ncn_vault_slasher_ticket" where
  "ncn_vault_slasher_ticket_new ncn vault slasher max_slashable_per_epoch index bump slot =
     \<lparr>nvst_ncn = ncn, nvst_vault = vault, nvst_slasher = slasher,
      nvst_max_slashable_per_epoch = max_slashable_per_epoch, nvst_index = index,
      nvst_state = toggle_new slot, nvst_bump = bump\<rparr>"

section \<open>Lemmas\<close>

lemma restaking_check_iffs [res_simps]:
  "ncn_check_admin n k = Inr u \<longleftrightarrow> ncn_admin n = k"
  "ncn_check_delegate_admin n k = Inr u \<longleftrightarrow> ncn_delegate_admin n = k"
  "operator_check_admin o1 k = Inr u \<longleftrightarrow> op_admin o1 = k"
  "operator_check_delegate_admin o1 k = Inr u \<longleftrightarrow> op_delegate_admin o1 = k"
  by (simp_all add: ncn_check_admin_def ncn_check_delegate_admin_def operator_check_admin_def
      operator_check_delegate_admin_def res_simps)

text \<open>The counters of the restaking program number their registrations like those of the vault program.\<close>

interpretation config_ncn_reg: registry rc_ncn_count config_increment_ncn_count
  by unfold_locales
     (auto simp: config_increment_ncn_count_def and_then_Inr_iff ok_or_Inr_iff and_then_Inl_iff ok_or_Inl_iff
       dest: checked_add_1_cases)

interpretation config_operator_reg: registry rc_operator_count config_increment_operator_count
  by unfold_locales
     (auto simp: config_increment_operator_count_def and_then_Inr_iff ok_or_Inr_iff and_then_Inl_iff ok_or_Inl_iff
       dest: checked_add_1_cases)

interpretation ncn_operator_reg: registry ncn_operator_count ncn_increment_operator_count
  by unfold_locales
     (auto simp: ncn_increment_operator_count_def and_then_Inr_iff ok_or_Inr_iff and_then_Inl_iff ok_or_Inl_iff
       dest: checked_add_1_cases)

interpretation ncn_vault_reg: registry ncn_vault_count ncn_increment_vault_count
  by unfold_locales
     (auto simp: ncn_increment_vault_count_def and_then_Inr_iff ok_or_Inr_iff and_then_Inl_iff ok_or_Inl_iff
       dest: checked_add_1_cases)

interpretation ncn_slasher_reg: registry ncn_slasher_count ncn_increment_slasher_count
  by unfold_locales
     (auto simp: ncn_increment_slasher_count_def and_then_Inr_iff ok_or_Inr_iff and_then_Inl_iff ok_or_Inl_iff
       dest: checked_add_1_cases)

interpretation operator_ncn_reg: registry op_ncn_count operator_increment_ncn_count
  by unfold_locales
     (auto simp: operator_increment_ncn_count_def and_then_Inr_iff ok_or_Inr_iff and_then_Inl_iff ok_or_Inl_iff
       dest: checked_add_1_cases)

interpretation operator_vault_reg: registry op_vault_count operator_increment_vault_count
  by unfold_locales
     (auto simp: operator_increment_vault_count_def and_then_Inr_iff ok_or_Inr_iff and_then_Inl_iff ok_or_Inl_iff
       dest: checked_add_1_cases)

end
