(* ===== verification/Accounts.thy ===== *)
theory Accounts
  imports Vault_Tickets Restaking_Core
begin

text \<open>
  The accounts an instruction works on, and the code that loads, creates and closes them
  (\<open>core/src/lib.rs\<close>, \<open>core/src/loader.rs\<close>, \<open>vault_core/src/loader.rs\<close>, the \<open>seeds\<close>,
  \<open>find_program_address\<close> and \<open>load\<close> functions of every account type, and
  \<open>try_from_slice_unchecked\<close> of \<open>bytemuck/src/lib.rs\<close>).

  The bank maps keys to accounts, so two entries of an instruction's account list with the same
  key are the same account. An account written by one of the two programs holds the struct it
  was written as; every other account holds bytes. Neither program ever leaves an account it
  owns with a discriminator of one type and the contents of another, so reading an account as a
  type succeeds exactly when it holds that struct.

  What the programs take from outside is the record \<open>env\<close>: the clock, the rent table, address
  derivation, the unpacking of token accounts and mints, the addresses of other programs, and
  the effect of a cross-program invocation. Nothing is assumed of these functions here; the
  theorems that need a documented property of them name it as a hypothesis.
\<close>

section \<open>Accounts and environment\<close>

datatype (plugins only: size) account_data =
    Bytes "u8 list"
  | VaultConfigD vault_config
  | VaultD vault
  | VaultNcnTicketD vault_ncn_ticket
  | VaultOperatorDelegationD operator_delegation
  | VaultNcnSlasherTicketD vault_ncn_slasher_ticket
  | VaultNcnSlasherOperatorTicketD vault_ncn_slasher_operator_ticket
  | VaultStakerWithdrawalTicketD withdrawal_ticket
  | VaultUpdateStateTrackerD update_state_tracker
  | RestakingConfigD restaking_config
  | NcnD ncn
  | OperatorD operator
  | NcnOperatorStateD ncn_operator_state
  | OperatorVaultTicketD operator_vault_ticket
  | NcnVaultTicketD ncn_vault_ticket
  | NcnVaultSlasherTicketD ncn_vault_slasher_ticket

record account =
  a_lamports :: u64
  a_owner :: pubkey
  a_data :: account_data

type_synonym bank = "pubkey \<Rightarrow> account"

type_synonym seeds = "u8 list list"

text \<open>The instructions the programs invoke in other programs, with the arguments they build.\<close>

datatype (plugins only: size) cpi =
    SystemCreateAccount (from_key: pubkey) (to_key: pubkey) (cpi_lamports: u64) (cpi_space: u64) (cpi_owner: pubkey)
  | SystemTransfer pubkey pubkey u64
  | SystemAllocate pubkey u64
  | SystemAssign pubkey pubkey
  | TokenTransfer pubkey pubkey pubkey pubkey u64
  | TokenMintTo pubkey pubkey pubkey pubkey u64
  | TokenBurn pubkey pubkey pubkey pubkey u64
  | TokenCloseAccount pubkey pubkey pubkey pubkey
  | TokenInitializeMint2 pubkey pubkey pubkey u8
  | TokenApprove pubkey pubkey pubkey pubkey u64
  | TokenRevoke pubkey pubkey pubkey
  | CreateAssociatedTokenAccount pubkey pubkey pubkey pubkey
  | CreateMetadataAccountsV3 pubkey pubkey pubkey pubkey pubkey pubkey string string string
  | UpdateMetadataAccountsV2 pubkey pubkey pubkey string string string

record token_account =
  ta_mint :: pubkey
  ta_owner :: pubkey
  ta_amount :: u64

record env =
  e_slot :: u64
  e_minimum_balance :: "u64 \<Rightarrow> u64"
  e_find_program_address :: "seeds \<Rightarrow> pubkey \<Rightarrow> pubkey \<times> u8"
  e_create_program_address :: "seeds \<Rightarrow> pubkey \<Rightarrow> program_error + pubkey"
  e_get_associated_token_address :: "pubkey \<Rightarrow> pubkey \<Rightarrow> pubkey"
  e_unpack_account :: "u8 list \<Rightarrow> program_error + token_account"
  e_unpack_account_2022 :: "u8 list \<Rightarrow> program_error + token_account"
  e_unpack_account_with_extensions :: "u8 list \<Rightarrow> program_error + token_account"
  e_unpack_mint_with_extensions :: "u8 list \<Rightarrow> program_error + unit"
  e_mint_packed_len :: u64
  e_system_program :: pubkey
  e_spl_token :: pubkey
  e_spl_token_2022 :: pubkey
  e_spl_associated_token_account :: pubkey
  e_mpl_token_metadata :: pubkey
  e_invoke_signed :: "pubkey \<Rightarrow> cpi \<Rightarrow> account_info list \<Rightarrow> seeds list \<Rightarrow> bank \<Rightarrow> program_error + bank"

definition invoke :: "env \<Rightarrow> pubkey \<Rightarrow> cpi \<Rightarrow> account_info list \<Rightarrow> bank \<Rightarrow> program_error + bank" where
  "invoke e program_id ix infos b = e_invoke_signed e program_id ix infos [] b"

definition data_is_empty :: "bank \<Rightarrow> account_info \<Rightarrow> bool" where
  "data_is_empty b info = (case a_data (b (ai_key info)) of Bytes bs \<Rightarrow> bs = [] | _ \<Rightarrow> False)"

text \<open>The bytes of an account of another program. The structs of the two programs are never read so.\<close>

definition raw_data :: "bank \<Rightarrow> account_info \<Rightarrow> u8 list" where
  "raw_data b info = (case a_data (b (ai_key info)) of Bytes bs \<Rightarrow> bs | _ \<Rightarrow> [])"

abbreviation owner_of :: "bank \<Rightarrow> account_info \<Rightarrow> pubkey" where
  "owner_of b info \<equiv> a_owner (b (ai_key info))"

definition set_data :: "bank \<Rightarrow> pubkey \<Rightarrow> account_data \<Rightarrow> bank" where
  "set_data b k d = b(k := (b k)\<lparr>a_data := d\<rparr>)"

section \<open>The core library\<close>

subsection \<open>Loaders\<close>

definition load_system_program :: "env \<Rightarrow> account_info \<Rightarrow> program_error + unit" where
  "load_system_program e info = err_if (ai_key info \<noteq> e_system_program e) IncorrectProgramId"

definition load_associated_token_account_program :: "env \<Rightarrow> account_info \<Rightarrow> program_error + unit" where
  "load_associated_token_account_program e info =
     err_if (ai_key info \<noteq> e_spl_associated_token_account e) IncorrectProgramId"

definition load_token_program :: "env \<Rightarrow> account_info \<Rightarrow> program_error + unit" where
  "load_token_program e info = err_if (ai_key info \<noteq> e_spl_token e) IncorrectProgramId"

definition load_token_2022_program :: "env \<Rightarrow> account_info \<Rightarrow> program_error + unit" where
  "load_token_2022_program e info = err_if (ai_key info \<noteq> e_spl_token_2022 e) IncorrectProgramId"

definition load_system_account :: "env \<Rightarrow> bank \<Rightarrow> account_info \<Rightarrow> bool \<Rightarrow> program_error + unit" where
  "load_system_account e b info is_writable =
     and_then (err_if (owner_of b info \<noteq> e_system_program e) InvalidAccountOwner) (\<lambda>_.
     and_then (err_if (\<not> data_is_empty b info) AccountAlreadyInitialized) (\<lambda>_.
     err_if (is_writable \<and> \<not> ai_is_writable info) InvalidAccountData))"

definition load_associated_token_account ::
    "env \<Rightarrow> bank \<Rightarrow> account_info \<Rightarrow> pubkey \<Rightarrow> pubkey \<Rightarrow> program_error + unit" where
  "load_associated_token_account e b token_account owner mint =
     and_then (err_if (owner_of b token_account \<noteq> e_spl_token e) InvalidAccountOwner) (\<lambda>_.
     and_then (err_if (data_is_empty b token_account) InvalidAccountData) (\<lambda>_.
     err_if (ai_key token_account \<noteq> e_get_associated_token_address e owner mint) InvalidAccountData))"

definition load_token_account ::
    "env \<Rightarrow> bank \<Rightarrow> account_info \<Rightarrow> pubkey \<Rightarrow> pubkey \<Rightarrow> account_info \<Rightarrow> program_error + unit" where
  "load_token_account e b token_account owner mint token_program =
     and_then (err_if (ai_key token_program \<noteq> e_spl_token e) IncorrectProgramId) (\<lambda>_.
     and_then (err_if (owner_of b token_account \<noteq> e_spl_token e) InvalidAccountOwner) (\<lambda>_.
     and_then (err_if (data_is_empty b token_account) InvalidAccountData) (\<lambda>_.
     and_then (e_unpack_account_with_extensions e (raw_data b token_account)) (\<lambda>ta.
     and_then (err_if (ta_owner ta \<noteq> owner) InvalidAccountData) (\<lambda>_.
     err_if (ta_mint ta \<noteq> mint) InvalidAccountData)))))"

definition load_token_mint :: "env \<Rightarrow> bank \<Rightarrow> account_info \<Rightarrow> program_error + unit" where
  "load_token_mint e b info =
     and_then (err_if (owner_of b info \<noteq> e_spl_token e) InvalidAccountOwner) (\<lambda>_.
     and_then (err_if (data_is_empty b info) InvalidAccountData) (\<lambda>_.
     and_then (e_unpack_mint_with_extensions e (raw_data b info)) (\<lambda>_.
     Inr ())))"

subsection \<open>Creating and closing accounts\<close>

definition create_account ::
    "env \<Rightarrow> pubkey \<Rightarrow> bank \<Rightarrow> account_info \<Rightarrow> account_info \<Rightarrow> account_info \<Rightarrow> pubkey \<Rightarrow> u64 \<Rightarrow> seeds
     \<Rightarrow> program_error + bank" where
  "create_account e program_id b payer new_account system_program program_owner space seeds =
     (let current_lamports = a_lamports (b (ai_key new_account)) in
      if current_lamports = 0 then
        e_invoke_signed e program_id
          (SystemCreateAccount (ai_key payer) (ai_key new_account) (e_minimum_balance e space) space program_owner)
          [payer, new_account, system_program] [seeds] b
      else
        let required_lamports = saturating_sub (max (e_minimum_balance e space) 1) current_lamports in
        and_then (if 0 < required_lamports
                  then invoke e program_id (SystemTransfer (ai_key payer) (ai_key new_account) required_lamports)
                         [payer, new_account, system_program] b
                  else Inr b) (\<lambda>b.
        and_then (e_invoke_signed e program_id (SystemAllocate (ai_key new_account) space)
                    [new_account, system_program] [seeds] b) (\<lambda>b.
        e_invoke_signed e program_id (SystemAssign (ai_key new_account) program_owner)
          [new_account, system_program] [seeds] b)))"

definition close_program_account ::
    "env \<Rightarrow> bank \<Rightarrow> pubkey \<Rightarrow> account_info \<Rightarrow> account_info \<Rightarrow> program_error + bank" where
  "close_program_account e b program_id account_to_close destination_account =
     and_then (err_if (owner_of b account_to_close \<noteq> program_id) IllegalOwner) (\<lambda>_.
     and_then (ok_or (checked_add (a_lamports (b (ai_key destination_account)))
                        (a_lamports (b (ai_key account_to_close)))) ProgramArithmeticOverflow) (\<lambda>lamports.
     let b = b(ai_key destination_account := (b (ai_key destination_account))\<lparr>a_lamports := lamports\<rparr>);
         k = ai_key account_to_close in
     Inr (b(k := (b k)\<lparr>a_lamports := 0, a_owner := e_system_program e, a_data := Bytes []\<rparr>))))"

text \<open>
  The first use of a freshly created account: the discriminator byte is written, the data is
  viewed as the struct (which needs the exact size after the eight bytes of the header) and the
  struct is assigned. Writing the first byte of empty data, and slicing off the header of fewer
  than eight bytes, panic.
\<close>

definition check_new_account :: "bank \<Rightarrow> account_info \<Rightarrow> nat \<Rightarrow> program_error + unit" where
  "check_new_account b info sz =
     (case a_data (b (ai_key info)) of
        Bytes bs \<Rightarrow>
          if length bs < 8 then Inl Panic
          else if length bs \<noteq> 8 + sz then Inl InvalidAccountData
          else Inr ()
      | _ \<Rightarrow> Inl InvalidAccountData)"

definition init_account :: "bank \<Rightarrow> account_info \<Rightarrow> nat \<Rightarrow> account_data \<Rightarrow> program_error + bank" where
  "init_account b info sz d =
     and_then (check_new_account b info sz) (\<lambda>_.
     Inr (set_data b (ai_key info) d))"

text \<open>\<open>let [a, b, ...] = accounts else \<dots>\<close>: the account list has exactly the expected length.\<close>

definition accounts2 :: "'a list \<Rightarrow> program_error + 'a \<times> 'a" where
  "accounts2 xs = (case xs of [a, b] \<Rightarrow> Inr (a, b) | _ \<Rightarrow> Inl NotEnoughAccountKeys)"

definition accounts3 :: "'a list \<Rightarrow> program_error + 'a \<times> 'a \<times> 'a" where
  "accounts3 xs = (case xs of [a, b, c] \<Rightarrow> Inr (a, b, c) | _ \<Rightarrow> Inl NotEnoughAccountKeys)"

definition accounts4 :: "'a list \<Rightarrow> program_error + 'a \<times> 'a \<times> 'a \<times> 'a" where
  "accounts4 xs = (case xs of [a, b, c, d] \<Rightarrow> Inr (a, b, c, d) | _ \<Rightarrow> Inl NotEnoughAccountKeys)"

definition accounts5 :: "'a list \<Rightarrow> program_error + 'a \<times> 'a \<times> 'a \<times> 'a \<times> 'a" where
  "accounts5 xs = (case xs of [a, b, c, d, e] \<Rightarrow> Inr (a, b, c, d, e) | _ \<Rightarrow> Inl NotEnoughAccountKeys)"

definition accounts6 :: "'a list \<Rightarrow> program_error + 'a \<times> 'a \<times> 'a \<times> 'a \<times> 'a \<times> 'a" where
  "accounts6 xs = (case xs of [a, b, c, d, e, f] \<Rightarrow> Inr (a, b, c, d, e, f) | _ \<Rightarrow> Inl NotEnoughAccountKeys)"

definition accounts7 :: "'a list \<Rightarrow> program_error + 'a \<times> 'a \<times> 'a \<times> 'a \<times> 'a \<times> 'a \<times> 'a" where
  "accounts7 xs = (case xs of [a, b, c, d, e, f, g] \<Rightarrow> Inr (a, b, c, d, e, f, g) | _ \<Rightarrow> Inl NotEnoughAccountKeys)"

definition accounts8 :: "'a list \<Rightarrow> program_error + 'a \<times> 'a \<times> 'a \<times> 'a \<times> 'a \<times> 'a \<times> 'a \<times> 'a" where
  "accounts8 xs = (case xs of [a, b, c, d, e, f, g, h] \<Rightarrow> Inr (a, b, c, d, e, f, g, h)
     | _ \<Rightarrow> Inl NotEnoughAccountKeys)"

definition accounts9 :: "'a list \<Rightarrow> program_error + 'a \<times> 'a \<times> 'a \<times> 'a \<times> 'a \<times> 'a \<times> 'a \<times> 'a \<times> 'a" where
  "accounts9 xs = (case xs of [a, b, c, d, e, f, g, h, i] \<Rightarrow> Inr (a, b, c, d, e, f, g, h, i)
     | _ \<Rightarrow> Inl NotEnoughAccountKeys)"

definition accounts12 :: "'a list \<Rightarrow>
    program_error + 'a \<times> 'a \<times> 'a \<times> 'a \<times> 'a \<times> 'a \<times> 'a \<times> 'a \<times> 'a \<times> 'a \<times> 'a \<times> 'a" where
  "accounts12 xs = (case xs of [a, b, c, d, e, f, g, h, i, j, k, l] \<Rightarrow> Inr (a, b, c, d, e, f, g, h, i, j, k, l)
     | _ \<Rightarrow> Inl NotEnoughAccountKeys)"

definition accounts13 :: "'a list \<Rightarrow>
    program_error + 'a \<times> 'a \<times> 'a \<times> 'a \<times> 'a \<times> 'a \<times> 'a \<times> 'a \<times> 'a \<times> 'a \<times> 'a \<times> 'a \<times> 'a" where
  "accounts13 xs = (case xs of [a, b, c, d, e, f, g, h, i, j, k, l, m] \<Rightarrow>
       Inr (a, b, c, d, e, f, g, h, i, j, k, l, m)
     | _ \<Rightarrow> Inl NotEnoughAccountKeys)"

text \<open>\<open>accounts.split_at(n)\<close> panics on a shorter list.\<close>

definition split_at :: "nat \<Rightarrow> 'a list \<Rightarrow> program_error + 'a list \<times> 'a list" where
  "split_at n xs = (if length xs < n then Inl Panic else Inr (take n xs, drop n xs))"

definition first :: "'a list \<Rightarrow> 'a option" where
  "first xs = (case xs of [] \<Rightarrow> None | x # _ \<Rightarrow> Some x)"

section \<open>Discriminators and deserialisation\<close>

text \<open>The \<open>DISCRIMINATOR\<close> of each account type of the two programs.\<close>

definition vault_discriminator :: "account_data \<Rightarrow> u8 option" where
  "vault_discriminator d =
     (case d of
        VaultConfigD _ \<Rightarrow> Some 1
      | VaultD _ \<Rightarrow> Some 2
      | VaultNcnTicketD _ \<Rightarrow> Some 3
      | VaultOperatorDelegationD _ \<Rightarrow> Some 4
      | VaultNcnSlasherTicketD _ \<Rightarrow> Some 5
      | VaultNcnSlasherOperatorTicketD _ \<Rightarrow> Some 6
      | VaultStakerWithdrawalTicketD _ \<Rightarrow> Some 7
      | VaultUpdateStateTrackerD _ \<Rightarrow> Some 8
      | _ \<Rightarrow> None)"

definition restaking_discriminator :: "account_data \<Rightarrow> u8 option" where
  "restaking_discriminator d =
     (case d of
        RestakingConfigD _ \<Rightarrow> Some 1
      | NcnD _ \<Rightarrow> Some 2
      | OperatorD _ \<Rightarrow> Some 3
      | NcnOperatorStateD _ \<Rightarrow> Some 4
      | OperatorVaultTicketD _ \<Rightarrow> Some 5
      | NcnVaultTicketD _ \<Rightarrow> Some 6
      | NcnVaultSlasherTicketD _ \<Rightarrow> Some 7
      | _ \<Rightarrow> None)"

text \<open>The first byte of the data: the discriminator of the struct the account was written as.\<close>

definition discriminator :: "account_data \<Rightarrow> u8 option" where
  "discriminator d =
     (case d of
        Bytes bs \<Rightarrow> first bs
      | _ \<Rightarrow> (case vault_discriminator d of None \<Rightarrow> restaking_discriminator d | Some x \<Rightarrow> Some x))"

text \<open>
  \<open>try_from_slice_unchecked\<close> of a type with discriminator \<open>disc\<close>, whose structs are recognised
  by \<open>prj\<close>: the wrong first byte is refused (reporting it panics when there is none), and so is
  data of another type; data too short for the eight bytes before the struct panics.
\<close>

definition try_from_slice_unchecked :: "u8 \<Rightarrow> (account_data \<Rightarrow> 'a option) \<Rightarrow> account_data \<Rightarrow> program_error + 'a" where
  "try_from_slice_unchecked disc prj d =
     (case discriminator d of
        None \<Rightarrow> Inl Panic
      | Some x \<Rightarrow>
          if x \<noteq> disc then Inl InvalidAccountData
          else
            (case d of
               Bytes bs \<Rightarrow> Inl (if length bs < 8 then Panic else InvalidAccountData)
             | _ \<Rightarrow> ok_or (prj d) InvalidAccountData))"

definition get_vault_config :: "bank \<Rightarrow> account_info \<Rightarrow> program_error + vault_config" where
  "get_vault_config b info =
     try_from_slice_unchecked 1 (\<lambda>d. case d of VaultConfigD x \<Rightarrow> Some x | _ \<Rightarrow> None) (a_data (b (ai_key info)))"

definition get_vault :: "bank \<Rightarrow> account_info \<Rightarrow> program_error + vault" where
  "get_vault b info =
     try_from_slice_unchecked 2 (\<lambda>d. case d of VaultD x \<Rightarrow> Some x | _ \<Rightarrow> None) (a_data (b (ai_key info)))"

definition get_vault_ncn_ticket :: "bank \<Rightarrow> account_info \<Rightarrow> program_error + vault_ncn_ticket" where
  "get_vault_ncn_ticket b info =
     try_from_slice_unchecked 3 (\<lambda>d. case d of VaultNcnTicketD x \<Rightarrow> Some x | _ \<Rightarrow> None) (a_data (b (ai_key info)))"

definition get_vault_operator_delegation :: "bank \<Rightarrow> account_info \<Rightarrow> program_error + operator_delegation" where
  "get_vault_operator_delegation b info =
     try_from_slice_unchecked 4 (\<lambda>d. case d of VaultOperatorDelegationD x \<Rightarrow> Some x | _ \<Rightarrow> None) (a_data (b (ai_key info)))"

definition get_vault_ncn_slasher_ticket :: "bank \<Rightarrow> account_info \<Rightarrow> program_error + vault_ncn_slasher_ticket" where
  "get_vault_ncn_slasher_ticket b info =
     try_from_slice_unchecked 5 (\<lambda>d. case d of VaultNcnSlasherTicketD x \<Rightarrow> Some x | _ \<Rightarrow> None) (a_data (b (ai_key info)))"

definition get_vault_ncn_slasher_operator_ticket :: "bank \<Rightarrow> account_info \<Rightarrow> program_error + vault_ncn_slasher_operator_ticket" where
  "get_vault_ncn_slasher_operator_ticket b info =
     try_from_slice_unchecked 6 (\<lambda>d. case d of VaultNcnSlasherOperatorTicketD x \<Rightarrow> Some x | _ \<Rightarrow> None) (a_data (b (ai_key info)))"

definition get_vault_staker_withdrawal_ticket :: "bank \<Rightarrow> account_info \<Rightarrow> program_error + withdrawal_ticket" where
  "get_vault_staker_withdrawal_ticket b info =
     try_from_slice_unchecked 7 (\<lambda>d. case d of VaultStakerWithdrawalTicketD x \<Rightarrow> Some x | _ \<Rightarrow> None) (a_data (b (ai_key info)))"

definition get_vault_update_state_tracker :: "bank \<Rightarrow> account_info \<Rightarrow> program_error + update_state_tracker" where
  "get_vault_update_state_tracker b info =
     try_from_slice_unchecked 8 (\<lambda>d. case d of VaultUpdateStateTrackerD x \<Rightarrow> Some x | _ \<Rightarrow> None) (a_data (b (ai_key info)))"

definition get_restaking_config :: "bank \<Rightarrow> account_info \<Rightarrow> program_error + restaking_config" where
  "get_restaking_config b info =
     try_from_slice_unchecked 1 (\<lambda>d. case d of RestakingConfigD x \<Rightarrow> Some x | _ \<Rightarrow> None) (a_data (b (ai_key info)))"

definition get_ncn :: "bank \<Rightarrow> account_info \<Rightarrow> program_error + ncn" where
  "get_ncn b info =
     try_from_slice_unchecked 2 (\<lambda>d. case d of NcnD x \<Rightarrow> Some x | _ \<Rightarrow> None) (a_data (b (ai_key info)))"

definition get_operator :: "bank \<Rightarrow> account_info \<Rightarrow> program_error + operator" where
  "get_operator b info =
     try_from_slice_unchecked 3 (\<lambda>d. case d of OperatorD x \<Rightarrow> Some x | _ \<Rightarrow> None) (a_data (b (ai_key info)))"

definition get_ncn_operator_state :: "bank \<Rightarrow> account_info \<Rightarrow> program_error + ncn_operator_state" where
  "get_ncn_operator_state b info =
     try_from_slice_unchecked 4 (\<lambda>d. case d of NcnOperatorStateD x \<Rightarrow> Some x | _ \<Rightarrow> None) (a_data (b (ai_key info)))"

definition get_operator_vault_ticket :: "bank \<Rightarrow> account_info \<Rightarrow> program_error + operator_vault_ticket" where
  "get_operator_vault_ticket b info =
     try_from_slice_unchecked 5 (\<lambda>d. case d of OperatorVaultTicketD x \<Rightarrow> Some x | _ \<Rightarrow> None) (a_data (b (ai_key info)))"

definition get_ncn_vault_ticket :: "bank \<Rightarrow> account_info \<Rightarrow> program_error + ncn_vault_ticket" where
  "get_ncn_vault_ticket b info =
     try_from_slice_unchecked 6 (\<lambda>d. case d of NcnVaultTicketD x \<Rightarrow> Some x | _ \<Rightarrow> None) (a_data (b (ai_key info)))"

definition get_ncn_vault_slasher_ticket :: "bank \<Rightarrow> account_info \<Rightarrow> program_error + ncn_vault_slasher_ticket" where
  "get_ncn_vault_slasher_ticket b info =
     try_from_slice_unchecked 7 (\<lambda>d. case d of NcnVaultSlasherTicketD x \<Rightarrow> Some x | _ \<Rightarrow> None) (a_data (b (ai_key info)))"

section \<open>Lemmas\<close>

lemma accounts_iffs [res_simps]:
  "accounts2 xs = Inr (a, b) \<longleftrightarrow> xs = [a, b]"
  "accounts3 xs = Inr (a, b, c) \<longleftrightarrow> xs = [a, b, c]"
  "accounts4 xs = Inr (a, b, c, d) \<longleftrightarrow> xs = [a, b, c, d]"
  "accounts5 xs = Inr (a, b, c, d, e) \<longleftrightarrow> xs = [a, b, c, d, e]"
  "accounts6 xs = Inr (a, b, c, d, e, f) \<longleftrightarrow> xs = [a, b, c, d, e, f]"
  "accounts7 xs = Inr (a, b, c, d, e, f, g) \<longleftrightarrow> xs = [a, b, c, d, e, f, g]"
  "accounts8 xs = Inr (a, b, c, d, e, f, g, h) \<longleftrightarrow> xs = [a, b, c, d, e, f, g, h]"
  "accounts9 xs = Inr (a, b, c, d, e, f, g, h, i) \<longleftrightarrow> xs = [a, b, c, d, e, f, g, h, i]"
  "accounts12 xs = Inr (a, b, c, d, e, f, g, h, i, j, k, l) \<longleftrightarrow> xs = [a, b, c, d, e, f, g, h, i, j, k, l]"
  "accounts13 xs = Inr (a, b, c, d, e, f, g, h, i, j, k, l, m) \<longleftrightarrow> xs = [a, b, c, d, e, f, g, h, i, j, k, l, m]"
  by (auto simp: accounts2_def accounts3_def accounts4_def accounts5_def accounts6_def accounts7_def
      accounts8_def accounts9_def accounts12_def accounts13_def split: list.splits)

lemma split_at_iff [res_simps]: "split_at n xs = Inr (ys, zs) \<longleftrightarrow> n \<le> length xs \<and> ys = take n xs \<and> zs = drop n xs"
  by (auto simp: split_at_def)

lemma discriminator_simps [simp]:
  "discriminator (Bytes bs) = first bs"
  "discriminator (VaultConfigD x_VaultConfigD) = Some 1"
  "discriminator (VaultD x_VaultD) = Some 2"
  "discriminator (VaultNcnTicketD x_VaultNcnTicketD) = Some 3"
  "discriminator (VaultOperatorDelegationD x_VaultOperatorDelegationD) = Some 4"
  "discriminator (VaultNcnSlasherTicketD x_VaultNcnSlasherTicketD) = Some 5"
  "discriminator (VaultNcnSlasherOperatorTicketD x_VaultNcnSlasherOperatorTicketD) = Some 6"
  "discriminator (VaultStakerWithdrawalTicketD x_VaultStakerWithdrawalTicketD) = Some 7"
  "discriminator (VaultUpdateStateTrackerD x_VaultUpdateStateTrackerD) = Some 8"
  "discriminator (RestakingConfigD x_RestakingConfigD) = Some 1"
  "discriminator (NcnD x_NcnD) = Some 2"
  "discriminator (OperatorD x_OperatorD) = Some 3"
  "discriminator (NcnOperatorStateD x_NcnOperatorStateD) = Some 4"
  "discriminator (OperatorVaultTicketD x_OperatorVaultTicketD) = Some 5"
  "discriminator (NcnVaultTicketD x_NcnVaultTicketD) = Some 6"
  "discriminator (NcnVaultSlasherTicketD x_NcnVaultSlasherTicketD) = Some 7"
  by (simp_all add: discriminator_def vault_discriminator_def restaking_discriminator_def)

lemma get_iffs [res_simps]:
  "get_vault_config b info = Inr y_vault_config \<longleftrightarrow> a_data (b (ai_key info)) = VaultConfigD y_vault_config"
  "get_vault b info = Inr y_vault \<longleftrightarrow> a_data (b (ai_key info)) = VaultD y_vault"
  "get_vault_ncn_ticket b info = Inr y_vault_ncn_ticket \<longleftrightarrow> a_data (b (ai_key info)) = VaultNcnTicketD y_vault_ncn_ticket"
  "get_vault_operator_delegation b info = Inr y_vault_operator_delegation \<longleftrightarrow> a_data (b (ai_key info)) = VaultOperatorDelegationD y_vault_operator_delegation"
  "get_vault_ncn_slasher_ticket b info = Inr y_vault_ncn_slasher_ticket \<longleftrightarrow> a_data (b (ai_key info)) = VaultNcnSlasherTicketD y_vault_ncn_slasher_ticket"
  "get_vault_ncn_slasher_operator_ticket b info = Inr y_vault_ncn_slasher_operator_ticket \<longleftrightarrow> a_data (b (ai_key info)) = VaultNcnSlasherOperatorTicketD y_vault_ncn_slasher_operator_ticket"
  "get_vault_staker_withdrawal_ticket b info = Inr y_vault_staker_withdrawal_ticket \<longleftrightarrow> a_data (b (ai_key info)) = VaultStakerWithdrawalTicketD y_vault_staker_withdrawal_ticket"
  "get_vault_update_state_tracker b info = Inr y_vault_update_state_tracker \<longleftrightarrow> a_data (b (ai_key info)) = VaultUpdateStateTrackerD y_vault_update_state_tracker"
  "get_restaking_config b info = Inr y_restaking_config \<longleftrightarrow> a_data (b (ai_key info)) = RestakingConfigD y_restaking_config"
  "get_ncn b info = Inr y_ncn \<longleftrightarrow> a_data (b (ai_key info)) = NcnD y_ncn"
  "get_operator b info = Inr y_operator \<longleftrightarrow> a_data (b (ai_key info)) = OperatorD y_operator"
  "get_ncn_operator_state b info = Inr y_ncn_operator_state \<longleftrightarrow> a_data (b (ai_key info)) = NcnOperatorStateD y_ncn_operator_state"
  "get_operator_vault_ticket b info = Inr y_operator_vault_ticket \<longleftrightarrow> a_data (b (ai_key info)) = OperatorVaultTicketD y_operator_vault_ticket"
  "get_ncn_vault_ticket b info = Inr y_ncn_vault_ticket \<longleftrightarrow> a_data (b (ai_key info)) = NcnVaultTicketD y_ncn_vault_ticket"
  "get_ncn_vault_slasher_ticket b info = Inr y_ncn_vault_slasher_ticket \<longleftrightarrow> a_data (b (ai_key info)) = NcnVaultSlasherTicketD y_ncn_vault_slasher_ticket"
  by (auto simp: get_vault_config_def get_vault_def get_vault_ncn_ticket_def get_vault_operator_delegation_def get_vault_ncn_slasher_ticket_def get_vault_ncn_slasher_operator_ticket_def get_vault_staker_withdrawal_ticket_def get_vault_update_state_tracker_def get_restaking_config_def get_ncn_def get_operator_def get_ncn_operator_state_def get_operator_vault_ticket_def get_ncn_vault_ticket_def get_ncn_vault_slasher_ticket_def
      try_from_slice_unchecked_def ok_or_def split: option.splits account_data.splits)

subsection \<open>What an invocation leaves alone\<close>

text \<open>
  Only the owner of an account may change its data or give it away. The programs the handlers
  invoke never call back, so an invocation leaves the caller's own accounts as they are.
\<close>

definition keeps_owned :: "pubkey \<Rightarrow> bank \<Rightarrow> bank \<Rightarrow> bool" where
  "keeps_owned p b b' \<longleftrightarrow> (\<forall>k. a_owner (b k) = p \<longrightarrow> a_owner (b' k) = p \<and> a_data (b' k) = a_data (b k))"

definition cpi_keeps_owned :: "env \<Rightarrow> pubkey \<Rightarrow> bool" where
  "cpi_keeps_owned e p \<longleftrightarrow>
     (\<forall>ix infos seeds b b'. e_invoke_signed e p ix infos seeds b = Inr b' \<longrightarrow> keeps_owned p b b')"

lemma keeps_owned_refl [simp]: "keeps_owned p b b"
  by (simp add: keeps_owned_def)

lemma keeps_owned_trans: "keeps_owned p b1 b2 \<Longrightarrow> keeps_owned p b2 b3 \<Longrightarrow> keeps_owned p b1 b3"
  by (simp add: keeps_owned_def)

lemma keeps_ownedD:
  assumes "keeps_owned p b b'" and "a_owner (b k) = p"
  shows "a_owner (b' k) = p" "a_data (b' k) = a_data (b k)"
  using assms by (simp_all add: keeps_owned_def)

lemma invoke_signed_keeps: "cpi_keeps_owned e p \<Longrightarrow> e_invoke_signed e p ix infos seeds b = Inr b' \<Longrightarrow> keeps_owned p b b'"
  by (auto simp: cpi_keeps_owned_def)

lemma invoke_keeps: "cpi_keeps_owned e p \<Longrightarrow> invoke e p ix infos b = Inr b' \<Longrightarrow> keeps_owned p b b'"
  by (simp add: invoke_def invoke_signed_keeps)

lemma create_account_keeps:
  assumes "cpi_keeps_owned e p" and "create_account e p b payer new sys program_owner space seeds = Inr b'"
  shows "keeps_owned p b b'"
  using assms(2)
  by (auto simp: create_account_def Let_def and_then_Inr_iff keeps_owned_def split: if_splits
      dest!: invoke_signed_keeps [OF assms(1), unfolded keeps_owned_def]
        invoke_keeps [OF assms(1), unfolded keeps_owned_def])

lemmas cpi_keeps = invoke_signed_keeps invoke_keeps create_account_keeps

lemma set_data_simps [simp]:
  "a_data (set_data b k d l) = (if l = k then d else a_data (b l))"
  "a_owner (set_data b k d l) = a_owner (b l)"
  "a_lamports (set_data b k d l) = a_lamports (b l)"
  by (simp_all add: set_data_def)

lemma check_new_account_iff [res_simps]:
  "check_new_account b info n = Inr u \<longleftrightarrow> (\<exists>bs. a_data (b (ai_key info)) = Bytes bs \<and> length bs = 8 + n)"
  by (auto simp: check_new_account_def split: account_data.splits)

lemma init_account_iff [res_simps]:
  "init_account b info n d = Inr b' \<longleftrightarrow>
     (\<exists>bs. a_data (b (ai_key info)) = Bytes bs \<and> length bs = 8 + n) \<and> b' = set_data b (ai_key info) d"
  by (auto simp: init_account_def and_then_Inr_iff check_new_account_iff)

lemma close_program_accountD:
  assumes "close_program_account e b p a d = Inr b'"
  shows "owner_of b a = p"
    and "a_data (b' k) = (if k = ai_key a then Bytes [] else a_data (b k))"
    and "a_owner (b' k) = (if k = ai_key a then e_system_program e else a_owner (b k))"
  using assms by (auto simp: close_program_account_def Let_def and_then_Inr_iff ok_or_Inr_iff err_if_Inr_iff)

section \<open>Sizes of the accounts\<close>

text \<open>\<open>size_of\<close> of the structs: the sum of the fields, all of them of alignment one.\<close>

definition size_of_vault_config :: u64 where
  "size_of_vault_config = 382"

definition size_of_vault :: u64 where
  "size_of_vault = 1103"

definition size_of_vault_ncn_ticket :: u64 where
  "size_of_vault_ncn_ticket = 384"

definition size_of_vault_operator_delegation :: u64 where
  "size_of_vault_operator_delegation = 624"

definition size_of_vault_ncn_slasher_ticket :: u64 where
  "size_of_vault_ncn_slasher_ticket = 424"

definition size_of_vault_ncn_slasher_operator_ticket :: u64 where
  "size_of_vault_ncn_slasher_operator_ticket = 408"

definition size_of_vault_staker_withdrawal_ticket :: u64 where
  "size_of_vault_staker_withdrawal_ticket = 376"

definition size_of_vault_update_state_tracker :: u64 where
  "size_of_vault_update_state_tracker = 592"

definition size_of_restaking_config :: u64 where
  "size_of_restaking_config = 352"

definition size_of_ncn :: u64 where
  "size_of_ncn = 584"

definition size_of_operator :: u64 where
  "size_of_operator = 512"

definition size_of_ncn_operator_state :: u64 where
  "size_of_ncn_operator_state = 432"

definition size_of_ncn_vault_slasher_ticket :: u64 where
  "size_of_ncn_vault_slasher_ticket = 424"

definition size_of_ncn_vault_ticket :: u64 where
  "size_of_ncn_vault_ticket = 384"

definition size_of_operator_vault_ticket :: u64 where
  "size_of_operator_vault_ticket = 384"

end
