(* ===== verification/Account_Loads.thy ===== *)
theory Account_Loads
  imports Accounts
begin

text \<open>
  Program-derived addresses and the \<open>load\<close> functions: for every account type the seeds of its
  address, \<open>find_program_address\<close>, and the checks that an account passed to an instruction is
  that account (owner, data, writability, discriminator and address). The seeds of different
  account types, and of one type with different keys, never concatenate to the same bytes
  (\<open>pda_seeds_separate\<close>), which is what address derivation hashes.
\<close>

section \<open>Seeds\<close>

definition bytes_of :: "string \<Rightarrow> u8 list" where
  "bytes_of s = map of_char s"

definition to_le_bytes :: "nat \<Rightarrow> 'a::len word \<Rightarrow> u8 list" where
  "to_le_bytes n w = map (\<lambda>i. ucast (drop_bit (8 * i) w)) [0..<n]"

abbreviation to_bytes :: "pubkey \<Rightarrow> u8 list" where
  "to_bytes \<equiv> to_le_bytes 32"

abbreviation u64_to_le_bytes :: "u64 \<Rightarrow> u8 list" where
  "u64_to_le_bytes \<equiv> to_le_bytes 8"

definition with_seeds :: "env \<Rightarrow> pubkey \<Rightarrow> seeds \<Rightarrow> pubkey \<times> u8 \<times> seeds" where
  "with_seeds e program_id seeds = (let (pda, bump) = e_find_program_address e seeds program_id in (pda, bump, seeds))"

definition vault_config_seeds :: "seeds" where
  "vault_config_seeds = [bytes_of ''config'']"

definition vault_seeds :: "pubkey \<Rightarrow> seeds" where
  "vault_seeds base = [bytes_of ''vault'', to_bytes base]"

definition burn_vault_seeds :: "pubkey \<Rightarrow> seeds" where
  "burn_vault_seeds base = [bytes_of ''burn_vault'', to_bytes base]"

definition vault_ncn_ticket_seeds :: "pubkey \<Rightarrow> pubkey \<Rightarrow> seeds" where
  "vault_ncn_ticket_seeds vault ncn = [bytes_of ''vault_ncn_ticket'', to_bytes vault, to_bytes ncn]"

definition vault_operator_delegation_seeds :: "pubkey \<Rightarrow> pubkey \<Rightarrow> seeds" where
  "vault_operator_delegation_seeds vault operator = [bytes_of ''vault_operator_delegation'', to_bytes vault, to_bytes operator]"

definition vault_ncn_slasher_ticket_seeds :: "pubkey \<Rightarrow> pubkey \<Rightarrow> pubkey \<Rightarrow> seeds" where
  "vault_ncn_slasher_ticket_seeds vault ncn slasher = [bytes_of ''vault_slasher_ticket'', to_bytes vault, to_bytes ncn, to_bytes slasher]"

definition vault_ncn_slasher_operator_ticket_seeds :: "pubkey \<Rightarrow> pubkey \<Rightarrow> pubkey \<Rightarrow> pubkey \<Rightarrow> u64 \<Rightarrow> seeds" where
  "vault_ncn_slasher_operator_ticket_seeds vault ncn slasher operator epoch = [bytes_of ''vault_ncn_slasher_operator'', to_bytes vault, to_bytes ncn, to_bytes slasher, to_bytes operator, u64_to_le_bytes epoch]"

definition vault_staker_withdrawal_ticket_seeds :: "pubkey \<Rightarrow> pubkey \<Rightarrow> seeds" where
  "vault_staker_withdrawal_ticket_seeds vault base = [bytes_of ''vault_staker_withdrawal_ticket'', to_bytes vault, to_bytes base]"

definition vault_update_state_tracker_seeds :: "pubkey \<Rightarrow> u64 \<Rightarrow> seeds" where
  "vault_update_state_tracker_seeds vault ncn_epoch = [bytes_of ''vault_update_state_tracker'', to_bytes vault, u64_to_le_bytes ncn_epoch]"

definition restaking_config_seeds :: "seeds" where
  "restaking_config_seeds = [bytes_of ''config'']"

definition ncn_seeds :: "pubkey \<Rightarrow> seeds" where
  "ncn_seeds base = [bytes_of ''ncn'', to_bytes base]"

definition operator_seeds :: "pubkey \<Rightarrow> seeds" where
  "operator_seeds base = [bytes_of ''operator'', to_bytes base]"

definition ncn_operator_state_seeds :: "pubkey \<Rightarrow> pubkey \<Rightarrow> seeds" where
  "ncn_operator_state_seeds ncn operator = [bytes_of ''ncn_operator_state'', to_bytes ncn, to_bytes operator]"

definition ncn_vault_ticket_seeds :: "pubkey \<Rightarrow> pubkey \<Rightarrow> seeds" where
  "ncn_vault_ticket_seeds ncn vault = [bytes_of ''ncn_vault_ticket'', to_bytes ncn, to_bytes vault]"

definition operator_vault_ticket_seeds :: "pubkey \<Rightarrow> pubkey \<Rightarrow> seeds" where
  "operator_vault_ticket_seeds operator vault = [bytes_of ''operator_vault_ticket'', to_bytes operator, to_bytes vault]"

definition ncn_vault_slasher_ticket_seeds :: "pubkey \<Rightarrow> pubkey \<Rightarrow> pubkey \<Rightarrow> seeds" where
  "ncn_vault_slasher_ticket_seeds ncn vault slasher = [bytes_of ''ncn_slasher_ticket'', to_bytes ncn, to_bytes vault, to_bytes slasher]"

definition vault_signing_seeds :: "vault \<Rightarrow> seeds" where
  "vault_signing_seeds v = vault_seeds (v_base v) @ [[v_bump v]]"

definition vault_staker_withdrawal_ticket_signing_seeds :: "withdrawal_ticket \<Rightarrow> pubkey \<Rightarrow> seeds" where
  "vault_staker_withdrawal_ticket_signing_seeds t vault =
     vault_staker_withdrawal_ticket_seeds vault (wt_base t) @ [[wt_bump t]]"

section \<open>Program addresses\<close>

definition vault_config_find_program_address :: "env \<Rightarrow> pubkey \<Rightarrow> pubkey \<times> u8 \<times> seeds" where
  "vault_config_find_program_address e program_id = with_seeds e program_id vault_config_seeds"

definition vault_find_program_address :: "env \<Rightarrow> pubkey \<Rightarrow> pubkey \<Rightarrow> pubkey \<times> u8 \<times> seeds" where
  "vault_find_program_address e program_id base = with_seeds e program_id (vault_seeds base)"

definition burn_vault_find_program_address :: "env \<Rightarrow> pubkey \<Rightarrow> pubkey \<Rightarrow> pubkey \<times> u8 \<times> seeds" where
  "burn_vault_find_program_address e program_id base = with_seeds e program_id (burn_vault_seeds base)"

definition vault_ncn_ticket_find_program_address :: "env \<Rightarrow> pubkey \<Rightarrow> pubkey \<Rightarrow> pubkey \<Rightarrow> pubkey \<times> u8 \<times> seeds" where
  "vault_ncn_ticket_find_program_address e program_id vault ncn = with_seeds e program_id (vault_ncn_ticket_seeds vault ncn)"

definition vault_operator_delegation_find_program_address :: "env \<Rightarrow> pubkey \<Rightarrow> pubkey \<Rightarrow> pubkey \<Rightarrow> pubkey \<times> u8 \<times> seeds" where
  "vault_operator_delegation_find_program_address e program_id vault operator = with_seeds e program_id (vault_operator_delegation_seeds vault operator)"

definition vault_ncn_slasher_ticket_find_program_address :: "env \<Rightarrow> pubkey \<Rightarrow> pubkey \<Rightarrow> pubkey \<Rightarrow> pubkey \<Rightarrow> pubkey \<times> u8 \<times> seeds" where
  "vault_ncn_slasher_ticket_find_program_address e program_id vault ncn slasher = with_seeds e program_id (vault_ncn_slasher_ticket_seeds vault ncn slasher)"

definition vault_ncn_slasher_operator_ticket_find_program_address :: "env \<Rightarrow> pubkey \<Rightarrow> pubkey \<Rightarrow> pubkey \<Rightarrow> pubkey \<Rightarrow> pubkey \<Rightarrow> u64 \<Rightarrow> pubkey \<times> u8 \<times> seeds" where
  "vault_ncn_slasher_operator_ticket_find_program_address e program_id vault ncn slasher operator epoch = with_seeds e program_id (vault_ncn_slasher_operator_ticket_seeds vault ncn slasher operator epoch)"

definition vault_staker_withdrawal_ticket_find_program_address :: "env \<Rightarrow> pubkey \<Rightarrow> pubkey \<Rightarrow> pubkey \<Rightarrow> pubkey \<times> u8 \<times> seeds" where
  "vault_staker_withdrawal_ticket_find_program_address e program_id vault base = with_seeds e program_id (vault_staker_withdrawal_ticket_seeds vault base)"

definition vault_update_state_tracker_find_program_address :: "env \<Rightarrow> pubkey \<Rightarrow> pubkey \<Rightarrow> u64 \<Rightarrow> pubkey \<times> u8 \<times> seeds" where
  "vault_update_state_tracker_find_program_address e program_id vault ncn_epoch = with_seeds e program_id (vault_update_state_tracker_seeds vault ncn_epoch)"

definition restaking_config_find_program_address :: "env \<Rightarrow> pubkey \<Rightarrow> pubkey \<times> u8 \<times> seeds" where
  "restaking_config_find_program_address e program_id = with_seeds e program_id restaking_config_seeds"

definition ncn_find_program_address :: "env \<Rightarrow> pubkey \<Rightarrow> pubkey \<Rightarrow> pubkey \<times> u8 \<times> seeds" where
  "ncn_find_program_address e program_id base = with_seeds e program_id (ncn_seeds base)"

definition operator_find_program_address :: "env \<Rightarrow> pubkey \<Rightarrow> pubkey \<Rightarrow> pubkey \<times> u8 \<times> seeds" where
  "operator_find_program_address e program_id base = with_seeds e program_id (operator_seeds base)"

definition ncn_operator_state_find_program_address :: "env \<Rightarrow> pubkey \<Rightarrow> pubkey \<Rightarrow> pubkey \<Rightarrow> pubkey \<times> u8 \<times> seeds" where
  "ncn_operator_state_find_program_address e program_id ncn operator = with_seeds e program_id (ncn_operator_state_seeds ncn operator)"

definition ncn_vault_ticket_find_program_address :: "env \<Rightarrow> pubkey \<Rightarrow> pubkey \<Rightarrow> pubkey \<Rightarrow> pubkey \<times> u8 \<times> seeds" where
  "ncn_vault_ticket_find_program_address e program_id ncn vault = with_seeds e program_id (ncn_vault_ticket_seeds ncn vault)"

definition operator_vault_ticket_find_program_address :: "env \<Rightarrow> pubkey \<Rightarrow> pubkey \<Rightarrow> pubkey \<Rightarrow> pubkey \<times> u8 \<times> seeds" where
  "operator_vault_ticket_find_program_address e program_id operator vault = with_seeds e program_id (operator_vault_ticket_seeds operator vault)"

definition ncn_vault_slasher_ticket_find_program_address :: "env \<Rightarrow> pubkey \<Rightarrow> pubkey \<Rightarrow> pubkey \<Rightarrow> pubkey \<Rightarrow> pubkey \<times> u8 \<times> seeds" where
  "ncn_vault_slasher_ticket_find_program_address e program_id ncn vault slasher = with_seeds e program_id (ncn_vault_slasher_ticket_seeds ncn vault slasher)"

definition find_metadata_account :: "env \<Rightarrow> pubkey \<Rightarrow> pubkey \<times> u8" where
  "find_metadata_account e mint =
     e_find_program_address e [bytes_of ''metadata'', to_bytes (e_mpl_token_metadata e), to_bytes mint]
       (e_mpl_token_metadata e)"

section \<open>Loading accounts\<close>

definition load_mpl_metadata_program :: "env \<Rightarrow> account_info \<Rightarrow> program_error + unit" where
  "load_mpl_metadata_program e info = err_if (ai_key info \<noteq> e_mpl_token_metadata e) IncorrectProgramId"

definition load_mpl_metadata :: "env \<Rightarrow> account_info \<Rightarrow> pubkey \<Rightarrow> program_error + unit" where
  "load_mpl_metadata e info vrt_mint = err_if (fst (find_metadata_account e vrt_mint) \<noteq> ai_key info) InvalidAccountData"

text \<open>The checks every \<open>load\<close> starts with.\<close>

definition load_owned :: "pubkey \<Rightarrow> bank \<Rightarrow> account_info \<Rightarrow> bool \<Rightarrow> u8 \<Rightarrow> program_error + unit" where
  "load_owned program_id b info expect_writable disc =
     and_then (err_if (owner_of b info \<noteq> program_id) InvalidAccountOwner) (\<lambda>_.
     and_then (err_if (data_is_empty b info) InvalidAccountData) (\<lambda>_.
     and_then (err_if (expect_writable \<and> \<not> ai_is_writable info) InvalidAccountData) (\<lambda>_.
     err_if (discriminator (a_data (b (ai_key info))) \<noteq> Some disc) InvalidAccountData)))"

definition burn_vault_load :: "env \<Rightarrow> pubkey \<Rightarrow> bank \<Rightarrow> pubkey \<Rightarrow> account_info \<Rightarrow> bool \<Rightarrow> program_error + unit" where
  "burn_vault_load e program_id b base account expect_writable =
     and_then (err_if (owner_of b account \<noteq> e_system_program e) InvalidAccountOwner) (\<lambda>_.
     and_then (err_if (expect_writable \<and> \<not> ai_is_writable account) InvalidAccountData) (\<lambda>_.
     err_if (ai_key account \<noteq> fst (burn_vault_find_program_address e program_id base)) InvalidAccountData))"

definition vault_load :: "env \<Rightarrow> pubkey \<Rightarrow> bank \<Rightarrow> account_info \<Rightarrow> bool \<Rightarrow> program_error + unit" where
  "vault_load e program_id b account expect_writable =
     and_then (load_owned program_id b account expect_writable 2) (\<lambda>_.
     and_then (get_vault b account) (\<lambda>v.
     and_then (e_create_program_address e (vault_signing_seeds v) program_id) (\<lambda>expected_pubkey.
     err_if (ai_key account \<noteq> expected_pubkey) InvalidAccountData)))"

definition vault_staker_withdrawal_ticket_load ::
    "env \<Rightarrow> pubkey \<Rightarrow> bank \<Rightarrow> account_info \<Rightarrow> account_info \<Rightarrow> bool \<Rightarrow> program_error + unit" where
  "vault_staker_withdrawal_ticket_load e program_id b account vault expect_writable =
     and_then (load_owned program_id b account expect_writable 7) (\<lambda>_.
     and_then (get_vault_staker_withdrawal_ticket b account) (\<lambda>t.
     and_then (err_if (wt_vault t \<noteq> ai_key vault) InvalidAccountData) (\<lambda>_.
     and_then (e_create_program_address e (vault_staker_withdrawal_ticket_signing_seeds t (ai_key vault)) program_id)
       (\<lambda>expected_pubkey.
     err_if (ai_key account \<noteq> expected_pubkey) InvalidAccountData))))"

definition ncn_load :: "env \<Rightarrow> pubkey \<Rightarrow> bank \<Rightarrow> account_info \<Rightarrow> bool \<Rightarrow> program_error + unit" where
  "ncn_load e program_id b account expect_writable =
     and_then (load_owned program_id b account expect_writable 2) (\<lambda>_.
     and_then (get_ncn b account) (\<lambda>n.
     err_if (ai_key account \<noteq> fst (ncn_find_program_address e program_id (ncn_base n))) InvalidAccountData))"

definition operator_load :: "env \<Rightarrow> pubkey \<Rightarrow> bank \<Rightarrow> account_info \<Rightarrow> bool \<Rightarrow> program_error + unit" where
  "operator_load e program_id b account expect_writable =
     and_then (load_owned program_id b account expect_writable 3) (\<lambda>_.
     and_then (get_operator b account) (\<lambda>n.
     err_if (ai_key account \<noteq> fst (operator_find_program_address e program_id (op_base n))) InvalidAccountData))"

definition vault_config_load ::
    "env \<Rightarrow> pubkey \<Rightarrow> bank \<Rightarrow> account_info \<Rightarrow> bool \<Rightarrow> program_error + unit" where
  "vault_config_load e program_id b account expect_writable =
     and_then (load_owned program_id b account expect_writable 1) (\<lambda>_.
     err_if (ai_key account \<noteq> fst (vault_config_find_program_address e program_id)) InvalidAccountData)"

definition vault_ncn_ticket_load ::
    "env \<Rightarrow> pubkey \<Rightarrow> bank \<Rightarrow> account_info \<Rightarrow> account_info \<Rightarrow> account_info \<Rightarrow> bool \<Rightarrow> program_error + unit" where
  "vault_ncn_ticket_load e program_id b account vault ncn expect_writable =
     and_then (load_owned program_id b account expect_writable 3) (\<lambda>_.
     err_if (ai_key account \<noteq> fst (vault_ncn_ticket_find_program_address e program_id (ai_key vault) (ai_key ncn))) InvalidAccountData)"

definition vault_operator_delegation_load ::
    "env \<Rightarrow> pubkey \<Rightarrow> bank \<Rightarrow> account_info \<Rightarrow> account_info \<Rightarrow> account_info \<Rightarrow> bool \<Rightarrow> program_error + unit" where
  "vault_operator_delegation_load e program_id b account vault operator expect_writable =
     and_then (load_owned program_id b account expect_writable 4) (\<lambda>_.
     err_if (ai_key account \<noteq> fst (vault_operator_delegation_find_program_address e program_id (ai_key vault) (ai_key operator))) InvalidAccountData)"

definition vault_ncn_slasher_ticket_load ::
    "env \<Rightarrow> pubkey \<Rightarrow> bank \<Rightarrow> account_info \<Rightarrow> account_info \<Rightarrow> account_info \<Rightarrow> account_info \<Rightarrow> bool \<Rightarrow> program_error + unit" where
  "vault_ncn_slasher_ticket_load e program_id b account vault ncn slasher expect_writable =
     and_then (load_owned program_id b account expect_writable 5) (\<lambda>_.
     err_if (ai_key account \<noteq> fst (vault_ncn_slasher_ticket_find_program_address e program_id (ai_key vault) (ai_key ncn) (ai_key slasher))) InvalidAccountData)"

definition vault_ncn_slasher_operator_ticket_load ::
    "env \<Rightarrow> pubkey \<Rightarrow> bank \<Rightarrow> account_info \<Rightarrow> account_info \<Rightarrow> account_info \<Rightarrow> account_info \<Rightarrow> account_info \<Rightarrow> u64 \<Rightarrow> bool \<Rightarrow> program_error + unit" where
  "vault_ncn_slasher_operator_ticket_load e program_id b account vault ncn slasher operator epoch expect_writable =
     and_then (load_owned program_id b account expect_writable 6) (\<lambda>_.
     err_if (ai_key account \<noteq> fst (vault_ncn_slasher_operator_ticket_find_program_address e program_id (ai_key vault) (ai_key ncn) (ai_key slasher) (ai_key operator) epoch)) InvalidAccountData)"

definition vault_update_state_tracker_load ::
    "env \<Rightarrow> pubkey \<Rightarrow> bank \<Rightarrow> account_info \<Rightarrow> account_info \<Rightarrow> u64 \<Rightarrow> bool \<Rightarrow> program_error + unit" where
  "vault_update_state_tracker_load e program_id b account vault ncn_epoch expect_writable =
     and_then (load_owned program_id b account expect_writable 8) (\<lambda>_.
     err_if (ai_key account \<noteq> fst (vault_update_state_tracker_find_program_address e program_id (ai_key vault) ncn_epoch)) InvalidAccountData)"

definition restaking_config_load ::
    "env \<Rightarrow> pubkey \<Rightarrow> bank \<Rightarrow> account_info \<Rightarrow> bool \<Rightarrow> program_error + unit" where
  "restaking_config_load e program_id b account expect_writable =
     and_then (load_owned program_id b account expect_writable 1) (\<lambda>_.
     err_if (ai_key account \<noteq> fst (restaking_config_find_program_address e program_id)) InvalidAccountData)"

definition ncn_operator_state_load ::
    "env \<Rightarrow> pubkey \<Rightarrow> bank \<Rightarrow> account_info \<Rightarrow> account_info \<Rightarrow> account_info \<Rightarrow> bool \<Rightarrow> program_error + unit" where
  "ncn_operator_state_load e program_id b account ncn operator expect_writable =
     and_then (load_owned program_id b account expect_writable 4) (\<lambda>_.
     err_if (ai_key account \<noteq> fst (ncn_operator_state_find_program_address e program_id (ai_key ncn) (ai_key operator))) InvalidAccountData)"

definition ncn_vault_ticket_load ::
    "env \<Rightarrow> pubkey \<Rightarrow> bank \<Rightarrow> account_info \<Rightarrow> account_info \<Rightarrow> account_info \<Rightarrow> bool \<Rightarrow> program_error + unit" where
  "ncn_vault_ticket_load e program_id b account ncn vault expect_writable =
     and_then (load_owned program_id b account expect_writable 6) (\<lambda>_.
     err_if (ai_key account \<noteq> fst (ncn_vault_ticket_find_program_address e program_id (ai_key ncn) (ai_key vault))) InvalidAccountData)"

definition operator_vault_ticket_load ::
    "env \<Rightarrow> pubkey \<Rightarrow> bank \<Rightarrow> account_info \<Rightarrow> account_info \<Rightarrow> account_info \<Rightarrow> bool \<Rightarrow> program_error + unit" where
  "operator_vault_ticket_load e program_id b account operator vault expect_writable =
     and_then (load_owned program_id b account expect_writable 5) (\<lambda>_.
     err_if (ai_key account \<noteq> fst (operator_vault_ticket_find_program_address e program_id (ai_key operator) (ai_key vault))) InvalidAccountData)"

definition ncn_vault_slasher_ticket_load ::
    "env \<Rightarrow> pubkey \<Rightarrow> bank \<Rightarrow> account_info \<Rightarrow> account_info \<Rightarrow> account_info \<Rightarrow> account_info \<Rightarrow> bool \<Rightarrow> program_error + unit" where
  "ncn_vault_slasher_ticket_load e program_id b account ncn vault slasher expect_writable =
     and_then (load_owned program_id b account expect_writable 7) (\<lambda>_.
     err_if (ai_key account \<noteq> fst (ncn_vault_slasher_ticket_find_program_address e program_id (ai_key ncn) (ai_key vault) (ai_key slasher))) InvalidAccountData)"

section \<open>Lemmas\<close>

lemma owned_not_empty: "discriminator (a_data (b (ai_key info))) = Some d \<Longrightarrow> \<not> data_is_empty b info"
  by (auto simp: data_is_empty_def first_def split: account_data.splits)

lemma load_owned_iff [res_simps]:
  "load_owned program_id b info w disc = Inr u \<longleftrightarrow>
     owner_of b info = program_id \<and> (w \<longrightarrow> ai_is_writable info) \<and>
     discriminator (a_data (b (ai_key info))) = Some disc"
  by (auto simp: load_owned_def and_then_Inr_iff err_if_Inr_iff dest: owned_not_empty)

lemma vault_load_iff [res_simps]:
  "vault_load e program_id b account w = Inr u \<longleftrightarrow>
     owner_of b account = program_id \<and> (w \<longrightarrow> ai_is_writable account) \<and>
     (\<exists>v. a_data (b (ai_key account)) = VaultD v \<and>
          e_create_program_address e (vault_signing_seeds v) program_id = Inr (ai_key account))"
  by (auto simp: vault_load_def and_then_Inr_iff load_owned_iff get_iffs err_if_Inr_iff)

lemma vault_staker_withdrawal_ticket_load_iff [res_simps]:
  "vault_staker_withdrawal_ticket_load e program_id b account vault w = Inr u \<longleftrightarrow>
     owner_of b account = program_id \<and> (w \<longrightarrow> ai_is_writable account) \<and>
     (\<exists>t. a_data (b (ai_key account)) = VaultStakerWithdrawalTicketD t \<and> wt_vault t = ai_key vault \<and>
          e_create_program_address e (vault_staker_withdrawal_ticket_signing_seeds t (ai_key vault)) program_id
            = Inr (ai_key account))"
  by (auto simp: vault_staker_withdrawal_ticket_load_def and_then_Inr_iff load_owned_iff get_iffs err_if_Inr_iff)

lemma base_load_iffs [res_simps]:
  "ncn_load e program_id b account w = Inr u \<longleftrightarrow>
     owner_of b account = program_id \<and> (w \<longrightarrow> ai_is_writable account) \<and>
     (\<exists>n. a_data (b (ai_key account)) = NcnD n \<and>
          ai_key account = fst (ncn_find_program_address e program_id (ncn_base n)))"
  "operator_load e program_id b account w = Inr u \<longleftrightarrow>
     owner_of b account = program_id \<and> (w \<longrightarrow> ai_is_writable account) \<and>
     (\<exists>n. a_data (b (ai_key account)) = OperatorD n \<and>
          ai_key account = fst (operator_find_program_address e program_id (op_base n)))"
  by (auto simp: ncn_load_def operator_load_def and_then_Inr_iff load_owned_iff get_iffs err_if_Inr_iff)

lemma burn_vault_load_iff [res_simps]:
  "burn_vault_load e program_id b base account w = Inr u \<longleftrightarrow>
     owner_of b account = e_system_program e \<and> (w \<longrightarrow> ai_is_writable account) \<and>
     ai_key account = fst (burn_vault_find_program_address e program_id base)"
  by (auto simp: burn_vault_load_def and_then_Inr_iff err_if_Inr_iff)

lemma pda_load_iffs [res_simps]:
  "vault_config_load e program_id b account w = Inr u \<longleftrightarrow>
     owner_of b account = program_id \<and> (w \<longrightarrow> ai_is_writable account) \<and>
     discriminator (a_data (b (ai_key account))) = Some 1 \<and>
     ai_key account = fst (vault_config_find_program_address e program_id)"
  "vault_ncn_ticket_load e program_id b account vault ncn w = Inr u \<longleftrightarrow>
     owner_of b account = program_id \<and> (w \<longrightarrow> ai_is_writable account) \<and>
     discriminator (a_data (b (ai_key account))) = Some 3 \<and>
     ai_key account = fst (vault_ncn_ticket_find_program_address e program_id (ai_key vault) (ai_key ncn))"
  "vault_operator_delegation_load e program_id b account vault operator w = Inr u \<longleftrightarrow>
     owner_of b account = program_id \<and> (w \<longrightarrow> ai_is_writable account) \<and>
     discriminator (a_data (b (ai_key account))) = Some 4 \<and>
     ai_key account = fst (vault_operator_delegation_find_program_address e program_id (ai_key vault) (ai_key operator))"
  "vault_ncn_slasher_ticket_load e program_id b account vault ncn slasher w = Inr u \<longleftrightarrow>
     owner_of b account = program_id \<and> (w \<longrightarrow> ai_is_writable account) \<and>
     discriminator (a_data (b (ai_key account))) = Some 5 \<and>
     ai_key account = fst (vault_ncn_slasher_ticket_find_program_address e program_id (ai_key vault) (ai_key ncn) (ai_key slasher))"
  "vault_ncn_slasher_operator_ticket_load e program_id b account vault ncn slasher operator epoch w = Inr u \<longleftrightarrow>
     owner_of b account = program_id \<and> (w \<longrightarrow> ai_is_writable account) \<and>
     discriminator (a_data (b (ai_key account))) = Some 6 \<and>
     ai_key account = fst (vault_ncn_slasher_operator_ticket_find_program_address e program_id (ai_key vault) (ai_key ncn) (ai_key slasher) (ai_key operator) epoch)"
  "vault_update_state_tracker_load e program_id b account vault ncn_epoch w = Inr u \<longleftrightarrow>
     owner_of b account = program_id \<and> (w \<longrightarrow> ai_is_writable account) \<and>
     discriminator (a_data (b (ai_key account))) = Some 8 \<and>
     ai_key account = fst (vault_update_state_tracker_find_program_address e program_id (ai_key vault) ncn_epoch)"
  "restaking_config_load e program_id b account w = Inr u \<longleftrightarrow>
     owner_of b account = program_id \<and> (w \<longrightarrow> ai_is_writable account) \<and>
     discriminator (a_data (b (ai_key account))) = Some 1 \<and>
     ai_key account = fst (restaking_config_find_program_address e program_id)"
  "ncn_operator_state_load e program_id b account ncn operator w = Inr u \<longleftrightarrow>
     owner_of b account = program_id \<and> (w \<longrightarrow> ai_is_writable account) \<and>
     discriminator (a_data (b (ai_key account))) = Some 4 \<and>
     ai_key account = fst (ncn_operator_state_find_program_address e program_id (ai_key ncn) (ai_key operator))"
  "operator_vault_ticket_load e program_id b account operator vault w = Inr u \<longleftrightarrow>
     owner_of b account = program_id \<and> (w \<longrightarrow> ai_is_writable account) \<and>
     discriminator (a_data (b (ai_key account))) = Some 5 \<and>
     ai_key account = fst (operator_vault_ticket_find_program_address e program_id (ai_key operator) (ai_key vault))"
  "ncn_vault_ticket_load e program_id b account ncn vault w = Inr u \<longleftrightarrow>
     owner_of b account = program_id \<and> (w \<longrightarrow> ai_is_writable account) \<and>
     discriminator (a_data (b (ai_key account))) = Some 6 \<and>
     ai_key account = fst (ncn_vault_ticket_find_program_address e program_id (ai_key ncn) (ai_key vault))"
  "ncn_vault_slasher_ticket_load e program_id b account ncn vault slasher w = Inr u \<longleftrightarrow>
     owner_of b account = program_id \<and> (w \<longrightarrow> ai_is_writable account) \<and>
     discriminator (a_data (b (ai_key account))) = Some 7 \<and>
     ai_key account = fst (ncn_vault_slasher_ticket_find_program_address e program_id (ai_key ncn) (ai_key vault) (ai_key slasher))"
  by (auto simp: vault_config_load_def
      vault_ncn_ticket_load_def
      vault_operator_delegation_load_def
      vault_ncn_slasher_ticket_load_def
      vault_ncn_slasher_operator_ticket_load_def
      vault_update_state_tracker_load_def
      restaking_config_load_def
      ncn_operator_state_load_def
      operator_vault_ticket_load_def
      ncn_vault_ticket_load_def
      ncn_vault_slasher_ticket_load_def
      and_then_Inr_iff load_owned_iff err_if_Inr_iff)

lemma load_account_iffs [res_simps]:
  "load_system_program e info = Inr u \<longleftrightarrow> ai_key info = e_system_program e"
  "load_token_program e info = Inr u \<longleftrightarrow> ai_key info = e_spl_token e"
  "load_associated_token_account_program e info = Inr u \<longleftrightarrow> ai_key info = e_spl_associated_token_account e"
  "load_mpl_metadata_program e info = Inr u \<longleftrightarrow> ai_key info = e_mpl_token_metadata e"
  "load_mpl_metadata e info mint = Inr u \<longleftrightarrow> ai_key info = fst (find_metadata_account e mint)"
  "load_system_account e b info w = Inr u \<longleftrightarrow>
     owner_of b info = e_system_program e \<and> data_is_empty b info \<and> (w \<longrightarrow> ai_is_writable info)"
  "load_associated_token_account e b info holder mint = Inr u \<longleftrightarrow>
     owner_of b info = e_spl_token e \<and> \<not> data_is_empty b info \<and>
     ai_key info = e_get_associated_token_address e holder mint"
  "load_token_account e b info holder mint token_program = Inr u \<longleftrightarrow>
     ai_key token_program = e_spl_token e \<and> owner_of b info = e_spl_token e \<and> \<not> data_is_empty b info \<and>
     (\<exists>ta. e_unpack_account_with_extensions e (raw_data b info) = Inr ta \<and> ta_owner ta = holder \<and> ta_mint ta = mint)"
  "load_token_mint e b info = Inr u \<longleftrightarrow>
     owner_of b info = e_spl_token e \<and> \<not> data_is_empty b info \<and>
     e_unpack_mint_with_extensions e (raw_data b info) = Inr ()"
  by (auto simp: load_system_program_def load_token_program_def load_associated_token_account_program_def
      load_mpl_metadata_program_def load_mpl_metadata_def load_system_account_def load_associated_token_account_def
      load_token_account_def load_token_mint_def and_then_Inr_iff err_if_Inr_iff)

subsection \<open>The seeds of different accounts are different\<close>

lemma length_to_le_bytes [simp]: "length (to_le_bytes n w) = n"
  by (simp add: to_le_bytes_def)

lemma to_le_bytes_inject:
  assumes "LENGTH('a) \<le> 8 * n"
  shows "to_le_bytes n (v :: 'a::len word) = to_le_bytes n w \<longleftrightarrow> v = w"
proof
  assume *: "to_le_bytes n v = to_le_bytes n w"
  show "v = w"
  proof (rule bit_word_eqI)
    fix m assume m: "m < LENGTH('a)"
    then have i: "m div 8 < n" using assms by auto
    have "bit (to_le_bytes n v ! (m div 8)) (m mod 8) = bit (to_le_bytes n w ! (m div 8)) (m mod 8)"
      using * by simp
    then show "bit v m = bit w m"
      using i by (simp add: to_le_bytes_def bit_simps)
  qed
qed simp

lemma to_bytes_inject [simp]:
  "to_bytes k = to_bytes l \<longleftrightarrow> k = l"
  "u64_to_le_bytes x = u64_to_le_bytes y \<longleftrightarrow> x = y"
  by (simp_all add: to_le_bytes_inject)

text \<open>The accounts whose addresses each program derives, with what identifies each.\<close>

datatype (plugins only: size) vault_pda =
    ConfigPda
  | VaultPda pubkey
  | BurnVaultPda pubkey
  | VaultNcnTicketPda pubkey pubkey
  | VaultOperatorDelegationPda pubkey pubkey
  | VaultNcnSlasherTicketPda pubkey pubkey pubkey
  | VaultNcnSlasherOperatorTicketPda pubkey pubkey pubkey pubkey u64
  | VaultStakerWithdrawalTicketPda pubkey pubkey
  | VaultUpdateStateTrackerPda pubkey u64

fun vault_pda_seeds :: "vault_pda \<Rightarrow> seeds" where
  "vault_pda_seeds ConfigPda = vault_config_seeds"
| "vault_pda_seeds (VaultPda base) = vault_seeds base"
| "vault_pda_seeds (BurnVaultPda base) = burn_vault_seeds base"
| "vault_pda_seeds (VaultNcnTicketPda vault ncn) = vault_ncn_ticket_seeds vault ncn"
| "vault_pda_seeds (VaultOperatorDelegationPda vault operator) = vault_operator_delegation_seeds vault operator"
| "vault_pda_seeds (VaultNcnSlasherTicketPda vault ncn slasher) = vault_ncn_slasher_ticket_seeds vault ncn slasher"
| "vault_pda_seeds (VaultNcnSlasherOperatorTicketPda vault ncn slasher operator epoch) =
     vault_ncn_slasher_operator_ticket_seeds vault ncn slasher operator epoch"
| "vault_pda_seeds (VaultStakerWithdrawalTicketPda vault base) = vault_staker_withdrawal_ticket_seeds vault base"
| "vault_pda_seeds (VaultUpdateStateTrackerPda vault ncn_epoch) = vault_update_state_tracker_seeds vault ncn_epoch"

datatype (plugins only: size) restaking_pda =
    RestakingConfigPda
  | NcnPda pubkey
  | OperatorPda pubkey
  | NcnOperatorStatePda pubkey pubkey
  | OperatorVaultTicketPda pubkey pubkey
  | NcnVaultTicketPda pubkey pubkey
  | NcnVaultSlasherTicketPda pubkey pubkey pubkey

fun restaking_pda_seeds :: "restaking_pda \<Rightarrow> seeds" where
  "restaking_pda_seeds RestakingConfigPda = restaking_config_seeds"
| "restaking_pda_seeds (NcnPda base) = ncn_seeds base"
| "restaking_pda_seeds (OperatorPda base) = operator_seeds base"
| "restaking_pda_seeds (NcnOperatorStatePda ncn operator) = ncn_operator_state_seeds ncn operator"
| "restaking_pda_seeds (OperatorVaultTicketPda operator vault) = operator_vault_ticket_seeds operator vault"
| "restaking_pda_seeds (NcnVaultTicketPda ncn vault) = ncn_vault_ticket_seeds ncn vault"
| "restaking_pda_seeds (NcnVaultSlasherTicketPda ncn vault slasher) = ncn_vault_slasher_ticket_seeds ncn vault slasher"

lemmas vault_seeds_defs = vault_config_seeds_def vault_seeds_def burn_vault_seeds_def vault_ncn_ticket_seeds_def
  vault_operator_delegation_seeds_def vault_ncn_slasher_ticket_seeds_def
  vault_ncn_slasher_operator_ticket_seeds_def vault_staker_withdrawal_ticket_seeds_def
  vault_update_state_tracker_seeds_def

lemmas restaking_seeds_defs = restaking_config_seeds_def ncn_seeds_def operator_seeds_def
  ncn_operator_state_seeds_def operator_vault_ticket_seeds_def ncn_vault_ticket_seeds_def
  ncn_vault_slasher_ticket_seeds_def

lemma concat_snoc_iff: "concat (xs @ [[a]]) = concat (ys @ [[c]]) \<longleftrightarrow> concat xs = concat ys \<and> a = c"
  by auto

lemma vault_seeds_inject: "concat (vault_pda_seeds p) = concat (vault_pda_seeds q) \<longleftrightarrow> p = q"
  by (cases p; cases q; simp add: vault_seeds_defs bytes_of_def;
      (rule notI, drule arg_cong [where f = length], simp)?)

lemma restaking_seeds_inject: "concat (restaking_pda_seeds p) = concat (restaking_pda_seeds q) \<longleftrightarrow> p = q"
  by (cases p; cases q; simp add: restaking_seeds_defs bytes_of_def;
      (rule notI, drule arg_cong [where f = length], simp)?)

text \<open>
  Claim C21. The bytes an address of the vault program is derived from (the concatenated seeds with
  the bump) determine the account: its type, its keys, its epoch and the bump. So do those of the
  restaking program.
\<close>

theorem pda_seeds_separate:
  "(concat (vault_pda_seeds p @ [[m]]) = concat (vault_pda_seeds q @ [[n]]) \<longleftrightarrow> p = q \<and> m = n) \<and>
   (concat (restaking_pda_seeds r @ [[m]]) = concat (restaking_pda_seeds s @ [[n]]) \<longleftrightarrow> r = s \<and> m = n)"
  by (simp add: concat_snoc_iff vault_seeds_inject restaking_seeds_inject del: concat_append)


end
