(* ===== verification/Vault_Ops.thy ===== *)
theory Vault_Ops
  imports Vault_State
begin

text \<open>
  The arithmetic of a vault (\<open>vault_core/src/vault.rs\<close>): fee changes, rewards, minting and
  burning VRT shares, and reserving assets for withdrawals when delegating. Products are taken
  in 128 bits and narrowed back, as in the code, so every overflow is an error value here.
\<close>

section \<open>Definitions\<close>

subsection \<open>Fees\<close>

definition check_can_modify_fees :: "vault \<Rightarrow> u64 \<Rightarrow> u64 \<Rightarrow> program_error + unit" where
  "check_can_modify_fees v slot epoch_length =
     and_then (core_res (get_epoch slot epoch_length)) (\<lambda>current_epoch.
     and_then (core_res (get_epoch (v_last_fee_change_slot v) epoch_length)) (\<lambda>last_fee_change_epoch.
     and_then (vault_res (ok_or (checked_add last_fee_change_epoch 1) ArithmeticOverflow)) (\<lambda>limit.
     vault_res (err_if (current_epoch \<le> limit) VaultFeeChangeTooSoon))))"

definition set_withdrawal_fee_bps :: "vault \<Rightarrow> u16 \<Rightarrow> vault_error + vault" where
  "set_withdrawal_fee_bps v withdrawal_fee_bps =
     and_then (err_if (MAX_BPS < withdrawal_fee_bps) VaultFeeCapExceeded) (\<lambda>_.
     Inr (v\<lparr>v_withdrawal_fee_bps := withdrawal_fee_bps\<rparr>))"

text \<open>A division by a current fee of zero gives the largest value.\<close>

definition percentage_increase_bps :: "u16 \<Rightarrow> u16 \<Rightarrow> u64" where
  "percentage_increase_bps fee_delta current_fee_bps =
     (case Option.bind (Option.bind (checked_mul (as_u128 fee_delta) (as_u128 MAX_BPS))
              (\<lambda>product. checked_div product (as_u128 current_fee_bps))) try_narrow of
        Some result \<Rightarrow> result
      | None \<Rightarrow> u64_MAX)"

definition check_fee_change_ok :: "u16 \<Rightarrow> u16 \<Rightarrow> u16 \<Rightarrow> u16 \<Rightarrow> u16 \<Rightarrow> vault_error + unit" where
  "check_fee_change_ok current_fee_bps new_fee_bps fee_cap_bps fee_bump_bps fee_rate_of_change_bps =
     and_then (err_if (MAX_BPS < current_fee_bps \<or> MAX_BPS < new_fee_bps \<or> MAX_BPS < fee_cap_bps
                       \<or> MAX_BPS < fee_bump_bps \<or> MAX_BPS < fee_rate_of_change_bps) VaultFeeCapExceeded) (\<lambda>_.
     let fee_delta = saturating_sub new_fee_bps current_fee_bps;
         fee_cap = min fee_cap_bps MAX_BPS in
     and_then (err_if (fee_cap < new_fee_bps) VaultFeeCapExceeded) (\<lambda>_.
     if fee_bump_bps < fee_delta then
       err_if (ucast fee_rate_of_change_bps < percentage_increase_bps fee_delta current_fee_bps)
         VaultFeeBumpTooLarge
     else Inr ()))"

definition set_next_withdrawal_fee_bps :: "vault \<Rightarrow> u16 \<Rightarrow> u16 \<Rightarrow> u16 \<Rightarrow> u16 \<Rightarrow> vault_error + vault" where
  "set_next_withdrawal_fee_bps v withdrawal_fee_bps cap fee_bump_bps fee_rate_of_change_bps =
     and_then (err_if (MAX_BPS < withdrawal_fee_bps) VaultFeeCapExceeded) (\<lambda>_.
     and_then (err_if (cap < withdrawal_fee_bps) VaultFeeCapExceeded) (\<lambda>_.
     and_then (check_fee_change_ok (v_withdrawal_fee_bps v) withdrawal_fee_bps cap fee_bump_bps
                 fee_rate_of_change_bps) (\<lambda>_.
     Inr (v\<lparr>v_next_withdrawal_fee_bps := withdrawal_fee_bps\<rparr>))))"

definition set_deposit_fee_bps :: "vault \<Rightarrow> u16 \<Rightarrow> u16 \<Rightarrow> u16 \<Rightarrow> u16 \<Rightarrow> vault_error + vault" where
  "set_deposit_fee_bps v deposit_fee_bps cap fee_bump_bps fee_rate_of_change_bps =
     and_then (err_if (MAX_BPS < deposit_fee_bps) VaultFeeCapExceeded) (\<lambda>_.
     and_then (err_if (cap < deposit_fee_bps) VaultFeeCapExceeded) (\<lambda>_.
     and_then (check_fee_change_ok (v_deposit_fee_bps v) deposit_fee_bps cap fee_bump_bps
                 fee_rate_of_change_bps) (\<lambda>_.
     Inr (v\<lparr>v_deposit_fee_bps := deposit_fee_bps\<rparr>))))"

definition set_reward_fee_bps :: "vault \<Rightarrow> u16 \<Rightarrow> vault_error + vault" where
  "set_reward_fee_bps v reward_fee_bps =
     and_then (err_if (MAX_BPS < reward_fee_bps) VaultFeeCapExceeded) (\<lambda>_.
     Inr (v\<lparr>v_reward_fee_bps := reward_fee_bps\<rparr>))"

subsection \<open>Rewards\<close>

definition calculate_st_reward_fee :: "vault \<Rightarrow> u64 \<Rightarrow> vault_error + u64" where
  "calculate_st_reward_fee v new_st_supply =
     (let st_rewards = saturating_sub new_st_supply (v_tokens_deposited v) in
      if st_rewards = 0 then Inr 0
      else ok_or (bps_fee (v_reward_fee_bps v) st_rewards) VaultOverflow)"

definition check_reward_fee_effective_rate :: "vault \<Rightarrow> u64 \<Rightarrow> u64 \<Rightarrow> u16 \<Rightarrow> vault_error + unit" where
  "check_reward_fee_effective_rate v st_rewards vrt_reward_fee max_delta_bps =
     and_then (err_if (MAX_BPS < max_delta_bps) VaultFeeCapExceeded) (\<lambda>_.
     if (st_rewards = 0 \<or> v_reward_fee_bps v = 0) \<and> vrt_reward_fee = 0 then Inr ()
     else if vrt_reward_fee = 0 then Inl VaultRewardFeeIsZero
     else
     and_then (ok_or (Option.bind (checked_mul (as_u128 (v_tokens_deposited v)) (as_u128 MAX_BPS))
                (\<lambda>x. checked_div x (as_u128 (v_vrt_supply v)))) VaultOverflow) (\<lambda>st_vrt_ratio.
     and_then (ok_or (Option.bind (checked_mul (as_u128 st_rewards) (as_u128 MAX_BPS))
                (\<lambda>x. checked_div x st_vrt_ratio)) VaultOverflow) (\<lambda>rewards_in_vrt.
     and_then (ok_or (Option.bind (Option.bind (checked_mul (as_u128 vrt_reward_fee) (as_u128 MAX_BPS))
                (\<lambda>x. checked_div x rewards_in_vrt)) try_narrow) VaultOverflow) (\<lambda>effective_rate_bps :: u16.
     and_then (ok_or (if v_reward_fee_bps v < effective_rate_bps
                      then checked_sub effective_rate_bps (v_reward_fee_bps v)
                      else checked_sub (v_reward_fee_bps v) effective_rate_bps) VaultOverflow) (\<lambda>delta.
     err_if (max_delta_bps < delta) VaultRewardFeeDeltaTooLarge)))))"

subsection \<open>Minting and burning\<close>

text \<open>\<open>(a as u128).checked_mul(b as u128).checked_div(c as u128).try_into()\<close>: a pro-rata share.\<close>

definition pro_rata :: "u64 \<Rightarrow> u64 \<Rightarrow> u64 \<Rightarrow> u64 option" where
  "pro_rata a b c =
     Option.bind (Option.bind (checked_mul (as_u128 a) (as_u128 b)) (\<lambda>x. checked_div x (as_u128 c))) try_narrow"

definition calculate_vrt_mint_amount :: "vault \<Rightarrow> u64 \<Rightarrow> vault_error + u64" where
  "calculate_vrt_mint_amount v amount =
     (if v_tokens_deposited v = 0 then Inr amount
      else ok_or (pro_rata amount (v_vrt_supply v) (v_tokens_deposited v)) VaultOverflow)"

definition calculate_deposit_fee :: "vault \<Rightarrow> u64 \<Rightarrow> vault_error + u64" where
  "calculate_deposit_fee v vrt_amount = ok_or (bps_fee (v_deposit_fee_bps v) vrt_amount) VaultOverflow"

definition calculate_withdrawal_fee :: "vault \<Rightarrow> u64 \<Rightarrow> vault_error + u64" where
  "calculate_withdrawal_fee v vrt_amount = ok_or (bps_fee (v_withdrawal_fee_bps v) vrt_amount) VaultOverflow"

definition mint_with_fee :: "vault \<Rightarrow> u64 \<Rightarrow> u64 \<Rightarrow> vault_error + vault \<times> mint_summary" where
  "mint_with_fee v amount_in min_amount_out =
     and_then (err_if (amount_in = 0) VaultMintZero) (\<lambda>_.
     and_then (ok_or (checked_add (v_tokens_deposited v) amount_in) VaultOverflow) (\<lambda>amount_after_deposit.
     and_then (err_if (v_deposit_capacity v < amount_after_deposit) VaultCapacityExceeded) (\<lambda>_.
     and_then (calculate_vrt_mint_amount v amount_in) (\<lambda>vrt_mint_amount.
     and_then (calculate_deposit_fee v vrt_mint_amount) (\<lambda>vrt_to_fee_wallet.
     and_then (ok_or (checked_sub vrt_mint_amount vrt_to_fee_wallet) VaultUnderflow) (\<lambda>vrt_to_depositor.
     and_then (err_if (vrt_to_depositor < min_amount_out) SlippageError) (\<lambda>_.
     and_then (ok_or (checked_add (v_vrt_supply v) vrt_mint_amount) VaultOverflow) (\<lambda>vrt_supply.
     Inr (v\<lparr>v_vrt_supply := vrt_supply, v_tokens_deposited := amount_after_deposit\<rparr>,
          \<lparr>ms_vrt_to_depositor = vrt_to_depositor, ms_vrt_to_fee_wallet = vrt_to_fee_wallet\<rparr>)))))))))"

definition calculate_burn_summary :: "vault \<Rightarrow> bool \<Rightarrow> bool \<Rightarrow> u64 \<Rightarrow> vault_error + burn_summary" where
  "calculate_burn_summary v is_staker_program_fee_wallet is_staker_vault_fee_wallet amount_in =
     and_then (calculate_program_fee (v_program_fee_bps v) amount_in) (\<lambda>program_fee.
     and_then (calculate_withdrawal_fee v amount_in) (\<lambda>vault_fee.
     and_then (ok_or (checked_add program_fee vault_fee) VaultOverflow) (\<lambda>fees.
     and_then (if amount_in < fees
               then ok_or (checked_sub amount_in program_fee) VaultUnderflow
               else Inr vault_fee) (\<lambda>vault_fee.
     let program_fee_amount = if is_staker_program_fee_wallet then 0 else program_fee;
         vault_fee_amount = if is_staker_vault_fee_wallet then 0 else vault_fee in
     and_then (ok_or (Option.bind (checked_sub amount_in program_fee_amount)
                        (\<lambda>x. checked_sub x vault_fee_amount)) VaultUnderflow) (\<lambda>amount_to_burn.
     and_then (ok_or (pro_rata amount_to_burn (v_tokens_deposited v) (v_vrt_supply v)) VaultOverflow) (\<lambda>amount_out.
     Inr \<lparr>bs_vault_fee_amount = vault_fee_amount, bs_program_fee_amount = program_fee_amount,
          bs_burn_amount = amount_to_burn, bs_out_amount = amount_out\<rparr>))))))"

definition burn_with_fee :: "vault \<Rightarrow> bool \<Rightarrow> bool \<Rightarrow> u64 \<Rightarrow> vault_error + vault \<times> burn_summary" where
  "burn_with_fee v is_staker_program_fee_wallet is_staker_vault_fee_wallet amount_in =
     and_then (err_if (amount_in = 0) VaultBurnZero) (\<lambda>_.
     and_then (err_if (v_vrt_supply v < amount_in) VaultInsufficientFunds) (\<lambda>_.
     and_then (calculate_burn_summary v is_staker_program_fee_wallet is_staker_vault_fee_wallet amount_in) (\<lambda>bs.
     and_then (total_security (v_delegation_state v)) (\<lambda>security.
     and_then (ok_or (checked_sub (v_tokens_deposited v) security) VaultUnderflow) (\<lambda>max_withdrawable.
     and_then (err_if (max_withdrawable < bs_out_amount bs) VaultUnderflow) (\<lambda>_.
     and_then (ok_or (checked_sub (v_vrt_supply v) (bs_burn_amount bs)) VaultUnderflow) (\<lambda>vrt_supply.
     and_then (ok_or (checked_sub (v_tokens_deposited v) (bs_out_amount bs)) VaultUnderflow) (\<lambda>tokens_deposited.
     Inr (v\<lparr>v_vrt_supply := vrt_supply, v_tokens_deposited := tokens_deposited\<rparr>, bs)))))))))"

subsection \<open>Withdrawals and delegation\<close>

definition calculate_supported_assets_requested_for_withdrawal :: "vault \<Rightarrow> vault_error + u64" where
  "calculate_supported_assets_requested_for_withdrawal v =
     (if v_vrt_supply v = 0 then Inr 0
      else
        and_then (ok_or (Option.bind (checked_add (v_vrt_enqueued_for_cooldown_amount v)
                                        (v_vrt_cooling_down_amount v))
                           (\<lambda>x. checked_add x (v_vrt_ready_to_claim_amount v))) VaultOverflow) (\<lambda>vrt_reserve.
        and_then (calculate_burn_summary v False False vrt_reserve) (\<lambda>bs.
        Inr (bs_out_amount bs))))"

text \<open>The match on the number of epochs since the last full update, on a copy of the state.\<close>

definition ds_after_epochs :: "u64 \<Rightarrow> delegation_state \<Rightarrow> delegation_state" where
  "ds_after_epochs epoch_diff d =
     (if epoch_diff = 0 then d else if epoch_diff = 1 then ds_update d else ds_update (ds_update d))"

definition calculate_additional_supported_assets_needed_to_unstake ::
    "vault \<Rightarrow> u64 \<Rightarrow> u64 \<Rightarrow> program_error + u64" where
  "calculate_additional_supported_assets_needed_to_unstake v slot epoch_length =
     and_then (vault_res (calculate_supported_assets_requested_for_withdrawal v)) (\<lambda>requested.
     and_then (core_res (get_epoch (v_last_full_state_update_slot v) epoch_length)) (\<lambda>last_epoch_update.
     and_then (core_res (get_epoch slot epoch_length)) (\<lambda>current_epoch.
     and_then (vault_res (ok_or (checked_sub current_epoch last_epoch_update) ArithmeticUnderflow)) (\<lambda>epoch_diff.
     let d = ds_after_epochs epoch_diff (v_delegation_state v) in
     and_then (vault_res (total_security d)) (\<lambda>total_delegated.
     and_then (vault_res (ok_or (checked_sub (v_tokens_deposited v) total_delegated) VaultUnderflow)) (\<lambda>undelegated.
     and_then (vault_res (ok_or (checked_add (enqueued_for_cooldown_amount d) (cooling_down_amount d))
                 VaultOverflow)) (\<lambda>withdrawing.
     and_then (vault_res (ok_or (checked_add undelegated withdrawing) VaultOverflow)) (\<lambda>available.
     Inr (saturating_sub requested available)))))))))"

definition vault_delegate :: "vault \<Rightarrow> u64 \<Rightarrow> vault_error + vault" where
  "vault_delegate v amount =
     and_then (err_if (amount = 0) VaultDelegationZero) (\<lambda>_.
     and_then (err_if (v_tokens_deposited v = 0 \<or> v_vrt_supply v = 0) VaultUnderflow) (\<lambda>_.
     and_then (calculate_supported_assets_requested_for_withdrawal v) (\<lambda>amount_to_reserve_for_vrts.
     and_then (total_security (v_delegation_state v)) (\<lambda>security.
     and_then (ok_or (Option.bind (checked_sub (v_tokens_deposited v) security)
                        (\<lambda>x. checked_sub x amount_to_reserve_for_vrts)) VaultUnderflow) (\<lambda>available.
     and_then (err_if (available < amount) VaultInsufficientFunds) (\<lambda>_.
     and_then (ds_delegate (v_delegation_state v) amount) (\<lambda>d.
     Inr (v\<lparr>v_delegation_state := d\<rparr>))))))))"

section \<open>The operations over the natural numbers\<close>

lemma pro_rata_iff [arith_iffs]:
  "pro_rata a b c = Some r \<longleftrightarrow> 0 < unat c \<and> unat r = unat a * unat b div unat c"
proof -
  obtain p where p: "checked_mul (as_u128 a) (as_u128 b) = Some p"
    using checked_mul_u128_fits(1) by blast
  then have "unat a * unat b = unat p"
    by (simp add: arith_iffs)
  moreover have "\<exists>q :: u128. unat q = unat p div unat c"
    by (rule exI [of _ "p div as_u128 c"]) (simp add: unat_div)
  ultimately show ?thesis
    unfolding pro_rata_def p by (auto simp: res_simps arith_iffs)
qed

lemma calculate_vrt_mint_amount_iff [res_simps]:
  "calculate_vrt_mint_amount v a = Inr m \<longleftrightarrow>
     (if unat (v_tokens_deposited v) = 0 then m = a
      else unat m = unat a * unat (v_vrt_supply v) div unat (v_tokens_deposited v))"
  by (auto simp: calculate_vrt_mint_amount_def res_simps arith_iffs unat_eq_0 unat_gt_0)

lemma fee_iffs [res_simps]:
  "calculate_program_fee b n = Inr f \<longleftrightarrow> unat f = fee_of (unat b) (unat n)"
  "calculate_deposit_fee v n = Inr f \<longleftrightarrow> unat f = fee_of (unat (v_deposit_fee_bps v)) (unat n)"
  "calculate_withdrawal_fee v n = Inr f \<longleftrightarrow> unat f = fee_of (unat (v_withdrawal_fee_bps v)) (unat n)"
  by (simp_all add: calculate_program_fee_def calculate_deposit_fee_def calculate_withdrawal_fee_def
      res_simps arith_iffs)

lemma mint_with_feeE:
  assumes "mint_with_fee v a mn = Inr (v', ms)"
  obtains t m s where "0 < unat a" "unat (v_tokens_deposited v) + unat a = unat t"
    "unat t \<le> unat (v_deposit_capacity v)"
    "calculate_vrt_mint_amount v a = Inr m"
    "unat (ms_vrt_to_fee_wallet ms) = fee_of (unat (v_deposit_fee_bps v)) (unat m)"
    "unat m = unat (ms_vrt_to_fee_wallet ms) + unat (ms_vrt_to_depositor ms)"
    "unat mn \<le> unat (ms_vrt_to_depositor ms)"
    "unat (v_vrt_supply v) + unat m = unat s"
    "v' = v\<lparr>v_vrt_supply := s, v_tokens_deposited := t\<rparr>"
proof -
  from assms obtain t m f d s where *: "a \<noteq> 0" "checked_add (v_tokens_deposited v) a = Some t"
    "\<not> v_deposit_capacity v < t" "calculate_vrt_mint_amount v a = Inr m"
    "calculate_deposit_fee v m = Inr f" "checked_sub m f = Some d" "\<not> d < mn"
    "checked_add (v_vrt_supply v) m = Some s"
    "v' = v\<lparr>v_vrt_supply := s, v_tokens_deposited := t\<rparr>"
    "ms = \<lparr>ms_vrt_to_depositor = d, ms_vrt_to_fee_wallet = f\<rparr>"
    by (auto simp: mint_with_fee_def and_then_Inr_iff ok_or_Inr_iff err_if_Inr_iff)
  show ?thesis
    by (rule that [of t m s]) (use * in \<open>simp_all add: arith_iffs fee_iffs word_less_nat_alt unat_gt_0\<close>)
qed

lemma calculate_burn_summaryD:
  assumes "calculate_burn_summary v p q n = Inr bs"
  defines "pf \<equiv> fee_of (unat (v_program_fee_bps v)) (unat n)"
    and "vf \<equiv> fee_of (unat (v_withdrawal_fee_bps v)) (unat n)"
  shows "pf \<le> unat n"
    and "unat (bs_program_fee_amount bs) = (if p then 0 else pf)"
    and "unat (bs_vault_fee_amount bs) = (if q then 0 else min vf (unat n - pf))"
    and "unat (bs_program_fee_amount bs) + unat (bs_vault_fee_amount bs) + unat (bs_burn_amount bs) = unat n"
    and "0 < unat (v_vrt_supply v)"
    and "unat (bs_out_amount bs)
          = unat (bs_burn_amount bs) * unat (v_tokens_deposited v) div unat (v_vrt_supply v)"
proof -
  from assms(1) obtain p0 w0 fees w1 b0 b where *:
    "calculate_program_fee (v_program_fee_bps v) n = Inr p0" "calculate_withdrawal_fee v n = Inr w0"
    "checked_add p0 w0 = Some fees"
    "(if n < fees then ok_or (checked_sub n p0) VaultUnderflow else Inr w0) = Inr w1"
    "checked_sub n (if p then 0 else p0) = Some b0" "checked_sub b0 (if q then 0 else w1) = Some b"
    "pro_rata b (v_tokens_deposited v) (v_vrt_supply v) = Some (bs_out_amount bs)"
    "bs_vault_fee_amount bs = (if q then 0 else w1)" "bs_program_fee_amount bs = (if p then 0 else p0)"
    "bs_burn_amount bs = b"
    by (auto simp: calculate_burn_summary_def and_then_Inr_iff ok_or_Inr_iff bind_Some_iff Let_def)
  have pw: "unat p0 = pf" "unat w0 = vf" "unat p0 + unat w0 = unat fees"
    using * by (simp_all add: fee_iffs arith_iffs pf_def vf_def)
  have w1: "unat w1 = min vf (unat n - pf) \<and> pf \<le> unat n"
    using *(4) pw by (auto simp: word_less_nat_alt ok_or_Inr_iff arith_iffs split: if_splits)
  then show "pf \<le> unat n" ..
  show "unat (bs_program_fee_amount bs) = (if p then 0 else pf)"
    and "unat (bs_vault_fee_amount bs) = (if q then 0 else min vf (unat n - pf))"
    using * w1 pw by simp_all
  show "unat (bs_program_fee_amount bs) + unat (bs_vault_fee_amount bs) + unat (bs_burn_amount bs) = unat n"
    using *(5,6,8-10) by (simp add: arith_iffs)
  show "0 < unat (v_vrt_supply v)"
    and "unat (bs_out_amount bs)
          = unat (bs_burn_amount bs) * unat (v_tokens_deposited v) div unat (v_vrt_supply v)"
    using *(7,10) by (simp_all add: arith_iffs)
qed

lemma burn_with_feeE:
  assumes "burn_with_fee v p q n = Inr (v', bs)"
  obtains s t where "0 < unat n" "unat n \<le> unat (v_vrt_supply v)"
    "calculate_burn_summary v p q n = Inr bs"
    "ds_total (v_delegation_state v) + unat (bs_out_amount bs) \<le> unat (v_tokens_deposited v)"
    "unat (v_vrt_supply v) = unat (bs_burn_amount bs) + unat s"
    "unat (v_tokens_deposited v) = unat (bs_out_amount bs) + unat t"
    "v' = v\<lparr>v_vrt_supply := s, v_tokens_deposited := t\<rparr>"
proof -
  from assms obtain sec mx s t where *: "n \<noteq> 0" "\<not> v_vrt_supply v < n"
    "calculate_burn_summary v p q n = Inr bs" "total_security (v_delegation_state v) = Inr sec"
    "checked_sub (v_tokens_deposited v) sec = Some mx" "\<not> mx < bs_out_amount bs"
    "checked_sub (v_vrt_supply v) (bs_burn_amount bs) = Some s"
    "checked_sub (v_tokens_deposited v) (bs_out_amount bs) = Some t"
    "v' = v\<lparr>v_vrt_supply := s, v_tokens_deposited := t\<rparr>"
    by (auto simp: burn_with_fee_def and_then_Inr_iff ok_or_Inr_iff err_if_Inr_iff)
  show ?thesis
    by (rule that [of s t])
       (use * in \<open>simp_all add: arith_iffs total_security_iff word_less_nat_alt unat_gt_0\<close>)
qed

text \<open>The VRT owed to withdrawal tickets, and the assets set aside for it.\<close>

definition vrt_reserve :: "vault \<Rightarrow> nat" where
  "vrt_reserve v = unat (v_vrt_enqueued_for_cooldown_amount v) + unat (v_vrt_cooling_down_amount v)
     + unat (v_vrt_ready_to_claim_amount v)"

definition net_of_fees :: "vault \<Rightarrow> nat \<Rightarrow> nat" where
  "net_of_fees v n = n - fee_of (unat (v_program_fee_bps v)) n - fee_of (unat (v_withdrawal_fee_bps v)) n"

definition assets_reserved :: "vault \<Rightarrow> nat" where
  "assets_reserved v = net_of_fees v (vrt_reserve v) * unat (v_tokens_deposited v) div unat (v_vrt_supply v)"

lemma assets_requested_InrD:
  "calculate_supported_assets_requested_for_withdrawal v = Inr r \<Longrightarrow> unat r = assets_reserved v"
proof (cases "v_vrt_supply v = 0")
  case False
  assume "calculate_supported_assets_requested_for_withdrawal v = Inr r"
  then obtain e n bs where *: "checked_add (v_vrt_enqueued_for_cooldown_amount v) (v_vrt_cooling_down_amount v) = Some e"
    "checked_add e (v_vrt_ready_to_claim_amount v) = Some n"
    "calculate_burn_summary v False False n = Inr bs" "r = bs_out_amount bs"
    using False
    by (auto simp: calculate_supported_assets_requested_for_withdrawal_def and_then_Inr_iff ok_or_Inr_iff bind_Some_iff)
  then have n: "unat n = vrt_reserve v"
    by (simp add: vrt_reserve_def arith_iffs)
  have "unat (bs_burn_amount bs) = net_of_fees v (unat n)"
    using calculate_burn_summaryD(1-4) [OF *(3)] by (simp add: net_of_fees_def)
  then show ?thesis
    using calculate_burn_summaryD(6) [OF *(3)] n *(4) by (simp add: assets_reserved_def)
qed (simp add: calculate_supported_assets_requested_for_withdrawal_def assets_reserved_def)

lemma ds_after_epochs_simps [simp]:
  "staked_amount (ds_after_epochs k d) = staked_amount d"
  "ds_total (ds_after_epochs k d) \<le> ds_total d"
  by (simp_all add: ds_after_epochs_def ds_total_def)

lemma additional_assetsD:
  assumes "calculate_additional_supported_assets_needed_to_unstake v slot len = Inr r"
  shows "unat r = assets_reserved v - (unat (v_tokens_deposited v) - unat (staked_amount (v_delegation_state v)))"
    and "unat (staked_amount (v_delegation_state v)) \<le> unat (v_tokens_deposited v)"
    and "0 < unat len"
proof -
  from assms obtain q k td u w a where *: "calculate_supported_assets_requested_for_withdrawal v = Inr q"
    "total_security (ds_after_epochs k (v_delegation_state v)) = Inr td"
    "checked_sub (v_tokens_deposited v) td = Some u"
    "checked_add (enqueued_for_cooldown_amount (ds_after_epochs k (v_delegation_state v)))
       (cooling_down_amount (ds_after_epochs k (v_delegation_state v))) = Some w"
    "checked_add u w = Some a" "r = saturating_sub q a" "0 < unat len"
    by (auto simp: calculate_additional_supported_assets_needed_to_unstake_def and_then_Inr_iff
        ok_or_Inr_iff map_err_Inr_iff get_epoch_iff Let_def)
  have "unat a = unat (v_tokens_deposited v) - unat (staked_amount (v_delegation_state v))"
    and "unat (staked_amount (v_delegation_state v)) \<le> unat (v_tokens_deposited v)"
    using *(2-5) by (simp_all add: arith_iffs total_security_iff ds_total_def)
  then show "unat r = assets_reserved v - (unat (v_tokens_deposited v) - unat (staked_amount (v_delegation_state v)))"
    and "unat (staked_amount (v_delegation_state v)) \<le> unat (v_tokens_deposited v)"
    and "0 < unat len"
    using * assets_requested_InrD by simp_all
qed

lemma vault_delegateE:
  assumes "vault_delegate v n = Inr v'"
  obtains d where "0 < unat n" "ds_delegate (v_delegation_state v) n = Inr d"
    "v' = v\<lparr>v_delegation_state := d\<rparr>"
    "ds_total (v_delegation_state v) + unat n + assets_reserved v \<le> unat (v_tokens_deposited v)"
    "0 < unat (v_vrt_supply v)"
proof -
  from assms obtain r sec x y d where *: "n \<noteq> 0" "v_vrt_supply v \<noteq> 0"
    "calculate_supported_assets_requested_for_withdrawal v = Inr r"
    "total_security (v_delegation_state v) = Inr sec"
    "checked_sub (v_tokens_deposited v) sec = Some x" "checked_sub x r = Some y" "\<not> y < n"
    "ds_delegate (v_delegation_state v) n = Inr d" "v' = v\<lparr>v_delegation_state := d\<rparr>"
    by (auto simp: vault_delegate_def and_then_Inr_iff ok_or_Inr_iff err_if_Inr_iff bind_Some_iff)
  show ?thesis
    by (rule that [of d])
       (use * assets_requested_InrD [OF *(3)] in
         \<open>simp_all add: arith_iffs total_security_iff word_less_nat_alt unat_gt_0\<close>)
qed

section \<open>Fee changes\<close>

lemma check_can_modify_fees_iff [res_simps]:
  "check_can_modify_fees v slot len = Inr u \<longleftrightarrow>
     0 < unat len \<and> unat (v_last_fee_change_slot v) div unat len + 1 < 2 ^ 64
     \<and> unat (v_last_fee_change_slot v) div unat len + 1 < unat slot div unat len"
proof -
  have "unat (v_last_fee_change_slot v div len + 1) = unat (v_last_fee_change_slot v) div unat len + 1"
    if "unat (v_last_fee_change_slot v) div unat len + 1 < 18446744073709551616"
    using that by (simp add: unat_word_ariths unat_div)
  then show ?thesis
    by (cases "len = 0")
       (auto simp: check_can_modify_fees_def get_epoch_def checked_div_def checked_add_def unat_div
          word_le_nat_alt unat_gt_0 res_simps)
qed

text \<open>The increase in basis points of the current fee; a fee of zero cannot be raised that way.\<close>

lemma unat_percentage_increase_bps:
  "unat (percentage_increase_bps fee_delta current)
     = (if current = 0 then unat u64_MAX else unat fee_delta * 10000 div unat current)"
proof -
  have small: "unat fee_delta * 10000 < 2 ^ 30"
    using unat_bound_u16 [of fee_delta] by simp
  define p :: u128 where "p = word_of_nat (unat fee_delta * 10000)"
  have up: "unat p = unat fee_delta * 10000"
    unfolding p_def using small by (subst unsigned_of_nat) (simp add: take_bit_nat_eq_self)
  have p: "checked_mul (as_u128 fee_delta) (as_u128 MAX_BPS) = Some p"
    using up by (simp add: arith_iffs)
  show ?thesis
  proof (cases "current = 0")
    case True
    then show ?thesis by (simp add: percentage_increase_bps_def p as_u128_def checked_div_def)
  next
    case False
    define q :: u64 where "q = word_of_nat (unat fee_delta * 10000 div unat current)"
    have "unat fee_delta * 10000 < 2 ^ 64"
      using small by simp
    then have uq: "unat q = unat fee_delta * 10000 div unat current"
      unfolding q_def by (intro unat_of_nat_u64 le_less_trans [OF div_le_dividend])
    have "0 < unat current" using False by (simp add: unat_gt_0)
    then have "checked_div p (as_u128 current) = Some (p div as_u128 current)"
      by (simp add: arith_iffs unat_div)
    moreover have "try_narrow (p div as_u128 current) = Some q"
      using up uq by (simp add: arith_iffs unat_div)
    ultimately show ?thesis using False uq by (simp add: percentage_increase_bps_def p)
  qed
qed

lemma check_fee_change_ok_iff [res_simps]:
  "check_fee_change_ok cur new cap bump rate = Inr u \<longleftrightarrow>
     unat cur \<le> 10000 \<and> unat cap \<le> 10000 \<and> unat bump \<le> 10000 \<and> unat rate \<le> 10000
     \<and> unat new \<le> unat cap
     \<and> (unat new \<le> unat cur + unat bump
        \<or> 0 < unat cur \<and> (unat new - unat cur) * 10000 div unat cur \<le> unat rate)"
proof -
  have "unat (ucast rate :: u64) = unat rate"
    using unat_bound_u16 [of rate] by (simp add: unsigned_ucast_eq take_bit_nat_eq_self)
  then show ?thesis
    using unat_bound_u16 [of rate]
    by (auto simp: check_fee_change_ok_def and_then_Inr_iff err_if_Inr_iff Let_def unat_percentage_increase_bps
        word_less_nat_alt unat_gt_0 unat_u64_MAX min_def word_le_nat_alt not_less split: if_splits)
qed

end
