(* ===== verification/Share_Ledger.thy ===== *)
theory Share_Ledger
  imports Vault_Ops
begin

text \<open>
  A vault as a ledger of shares: \<open>v_tokens_deposited\<close> assets back \<open>v_vrt_supply\<close> shares. The
  theory adds the balance update (the calculation of \<open>vault_program/src/update_vault_balance.rs\<close>),
  states what it means that a step does not dilute the holders, and shows it for minting,
  burning, rewards and delegation, alone and over every sequence of them.
\<close>

section \<open>Definitions\<close>

text \<open>
  Steps 1 to 5 of \<open>process_update_vault_balance\<close>: from the balance of the vault's token account
  to the new vault and the VRT minted to the fee wallet.
\<close>

definition update_vault_balance :: "vault \<Rightarrow> u64 \<Rightarrow> vault_error + vault \<times> u64" where
  "update_vault_balance v new_st_balance =
     (let st_rewards = saturating_sub new_st_balance (v_tokens_deposited v) in
      and_then (calculate_st_reward_fee v new_st_balance) (\<lambda>st_reward_fee.
      and_then (ok_or (checked_sub new_st_balance st_reward_fee) ArithmeticUnderflow) (\<lambda>st_balance_after_fees.
      let v = v\<lparr>v_tokens_deposited := st_balance_after_fees\<rparr> in
      and_then (calculate_vrt_mint_amount v st_reward_fee) (\<lambda>vrt_reward_fee.
      let v = v\<lparr>v_tokens_deposited := new_st_balance\<rparr> in
      and_then (increment_vrt_supply v vrt_reward_fee) (\<lambda>v.
      and_then (check_reward_fee_effective_rate v st_rewards vrt_reward_fee MAX_REWARD_DELTA_BPS) (\<lambda>_.
      Inr (v, vrt_reward_fee)))))))"

text \<open>All fee rates are shares of the whole.\<close>

definition fees_wf :: "vault \<Rightarrow> bool" where
  "fees_wf v \<longleftrightarrow> v_deposit_fee_bps v \<le> MAX_BPS \<and> v_withdrawal_fee_bps v \<le> MAX_BPS
     \<and> v_next_withdrawal_fee_bps v \<le> MAX_BPS \<and> v_reward_fee_bps v \<le> MAX_BPS
     \<and> v_program_fee_bps v \<le> MAX_BPS"

text \<open>
  What the instructions do to one vault's ledger: deposits, redemptions of withdrawal tickets,
  balance updates that found rewards, delegations, and anything that leaves both totals alone
  and the fee rates within bounds.
\<close>

inductive ledger_step :: "vault \<Rightarrow> vault \<Rightarrow> bool" where
  mint: "mint_with_fee v amount_in min_out = Inr (v', ms) \<Longrightarrow> ledger_step v v'"
| burn: "burn_with_fee v p q amount_in = Inr (v1, bs) \<Longrightarrow>
    decrement_vrt_ready_to_claim_amount v1 amount_in = Inr v' \<Longrightarrow> ledger_step v v'"
| reward: "update_vault_balance v balance = Inr (v', fee) \<Longrightarrow> v_tokens_deposited v \<le> balance \<Longrightarrow>
    ledger_step v v'"
| delegate: "vault_delegate v amount = Inr v' \<Longrightarrow> ledger_step v v'"
| other: "v_tokens_deposited v' = v_tokens_deposited v \<Longrightarrow> v_vrt_supply v' = v_vrt_supply v \<Longrightarrow>
    fees_wf v' \<Longrightarrow> ledger_step v v'"

section \<open>Ledgers whose price never falls\<close>

abbreviation assets_of :: "vault \<Rightarrow> nat" where
  "assets_of v \<equiv> unat (v_tokens_deposited v)"

abbreviation shares_of :: "vault \<Rightarrow> nat" where
  "shares_of v \<equiv> unat (v_vrt_supply v)"

locale share_ledger =
  fixes assets :: "'s \<Rightarrow> nat"
    and shares :: "'s \<Rightarrow> nat"
    and step :: "'s \<Rightarrow> 's \<Rightarrow> bool"
  assumes no_dilution: "step s s' \<Longrightarrow> assets s * shares s' \<le> assets s' * shares s"
begin

lemma value_mono:
  assumes "assets s * shares s' \<le> assets s' * shares s" and "0 < shares s" and "0 < shares s'"
  shows "h * assets s div shares s \<le> h * assets s' div shares s'"
proof -
  have "h * assets s div shares s = h * assets s * shares s' div (shares s * shares s')"
    using assms(3) by simp
  also have "\<dots> \<le> h * assets s' * shares s div (shares s * shares s')"
    using assms(1) by (intro div_le_mono) (simp add: mult.assoc)
  also have "\<dots> = h * assets s' div shares s'"
    using assms(2) by (simp add: mult.commute)
  finally show ?thesis .
qed

lemma run_no_dilution:
  assumes "(\<lambda>s s'. step s s' \<and> 0 < shares s')\<^sup>*\<^sup>* s s'"
  shows "assets s * shares s' \<le> assets s' * shares s"
  using assms
proof (induction rule: rtranclp_induct)
  case (step y z)
  show ?case
  proof (cases "0 < shares y")
    case True
    have "assets s * shares z * shares y \<le> assets y * shares s * shares z"
      using step.IH by (simp add: ac_simps)
    also have "\<dots> \<le> assets z * shares s * shares y"
      using no_dilution [of y z] step.hyps(2) by (simp add: ac_simps)
    finally show ?thesis using True by simp
  next
    case False
    then have "y = s"
      using step.hyps(1) by (auto elim: rtranclp.cases)
    then show ?thesis using no_dilution step.hyps(2) by simp
  qed
qed simp

lemma run_value_mono:
  assumes "(\<lambda>s s'. step s s' \<and> 0 < shares s')\<^sup>*\<^sup>* s s'" and "0 < shares s" and "0 < shares s'"
  shows "h * assets s div shares s \<le> h * assets s' div shares s'"
  using value_mono run_no_dilution assms by blast

end

section \<open>The steps of a vault\<close>

lemma vrt_mint_amount_le:
  assumes "calculate_vrt_mint_amount v a = Inr m"
  shows "unat m * assets_of v \<le> unat a * shares_of v"
  using assms by (simp add: res_simps split: if_splits)

lemma mint_no_dilution:
  assumes "mint_with_fee v a mn = Inr (v', ms)"
  shows "assets_of v * shares_of v' \<le> assets_of v' * shares_of v"
  using assms
proof (rule mint_with_feeE)
  fix t m s
  assume "assets_of v + unat a = unat t" "shares_of v + unat m = unat s"
    "v' = v\<lparr>v_vrt_supply := s, v_tokens_deposited := t\<rparr>" "calculate_vrt_mint_amount v a = Inr m"
  then show ?thesis
    using vrt_mint_amount_le [of v a m]
    by (simp flip: \<open>assets_of v + unat a = unat t\<close> \<open>shares_of v + unat m = unat s\<close> add: algebra_simps)
qed

lemma burn_no_dilution:
  assumes "burn_with_fee v p q n = Inr (v', bs)"
  shows "assets_of v * shares_of v' \<le> assets_of v' * shares_of v"
  using assms
proof (rule burn_with_feeE)
  fix s t
  assume *: "shares_of v = unat (bs_burn_amount bs) + unat s" "assets_of v = unat (bs_out_amount bs) + unat t"
    "v' = v\<lparr>v_vrt_supply := s, v_tokens_deposited := t\<rparr>" "calculate_burn_summary v p q n = Inr bs"
  have "unat (bs_out_amount bs) * shares_of v \<le> unat (bs_burn_amount bs) * assets_of v"
    using calculate_burn_summaryD(6) [OF *(4)] by simp
  then have "assets_of v * unat s \<le> unat t * shares_of v"
    unfolding *(1,2) by (simp add: algebra_simps)
  then show ?thesis using *(3) by simp
qed

lemma update_vault_balanceE:
  assumes "update_vault_balance v bal = Inr (v', fee)"
  obtains st_fee s where
    "unat st_fee = fee_of (unat (v_reward_fee_bps v)) (unat bal - assets_of v)"
    "unat st_fee \<le> unat bal"
    "(if unat bal = unat st_fee then fee = st_fee
      else unat fee = unat st_fee * shares_of v div (unat bal - unat st_fee))"
    "shares_of v + unat fee = unat s"
    "v' = v\<lparr>v_tokens_deposited := bal, v_vrt_supply := s\<rparr>"
    "check_reward_fee_effective_rate v' (saturating_sub bal (v_tokens_deposited v)) fee MAX_REWARD_DELTA_BPS = Inr ()"
proof -
  from assms obtain st_fee mid where *: "calculate_st_reward_fee v bal = Inr st_fee"
    "checked_sub bal st_fee = Some mid"
    "calculate_vrt_mint_amount (v\<lparr>v_tokens_deposited := mid\<rparr>) st_fee = Inr fee"
    "increment_vrt_supply (v\<lparr>v_tokens_deposited := bal\<rparr>) fee = Inr v'"
    "check_reward_fee_effective_rate v' (saturating_sub bal (v_tokens_deposited v)) fee MAX_REWARD_DELTA_BPS = Inr ()"
    by (auto simp: update_vault_balance_def and_then_Inr_iff ok_or_Inr_iff Let_def)
  have st: "unat st_fee = fee_of (unat (v_reward_fee_bps v)) (unat bal - assets_of v)"
    using *(1) unat_saturating_sub [of bal "v_tokens_deposited v"]
    by (auto simp: calculate_st_reward_fee_def Let_def ok_or_Inr_iff bps_fee_iff simp del: unat_saturating_sub
        split: if_splits)
  obtain s where s: "shares_of v + unat fee = unat s" "v' = v\<lparr>v_tokens_deposited := bal, v_vrt_supply := s\<rparr>"
    using *(4) by (auto simp: res_simps)
  have mid: "unat bal = unat st_fee + unat mid"
    using *(2) by (simp add: arith_iffs)
  show ?thesis
    by (rule that [of st_fee s]) (use * st s mid in \<open>auto simp: res_simps\<close>)
qed

lemma reward_no_dilution:
  assumes "update_vault_balance v bal = Inr (v', fee)" and "v_tokens_deposited v \<le> bal"
    and "unat (v_reward_fee_bps v) \<le> 10000"
  shows "assets_of v * shares_of v' \<le> assets_of v' * shares_of v"
  using assms(1)
proof (rule update_vault_balanceE)
  fix st_fee s
  assume *: "unat st_fee = fee_of (unat (v_reward_fee_bps v)) (unat bal - assets_of v)"
    "if unat bal = unat st_fee then fee = st_fee
      else unat fee = unat st_fee * shares_of v div (unat bal - unat st_fee)"
    "shares_of v + unat fee = unat s" "v' = v\<lparr>v_tokens_deposited := bal, v_vrt_supply := s\<rparr>"
  have le: "assets_of v \<le> unat bal - unat st_fee"
    using assms(2) fee_of_le [OF assms(3), of "unat bal - assets_of v"] *(1) by (simp add: word_le_nat_alt)
  then have "assets_of v * unat fee \<le> (unat bal - unat st_fee) * unat fee"
    by simp
  also have "\<dots> \<le> unat st_fee * shares_of v"
    using *(2) by (auto simp: mult.commute split: if_splits)
  finally have "assets_of v * unat fee \<le> unat st_fee * shares_of v" .
  moreover have "assets_of v + unat st_fee \<le> unat bal"
    using le assms(2) *(1) fee_of_le [OF assms(3), of "unat bal - assets_of v"] by (simp add: word_le_nat_alt)
  then have "(assets_of v + unat st_fee) * shares_of v \<le> unat bal * shares_of v"
    by (rule mult_le_mono1)
  ultimately have "assets_of v * unat s \<le> unat bal * shares_of v"
    by (simp flip: *(3) add: algebra_simps)
  then show ?thesis using *(4) by simp
qed

lemma ledger_step_fees_wf:
  assumes "ledger_step v v'" and "fees_wf v"
  shows "fees_wf v'"
  using assms(1)
proof (cases rule: ledger_step.cases)
  case (mint a mn ms)
  then show ?thesis using assms(2) by (auto simp: fees_wf_def elim!: mint_with_feeE)
next
  case (burn p q n v1 bs)
  then show ?thesis using assms(2) by (auto simp: fees_wf_def res_simps elim!: burn_with_feeE)
next
  case (reward bal fee)
  then show ?thesis using assms(2) by (auto simp: fees_wf_def elim!: update_vault_balanceE)
next
  case (delegate n)
  then show ?thesis using assms(2) by (auto simp: fees_wf_def elim!: vault_delegateE)
qed

lemma ledger_step_no_dilution:
  assumes "ledger_step v v'" and "fees_wf v"
  shows "assets_of v * shares_of v' \<le> assets_of v' * shares_of v"
  using assms(1)
proof (cases rule: ledger_step.cases)
  case (mint a mn ms)
  then show ?thesis by (rule mint_no_dilution)
next
  case (burn p q n v1 bs)
  then show ?thesis using burn_no_dilution [of v p q n v1 bs] by (auto simp: res_simps)
next
  case (reward bal fee)
  then show ?thesis
    using reward_no_dilution [of v bal v' fee] assms(2) by (simp add: fees_wf_def word_le_nat_alt)
next
  case (delegate n)
  then show ?thesis by (auto elim!: vault_delegateE)
qed simp

interpretation vault_ledger: share_ledger assets_of shares_of "\<lambda>v v'. ledger_step v v' \<and> fees_wf v"
  by unfold_locales (auto intro: ledger_step_no_dilution)

lemma ledger_run_fees_wf:
  "(\<lambda>v v'. ledger_step v v' \<and> 0 < shares_of v')\<^sup>*\<^sup>* v v' \<Longrightarrow> fees_wf v \<Longrightarrow>
     (\<lambda>v v'. (ledger_step v v' \<and> fees_wf v) \<and> 0 < shares_of v')\<^sup>*\<^sup>* v v' \<and> fees_wf v'"
  by (induction rule: rtranclp_induct) (auto intro: rtranclp.rtrancl_into_rtrancl ledger_step_fees_wf)

section \<open>When minting and burning succeed\<close>

lemma mint_with_fee_ok:
  fixes v :: vault and amount_in :: u64
  defines "minted \<equiv> (if assets_of v = 0 then unat amount_in else unat amount_in * shares_of v div assets_of v)"
  assumes "fees_wf v" and "0 < unat amount_in"
    and "assets_of v + unat amount_in \<le> unat (v_deposit_capacity v)"
    and "shares_of v + minted < 2 ^ 64"
    and "unat min_out + fee_of (unat (v_deposit_fee_bps v)) minted \<le> minted"
  shows "\<exists>v' ms. mint_with_fee v amount_in min_out = Inr (v', ms)"
proof -
  obtain t where t: "checked_add (v_tokens_deposited v) amount_in = Some t" "\<not> v_deposit_capacity v < t"
    using assms(4) unat_bound_u64 [of "v_deposit_capacity v"] checked_add_ok [of "v_tokens_deposited v" amount_in]
    by (auto simp: word_less_nat_alt)
  obtain m :: u64 where um: "unat m = minted"
    using assms(5) u64_of_nat [of minted] by auto
  then have m: "calculate_vrt_mint_amount v amount_in = Inr m"
    by (auto simp: calculate_vrt_mint_amount_iff minted_def word_unat_eq_iff)
  obtain f where "bps_fee (v_deposit_fee_bps v) m = Some f"
    using bps_fee_ok [of "v_deposit_fee_bps v" m] assms(2) by (auto simp: fees_wf_def word_le_nat_alt)
  then have f: "calculate_deposit_fee v m = Inr f" "unat f = fee_of (unat (v_deposit_fee_bps v)) minted"
    using um by (simp_all add: fee_iffs bps_fee_iff)
  obtain d where d: "checked_sub m f = Some d" "\<not> d < min_out"
    using checked_sub_ok [of f m] assms(6) f(2) um by (auto simp: word_less_nat_alt)
  obtain s where s: "checked_add (v_vrt_supply v) m = Some s"
    using checked_add_ok [of "v_vrt_supply v" m] assms(5) um by auto
  have "amount_in \<noteq> 0" using assms(3) by (simp add: unat_gt_0)
  then show ?thesis by (simp add: mint_with_fee_def t m f(1) d s)
qed

lemma calculate_burn_summary_ok:
  assumes "fees_wf v" and "unat n \<le> shares_of v" and "unat n < 2 ^ 63" and "0 < shares_of v"
  shows "\<exists>bs. calculate_burn_summary v p q n = Inr bs"
proof -
  have wf: "unat (v_program_fee_bps v) \<le> 10000" "unat (v_withdrawal_fee_bps v) \<le> 10000"
    using assms(1) by (simp_all add: fees_wf_def word_le_nat_alt)
  obtain pf where pf: "calculate_program_fee (v_program_fee_bps v) n = Inr pf"
    using bps_fee_ok [OF wf(1), of n] by (auto simp: calculate_program_fee_def)
  obtain vf where vf: "calculate_withdrawal_fee v n = Inr vf"
    using bps_fee_ok [OF wf(2), of n] by (auto simp: calculate_withdrawal_fee_def)
  have le: "unat pf \<le> unat n" "unat vf \<le> unat n"
    using pf vf fee_of_le [OF wf(1)] fee_of_le [OF wf(2)] by (simp_all add: fee_iffs)
  obtain fees where fees: "checked_add pf vf = Some fees" "unat fees = unat pf + unat vf"
    using le assms(3) checked_add_ok [of pf vf] by auto
  obtain w0 where w0: "checked_sub n pf = Some w0" "unat w0 = unat n - unat pf"
    using le checked_sub_ok [of pf n] by auto
  define w where "w = (if n < fees then w0 else vf)"
  have w: "(if n < fees then ok_or (checked_sub n pf) VaultUnderflow else Inr vf) = Inr w"
    and uw: "unat w \<le> unat n - unat pf"
    using w0 fees(2) le by (auto simp: w_def word_less_nat_alt)
  obtain b0 where b0: "checked_sub n (if p then 0 else pf) = Some b0" "unat n - unat pf \<le> unat b0" "unat b0 \<le> unat n"
    using le checked_sub_ok [of "if p then 0 else pf" n] by (cases p) auto
  obtain b where b: "checked_sub b0 (if q then 0 else w) = Some b" "unat b \<le> unat b0"
    using b0(2) uw checked_sub_ok [of "if q then 0 else w" b0] by (cases q) auto
  have "\<exists>out. pro_rata b (v_tokens_deposited v) (v_vrt_supply v) = Some out"
  proof -
    have "unat b \<le> shares_of v"
      using b(2) b0(3) assms(2) by simp
    then have "unat b * assets_of v div shares_of v \<le> shares_of v * assets_of v div shares_of v"
      by (intro div_le_mono mult_le_mono1)
    then have "unat b * assets_of v div shares_of v < 2 ^ 64"
      using assms(4) unat_bound_u64 [of "v_tokens_deposited v"] by simp
    then show ?thesis
      using assms(4) u64_of_nat by (auto simp: arith_iffs)
  qed
  then show ?thesis
    by (auto simp: calculate_burn_summary_def pf vf fees(1) w b0(1) b(1) Let_def)
qed

lemma burn_with_fee_ok:
  assumes "fees_wf v" and "0 < unat n" and "unat n \<le> shares_of v" and "unat n < 2 ^ 63"
    and "ds_total (v_delegation_state v) + unat n * assets_of v div shares_of v \<le> assets_of v"
  shows "\<exists>v' bs. burn_with_fee v p q n = Inr (v', bs)"
proof -
  obtain bs where bs: "calculate_burn_summary v p q n = Inr bs"
    using calculate_burn_summary_ok [OF assms(1,3,4)] assms(2,3) by fastforce
  have burn: "unat (bs_burn_amount bs) \<le> unat n"
    using calculate_burn_summaryD(4) [OF bs] by simp
  then have out: "unat (bs_out_amount bs) \<le> unat n * assets_of v div shares_of v"
    unfolding calculate_burn_summaryD(6) [OF bs] by (intro div_le_mono mult_le_mono1)
  obtain sec where sec: "total_security (v_delegation_state v) = Inr sec" "unat sec = ds_total (v_delegation_state v)"
    using total_security_ok [of "v_delegation_state v"] assms(5) unat_bound_u64 [of "v_tokens_deposited v"]
    by (auto simp: total_security_iff)
  obtain mx where mx: "checked_sub (v_tokens_deposited v) sec = Some mx" "\<not> mx < bs_out_amount bs"
    using checked_sub_ok [of sec "v_tokens_deposited v"] assms(5) sec(2) out by (auto simp: word_less_nat_alt)
  obtain s where s: "checked_sub (v_vrt_supply v) (bs_burn_amount bs) = Some s"
    using checked_sub_ok [of "bs_burn_amount bs" "v_vrt_supply v"] burn assms(3) by auto
  obtain t where t: "checked_sub (v_tokens_deposited v) (bs_out_amount bs) = Some t"
    using checked_sub_ok [of "bs_out_amount bs" "v_tokens_deposited v"] out assms(5) by auto
  have "n \<noteq> 0" "\<not> v_vrt_supply v < n"
    using assms(2,3) by (auto simp: unat_gt_0 word_less_nat_alt)
  then show ?thesis by (simp add: burn_with_fee_def bs sec(1) mx s t)
qed

section \<open>A vault for the examples\<close>

definition sample_vault :: vault where
  "sample_vault = (projr (vault_new 1 2 3 0 4 100 50 1000 10 255 5))
     \<lparr>v_vrt_supply := 1000, v_tokens_deposited := 1500, v_vrt_ready_to_claim_amount := 400,
      v_delegation_state := ds_new 600 0 0\<rparr>"

lemma sample_vault_simps [simp]:
  "v_vrt_supply sample_vault = 1000" "v_tokens_deposited sample_vault = 1500"
  "v_deposit_capacity sample_vault = u64_MAX" "v_delegation_state sample_vault = ds_new 600 0 0"
  "v_vrt_ready_to_claim_amount sample_vault = 400" "v_vrt_cooling_down_amount sample_vault = 0"
  "v_vrt_enqueued_for_cooldown_amount sample_vault = 0"
  "v_deposit_fee_bps sample_vault = 100" "v_withdrawal_fee_bps sample_vault = 50"
  "v_next_withdrawal_fee_bps sample_vault = 50" "v_reward_fee_bps sample_vault = 1000"
  "v_program_fee_bps sample_vault = 10" "v_last_full_state_update_slot sample_vault = 5"
  "v_last_fee_change_slot sample_vault = 5"
  by (simp_all add: sample_vault_def vault_new_def MAX_BPS_def)

lemma sample_vault_wf: "fees_wf sample_vault"
  by (simp add: fees_wf_def MAX_BPS_def)

lemmas eval_simps = checked_add_def checked_sub_def checked_mul_def checked_div_def checked_rem_def
  as_u128_def try_narrow_def div_ceil_def saturating_sub_def bps_fee_def MAX_BPS_def pro_rata_def

lemma sample_mint:
  "mint_with_fee sample_vault 300 190 =
     Inr (sample_vault\<lparr>v_vrt_supply := 1200, v_tokens_deposited := 1800\<rparr>,
          \<lparr>ms_vrt_to_depositor = 198, ms_vrt_to_fee_wallet = 2\<rparr>)"
  by (simp add: mint_with_fee_def calculate_vrt_mint_amount_def calculate_deposit_fee_def eval_simps)

lemma sample_burn:
  "burn_with_fee sample_vault False False 400 =
     Inr (sample_vault\<lparr>v_vrt_supply := 603, v_tokens_deposited := 905\<rparr>,
          \<lparr>bs_vault_fee_amount = 2, bs_program_fee_amount = 1, bs_burn_amount = 397, bs_out_amount = 595\<rparr>)"
  by (simp add: burn_with_fee_def calculate_burn_summary_def calculate_program_fee_def
      calculate_withdrawal_fee_def total_security_def ds_new_def eval_simps)

lemma sample_mint_burn:
  "burn_with_fee (sample_vault\<lparr>v_vrt_supply := 1200, v_tokens_deposited := 1800\<rparr>) False False 198 =
     Inr (sample_vault\<lparr>v_vrt_supply := 1004, v_tokens_deposited := 1506\<rparr>,
          \<lparr>bs_vault_fee_amount = 1, bs_program_fee_amount = 1, bs_burn_amount = 196, bs_out_amount = 294\<rparr>)"
  by (simp add: burn_with_fee_def calculate_burn_summary_def calculate_program_fee_def
      calculate_withdrawal_fee_def total_security_def ds_new_def eval_simps)

lemma sample_reward:
  "update_vault_balance sample_vault 1600 =
     Inr (sample_vault\<lparr>v_vrt_supply := 1006, v_tokens_deposited := 1600\<rparr>, 6)"
  by (simp add: update_vault_balance_def calculate_st_reward_fee_def calculate_vrt_mint_amount_def
      increment_vrt_supply_def check_reward_fee_effective_rate_def MAX_REWARD_DELTA_BPS_def eval_simps)

section \<open>Properties\<close>

text \<open>
  Claim C3. A deposit mints the pro-rata number of shares, rounded down, splits off the deposit
  fee rounded up, honours the minimum output and the capacity, and never lowers the assets
  per share of the holders that were there before.
\<close>

theorem mint_with_fee_fair:
  assumes "mint_with_fee v amount_in min_out = Inr (v', ms)"
  defines "minted \<equiv> unat (ms_vrt_to_depositor ms) + unat (ms_vrt_to_fee_wallet ms)"
  shows "assets_of v' = assets_of v + unat amount_in
    \<and> shares_of v' = shares_of v + minted
    \<and> minted = (if assets_of v = 0 then unat amount_in else unat amount_in * shares_of v div assets_of v)
    \<and> unat (ms_vrt_to_fee_wallet ms) = fee_of (unat (v_deposit_fee_bps v)) minted
    \<and> min_out \<le> ms_vrt_to_depositor ms
    \<and> v_tokens_deposited v' \<le> v_deposit_capacity v
    \<and> assets_of v * shares_of v' \<le> assets_of v' * shares_of v"
  using assms(1)
proof (rule mint_with_feeE)
  fix t m s
  assume *: "assets_of v + unat amount_in = unat t" "unat t \<le> unat (v_deposit_capacity v)"
    "calculate_vrt_mint_amount v amount_in = Inr m"
    "unat (ms_vrt_to_fee_wallet ms) = fee_of (unat (v_deposit_fee_bps v)) (unat m)"
    "unat m = unat (ms_vrt_to_fee_wallet ms) + unat (ms_vrt_to_depositor ms)"
    "unat min_out \<le> unat (ms_vrt_to_depositor ms)"
    "shares_of v + unat m = unat s" "v' = v\<lparr>v_vrt_supply := s, v_tokens_deposited := t\<rparr>"
  have m: "unat m = minted"
    unfolding minted_def using *(5) by simp
  have "minted = (if assets_of v = 0 then unat amount_in else unat amount_in * shares_of v div assets_of v)"
    using *(3) m by (auto simp: calculate_vrt_mint_amount_iff split: if_splits)
  then show ?thesis
    using *(1,2,4,6,7,8) mint_no_dilution [OF assms(1)] unfolding m by (simp add: word_le_nat_alt)
qed

theorem mint_with_fee_fair_witness:
  "mint_with_fee sample_vault 300 190 =
     Inr (sample_vault\<lparr>v_vrt_supply := 1200, v_tokens_deposited := 1800\<rparr>,
          \<lparr>ms_vrt_to_depositor = 198, ms_vrt_to_fee_wallet = 2\<rparr>)
   \<and> (198 + 2 :: nat) = 300 * 1000 div 1500 \<and> fee_of 100 200 = 2 \<and> (1500 * 1200 :: nat) \<le> 1800 * 1000"
  using sample_mint mint_with_fee_fair [OF sample_mint] by (simp add: fee_of_def ceil_div_def)

text \<open>
  Claim C4. Redeeming shares splits them exactly into the program fee, the vault fee and the
  burned part. The program fee is its share rounded up and takes precedence: the vault fee is
  cut to what is left. The assets paid out are the burned part's pro-rata share rounded down,
  never touch what is delegated, and never lower the assets per share of those who stay.
\<close>

theorem burn_with_fee_fair:
  assumes "burn_with_fee v is_program_wallet is_fee_wallet amount_in = Inr (v', bs)"
  defines "program_fee \<equiv> fee_of (unat (v_program_fee_bps v)) (unat amount_in)"
    and "vault_fee \<equiv> fee_of (unat (v_withdrawal_fee_bps v)) (unat amount_in)"
  shows "unat (bs_program_fee_amount bs) = (if is_program_wallet then 0 else program_fee)
    \<and> unat (bs_vault_fee_amount bs)
        = (if is_fee_wallet then 0 else min vault_fee (unat amount_in - program_fee))
    \<and> unat (bs_program_fee_amount bs) + unat (bs_vault_fee_amount bs) + unat (bs_burn_amount bs)
        = unat amount_in
    \<and> unat (bs_out_amount bs) = unat (bs_burn_amount bs) * assets_of v div shares_of v
    \<and> shares_of v = shares_of v' + unat (bs_burn_amount bs)
    \<and> assets_of v = assets_of v' + unat (bs_out_amount bs)
    \<and> ds_total (v_delegation_state v') \<le> assets_of v'
    \<and> assets_of v * shares_of v' \<le> assets_of v' * shares_of v"
  using assms(1)
proof (rule burn_with_feeE)
  fix s t
  assume *: "calculate_burn_summary v is_program_wallet is_fee_wallet amount_in = Inr bs"
    "ds_total (v_delegation_state v) + unat (bs_out_amount bs) \<le> assets_of v"
    "shares_of v = unat (bs_burn_amount bs) + unat s" "assets_of v = unat (bs_out_amount bs) + unat t"
    "v' = v\<lparr>v_vrt_supply := s, v_tokens_deposited := t\<rparr>"
  have v': "shares_of v' = unat s" "assets_of v' = unat t" "v_delegation_state v' = v_delegation_state v"
    using *(5) by simp_all
  have "shares_of v = unat s + unat (bs_burn_amount bs)"
    using *(3) by (simp only: add.commute)
  moreover have "assets_of v = unat t + unat (bs_out_amount bs)"
    using *(4) by (simp only: add.commute)
  moreover have "ds_total (v_delegation_state v) \<le> unat t"
    using *(2) unfolding *(4) by simp
  moreover note calculate_burn_summaryD(2,3,4,6) [OF *(1), folded program_fee_def vault_fee_def]
    burn_no_dilution [OF assms(1), unfolded v']
  ultimately show ?thesis unfolding v' by blast
qed

theorem burn_with_fee_fair_witness:
  "burn_with_fee sample_vault False False 400 =
     Inr (sample_vault\<lparr>v_vrt_supply := 603, v_tokens_deposited := 905\<rparr>,
          \<lparr>bs_vault_fee_amount = 2, bs_program_fee_amount = 1, bs_burn_amount = 397, bs_out_amount = 595\<rparr>)
   \<and> fee_of 10 400 = 1 \<and> (595 :: nat) = 397 * 1500 div 1000 \<and> (1500 * 603 :: nat) \<le> 905 * 1000"
  using sample_burn burn_with_fee_fair [OF sample_burn] by (simp add: fee_of_def ceil_div_def)

text \<open>
  Claim C2. Depositing and redeeming at once is never profitable: whoever deposits, and then
  redeems any part of the shares they received, gets back at most what they put in, whatever
  the state of the vault, the fee rates and the fee exemptions.
\<close>

theorem mint_then_burn_no_profit:
  assumes "mint_with_fee v amount_in min_out = Inr (v1, ms)"
    and "burn_with_fee v1 is_program_wallet is_fee_wallet n = Inr (v2, bs)"
    and "n \<le> ms_vrt_to_depositor ms"
  shows "bs_out_amount bs \<le> amount_in"
  using assms(1)
proof (rule mint_with_feeE)
  fix t m s
  assume *: "assets_of v + unat amount_in = unat t" "calculate_vrt_mint_amount v amount_in = Inr m"
    "unat m = unat (ms_vrt_to_fee_wallet ms) + unat (ms_vrt_to_depositor ms)"
    "shares_of v + unat m = unat s" "v1 = v\<lparr>v_vrt_supply := s, v_tokens_deposited := t\<rparr>"
  have b: "calculate_burn_summary v1 is_program_wallet is_fee_wallet n = Inr bs"
    using assms(2) by (rule burn_with_feeE)
  have "unat (bs_burn_amount bs) \<le> unat m"
    using calculate_burn_summaryD(4) [OF b] assms(3) *(3) by (simp add: word_le_nat_alt)
  then have "unat (bs_burn_amount bs) * unat t \<le> unat m * unat t"
    by (rule mult_le_mono1)
  also have "\<dots> \<le> unat amount_in * unat s"
  proof (cases "assets_of v = 0")
    case True
    then have "m = amount_in" using *(2) by (simp add: calculate_vrt_mint_amount_iff)
    then show ?thesis using True *(1,4) by simp
  next
    case False
    then show ?thesis
      using vrt_mint_amount_le [OF *(2)] by (simp flip: *(1,4) add: algebra_simps)
  qed
  finally have "unat (bs_burn_amount bs) * unat t div unat s \<le> unat amount_in * unat s div unat s"
    by (rule div_le_mono)
  then show ?thesis
    using calculate_burn_summaryD(5,6) [OF b] *(5) by (simp add: word_le_nat_alt)
qed

theorem mint_then_burn_no_profit_witness:
  "mint_with_fee sample_vault 300 190 =
     Inr (sample_vault\<lparr>v_vrt_supply := 1200, v_tokens_deposited := 1800\<rparr>,
          \<lparr>ms_vrt_to_depositor = 198, ms_vrt_to_fee_wallet = 2\<rparr>)
   \<and> burn_with_fee (sample_vault\<lparr>v_vrt_supply := 1200, v_tokens_deposited := 1800\<rparr>) False False 198 =
     Inr (sample_vault\<lparr>v_vrt_supply := 1004, v_tokens_deposited := 1506\<rparr>,
          \<lparr>bs_vault_fee_amount = 1, bs_program_fee_amount = 1, bs_burn_amount = 196, bs_out_amount = 294\<rparr>)
   \<and> (294 :: u64) \<le> 300"
  using sample_mint sample_mint_burn mint_then_burn_no_profit [OF sample_mint sample_mint_burn] by simp

text \<open>
  Claim C1. Over any sequence of deposits, redemptions, balance updates that found rewards,
  delegations and other instructions that keep the totals, in any order and with any
  arguments, the redemption value of every holding of shares never goes down, as long as some
  shares stay in circulation.
\<close>

theorem share_value_never_falls:
  assumes "(\<lambda>v v'. ledger_step v v' \<and> 0 < shares_of v')\<^sup>*\<^sup>* v v'"
    and "fees_wf v" and "0 < shares_of v"
  shows "holding * assets_of v div shares_of v \<le> holding * assets_of v' div shares_of v' \<and> fees_wf v'"
proof -
  note run = ledger_run_fees_wf [OF assms(1,2)]
  have "0 < shares_of v'"
    using assms(1,3) by (cases rule: rtranclp.cases) auto
  then show ?thesis
    using vault_ledger.run_value_mono [of v v' holding] run assms(3) by blast
qed

theorem share_value_never_falls_witness:
  "ledger_step sample_vault (sample_vault\<lparr>v_vrt_supply := 1006, v_tokens_deposited := 1600\<rparr>)
   \<and> 500 * 1500 div 1000 \<le> (500 * 1600 div 1006 :: nat)"
proof -
  have s: "ledger_step sample_vault (sample_vault\<lparr>v_vrt_supply := 1006, v_tokens_deposited := 1600\<rparr>)"
    by (rule ledger_step.reward [OF sample_reward]) simp
  then have "(\<lambda>v v'. ledger_step v v' \<and> 0 < shares_of v')\<^sup>*\<^sup>* sample_vault
      (sample_vault\<lparr>v_vrt_supply := 1006, v_tokens_deposited := 1600\<rparr>)"
    by (intro r_into_rtranclp) simp
  from share_value_never_falls [OF this sample_vault_wf, of 500] s show ?thesis
    by simp
qed

text \<open>
  Claim C7. Deposits and redemptions are available. With the fee rates in bounds, a deposit
  succeeds whenever it fits the capacity, the new share supply fits in 64 bits and the
  depositor's part meets the minimum; a redemption of shares below \<open>2 ^ 63\<close> succeeds whenever
  the vault holds enough assets that are not delegated.
\<close>

theorem mint_and_burn_available:
  fixes v :: vault
  defines "minted \<equiv> \<lambda>a :: u64. if assets_of v = 0 then unat a else unat a * shares_of v div assets_of v"
  assumes "fees_wf v"
  shows "(0 < unat a \<and> assets_of v + unat a \<le> unat (v_deposit_capacity v)
          \<and> shares_of v + minted a < 2 ^ 64
          \<and> unat min_out + fee_of (unat (v_deposit_fee_bps v)) (minted a) \<le> minted a
          \<longrightarrow> is_ok (mint_with_fee v a min_out))
       \<and> (0 < unat n \<and> unat n \<le> shares_of v \<and> unat n < 2 ^ 63
          \<and> ds_total (v_delegation_state v) + unat n * assets_of v div shares_of v \<le> assets_of v
          \<longrightarrow> is_ok (burn_with_fee v p q n))"
  using mint_with_fee_ok [OF assms(2), of a min_out] burn_with_fee_ok [OF assms(2), of n p q]
  unfolding minted_def is_ok_iff by auto

theorem mint_and_burn_available_witness:
  "is_ok (mint_with_fee sample_vault 300 190) \<and> is_ok (burn_with_fee sample_vault False True 400)"
  using mint_and_burn_available [OF sample_vault_wf, of 300 190 400 False True]
  by (simp add: fee_of_def ceil_div_def unat_u64_MAX ds_total_def ds_new_def)

text \<open>
  Claim C5. Delegating never eats into the reserve: after a successful delegation the stake at
  the operators together with the assets owed to all outstanding withdrawal tickets still fit
  into the deposited assets, exactly the requested amount moved to the active stake, and
  nothing else in the vault changed.
\<close>

theorem vault_delegate_keeps_reserve:
  assumes "vault_delegate v amount = Inr v'"
  shows "ds_total (v_delegation_state v') = ds_total (v_delegation_state v) + unat amount
    \<and> unat (staked_amount (v_delegation_state v'))
        = unat (staked_amount (v_delegation_state v)) + unat amount
    \<and> v' = v\<lparr>v_delegation_state := v_delegation_state v'\<rparr>
    \<and> assets_reserved v' = assets_reserved v
    \<and> ds_total (v_delegation_state v') + assets_reserved v' \<le> assets_of v'
    \<and> 0 < unat amount"
  using assms
proof (rule vault_delegateE)
  fix d
  assume *: "ds_delegate (v_delegation_state v) amount = Inr d" "v' = v\<lparr>v_delegation_state := d\<rparr>"
    "ds_total (v_delegation_state v) + unat amount + assets_reserved v \<le> assets_of v" "0 < unat amount"
  have "ds_total d = ds_total (v_delegation_state v) + unat amount"
    and "unat (staked_amount d) = unat (staked_amount (v_delegation_state v)) + unat amount"
    using *(1) by (auto simp: ds_delegate_iff ds_total_def)
  moreover have "assets_reserved v' = assets_reserved v"
    using *(2) by (simp add: assets_reserved_def net_of_fees_def vrt_reserve_def)
  ultimately show ?thesis using * by simp
qed

lemma sample_delegate:
  "vault_delegate sample_vault 305 = Inr (sample_vault\<lparr>v_delegation_state := ds_new 905 0 0\<rparr>)"
  by (simp add: vault_delegate_def calculate_supported_assets_requested_for_withdrawal_def
      calculate_burn_summary_def calculate_program_fee_def calculate_withdrawal_fee_def
      total_security_def ds_delegate_def ds_new_def eval_simps)

theorem vault_delegate_keeps_reserve_witness:
  "vault_delegate sample_vault 305 = Inr (sample_vault\<lparr>v_delegation_state := ds_new 905 0 0\<rparr>)
   \<and> assets_reserved sample_vault = 595
   \<and> ds_total (ds_new 905 0 0) + assets_reserved sample_vault \<le> 1500"
  using sample_delegate vault_delegate_keeps_reserve [OF sample_delegate]
  by (simp add: assets_reserved_def net_of_fees_def vrt_reserve_def fee_of_def ceil_div_def)

text \<open>
  Claim C6. The extra assets to unstake at an epoch boundary are exactly the shortfall: what
  is owed to the outstanding withdrawal tickets beyond the assets that are not actively
  staked. The simulated cooldown of the delegation state over zero, one or more epochs does
  not change the result, only the active stake does.
\<close>

theorem additional_assets_is_shortfall:
  assumes "calculate_additional_supported_assets_needed_to_unstake v slot epoch_length = Inr r"
  shows "unat r = assets_reserved v - (assets_of v - unat (staked_amount (v_delegation_state v)))
    \<and> unat (staked_amount (v_delegation_state v)) \<le> assets_of v"
  using additional_assetsD [OF assms] by simp

lemma sample_additional:
  "calculate_additional_supported_assets_needed_to_unstake
     (sample_vault\<lparr>v_delegation_state := ds_new 1100 200 100\<rparr>) 500 100 = Inr 195"
  by (simp add: calculate_additional_supported_assets_needed_to_unstake_def
      calculate_supported_assets_requested_for_withdrawal_def calculate_burn_summary_def
      calculate_program_fee_def calculate_withdrawal_fee_def total_security_def ds_new_def
      ds_after_epochs_def ds_update_def get_epoch_def eval_simps)

theorem additional_assets_is_shortfall_witness:
  "calculate_additional_supported_assets_needed_to_unstake
     (sample_vault\<lparr>v_delegation_state := ds_new 1100 200 100\<rparr>) 500 100 = Inr 195
   \<and> 195 = assets_reserved sample_vault - (1500 - 1100)"
  using sample_additional additional_assets_is_shortfall [OF sample_additional]
  by (simp add: assets_reserved_def net_of_fees_def vrt_reserve_def ds_new_def fee_of_def ceil_div_def)

text \<open>
  The fee admin can raise the deposit fee only to the configured cap, and only by a
  flat bump or, from a fee above zero, by the configured relative rate; lowering it is always
  possible within the bounds. The rule is exact: every other change is refused, and an
  accepted one changes nothing but the fee.
\<close>

theorem set_deposit_fee_rule:
  "set_deposit_fee_bps v fee cap bump rate = Inr v' \<longleftrightarrow>
     v' = v\<lparr>v_deposit_fee_bps := fee\<rparr>
   \<and> unat (v_deposit_fee_bps v) \<le> 10000 \<and> unat cap \<le> 10000 \<and> unat bump \<le> 10000 \<and> unat rate \<le> 10000
   \<and> unat fee \<le> unat cap
   \<and> (unat fee \<le> unat (v_deposit_fee_bps v) + unat bump
      \<or> 0 < unat (v_deposit_fee_bps v)
        \<and> (unat fee - unat (v_deposit_fee_bps v)) * 10000 div unat (v_deposit_fee_bps v) \<le> unat rate)"
  by (auto simp: set_deposit_fee_bps_def res_simps word_less_nat_alt)

end
