(* ===== verification/Vault_Token_Handlers.thy ===== *)
theory Vault_Token_Handlers
  imports Account_Loads Share_Ledger
begin

text \<open>
  The vault instructions that move tokens: \<open>mint_to.rs\<close>, \<open>enqueue_withdrawal.rs\<close>,
  \<open>burn_withdrawal_ticket.rs\<close> and \<open>update_vault_balance.rs\<close> of \<open>vault_program/src\<close>. Each handler
  is the whole function: the account list, the loads and checks in their order, the change of
  the vault and the invocations of the token program. The vault is written to the bank where
  the code mutates it, before the invocations that follow.
\<close>

section \<open>Definitions\<close>

definition process_mint ::
    "env \<Rightarrow> pubkey \<Rightarrow> bank \<Rightarrow> account_info list \<Rightarrow> u64 \<Rightarrow> u64 \<Rightarrow> program_error + bank" where
  "process_mint e program_id b accounts amount_in min_amount_out =
     and_then (split_at 9 accounts) (\<lambda>(required_accounts, optional_accounts).
     and_then (accounts9 required_accounts) (\<lambda>(config, vault_info, vrt_mint, depositor, depositor_token_account,
       vault_token_account, depositor_vrt_token_account, vault_fee_token_account, token_program).
     and_then (vault_config_load e program_id b config False) (\<lambda>_.
     and_then (get_vault_config b config) (\<lambda>c.
     and_then (vault_load e program_id b vault_info True) (\<lambda>_.
     and_then (get_vault b vault_info) (\<lambda>v.
     and_then (load_token_mint e b vrt_mint) (\<lambda>_.
     and_then (load_signer depositor False) (\<lambda>_.
     and_then (load_associated_token_account e b depositor_token_account (ai_key depositor) (v_supported_mint v)) (\<lambda>_.
     and_then (load_associated_token_account e b vault_token_account (ai_key vault_info) (v_supported_mint v)) (\<lambda>_.
     and_then (load_associated_token_account e b depositor_vrt_token_account (ai_key depositor) (ai_key vrt_mint)) (\<lambda>_.
     and_then (load_associated_token_account e b vault_fee_token_account (v_fee_wallet v) (ai_key vrt_mint)) (\<lambda>_.
     and_then (load_token_program e token_program) (\<lambda>_.
     and_then (vault_res (check_mint_burn_admin v (first optional_accounts))) (\<lambda>_.
     and_then (check_vrt_mint v (ai_key vrt_mint)) (\<lambda>_.
     and_then (check_update_state_ok v (e_slot e) (c_epoch_length c)) (\<lambda>_.
     and_then (vault_res (check_is_paused v)) (\<lambda>_.
     and_then (vault_res (err_if (ai_key depositor = ai_key vault_info) InvalidDepositor)) (\<lambda>_.
     and_then (vault_res (err_if (ai_key depositor_token_account = ai_key vault_token_account)
       InvalidDepositTokenAccount)) (\<lambda>_.
     and_then (vault_res (mint_with_fee v amount_in min_amount_out)) (\<lambda>(v, ms).
     let b = set_data b (ai_key vault_info) (VaultD v) in
     and_then (vault_res (err_if (ms_vrt_to_depositor ms = 0) VrtOutCannotBeZero)) (\<lambda>_.
     and_then (invoke e program_id
       (TokenTransfer (e_spl_token e) (ai_key depositor_token_account) (ai_key vault_token_account)
          (ai_key depositor) amount_in)
       [depositor_token_account, vault_token_account, depositor] b) (\<lambda>b.
     and_then (e_invoke_signed e program_id
       (TokenMintTo (e_spl_token e) (ai_key vrt_mint) (ai_key depositor_vrt_token_account) (ai_key vault_info)
          (ms_vrt_to_depositor ms))
       [vrt_mint, depositor_vrt_token_account, vault_info] [vault_signing_seeds v] b) (\<lambda>b.
     e_invoke_signed e program_id
       (TokenMintTo (e_spl_token e) (ai_key vrt_mint) (ai_key vault_fee_token_account) (ai_key vault_info)
          (ms_vrt_to_fee_wallet ms))
       [vrt_mint, vault_fee_token_account, vault_info] [vault_signing_seeds v] b)))))))))))))))))))))))"

definition process_enqueue_withdrawal ::
    "env \<Rightarrow> pubkey \<Rightarrow> bank \<Rightarrow> account_info list \<Rightarrow> u64 \<Rightarrow> program_error + bank" where
  "process_enqueue_withdrawal e program_id b accounts vrt_amount =
     and_then (split_at 9 accounts) (\<lambda>(required_accounts, optional_accounts).
     and_then (accounts9 required_accounts) (\<lambda>(config, vault_info, ticket, ticket_token_account, staker,
       staker_vrt_token_account, base, token_program, system_program).
     and_then (vault_config_load e program_id b config False) (\<lambda>_.
     and_then (get_vault_config b config) (\<lambda>c.
     and_then (vault_load e program_id b vault_info True) (\<lambda>_.
     and_then (get_vault b vault_info) (\<lambda>v.
     and_then (load_system_account e b ticket True) (\<lambda>_.
     and_then (load_associated_token_account e b ticket_token_account (ai_key ticket) (v_vrt_mint v)) (\<lambda>_.
     and_then (load_signer staker False) (\<lambda>_.
     and_then (load_associated_token_account e b staker_vrt_token_account (ai_key staker) (v_vrt_mint v)) (\<lambda>_.
     and_then (load_token_program e token_program) (\<lambda>_.
     and_then (load_signer base False) (\<lambda>_.
     and_then (load_system_program e system_program) (\<lambda>_.
     and_then (vault_res (check_mint_burn_admin v (first optional_accounts))) (\<lambda>_.
     and_then (check_update_state_ok v (e_slot e) (c_epoch_length c)) (\<lambda>_.
     and_then (vault_res (check_is_paused v)) (\<lambda>_.
     and_then (vault_res (err_if (vrt_amount = 0) VaultEnqueueWithdrawalAmountZero)) (\<lambda>_.
     let (pda, bump, seeds) = vault_staker_withdrawal_ticket_find_program_address e program_id (ai_key vault_info)
           (ai_key base) in
     and_then (err_if (ai_key ticket \<noteq> pda) InvalidAccountData) (\<lambda>_.
     and_then (vault_res (ok_or (checked_add 8 size_of_vault_staker_withdrawal_ticket) ArithmeticOverflow)) (\<lambda>space.
     and_then (create_account e program_id b staker ticket system_program program_id space (seeds @ [[bump]])) (\<lambda>b.
     and_then (init_account b ticket (unat size_of_vault_staker_withdrawal_ticket)
       (VaultStakerWithdrawalTicketD
          (withdrawal_ticket_new (ai_key vault_info) (ai_key staker) (ai_key base) vrt_amount (e_slot e) bump))) (\<lambda>b.
     and_then (vault_res (increment_vrt_enqueued_for_cooldown_amount v vrt_amount)) (\<lambda>v.
     let b = set_data b (ai_key vault_info) (VaultD v) in
     invoke e program_id
       (TokenTransfer (e_spl_token e) (ai_key staker_vrt_token_account) (ai_key ticket_token_account)
          (ai_key staker) vrt_amount)
       [staker_vrt_token_account, ticket_token_account, staker] b))))))))))))))))))))))"

definition process_burn_withdrawal_ticket ::
    "env \<Rightarrow> pubkey \<Rightarrow> bank \<Rightarrow> account_info list \<Rightarrow> program_error + bank" where
  "process_burn_withdrawal_ticket e program_id b accounts =
     and_then (split_at 12 accounts) (\<lambda>(required_accounts, optional_accounts).
     and_then (accounts12 required_accounts) (\<lambda>(config, vault_info, vault_token_account, vrt_mint, staker,
       staker_token_account, ticket, ticket_token_account, vault_fee_token_account, program_fee_token_account,
       token_program, system_program).
     and_then (vault_config_load e program_id b config False) (\<lambda>_.
     and_then (get_vault_config b config) (\<lambda>c.
     and_then (vault_load e program_id b vault_info True) (\<lambda>_.
     and_then (get_vault b vault_info) (\<lambda>v.
     and_then (load_associated_token_account e b vault_token_account (ai_key vault_info) (v_supported_mint v)) (\<lambda>_.
     and_then (load_token_mint e b vrt_mint) (\<lambda>_.
     and_then (load_associated_token_account e b staker_token_account (ai_key staker) (v_supported_mint v)) (\<lambda>_.
     and_then (vault_staker_withdrawal_ticket_load e program_id b ticket vault_info True) (\<lambda>_.
     and_then (get_vault_staker_withdrawal_ticket b ticket) (\<lambda>t.
     and_then (load_associated_token_account e b ticket_token_account (ai_key ticket) (v_vrt_mint v)) (\<lambda>_.
     and_then (e_unpack_account_2022 e (raw_data b ticket_token_account)) (\<lambda>ticket_vrt_account.
     and_then (load_associated_token_account e b vault_fee_token_account (v_fee_wallet v) (v_vrt_mint v)) (\<lambda>_.
     and_then (load_associated_token_account e b program_fee_token_account (c_program_fee_wallet c) (v_vrt_mint v)) (\<lambda>_.
     and_then (load_token_program e token_program) (\<lambda>_.
     and_then (load_system_program e system_program) (\<lambda>_.
     and_then (vault_res (check_mint_burn_admin v (first optional_accounts))) (\<lambda>_.
     and_then (check_vrt_mint v (ai_key vrt_mint)) (\<lambda>_.
     and_then (check_update_state_ok v (e_slot e) (c_epoch_length c)) (\<lambda>_.
     and_then (vault_res (check_is_paused v)) (\<lambda>_.
     and_then (vault_res (check_staker t (ai_key staker))) (\<lambda>_.
     and_then (is_withdrawable t (e_slot e) (c_epoch_length c)) (\<lambda>withdrawable.
     and_then (vault_res (err_if (\<not> withdrawable) VaultStakerWithdrawalTicketNotWithdrawable)) (\<lambda>_.
     and_then (vault_res (burn_with_fee v (c_program_fee_wallet c = ai_key staker) (v_fee_wallet v = ai_key staker)
       (wt_vrt_amount t))) (\<lambda>(v, bs).
     and_then (vault_res (ok_or (checked_sub (ta_amount ticket_vrt_account) (wt_vrt_amount t)) ArithmeticUnderflow))
       (\<lambda>extra_vrt_in_account.
     and_then (vault_res (ok_or (checked_add (bs_program_fee_amount bs) extra_vrt_in_account) ArithmeticOverflow))
       (\<lambda>program_fee_amount.
     and_then (vault_res (decrement_vrt_ready_to_claim_amount v (wt_vrt_amount t))) (\<lambda>v.
     let b = set_data b (ai_key vault_info) (VaultD v);
         ticket_seeds = vault_staker_withdrawal_ticket_signing_seeds t (ai_key vault_info) in
     and_then (e_invoke_signed e program_id
       (TokenTransfer (e_spl_token e) (ai_key ticket_token_account) (ai_key vault_fee_token_account) (ai_key ticket)
          (bs_vault_fee_amount bs))
       [ticket_token_account, vault_fee_token_account, ticket] [ticket_seeds] b) (\<lambda>b.
     and_then (e_invoke_signed e program_id
       (TokenTransfer (e_spl_token e) (ai_key ticket_token_account) (ai_key program_fee_token_account) (ai_key ticket)
          program_fee_amount)
       [ticket_token_account, program_fee_token_account, ticket] [ticket_seeds] b) (\<lambda>b.
     and_then (e_invoke_signed e program_id
       (TokenBurn (e_spl_token e) (ai_key ticket_token_account) (ai_key vrt_mint) (ai_key ticket) (bs_burn_amount bs))
       [ticket_token_account, vrt_mint, ticket] [ticket_seeds] b) (\<lambda>b.
     and_then (e_invoke_signed e program_id
       (TokenCloseAccount (e_spl_token e) (ai_key ticket_token_account) (ai_key staker) (ai_key ticket))
       [ticket_token_account, staker, ticket] [ticket_seeds] b) (\<lambda>b.
     and_then (close_program_account e b program_id ticket staker) (\<lambda>b.
     e_invoke_signed e program_id
       (TokenTransfer (e_spl_token e) (ai_key vault_token_account) (ai_key staker_token_account) (ai_key vault_info)
          (bs_out_amount bs))
       [vault_token_account, staker_token_account, vault_info] [vault_signing_seeds v] b)))))))))))))))))))))))))))))))))"

definition process_update_vault_balance ::
    "env \<Rightarrow> pubkey \<Rightarrow> bank \<Rightarrow> account_info list \<Rightarrow> program_error + bank" where
  "process_update_vault_balance e program_id b accounts =
     and_then (accounts6 accounts) (\<lambda>(config, vault_info, vault_token_account, vrt_mint, vault_fee_token_account,
       token_program).
     and_then (vault_config_load e program_id b config False) (\<lambda>_.
     and_then (vault_load e program_id b vault_info True) (\<lambda>_.
     and_then (get_vault_config b config) (\<lambda>c.
     and_then (get_vault b vault_info) (\<lambda>v.
     and_then (load_token_mint e b vrt_mint) (\<lambda>_.
     and_then (load_associated_token_account e b vault_fee_token_account (v_fee_wallet v) (ai_key vrt_mint)) (\<lambda>_.
     and_then (load_associated_token_account e b vault_token_account (ai_key vault_info) (v_supported_mint v)) (\<lambda>_.
     and_then (load_token_program e token_program) (\<lambda>_.
     and_then (check_update_state_ok v (e_slot e) (c_epoch_length c)) (\<lambda>_.
     and_then (check_vrt_mint v (ai_key vrt_mint)) (\<lambda>_.
     and_then (vault_res (check_is_paused v)) (\<lambda>_.
     and_then (e_unpack_account e (raw_data b vault_token_account)) (\<lambda>vault_account.
     and_then (vault_res (update_vault_balance v (ta_amount vault_account))) (\<lambda>(v, vrt_reward_fee).
     let b = set_data b (ai_key vault_info) (VaultD v) in
     if 0 < vrt_reward_fee then
       e_invoke_signed e program_id
         (TokenMintTo (e_spl_token e) (ai_key vrt_mint) (ai_key vault_fee_token_account) (ai_key vault_info) vrt_reward_fee)
         [vrt_mint, vault_fee_token_account, vault_info] [vault_signing_seeds v] b
     else Inr b))))))))))))))"

end
