(* ===== verification/Vault_Admin_Handlers.thy ===== *)
theory Vault_Admin_Handlers
  imports Vault_Token_Handlers
begin

text \<open>
  The vault instructions of the administrators, from \<open>vault_program/src\<close>: creating the
  configuration and vaults (\<open>initialize_config.rs\<close>, \<open>initialize_vault.rs\<close>,
  \<open>initialize_vault_with_mint.rs\<close>), the \<open>set_*.rs\<close> handlers, the token metadata, the delegation
  of stray token accounts, and the transfer of a withdrawal ticket
  (\<open>change_withdrawal_ticket_owner.rs\<close>).
\<close>

section \<open>Definitions\<close>

subsection \<open>Configuration\<close>

definition process_initialize_config ::
    "env \<Rightarrow> pubkey \<Rightarrow> bank \<Rightarrow> account_info list \<Rightarrow> u16 \<Rightarrow> program_error + bank" where
  "process_initialize_config e program_id b accounts program_fee_bps =
     and_then (accounts5 accounts) (\<lambda>(config, admin, restaking_program, program_fee_wallet, system_program).
     and_then (load_system_account e b config True) (\<lambda>_.
     and_then (load_signer admin True) (\<lambda>_.
     and_then (load_system_program e system_program) (\<lambda>_.
     let (config_pubkey, config_bump, config_seeds) = vault_config_find_program_address e program_id in
     and_then (err_if (config_pubkey \<noteq> ai_key config) InvalidAccountData) (\<lambda>_.
     and_then (err_if (MAX_BPS < program_fee_bps) InvalidArgument) (\<lambda>_.
     and_then (vault_res (ok_or (checked_add 8 size_of_vault_config) ArithmeticOverflow)) (\<lambda>space.
     and_then (create_account e program_id b admin config system_program program_id space
       (config_seeds @ [[config_bump]])) (\<lambda>b.
     init_account b config (unat size_of_vault_config)
       (VaultConfigD (vault_config_new (ai_key admin) (ai_key restaking_program) (ai_key program_fee_wallet)
          program_fee_bps config_bump))))))))))"

definition process_set_config_admin ::
    "env \<Rightarrow> pubkey \<Rightarrow> bank \<Rightarrow> account_info list \<Rightarrow> program_error + bank" where
  "process_set_config_admin e program_id b accounts =
     and_then (accounts3 accounts) (\<lambda>(config, old_admin, new_admin).
     and_then (vault_config_load e program_id b config True) (\<lambda>_.
     and_then (get_vault_config b config) (\<lambda>c.
     and_then (load_signer old_admin False) (\<lambda>_.
     and_then (vault_res (err_if (c_admin c \<noteq> ai_key old_admin) ConfigAdminInvalid)) (\<lambda>_.
     Inr (set_data b (ai_key config) (VaultConfigD (config_set_admin c (ai_key new_admin)))))))))"

datatype config_admin_role = ConfigFeeAdmin

definition process_set_config_secondary_admin ::
    "env \<Rightarrow> pubkey \<Rightarrow> bank \<Rightarrow> account_info list \<Rightarrow> config_admin_role \<Rightarrow> program_error + bank" where
  "process_set_config_secondary_admin e program_id b accounts role =
     and_then (accounts3 accounts) (\<lambda>(config, admin, new_admin).
     and_then (vault_config_load e program_id b config True) (\<lambda>_.
     and_then (get_vault_config b config) (\<lambda>c.
     and_then (load_signer admin False) (\<lambda>_.
     and_then (vault_res (config_check_admin c (ai_key admin))) (\<lambda>_.
     let c = (case role of ConfigFeeAdmin \<Rightarrow> c\<lparr>c_fee_admin := ai_key new_admin\<rparr>) in
     Inr (set_data b (ai_key config) (VaultConfigD c)))))))"

definition process_set_program_fee ::
    "env \<Rightarrow> pubkey \<Rightarrow> bank \<Rightarrow> account_info list \<Rightarrow> u16 \<Rightarrow> program_error + bank" where
  "process_set_program_fee e program_id b accounts new_fee_bps =
     and_then (accounts2 accounts) (\<lambda>(config, config_admin).
     and_then (vault_config_load e program_id b config True) (\<lambda>_.
     and_then (get_vault_config b config) (\<lambda>c.
     and_then (load_signer config_admin False) (\<lambda>_.
     and_then (vault_res (err_if (ai_key config_admin \<noteq> c_admin c) ConfigAdminInvalid)) (\<lambda>_.
     and_then (config_set_program_fee_bps c new_fee_bps) (\<lambda>c.
     Inr (set_data b (ai_key config) (VaultConfigD c))))))))"

definition process_set_program_fee_wallet ::
    "env \<Rightarrow> pubkey \<Rightarrow> bank \<Rightarrow> account_info list \<Rightarrow> program_error + bank" where
  "process_set_program_fee_wallet e program_id b accounts =
     and_then (accounts3 accounts) (\<lambda>(config, config_fee_admin, new_fee_wallet).
     and_then (vault_config_load e program_id b config True) (\<lambda>_.
     and_then (get_vault_config b config) (\<lambda>c.
     and_then (load_signer config_fee_admin False) (\<lambda>_.
     and_then (vault_res (err_if (ai_key config_fee_admin \<noteq> c_fee_admin c) ConfigFeeAdminInvalid)) (\<lambda>_.
     Inr (set_data b (ai_key config) (VaultConfigD (c\<lparr>c_program_fee_wallet := ai_key new_fee_wallet\<rparr>))))))))"

subsection \<open>Creating a vault\<close>

definition process_initialize_vault_with_mint ::
    "env \<Rightarrow> pubkey \<Rightarrow> bank \<Rightarrow> account_info list \<Rightarrow> program_error + bank" where
  "process_initialize_vault_with_mint e program_id b accounts = Inr b"

text \<open>
  The vault a new account starts with: the constructor, then the mint of the initial supply
  with the deposit fee set aside. The deposit fee is restored afterwards.
\<close>

definition initial_vault ::
    "pubkey \<Rightarrow> pubkey \<Rightarrow> pubkey \<Rightarrow> vault_config \<Rightarrow> account_info \<Rightarrow> u16 \<Rightarrow> u16 \<Rightarrow> u16 \<Rightarrow> u8 \<Rightarrow> u64 \<Rightarrow> u64
     \<Rightarrow> program_error + vault" where
  "initial_vault vrt_mint st_mint admin c base deposit_fee_bps withdrawal_fee_bps reward_fee_bps bump slot
     initialize_token_amount =
     and_then (vault_res (vault_new vrt_mint st_mint admin (c_num_vaults c) (ai_key base) deposit_fee_bps
       withdrawal_fee_bps reward_fee_bps (c_program_fee_bps c) bump slot)) (\<lambda>v.
     and_then (initialize_vault_override_deposit_fee_bps v 0 base) (\<lambda>v.
     and_then (vault_res (mint_with_fee v initialize_token_amount initialize_token_amount)) (\<lambda>(v, ms).
     and_then (vault_res (err_if (ms_vrt_to_depositor ms \<noteq> initialize_token_amount \<or> ms_vrt_to_fee_wallet ms \<noteq> 0)
       VaultInitialAmountFailed)) (\<lambda>_.
     initialize_vault_override_deposit_fee_bps v deposit_fee_bps base))))"

definition process_initialize_vault ::
    "env \<Rightarrow> pubkey \<Rightarrow> bank \<Rightarrow> account_info list \<Rightarrow> u16 \<Rightarrow> u16 \<Rightarrow> u16 \<Rightarrow> u8 \<Rightarrow> u64 \<Rightarrow> program_error + bank" where
  "process_initialize_vault e program_id b accounts deposit_fee_bps withdrawal_fee_bps reward_fee_bps decimals
     initialize_token_amount =
     and_then (accounts13 accounts) (\<lambda>(config, vault, vrt_mint, st_mint, admin_st_token_account,
       vault_st_token_account, burn_vault, burn_vault_vrt_token_account, admin, base, system_program, token_program,
       associated_token_program).
     and_then (vault_config_load e program_id b config True) (\<lambda>_.
     and_then (get_vault_config b config) (\<lambda>c.
     and_then (load_system_account e b vault True) (\<lambda>_.
     and_then (load_system_account e b vrt_mint True) (\<lambda>_.
     and_then (load_signer vrt_mint True) (\<lambda>_.
     and_then (load_token_mint e b st_mint) (\<lambda>_.
     and_then (load_token_account e b admin_st_token_account (ai_key admin) (ai_key st_mint) token_program) (\<lambda>_.
     and_then (load_token_account e b vault_st_token_account (ai_key vault) (ai_key st_mint) token_program) (\<lambda>_.
     and_then (burn_vault_load e program_id b (ai_key base) burn_vault False) (\<lambda>_.
     and_then (load_system_account e b burn_vault_vrt_token_account True) (\<lambda>_.
     and_then (load_signer admin True) (\<lambda>_.
     and_then (load_signer base False) (\<lambda>_.
     and_then (load_system_program e system_program) (\<lambda>_.
     and_then (load_token_program e token_program) (\<lambda>_.
     and_then (load_associated_token_account_program e associated_token_program) (\<lambda>_.
     and_then (vault_res (err_if (initialize_token_amount = 0) VaultInitialAmountFailed)) (\<lambda>_.
     let (vault_pubkey, vault_bump, vault_seeds) = vault_find_program_address e program_id (ai_key base) in
     and_then (err_if (ai_key vault \<noteq> vault_pubkey) InvalidAccountData) (\<lambda>_.
     and_then (vault_res (err_if (c_deposit_withdrawal_fee_cap_bps c < deposit_fee_bps
                                  \<or> c_deposit_withdrawal_fee_cap_bps c < withdrawal_fee_bps
                                  \<or> MAX_BPS < reward_fee_bps) VaultFeeCapExceeded)) (\<lambda>_.
     and_then (invoke e program_id
       (SystemCreateAccount (ai_key admin) (ai_key vrt_mint) (e_minimum_balance e (e_mint_packed_len e))
          (e_mint_packed_len e) (ai_key token_program))
       [admin, vrt_mint, system_program] b) (\<lambda>b.
     and_then (invoke e program_id
       (TokenInitializeMint2 (e_spl_token e) (ai_key vrt_mint) (ai_key vault) decimals) [vrt_mint] b) (\<lambda>b.
     and_then (vault_res (ok_or (checked_add 8 size_of_vault) ArithmeticOverflow)) (\<lambda>space.
     and_then (create_account e program_id b admin vault system_program program_id space
       (vault_seeds @ [[vault_bump]])) (\<lambda>b.
     and_then (check_new_account b vault (unat size_of_vault)) (\<lambda>_.
     and_then (initial_vault (ai_key vrt_mint) (ai_key st_mint) (ai_key admin) c base deposit_fee_bps
       withdrawal_fee_bps reward_fee_bps vault_bump (e_slot e) initialize_token_amount) (\<lambda>v.
     let b = set_data b (ai_key vault) (VaultD v) in
     and_then (invoke e program_id
       (TokenTransfer (ai_key token_program) (ai_key admin_st_token_account) (ai_key vault_st_token_account)
          (ai_key admin) initialize_token_amount)
       [admin_st_token_account, vault_st_token_account, admin] b) (\<lambda>b.
     and_then (invoke e program_id
       (CreateAssociatedTokenAccount (ai_key admin) (ai_key burn_vault) (ai_key vrt_mint) (e_spl_token e))
       [admin, burn_vault_vrt_token_account, burn_vault, vrt_mint, system_program, token_program,
        associated_token_program] b) (\<lambda>b.
     and_then (e_invoke_signed e program_id
       (TokenMintTo (ai_key token_program) (ai_key vrt_mint) (ai_key burn_vault_vrt_token_account) (ai_key vault)
          initialize_token_amount)
       [vrt_mint, burn_vault_vrt_token_account, vault] [vault_signing_seeds v] b) (\<lambda>b.
     and_then (vault_res (increment_num_vaults c)) (\<lambda>c.
     Inr (set_data b (ai_key config) (VaultConfigD c)))))))))))))))))))))))))))))))"

subsection \<open>Administration of a vault\<close>

definition process_set_admin :: "env \<Rightarrow> pubkey \<Rightarrow> bank \<Rightarrow> account_info list \<Rightarrow> program_error + bank" where
  "process_set_admin e program_id b accounts =
     and_then (accounts4 accounts) (\<lambda>(config, vault, old_admin, new_admin).
     and_then (vault_config_load e program_id b config False) (\<lambda>_.
     and_then (vault_load e program_id b vault True) (\<lambda>_.
     and_then (get_vault b vault) (\<lambda>v.
     and_then (load_signer old_admin False) (\<lambda>_.
     and_then (load_signer new_admin False) (\<lambda>_.
     and_then (vault_check_admin v (ai_key old_admin)) (\<lambda>_.
     let v = v\<lparr>v_admin := ai_key new_admin\<rparr>;
         v = update_secondary_admin v (ai_key old_admin) (ai_key new_admin) in
     Inr (set_data b (ai_key vault) (VaultD v)))))))))"

datatype vault_admin_role =
    DelegationAdmin | OperatorAdmin | NcnAdmin | SlasherAdmin | CapacityAdmin | FeeWallet
  | MintBurnAdmin | DelegateAssetAdmin | FeeAdmin | MetadataAdmin

fun set_role :: "vault_admin_role \<Rightarrow> pubkey \<Rightarrow> vault \<Rightarrow> vault" where
  "set_role DelegationAdmin k v = v\<lparr>v_delegation_admin := k\<rparr>"
| "set_role OperatorAdmin k v = v\<lparr>v_operator_admin := k\<rparr>"
| "set_role NcnAdmin k v = v\<lparr>v_ncn_admin := k\<rparr>"
| "set_role SlasherAdmin k v = v\<lparr>v_slasher_admin := k\<rparr>"
| "set_role CapacityAdmin k v = v\<lparr>v_capacity_admin := k\<rparr>"
| "set_role FeeWallet k v = v\<lparr>v_fee_wallet := k\<rparr>"
| "set_role MintBurnAdmin k v = v\<lparr>v_mint_burn_admin := k\<rparr>"
| "set_role DelegateAssetAdmin k v = v\<lparr>v_delegate_asset_admin := k\<rparr>"
| "set_role FeeAdmin k v = v\<lparr>v_fee_admin := k\<rparr>"
| "set_role MetadataAdmin k v = v\<lparr>v_metadata_admin := k\<rparr>"

definition process_set_secondary_admin ::
    "env \<Rightarrow> pubkey \<Rightarrow> bank \<Rightarrow> account_info list \<Rightarrow> vault_admin_role \<Rightarrow> program_error + bank" where
  "process_set_secondary_admin e program_id b accounts role =
     and_then (accounts4 accounts) (\<lambda>(config, vault, admin, new_admin).
     and_then (vault_config_load e program_id b config False) (\<lambda>_.
     and_then (vault_load e program_id b vault True) (\<lambda>_.
     and_then (get_vault b vault) (\<lambda>v.
     and_then (load_signer admin False) (\<lambda>_.
     and_then (vault_check_admin v (ai_key admin)) (\<lambda>_.
     Inr (set_data b (ai_key vault) (VaultD (set_role role (ai_key new_admin) v)))))))))"

definition process_set_deposit_capacity ::
    "env \<Rightarrow> pubkey \<Rightarrow> bank \<Rightarrow> account_info list \<Rightarrow> u64 \<Rightarrow> program_error + bank" where
  "process_set_deposit_capacity e program_id b accounts capacity =
     and_then (accounts3 accounts) (\<lambda>(config, vault, vault_capacity_admin).
     and_then (vault_config_load e program_id b config False) (\<lambda>_.
     and_then (vault_load e program_id b vault True) (\<lambda>_.
     and_then (get_vault b vault) (\<lambda>v.
     and_then (load_signer vault_capacity_admin False) (\<lambda>_.
     and_then (vault_res (check_capacity_admin v (ai_key vault_capacity_admin))) (\<lambda>_.
     Inr (set_data b (ai_key vault) (VaultD (v\<lparr>v_deposit_capacity := capacity\<rparr>)))))))))"

definition process_set_is_paused ::
    "env \<Rightarrow> pubkey \<Rightarrow> bank \<Rightarrow> account_info list \<Rightarrow> bool \<Rightarrow> program_error + bank" where
  "process_set_is_paused e program_id b accounts is_paused =
     and_then (accounts3 accounts) (\<lambda>(config, vault, admin).
     and_then (vault_config_load e program_id b config False) (\<lambda>_.
     and_then (vault_load e program_id b vault True) (\<lambda>_.
     and_then (get_vault b vault) (\<lambda>v.
     and_then (load_signer admin False) (\<lambda>_.
     and_then (vault_check_admin v (ai_key admin)) (\<lambda>_.
     Inr (set_data b (ai_key vault) (VaultD (v\<lparr>v_is_paused := is_paused\<rparr>)))))))))"

text \<open>The three optional fee changes of \<open>process_set_fees\<close>, in order.\<close>

definition change_fees ::
    "vault \<Rightarrow> vault_config \<Rightarrow> u16 option \<Rightarrow> u16 option \<Rightarrow> u16 option \<Rightarrow> vault_error + vault" where
  "change_fees v c deposit_fee_bps withdrawal_fee_bps reward_fee_bps =
     and_then (case deposit_fee_bps of
         None \<Rightarrow> Inr v
       | Some bps \<Rightarrow> set_deposit_fee_bps v bps (c_deposit_withdrawal_fee_cap_bps c) (c_fee_bump_bps c)
           (c_fee_rate_of_change_bps c)) (\<lambda>v.
     and_then (case withdrawal_fee_bps of
         None \<Rightarrow> Inr v
       | Some bps \<Rightarrow> set_next_withdrawal_fee_bps v bps (c_deposit_withdrawal_fee_cap_bps c) (c_fee_bump_bps c)
           (c_fee_rate_of_change_bps c)) (\<lambda>v.
     case reward_fee_bps of None \<Rightarrow> Inr v | Some bps \<Rightarrow> set_reward_fee_bps v bps))"

definition process_set_fees ::
    "env \<Rightarrow> pubkey \<Rightarrow> bank \<Rightarrow> account_info list \<Rightarrow> u16 option \<Rightarrow> u16 option \<Rightarrow> u16 option \<Rightarrow> program_error + bank" where
  "process_set_fees e program_id b accounts deposit_fee_bps withdrawal_fee_bps reward_fee_bps =
     and_then (accounts3 accounts) (\<lambda>(config, vault, vault_fee_admin).
     and_then (vault_config_load e program_id b config False) (\<lambda>_.
     and_then (get_vault_config b config) (\<lambda>c.
     and_then (vault_load e program_id b vault True) (\<lambda>_.
     and_then (get_vault b vault) (\<lambda>v.
     and_then (load_signer vault_fee_admin False) (\<lambda>_.
     and_then (vault_res (check_fee_admin v (ai_key vault_fee_admin))) (\<lambda>_.
     and_then (check_can_modify_fees v (e_slot e) (c_epoch_length c)) (\<lambda>_.
     and_then (err_if (deposit_fee_bps = None \<and> withdrawal_fee_bps = None \<and> reward_fee_bps = None)
       InvalidInstructionData) (\<lambda>_.
     and_then (vault_res (change_fees v c deposit_fee_bps withdrawal_fee_bps reward_fee_bps)) (\<lambda>v.
     Inr (set_data b (ai_key vault) (VaultD (v\<lparr>v_last_fee_change_slot := e_slot e\<rparr>)))))))))))))"

definition process_change_withdrawal_ticket_owner ::
    "env \<Rightarrow> pubkey \<Rightarrow> bank \<Rightarrow> account_info list \<Rightarrow> program_error + bank" where
  "process_change_withdrawal_ticket_owner e program_id b accounts =
     and_then (accounts5 accounts) (\<lambda>(config, vault_info, ticket, old_owner, new_owner).
     and_then (vault_config_load e program_id b config False) (\<lambda>_.
     and_then (vault_load e program_id b vault_info False) (\<lambda>_.
     and_then (get_vault b vault_info) (\<lambda>v.
     and_then (vault_staker_withdrawal_ticket_load e program_id b ticket vault_info True) (\<lambda>_.
     and_then (get_vault_staker_withdrawal_ticket b ticket) (\<lambda>t.
     and_then (load_signer old_owner False) (\<lambda>_.
     and_then (vault_res (check_is_paused v)) (\<lambda>_.
     and_then (vault_res (check_staker t (ai_key old_owner))) (\<lambda>_.
     Inr (set_data b (ai_key ticket) (VaultStakerWithdrawalTicketD (t\<lparr>wt_staker := ai_key new_owner\<rparr>))))))))))))"

subsection \<open>Token metadata and stray token accounts\<close>

definition process_create_token_metadata ::
    "env \<Rightarrow> pubkey \<Rightarrow> bank \<Rightarrow> account_info list \<Rightarrow> string \<Rightarrow> string \<Rightarrow> string \<Rightarrow> program_error + bank" where
  "process_create_token_metadata e program_id b accounts name symbol uri =
     and_then (accounts7 accounts) (\<lambda>(vault_info, admin, vrt_mint, payer, metadata, mpl_token_metadata_program,
       system_program).
     and_then (vault_load e program_id b vault_info False) (\<lambda>_.
     and_then (get_vault b vault_info) (\<lambda>v.
     and_then (load_signer admin False) (\<lambda>_.
     and_then (load_token_mint e b vrt_mint) (\<lambda>_.
     and_then (load_signer payer True) (\<lambda>_.
     and_then (load_system_account e b metadata True) (\<lambda>_.
     and_then (load_mpl_metadata_program e mpl_token_metadata_program) (\<lambda>_.
     and_then (load_system_program e system_program) (\<lambda>_.
     and_then (vault_check_admin v (ai_key admin)) (\<lambda>_.
     and_then (check_vrt_mint v (ai_key vrt_mint)) (\<lambda>_.
     and_then (err_if (fst (find_metadata_account e (ai_key vrt_mint)) \<noteq> ai_key metadata) InvalidAccountData) (\<lambda>_.
     e_invoke_signed e program_id
       (CreateMetadataAccountsV3 (ai_key mpl_token_metadata_program) (ai_key metadata) (ai_key vrt_mint)
          (ai_key vault_info) (ai_key payer) (ai_key vault_info) name symbol uri)
       [metadata, vrt_mint, vault_info, payer, vault_info, system_program] [vault_signing_seeds v] b))))))))))))"

definition process_update_token_metadata ::
    "env \<Rightarrow> pubkey \<Rightarrow> bank \<Rightarrow> account_info list \<Rightarrow> string \<Rightarrow> string \<Rightarrow> string \<Rightarrow> program_error + bank" where
  "process_update_token_metadata e program_id b accounts name symbol uri =
     and_then (accounts5 accounts) (\<lambda>(vault_info, admin, vrt_mint, metadata, mpl_token_metadata_program).
     and_then (vault_load e program_id b vault_info False) (\<lambda>_.
     and_then (get_vault b vault_info) (\<lambda>v.
     and_then (load_signer admin False) (\<lambda>_.
     and_then (load_token_mint e b vrt_mint) (\<lambda>_.
     and_then (load_mpl_metadata e metadata (ai_key vrt_mint)) (\<lambda>_.
     and_then (load_mpl_metadata_program e mpl_token_metadata_program) (\<lambda>_.
     and_then (vault_check_admin v (ai_key admin)) (\<lambda>_.
     and_then (check_vrt_mint v (ai_key vrt_mint)) (\<lambda>_.
     e_invoke_signed e program_id
       (UpdateMetadataAccountsV2 (ai_key mpl_token_metadata_program) (ai_key metadata) (ai_key vault_info) name symbol uri)
       [metadata, vault_info] [vault_signing_seeds v] b)))))))))"

definition process_delegate_token_account ::
    "env \<Rightarrow> pubkey \<Rightarrow> bank \<Rightarrow> account_info list \<Rightarrow> program_error + bank" where
  "process_delegate_token_account e program_id b accounts =
     and_then (accounts7 accounts) (\<lambda>(config, vault_info, delegate_asset_admin, token_mint, token_account, delegate,
       token_program_info).
     and_then (vault_config_load e program_id b config False) (\<lambda>_.
     and_then (vault_load e program_id b vault_info False) (\<lambda>_.
     and_then (load_signer delegate_asset_admin False) (\<lambda>_.
     and_then (load_token_mint e b token_mint) (\<lambda>_.
     and_then (load_token_account e b token_account (ai_key vault_info) (ai_key token_mint) token_program_info) (\<lambda>_.
     and_then (load_token_program e token_program_info) (\<lambda>_.
     and_then (err_if (owner_of b token_mint \<noteq> owner_of b token_account) InvalidAccountData) (\<lambda>_.
     and_then (get_vault b vault_info) (\<lambda>v.
     and_then (err_if (v_supported_mint v = ai_key token_mint) InvalidAccountData) (\<lambda>_.
     and_then (vault_res (check_delegate_asset_admin v (ai_key delegate_asset_admin))) (\<lambda>_.
     e_invoke_signed e program_id
       (TokenApprove (ai_key token_program_info) (ai_key token_account) (ai_key delegate) (ai_key vault_info) u64_MAX)
       [token_program_info, token_account, delegate, vault_info] [vault_signing_seeds v] b)))))))))))"

definition process_revoke_delegate_token_account ::
    "env \<Rightarrow> pubkey \<Rightarrow> bank \<Rightarrow> account_info list \<Rightarrow> program_error + bank" where
  "process_revoke_delegate_token_account e program_id b accounts =
     and_then (accounts6 accounts) (\<lambda>(config, vault_info, delegate_asset_admin, token_mint, token_account,
       token_program_info).
     and_then (vault_config_load e program_id b config False) (\<lambda>_.
     and_then (vault_load e program_id b vault_info False) (\<lambda>_.
     and_then (load_signer delegate_asset_admin False) (\<lambda>_.
     and_then (load_token_mint e b token_mint) (\<lambda>_.
     and_then (load_token_account e b token_account (ai_key vault_info) (ai_key token_mint) token_program_info) (\<lambda>_.
     and_then (load_token_program e token_program_info) (\<lambda>_.
     and_then (err_if (owner_of b token_mint \<noteq> owner_of b token_account) InvalidAccountData) (\<lambda>_.
     and_then (get_vault b vault_info) (\<lambda>v.
     and_then (err_if (v_supported_mint v = ai_key token_mint) InvalidAccountData) (\<lambda>_.
     and_then (vault_res (check_delegate_asset_admin v (ai_key delegate_asset_admin))) (\<lambda>_.
     e_invoke_signed e program_id
       (TokenRevoke (ai_key token_program_info) (ai_key token_account) (ai_key vault_info))
       [token_program_info, token_account, vault_info] [vault_signing_seeds v] b)))))))))))"

end
