(* ===== verification/Epoch_Update.thy ===== *)
theory Epoch_Update
  imports Share_Ledger Vault_Tickets
begin

text \<open>
  The update of a vault at an epoch boundary: what
  \<open>vault_program/src/initialize_vault_update_state_tracker.rs\<close>,
  \<open>crank_vault_update_state_tracker.rs\<close> and \<open>close_update_state_tracker.rs\<close> do to the vault, the
  operator delegations and the tracker once the accounts are loaded. The theory shows that the
  tracker visits the operators in a rotating order, each once in every round, that a complete round of cranks
  leaves nothing to unstake, and that closing installs the sum of the operators' delegations.
\<close>

section \<open>Definitions\<close>

datatype withdrawal_allocation_method = Greedy

definition withdrawal_allocation_method_try_from :: "u8 \<Rightarrow> program_error + withdrawal_allocation_method" where
  "withdrawal_allocation_method_try_from value = (if value = 0 then Inr Greedy else Inl InvalidArgument)"

definition withdrawal_allocation_method_as_u8 :: "withdrawal_allocation_method \<Rightarrow> u8" where
  "withdrawal_allocation_method_as_u8 m = (case m of Greedy \<Rightarrow> 0)"

text \<open>The start of an update: the fees that take effect and the assets that need unstaking.\<close>

definition start_update :: "vault \<Rightarrow> vault_config \<Rightarrow> u64 \<Rightarrow> program_error + vault" where
  "start_update v c slot =
     (let epoch_length = c_epoch_length c in
      and_then (core_res (get_epoch (v_last_start_state_update_slot v) epoch_length)) (\<lambda>last_start_epoch.
      and_then (core_res (get_epoch (v_last_full_state_update_slot v) epoch_length)) (\<lambda>last_full_epoch.
      and_then
        (if last_full_epoch \<noteq> last_start_epoch then Inr (v, v_additional_assets_need_unstaking v)
         else
           and_then (vault_res (set_withdrawal_fee_bps v (v_next_withdrawal_fee_bps v))) (\<lambda>v.
           and_then (vault_set_program_fee_bps v (c_program_fee_bps c)) (\<lambda>v.
           and_then (calculate_additional_supported_assets_needed_to_unstake v slot epoch_length) (\<lambda>additional.
           Inr (v, additional))))) (\<lambda>(v, additional).
      Inr (v\<lparr>v_additional_assets_need_unstaking := additional, v_last_start_state_update_slot := slot\<rparr>)))))"

definition has_been_partially_updated :: "vault \<Rightarrow> operator_delegation \<Rightarrow> u64 \<Rightarrow> core_error + bool" where
  "has_been_partially_updated v d epoch_length =
     and_then (get_epoch (v_last_full_state_update_slot v) epoch_length) (\<lambda>last_full_state_update_epoch.
     and_then (get_epoch (vod_last_update_slot d) epoch_length) (\<lambda>operator_last_updated_epoch.
     Inr (last_full_state_update_epoch < operator_last_updated_epoch)))"

text \<open>The greedy withdrawal: cool down what the operator has staked, up to what is still needed.\<close>

definition greedy_cooldown ::
    "bool \<Rightarrow> vault \<Rightarrow> operator_delegation \<Rightarrow> vault_error + vault \<times> operator_delegation" where
  "greedy_cooldown partially_updated v d =
     (if \<not> partially_updated \<and> 0 < v_additional_assets_need_unstaking v
         \<and> 0 < staked_amount (vod_delegation_state d) then
        let max_cooldown = min (staked_amount (vod_delegation_state d)) (v_additional_assets_need_unstaking v) in
        and_then (ds_cooldown (vod_delegation_state d) max_cooldown) (\<lambda>ds.
        and_then (decrement_additional_assets_need_unstaking v max_cooldown) (\<lambda>v.
        Inr (v, d\<lparr>vod_delegation_state := ds\<rparr>)))
      else Inr (v, d))"

definition crank_operator ::
    "bool \<Rightarrow> vault \<Rightarrow> operator_delegation \<Rightarrow> update_state_tracker \<Rightarrow> u64 \<Rightarrow> u64
     \<Rightarrow> program_error + vault \<times> operator_delegation \<times> update_state_tracker" where
  "crank_operator partially_updated v d t slot epoch_length =
     and_then (vault_res (check_is_paused v)) (\<lambda>_.
     and_then (check_is_already_updated d slot epoch_length) (\<lambda>_.
     and_then (vault_res (check_and_update_index t (vod_index d) (v_operator_count v))) (\<lambda>t.
     and_then (withdrawal_allocation_method_try_from (vust_withdrawal_allocation_method t)) (\<lambda>method.
     and_then (case method of Greedy \<Rightarrow> vault_res (greedy_cooldown partially_updated v d)) (\<lambda>(v, d).
     and_then (operator_delegation_update d slot epoch_length) (\<lambda>d.
     and_then (vault_res (ds_accumulate (vust_delegation_state t) (vod_delegation_state d))) (\<lambda>ds.
     Inr (v, d, t\<lparr>vust_delegation_state := ds\<rparr>))))))))"

text \<open>One round of the loop that moves the VRT in withdrawal tickets towards being claimable.\<close>

definition shift_vrt :: "vault \<Rightarrow> vault_error + vault" where
  "shift_vrt v =
     and_then (increment_vrt_ready_to_claim_amount v (v_vrt_cooling_down_amount v)) (\<lambda>v.
     Inr (v\<lparr>v_vrt_cooling_down_amount := v_vrt_enqueued_for_cooldown_amount v,
            v_vrt_enqueued_for_cooldown_amount := 0\<rparr>))"

primrec shift_vrt_times :: "nat \<Rightarrow> vault \<Rightarrow> vault_error + vault" where
  "shift_vrt_times 0 v = Inr v"
| "shift_vrt_times (Suc k) v = and_then (shift_vrt v) (shift_vrt_times k)"

definition close_update ::
    "vault \<Rightarrow> update_state_tracker \<Rightarrow> u64 \<Rightarrow> u64 \<Rightarrow> u64 \<Rightarrow> program_error + vault" where
  "close_update v t ncn_epoch slot epoch_length =
     and_then (core_res (get_epoch slot epoch_length)) (\<lambda>current_ncn_epoch.
     and_then (core_res (get_epoch (v_last_full_state_update_slot v) epoch_length)) (\<lambda>last_updated_epoch.
     if ncn_epoch \<noteq> current_ncn_epoch then Inr v
     else
       and_then (if 0 < v_operator_count v
                 then and_then (vault_res (all_operators_updated t (v_operator_count v))) (\<lambda>all.
                        vault_res (err_if (\<not> all) VaultUpdateStateNotFinishedUpdating))
                 else Inr ()) (\<lambda>_.
       and_then (vault_res (err_if (0 < v_additional_assets_need_unstaking v)
                   NonZeroAdditionalAssetsNeededForWithdrawalAtEndOfUpdate)) (\<lambda>_.
       let v = v\<lparr>v_delegation_state := vust_delegation_state t, v_last_full_state_update_slot := slot\<rparr> in
       and_then (vault_res (ok_or (checked_sub current_ncn_epoch last_updated_epoch) VaultUnderflow)) (\<lambda>epoch_diff.
       vault_res (shift_vrt_times (unat (min epoch_diff 2)) v))))))"

lemma case_withdrawal_allocation_method [simp]: "(case m of Greedy \<Rightarrow> x) = x"
  by (cases m) simp

section \<open>The order of the cranks\<close>

text \<open>The indexes a tracker accepts one after the other.\<close>

primrec update_indexes :: "update_state_tracker \<Rightarrow> u64 \<Rightarrow> u64 list \<Rightarrow> vault_error + update_state_tracker" where
  "update_indexes t n [] = Inr t"
| "update_indexes t n (i # is) = and_then (check_and_update_index t i n) (\<lambda>t. update_indexes t n is)"

lemma check_and_update_index_iff [res_simps]:
  "check_and_update_index t i n = Inr t' \<longleftrightarrow>
     0 < unat n \<and> t' = t\<lparr>vust_last_updated_index := i\<rparr>
     \<and> unat i = (if vust_last_updated_index t = u64_MAX then unat (vust_ncn_epoch t)
                 else unat (vust_last_updated_index t) + 1) mod unat n"
proof (cases "vust_last_updated_index t = u64_MAX")
  case True
  then show ?thesis
    by (auto simp: check_and_update_index_def and_then_Inr_iff ok_or_Inr_iff err_if_Inr_iff arith_iffs
        word_unat_eq_iff)
next
  case False
  then have "unat (vust_last_updated_index t) \<noteq> unat u64_MAX"
    by (simp only: word_unat_eq_iff [symmetric]) simp
  then have "unat (vust_last_updated_index t) + 1 < 2 ^ 64"
    using unat_bound_u64 [of "vust_last_updated_index t"] by (simp add: unat_u64_MAX)
  then obtain c where c: "checked_add (vust_last_updated_index t) 1 = Some c"
    "unat c = unat (vust_last_updated_index t) + 1"
    using checked_add_ok [of "vust_last_updated_index t" 1] by auto
  then show ?thesis
    using False
    by (auto simp: check_and_update_index_def and_then_Inr_iff ok_or_Inr_iff err_if_Inr_iff checked_rem_iff
        word_unat_eq_iff)
qed

lemma index_not_MAX: "unat i = m mod unat n \<Longrightarrow> 0 < unat n \<Longrightarrow> i \<noteq> u64_MAX" for i n :: u64
proof -
  assume "unat i = m mod unat n" "0 < unat n"
  then have "unat i < unat n" by simp
  then have "unat i \<noteq> unat u64_MAX"
    using unat_bound_u64 [of n] by (simp add: unat_u64_MAX)
  then show "i \<noteq> u64_MAX" by blast
qed

lemma update_indexes_next:
  assumes "update_indexes t n is = Inr t'" and "vust_last_updated_index t \<noteq> u64_MAX"
  shows "map unat is = map (\<lambda>j. (unat (vust_last_updated_index t) + 1 + j) mod unat n) [0..<length is]
    \<and> t' = t\<lparr>vust_last_updated_index := last (vust_last_updated_index t # is)\<rparr>"
  using assms
proof (induction "is" arbitrary: t)
  case (Cons i "is")
  then have *: "0 < unat n" "unat i = (unat (vust_last_updated_index t) + 1) mod unat n"
    "update_indexes (t\<lparr>vust_last_updated_index := i\<rparr>) n is = Inr t'"
    by (auto simp: and_then_Inr_iff check_and_update_index_iff)
  then have "map unat is = map (\<lambda>j. (unat i + 1 + j) mod unat n) [0..<length is]
      \<and> t' = t\<lparr>vust_last_updated_index := last (i # is)\<rparr>"
    using Cons.IH [OF *(3)] index_not_MAX [OF *(2,1)] by simp
  moreover have "(unat i + 1 + j) mod unat n = (unat (vust_last_updated_index t) + 1 + Suc j) mod unat n" for j
    unfolding *(2) by (metis add.assoc add_Suc_right mod_add_left_eq plus_1_eq_Suc)
  ultimately show ?case
    using *(2) by (simp add: map_upt_Suc del: upt_Suc)
qed simp

lemma update_indexes_fresh:
  assumes "update_indexes t n (i # is) = Inr t'" and "vust_last_updated_index t = u64_MAX"
  shows "map unat (i # is) = map (\<lambda>j. (unat (vust_ncn_epoch t) + j) mod unat n) [0..<length (i # is)]"
    and "t' = t\<lparr>vust_last_updated_index := last (i # is)\<rparr>" and "0 < unat n"
proof -
  from assms have *: "0 < unat n" "unat i = unat (vust_ncn_epoch t) mod unat n"
    "update_indexes (t\<lparr>vust_last_updated_index := i\<rparr>) n is = Inr t'"
    by (auto simp: and_then_Inr_iff check_and_update_index_iff)
  have "map unat is = map (\<lambda>j. (unat i + 1 + j) mod unat n) [0..<length is]
      \<and> t' = t\<lparr>vust_last_updated_index := last (i # is)\<rparr>"
    using update_indexes_next [OF *(3)] index_not_MAX [OF *(2,1)] by simp
  moreover have "(unat i + 1 + j) mod unat n = (unat (vust_ncn_epoch t) + Suc j) mod unat n" for j
    unfolding *(2) by (metis add.assoc mod_add_left_eq plus_1_eq_Suc)
  ultimately show "map unat (i # is) = map (\<lambda>j. (unat (vust_ncn_epoch t) + j) mod unat n) [0..<length (i # is)]"
    and "t' = t\<lparr>vust_last_updated_index := last (i # is)\<rparr>"
    using *(2) by (simp_all add: map_upt_Suc del: upt_Suc)
  show "0 < unat n" by (rule *)
qed

lemma full_round_iff:
  fixes s n k :: nat
  assumes "s < n" and "0 < k"
  shows "(s + (k - 1)) mod n = (if s = 0 then n - 1 else s - 1) \<longleftrightarrow> n dvd k"
proof -
  have "(if s = 0 then n - 1 else s - 1) = (s + (n - 1)) mod n"
    using assms(1) by (cases s) (auto simp: mod_if)
  moreover have "(s + (k - 1)) mod n = (s + (n - 1)) mod n \<longleftrightarrow> n dvd k"
  proof (cases "n \<le> k")
    case True
    then have "(s + (k - 1)) mod n = (s + (n - 1)) mod n \<longleftrightarrow> n dvd k - n"
      using assms mod_eq_dvd_iff_nat [of "s + (n - 1)" "s + (k - 1)" n] by auto
    then show ?thesis using True by (simp add: dvd_minus_self)
  next
    case False
    then have "(s + (n - 1)) mod n = (s + (k - 1)) mod n \<longleftrightarrow> n dvd n - k"
      using assms mod_eq_dvd_iff_nat [of "s + (k - 1)" "s + (n - 1)" n] by auto
    moreover have "\<not> n dvd n - k" "\<not> n dvd k"
      using False assms by (auto dest: dvd_imp_le)
    ultimately show ?thesis by auto
  qed
  ultimately show ?thesis by simp
qed

lemma all_operators_updated_eq:
  assumes "vust_last_updated_index t \<noteq> u64_MAX" and "0 < unat n"
  shows "all_operators_updated t n = Inr
    (unat (vust_last_updated_index t) =
       (if unat (vust_ncn_epoch t) mod unat n = 0 then unat n - 1 else unat (vust_ncn_epoch t) mod unat n - 1))"
proof -
  obtain r where r: "checked_rem (vust_ncn_epoch t) n = Some r" "unat r = unat (vust_ncn_epoch t) mod unat n"
    using assms(2) by (auto simp: checked_rem_def unat_mod unat_gt_0)
  obtain m where m: "checked_sub n 1 = Some m" "unat m = unat n - 1"
    using checked_sub_ok [of 1 n] assms(2) by auto
  have "r \<noteq> 0 \<Longrightarrow> \<exists>q. checked_sub r 1 = Some q \<and> unat q = unat r - 1"
    using checked_sub_ok [of 1 r] by (simp add: Suc_le_eq unat_gt_0)
  then show ?thesis
    using assms(1) r m
    by (auto simp: all_operators_updated_def unat_eq_0 [symmetric] word_unat_eq_iff simp del: unat_eq_0 split: if_splits)
qed

section \<open>One crank\<close>

abbreviation additional :: "vault \<Rightarrow> nat" where
  "additional v \<equiv> unat (v_additional_assets_need_unstaking v)"

abbreviation staked :: "operator_delegation \<Rightarrow> nat" where
  "staked d \<equiv> unat (staked_amount (vod_delegation_state d))"

text \<open>What a crank takes from the active stake of an operator.\<close>

definition unstaked :: "bool \<Rightarrow> vault \<Rightarrow> operator_delegation \<Rightarrow> nat" where
  "unstaked partially_updated v d = (if partially_updated then 0 else min (staked d) (additional v))"

lemma greedy_cooldownD:
  assumes "greedy_cooldown p v d = Inr (v', d')"
  shows "\<exists>a ds. v' = v\<lparr>v_additional_assets_need_unstaking := a\<rparr> \<and> d' = d\<lparr>vod_delegation_state := ds\<rparr>
    \<and> additional v = unstaked p v d + unat a
    \<and> staked d = unstaked p v d + unat (staked_amount ds)
    \<and> unat (enqueued_for_cooldown_amount ds)
        = unat (enqueued_for_cooldown_amount (vod_delegation_state d)) + unstaked p v d
    \<and> cooling_down_amount ds = cooling_down_amount (vod_delegation_state d)"
proof (cases "\<not> p \<and> 0 < v_additional_assets_need_unstaking v \<and> 0 < staked_amount (vod_delegation_state d)")
  case True
  define mx where "mx = min (staked_amount (vod_delegation_state d)) (v_additional_assets_need_unstaking v)"
  have mx: "unat mx = unstaked p v d"
    using True by (simp add: mx_def unstaked_def min_def word_le_nat_alt)
  obtain ds where ds: "ds_cooldown (vod_delegation_state d) mx = Inr ds"
    "decrement_additional_assets_need_unstaking v mx = Inr v'" "d' = d\<lparr>vod_delegation_state := ds\<rparr>"
    using assms True by (auto simp: greedy_cooldown_def mx_def Let_def and_then_Inr_iff)
  then show ?thesis
    unfolding ds_cooldown_iff vault_counter_iffs mx by force
next
  case False
  then have "unstaked p v d = 0"
    by (auto simp: unstaked_def word_less_nat_alt)
  moreover have "v' = v" "d' = d"
    using assms False by (auto simp: greedy_cooldown_def)
  ultimately show ?thesis
    by (intro exI [of _ "v_additional_assets_need_unstaking v"] exI [of _ "vod_delegation_state d"]) simp
qed

lemma greedy_cooldown_ok:
  assumes "ds_total (vod_delegation_state d) < 2 ^ 64"
  shows "\<exists>v' d'. greedy_cooldown p v d = Inr (v', d')"
proof -
  define mx where "mx = min (staked_amount (vod_delegation_state d)) (v_additional_assets_need_unstaking v)"
  have le: "unat mx \<le> staked d" "unat mx \<le> additional v"
    by (simp_all add: mx_def min_def word_le_nat_alt)
  obtain s where s: "checked_sub (staked_amount (vod_delegation_state d)) mx = Some s"
    using checked_sub_ok [OF le(1)] by auto
  obtain e where e: "checked_add (enqueued_for_cooldown_amount (vod_delegation_state d)) mx = Some e"
    using checked_add_ok [of "enqueued_for_cooldown_amount (vod_delegation_state d)" mx] le assms
    by (auto simp: ds_total_def)
  obtain a where a: "checked_sub (v_additional_assets_need_unstaking v) mx = Some a"
    using checked_sub_ok [OF le(2)] by auto
  have "mx \<noteq> 0" if "0 < v_additional_assets_need_unstaking v" "0 < staked_amount (vod_delegation_state d)"
    using that by (auto simp: mx_def min_def)
  then show ?thesis
    using s e a unfolding greedy_cooldown_def mx_def [symmetric] Let_def
    by (auto simp: ds_cooldown_def decrement_additional_assets_need_unstaking_def)
qed

text \<open>The three amounts of a delegation state as one sum over operators.\<close>

abbreviation ds_sum :: "(delegation_state \<Rightarrow> u64) \<Rightarrow> operator_delegation list \<Rightarrow> nat" where
  "ds_sum f ds \<equiv> (\<Sum>d\<leftarrow>ds. unat (f (vod_delegation_state d)))"

lemma crank_operatorE:
  assumes "crank_operator p v d t slot len = Inr (v', d', t')"
  obtains a ds acc where
    "v' = v\<lparr>v_additional_assets_need_unstaking := a\<rparr>" "additional v = unstaked p v d + unat a"
    "check_and_update_index t (vod_index d) (v_operator_count v)
       = Inr (t\<lparr>vust_last_updated_index := vod_index d\<rparr>)"
    "d' = d\<lparr>vod_delegation_state := ds, vod_last_update_slot := slot\<rparr>"
    "staked d = unstaked p v d + unat (staked_amount ds)"
    "ds_total ds \<le> ds_total (vod_delegation_state d)"
    "t' = t\<lparr>vust_last_updated_index := vod_index d, vust_delegation_state := acc\<rparr>"
    "ds_accumulate (vust_delegation_state t) ds = Inr acc"
    "unat (vod_last_update_slot d) div unat len < unat slot div unat len"
proof -
  from assms obtain t1 v1 d1 d2 acc where *: "\<not> v_is_paused v" "check_is_already_updated d slot len = Inr ()"
    "check_and_update_index t (vod_index d) (v_operator_count v) = Inr t1"
    "greedy_cooldown p v d = Inr (v1, d1)" "operator_delegation_update d1 slot len = Inr d2"
    "ds_accumulate (vust_delegation_state t1) (vod_delegation_state d2) = Inr acc"
    "v' = v1" "d' = d2" "t' = t1\<lparr>vust_delegation_state := acc\<rparr>"
    by (auto simp: crank_operator_def and_then_Inr_iff map_err_Inr_iff vault_check_iffs)
  obtain a ds0 where g: "v1 = v\<lparr>v_additional_assets_need_unstaking := a\<rparr>"
    "d1 = d\<lparr>vod_delegation_state := ds0\<rparr>" "additional v = unstaked p v d + unat a"
    "staked d = unstaked p v d + unat (staked_amount ds0)"
    "unat (enqueued_for_cooldown_amount ds0)
        = unat (enqueued_for_cooldown_amount (vod_delegation_state d)) + unstaked p v d"
    "cooling_down_amount ds0 = cooling_down_amount (vod_delegation_state d)"
    using greedy_cooldownD [OF *(4)] by blast
  obtain k where k: "d2 = d1\<lparr>vod_delegation_state := ds_after k (vod_delegation_state d1), vod_last_update_slot := slot\<rparr>"
    using *(5) by (auto simp: operator_delegation_update_iff Let_def)
  have t1: "t1 = t\<lparr>vust_last_updated_index := vod_index d\<rparr>"
    using *(3) by (simp add: check_and_update_index_iff)
  have "ds_total ds0 = ds_total (vod_delegation_state d)"
    using g(4-6) by (simp add: ds_total_def)
  then have "ds_total (ds_after k ds0) \<le> ds_total (vod_delegation_state d)"
    using ds_after_simps(2) [of k ds0] by simp
  then show ?thesis
    using that [of a "ds_after k ds0" acc] * g k t1 by (simp add: check_is_already_updated_iff)
qed

lemma ds_accumulate_ok:
  assumes "ds_total d + ds_total e < 2 ^ 64"
  shows "\<exists>f. ds_accumulate d e = Inr f"
  using assms checked_add_ok [of "staked_amount d" "staked_amount e"]
    checked_add_ok [of "enqueued_for_cooldown_amount d" "enqueued_for_cooldown_amount e"]
    checked_add_ok [of "cooling_down_amount d" "cooling_down_amount e"]
  by (auto simp: ds_accumulate_def ds_total_def)

lemma crank_operator_ok:
  assumes "\<not> v_is_paused v" and "0 < unat len"
    and "unat (vod_last_update_slot d) div unat len < unat slot div unat len"
    and "is_ok (check_and_update_index t (vod_index d) (v_operator_count v))"
    and "vust_withdrawal_allocation_method t = 0"
    and "ds_total (vust_delegation_state t) + ds_total (vod_delegation_state d) < 2 ^ 64"
  shows "\<exists>v' d' t'. crank_operator p v d t slot len = Inr (v', d', t')"
proof -
  obtain v1 d1 where g: "greedy_cooldown p v d = Inr (v1, d1)"
    using greedy_cooldown_ok [of d p v] assms(6) by auto
  then have d1: "ds_total (vod_delegation_state d1) = ds_total (vod_delegation_state d)"
    "vod_last_update_slot d1 = vod_last_update_slot d"
    using greedy_cooldownD [OF g] by (auto simp: ds_total_def)
  obtain d2 k where d2: "operator_delegation_update d1 slot len = Inr d2"
    "vod_delegation_state d2 = ds_after k (vod_delegation_state d1)"
    using assms(2,3) d1(2) by (auto simp: operator_delegation_update_iff Let_def)
  obtain t1 where t1: "check_and_update_index t (vod_index d) (v_operator_count v) = Inr t1"
    using assms(4) by (auto simp: is_ok_iff)
  then have t1': "t1 = t\<lparr>vust_last_updated_index := vod_index d\<rparr>"
    by (simp add: check_and_update_index_iff)
  have "ds_total (vod_delegation_state d2) \<le> ds_total (vod_delegation_state d)"
    using d2(2) d1(1) ds_after_simps(2) [of k "vod_delegation_state d1"] by simp
  then have "ds_total (vust_delegation_state t1) + ds_total (vod_delegation_state d2) < 2 ^ 64"
    using assms(6) t1' by simp
  then obtain acc where "ds_accumulate (vust_delegation_state t1) (vod_delegation_state d2) = Inr acc"
    using ds_accumulate_ok by blast
  moreover have "check_is_already_updated d slot len = Inr ()" "check_is_paused v = Inr ()"
    using assms(1-3) by (simp_all add: check_is_already_updated_iff vault_check_iffs)
  moreover have "withdrawal_allocation_method_try_from (vust_withdrawal_allocation_method t1) = Inr Greedy"
    using assms(5) t1' by (simp add: withdrawal_allocation_method_try_from_def)
  ultimately show ?thesis
    using g d2(1) t1 by (simp add: crank_operator_def)
qed

section \<open>A round of cranks\<close>

text \<open>The cranks of an epoch one after the other, over the delegations of the operators they name.\<close>

primrec crank_all :: "vault \<Rightarrow> update_state_tracker \<Rightarrow> operator_delegation list \<Rightarrow> u64 \<Rightarrow> u64
    \<Rightarrow> program_error + vault \<times> update_state_tracker \<times> operator_delegation list" where
  "crank_all v t [] slot len = Inr (v, t, [])"
| "crank_all v t (d # ds) slot len =
     and_then (core_res (has_been_partially_updated v d len)) (\<lambda>p.
     and_then (crank_operator p v d t slot len) (\<lambda>(v, d, t).
     and_then (crank_all v t ds slot len) (\<lambda>(v, t, ds).
     Inr (v, t, d # ds))))"

text \<open>The operators that have not been updated since the last full update.\<close>

definition due :: "vault \<Rightarrow> u64 \<Rightarrow> operator_delegation \<Rightarrow> bool" where
  "due v len d \<longleftrightarrow>
     unat (vod_last_update_slot d) div unat len \<le> unat (v_last_full_state_update_slot v) div unat len"

lemma has_been_partially_updated_iff [res_simps]:
  "has_been_partially_updated v d len = Inr p \<longleftrightarrow> 0 < unat len \<and> p = (\<not> due v len d)"
  by (cases "len = 0")
     (auto simp: has_been_partially_updated_def get_epoch_def checked_div_def due_def word_less_nat_alt
        unat_div unat_gt_0)

lemma due_simps [simp]: "due (v\<lparr>v_additional_assets_need_unstaking := a\<rparr>) len = due v len"
  by (simp add: due_def fun_eq_iff)

lemma crank_all_ConsE:
  assumes "crank_all v t (d # ds) slot len = Inr (v', t', ds')"
  obtains p v1 d1 t1 ds1 where "p = (\<not> due v len d)" "0 < unat len"
    "crank_operator p v d t slot len = Inr (v1, d1, t1)"
    "crank_all v1 t1 ds slot len = Inr (v', t', ds1)" "ds' = d1 # ds1"
  using assms by (auto simp: and_then_Inr_iff map_err_Inr_iff has_been_partially_updated_iff)

text \<open>What the round does to the amount to unstake and to the active stake.\<close>

lemma crank_all_unstakes:
  assumes "crank_all v t ds slot len = Inr (v', t', ds')"
  shows "additional v' = additional v - (\<Sum>d\<leftarrow>filter (due v len) ds. staked d)
    \<and> v' = v\<lparr>v_additional_assets_need_unstaking := v_additional_assets_need_unstaking v'\<rparr>
    \<and> ds_sum staked_amount ds' + (additional v - additional v') = ds_sum staked_amount ds
    \<and> additional v' \<le> additional v"
  using assms
proof (induction ds arbitrary: v t ds')
  case (Cons d ds)
  from Cons.prems obtain p v1 d1 t1 ds1 where *: "p = (\<not> due v len d)"
    "crank_operator p v d t slot len = Inr (v1, d1, t1)"
    "crank_all v1 t1 ds slot len = Inr (v', t', ds1)" "ds' = d1 # ds1"
    by (rule crank_all_ConsE)
  from *(2) obtain a dl acc where e: "v1 = v\<lparr>v_additional_assets_need_unstaking := a\<rparr>"
    "additional v = unstaked p v d + unat a"
    "d1 = d\<lparr>vod_delegation_state := dl, vod_last_update_slot := slot\<rparr>"
    "staked d = unstaked p v d + unat (staked_amount dl)"
    by (rule crank_operatorE)
  have IH: "additional v' = unat a - (\<Sum>d\<leftarrow>filter (due v len) ds. staked d)"
    "v' = v1\<lparr>v_additional_assets_need_unstaking := v_additional_assets_need_unstaking v'\<rparr>"
    "ds_sum staked_amount ds1 + (unat a - additional v') = ds_sum staked_amount ds" "additional v' \<le> unat a"
    using Cons.IH [OF *(3)] e(1) by auto
  have "additional v' = additional v - (\<Sum>d\<leftarrow>filter (due v len) (d # ds). staked d)"
    using IH(1) e(2,4) *(1) by (auto simp: unstaked_def min_def split: if_splits)
  moreover have "ds_sum staked_amount ds' + (additional v - additional v') = ds_sum staked_amount (d # ds)"
    using IH(3,4) e(2,3,4) *(4) by simp
  moreover have "v' = v\<lparr>v_additional_assets_need_unstaking := v_additional_assets_need_unstaking v'\<rparr>"
    using IH(2) e(1) by simp
  ultimately show ?case using IH(4) e(2) by simp
qed simp

text \<open>The tracker accumulates the delegations as the cranks leave them.\<close>

lemma crank_all_accumulates:
  assumes "crank_all v t ds slot len = Inr (v', t', ds')"
  shows "unat (staked_amount (vust_delegation_state t'))
        = unat (staked_amount (vust_delegation_state t)) + ds_sum staked_amount ds'
    \<and> unat (enqueued_for_cooldown_amount (vust_delegation_state t'))
        = unat (enqueued_for_cooldown_amount (vust_delegation_state t)) + ds_sum enqueued_for_cooldown_amount ds'
    \<and> unat (cooling_down_amount (vust_delegation_state t'))
        = unat (cooling_down_amount (vust_delegation_state t)) + ds_sum cooling_down_amount ds'"
  using assms
proof (induction ds arbitrary: v t ds')
  case (Cons d ds)
  from Cons.prems obtain p v1 d1 t1 ds1 where *: "crank_operator p v d t slot len = Inr (v1, d1, t1)"
    "crank_all v1 t1 ds slot len = Inr (v', t', ds1)" "ds' = d1 # ds1"
    by (rule crank_all_ConsE)
  from *(1) have "ds_accumulate (vust_delegation_state t) (vod_delegation_state d1) = Inr (vust_delegation_state t1)"
    by (rule crank_operatorE) simp
  then show ?case using Cons.IH [OF *(2)] *(3) by (simp add: ds_accumulate_iff)
qed simp

lemma update_indexes_ds:
  "update_indexes (t\<lparr>vust_delegation_state := x\<rparr>) n is
     = and_then (update_indexes t n is) (\<lambda>t. Inr (t\<lparr>vust_delegation_state := x\<rparr>))"
proof (induction "is" arbitrary: t)
  case (Cons i "is")
  have "check_and_update_index (t\<lparr>vust_delegation_state := x\<rparr>) i n
      = and_then (check_and_update_index t i n) (\<lambda>t. Inr (t\<lparr>vust_delegation_state := x\<rparr>))"
    by (simp add: check_and_update_index_def and_then_def split: sum.splits)
  then show ?case
    using Cons.IH by (cases "check_and_update_index t i n") simp_all
qed simp

lemma crank_all_visits:
  assumes "crank_all v t ds slot len = Inr (v', t', ds')"
  shows "update_indexes t (v_operator_count v) (map vod_index ds)
        = Inr (t'\<lparr>vust_delegation_state := vust_delegation_state t\<rparr>)
    \<and> map vod_operator ds' = map vod_operator ds \<and> map vod_index ds' = map vod_index ds
    \<and> list_all (\<lambda>d. vod_last_update_slot d = slot) ds'"
  using assms
proof (induction ds arbitrary: v t ds')
  case (Cons d ds)
  from Cons.prems obtain p v1 d1 t1 ds1 where *: "crank_operator p v d t slot len = Inr (v1, d1, t1)"
    "crank_all v1 t1 ds slot len = Inr (v', t', ds1)" "ds' = d1 # ds1"
    by (rule crank_all_ConsE)
  from *(1) obtain a dl acc where e: "v1 = v\<lparr>v_additional_assets_need_unstaking := a\<rparr>"
    "check_and_update_index t (vod_index d) (v_operator_count v) = Inr (t\<lparr>vust_last_updated_index := vod_index d\<rparr>)"
    "d1 = d\<lparr>vod_delegation_state := dl, vod_last_update_slot := slot\<rparr>"
    "t1 = t\<lparr>vust_last_updated_index := vod_index d, vust_delegation_state := acc\<rparr>"
    by (rule crank_operatorE)
  have IH: "update_indexes t1 (v_operator_count v) (map vod_index ds)
        = Inr (t'\<lparr>vust_delegation_state := vust_delegation_state t1\<rparr>)"
    "map vod_operator ds1 = map vod_operator ds" "map vod_index ds1 = map vod_index ds"
    "list_all (\<lambda>d. vod_last_update_slot d = slot) ds1"
    using Cons.IH [OF *(2)] e(1) by auto
  have "t1\<lparr>vust_delegation_state := vust_delegation_state t\<rparr> = t\<lparr>vust_last_updated_index := vod_index d\<rparr>"
    using e(4) by simp
  then have "update_indexes (t\<lparr>vust_last_updated_index := vod_index d\<rparr>) (v_operator_count v) (map vod_index ds)
      = Inr (t'\<lparr>vust_delegation_state := vust_delegation_state t\<rparr>)"
    using update_indexes_ds [where t = t1 and x = "vust_delegation_state t"] IH(1) by simp
  then show ?case using IH e(2,3) *(3) by simp
qed simp

lemma crank_all_ok:
  assumes "\<not> v_is_paused v" and "0 < unat len"
    and "list_all (\<lambda>d. unat (vod_last_update_slot d) div unat len < unat slot div unat len) ds"
    and "is_ok (update_indexes t (v_operator_count v) (map vod_index ds))"
    and "vust_withdrawal_allocation_method t = 0"
    and "ds_total (vust_delegation_state t) + (\<Sum>d\<leftarrow>ds. ds_total (vod_delegation_state d)) < 2 ^ 64"
  shows "\<exists>v' t' ds'. crank_all v t ds slot len = Inr (v', t', ds')"
  using assms
proof (induction ds arbitrary: v t)
  case (Cons d ds)
  define p where "p = (\<not> due v len d)"
  have c: "is_ok (check_and_update_index t (vod_index d) (v_operator_count v))"
    using Cons.prems(4) by (auto simp: is_ok_iff and_then_Inr_iff)
  obtain v1 d1 t1 where o: "crank_operator p v d t slot len = Inr (v1, d1, t1)"
    using crank_operator_ok [of v len d slot t p] Cons.prems c by auto
  from o obtain a dl acc where e: "v1 = v\<lparr>v_additional_assets_need_unstaking := a\<rparr>"
    "check_and_update_index t (vod_index d) (v_operator_count v) = Inr (t\<lparr>vust_last_updated_index := vod_index d\<rparr>)"
    "d1 = d\<lparr>vod_delegation_state := dl, vod_last_update_slot := slot\<rparr>"
    "ds_total dl \<le> ds_total (vod_delegation_state d)"
    "t1 = t\<lparr>vust_last_updated_index := vod_index d, vust_delegation_state := acc\<rparr>"
    "ds_accumulate (vust_delegation_state t) dl = Inr acc"
    by (rule crank_operatorE)
  have "ds_total (vust_delegation_state t1) = ds_total (vust_delegation_state t) + ds_total dl"
    using e(5,6) by (simp add: ds_accumulate_iff ds_total_def)
  then have "ds_total (vust_delegation_state t1) + (\<Sum>d\<leftarrow>ds. ds_total (vod_delegation_state d)) < 2 ^ 64"
    using Cons.prems(6) e(4) by simp
  moreover have "is_ok (update_indexes t1 (v_operator_count v1) (map vod_index ds))"
    using Cons.prems(4) e(1,2) unfolding e(5)
    by (auto simp: is_ok_iff and_then_Inr_iff update_indexes_ds)
  moreover have "vust_withdrawal_allocation_method t1 = 0"
    using Cons.prems(5) unfolding e(5) by simp
  ultimately obtain v' t' ds' where "crank_all v1 t1 ds slot len = Inr (v', t', ds')"
    using Cons.IH [of v1 t1] Cons.prems(1,2,3) e(1) by auto
  moreover have "has_been_partially_updated v d len = Inr p"
    using Cons.prems(2) by (simp add: has_been_partially_updated_iff p_def)
  ultimately show ?case using o by simp
qed simp

lemma update_indexes_rotation:
  fixes vault :: pubkey
  assumes "update_indexes (update_state_tracker_new vault epoch m) n is = Inr t" and "is \<noteq> []"
  shows "map unat is = map (\<lambda>j. (unat epoch + j) mod unat n) [0..<length is]
    \<and> all_operators_updated t n = Inr (unat n dvd length is)"
proof -
  let ?t0 = "update_state_tracker_new vault epoch m"
  obtain i is' where "is": "is = i # is'"
    using assms(2) by (cases "is") auto
  have f: "vust_last_updated_index ?t0 = u64_MAX" "vust_ncn_epoch ?t0 = epoch"
    by (simp_all add: update_state_tracker_new_def)
  note run = update_indexes_fresh [OF assms(1) [unfolded "is"] f(1), unfolded f(2), folded "is"]
  have "unat (last is) = last (map unat is)"
    using assms(2) by (simp add: last_map)
  also have "\<dots> = (unat epoch + (length is - 1)) mod unat n"
    unfolding run(1) using assms(2) by (simp add: last_map last_upt)
  finally have last: "unat (last is) = (unat epoch + (length is - 1)) mod unat n" .
  have t: "vust_last_updated_index t = last is" "vust_ncn_epoch t = epoch"
    using run(2) f(2) by simp_all
  have "all_operators_updated t n = Inr (unat (last is) =
      (if unat epoch mod unat n = 0 then unat n - 1 else unat epoch mod unat n - 1))"
    using all_operators_updated_eq [of t n] t index_not_MAX [OF last run(3)] run(3) by simp
  also have "unat (last is) = (unat epoch mod unat n + (length is - 1)) mod unat n"
    unfolding last by (simp add: mod_add_left_eq)
  finally show ?thesis
    using run(1,3) full_round_iff [of "unat epoch mod unat n" "unat n" "length is"] assms(2) by simp
qed

lemma all_operators_updated_ds [simp]:
  "all_operators_updated (t\<lparr>vust_delegation_state := x\<rparr>) n = all_operators_updated t n"
  by (simp add: all_operators_updated_def cong: if_cong)

section \<open>A complete update\<close>

lemma update_indexes_ok:
  assumes "0 < unat n"
    and "map unat is = map (\<lambda>j. (b + j) mod unat n) [0..<length is]"
    and "b mod unat n = (if vust_last_updated_index t = u64_MAX then unat (vust_ncn_epoch t)
                         else unat (vust_last_updated_index t) + 1) mod unat n"
  shows "is_ok (update_indexes t n is)"
  using assms(2,3)
proof (induction "is" arbitrary: t b)
  case (Cons i "is")
  have i: "unat i = b mod unat n" and tl: "map unat is = map (\<lambda>j. (Suc b + j) mod unat n) [0..<length is]"
    using Cons.prems(1) by (simp_all add: map_upt_Suc del: upt_Suc)
  then have c: "check_and_update_index t i n = Inr (t\<lparr>vust_last_updated_index := i\<rparr>)"
    using assms(1) Cons.prems(2) by (simp add: check_and_update_index_iff)
  have "is_ok (update_indexes (t\<lparr>vust_last_updated_index := i\<rparr>) n is)"
    using Cons.IH [OF tl] index_not_MAX [OF i assms(1)] i by (simp add: mod_Suc_eq)
  then show ?case using c by simp
qed simp

lemma assets_requested_ok:
  assumes "fees_wf v" and "vrt_reserve v \<le> shares_of v" and "vrt_reserve v < 2 ^ 63"
  shows "\<exists>r. calculate_supported_assets_requested_for_withdrawal v = Inr r"
proof (cases "v_vrt_supply v = 0")
  case False
  obtain e where e: "checked_add (v_vrt_enqueued_for_cooldown_amount v) (v_vrt_cooling_down_amount v) = Some e"
    "unat e = unat (v_vrt_enqueued_for_cooldown_amount v) + unat (v_vrt_cooling_down_amount v)"
    using assms(3) checked_add_ok [of "v_vrt_enqueued_for_cooldown_amount v" "v_vrt_cooling_down_amount v"]
    by (auto simp: vrt_reserve_def)
  obtain n where n: "checked_add e (v_vrt_ready_to_claim_amount v) = Some n" "unat n = vrt_reserve v"
    using assms(3) e(2) checked_add_ok [of e "v_vrt_ready_to_claim_amount v"] by (auto simp: vrt_reserve_def)
  obtain bs where "calculate_burn_summary v False False n = Inr bs"
    using calculate_burn_summary_ok [of v n] assms n(2) False by (auto simp: unat_gt_0)
  then show ?thesis
    using False e(1) n(1) by (simp add: calculate_supported_assets_requested_for_withdrawal_def)
qed (simp add: calculate_supported_assets_requested_for_withdrawal_def)

lemma assets_reserved_le:
  assumes "vrt_reserve v \<le> shares_of v"
  shows "assets_reserved v \<le> assets_of v"
proof -
  have "net_of_fees v (vrt_reserve v) * assets_of v div shares_of v \<le> shares_of v * assets_of v div shares_of v"
    using assms by (intro div_le_mono mult_le_mono1) (simp add: net_of_fees_def)
  also have "\<dots> \<le> assets_of v"
    by (cases "shares_of v = 0") simp_all
  finally show ?thesis by (simp add: assets_reserved_def)
qed

lemma additional_assets_ok:
  assumes "fees_wf v" and "vrt_reserve v \<le> shares_of v" and "vrt_reserve v < 2 ^ 63"
    and "ds_total (v_delegation_state v) \<le> assets_of v" and "0 < unat len"
    and "unat (v_last_full_state_update_slot v) div unat len \<le> unat slot div unat len"
  shows "\<exists>r. calculate_additional_supported_assets_needed_to_unstake v slot len = Inr r"
proof -
  obtain q where q: "calculate_supported_assets_requested_for_withdrawal v = Inr q"
    using assets_requested_ok [OF assms(1-3)] by blast
  have len: "len \<noteq> 0" using assms(5) by (simp add: unat_gt_0)
  obtain k where k: "checked_sub (slot div len) (v_last_full_state_update_slot v div len) = Some k"
    using assms(6) checked_sub_ok [of "v_last_full_state_update_slot v div len" "slot div len"]
    by (auto simp: unat_div)
  define d where "d = ds_after_epochs k (v_delegation_state v)"
  have d: "ds_total d \<le> assets_of v"
    unfolding d_def using ds_after_epochs_simps(2) assms(4) by (rule le_trans)
  obtain td where td: "total_security d = Inr td" "unat td = ds_total d"
    using total_security_ok [of d] d unat_bound_u64 [of "v_tokens_deposited v"] by (auto simp: total_security_iff)
  obtain u where u: "checked_sub (v_tokens_deposited v) td = Some u" "unat u = assets_of v - ds_total d"
    using checked_sub_ok [of td "v_tokens_deposited v"] td(2) d by auto
  obtain w where w: "checked_add (enqueued_for_cooldown_amount d) (cooling_down_amount d) = Some w"
    "unat w = unat (enqueued_for_cooldown_amount d) + unat (cooling_down_amount d)"
    using checked_add_ok [of "enqueued_for_cooldown_amount d" "cooling_down_amount d"] d
      unat_bound_u64 [of "v_tokens_deposited v"] by (auto simp: ds_total_def)
  have "unat u + unat w < 2 ^ 64"
    using u(2) w(2) d unat_bound_u64 [of "v_tokens_deposited v"] unfolding ds_total_def by simp
  then obtain a where a: "checked_add u w = Some a"
    using checked_add_ok [of u w] by auto
  show ?thesis
    using q k td(1) u(1) w(1) a
    by (simp add: calculate_additional_supported_assets_needed_to_unstake_def get_epoch_Inr len d_def)
qed

lemma shift_vrtD:
  assumes "shift_vrt v = Inr v'"
  shows "unat (v_vrt_ready_to_claim_amount v') = unat (v_vrt_ready_to_claim_amount v) + unat (v_vrt_cooling_down_amount v)
    \<and> v' = v\<lparr>v_vrt_ready_to_claim_amount := v_vrt_ready_to_claim_amount v',
             v_vrt_cooling_down_amount := v_vrt_enqueued_for_cooldown_amount v,
             v_vrt_enqueued_for_cooldown_amount := 0\<rparr>"
  using assms by (auto simp: shift_vrt_def res_simps)

lemma shift_vrt_ok: "vrt_reserve v < 2 ^ 64 \<Longrightarrow> \<exists>v'. shift_vrt v = Inr v'"
  using checked_add_ok [of "v_vrt_ready_to_claim_amount v" "v_vrt_cooling_down_amount v"]
  by (auto simp: vrt_reserve_def shift_vrt_def increment_vrt_ready_to_claim_amount_def)

lemma shift_vrt_reserve: "shift_vrt v = Inr v' \<Longrightarrow> vrt_reserve v' = vrt_reserve v"
proof -
  assume "shift_vrt v = Inr v'"
  note * = shift_vrtD [OF this]
  have "v_vrt_cooling_down_amount v' = v_vrt_enqueued_for_cooldown_amount v"
    and "v_vrt_enqueued_for_cooldown_amount v' = 0"
    by (subst * [THEN conjunct2], simp)+
  then show ?thesis using * by (simp add: vrt_reserve_def)
qed

lemma shift_vrt_times_ok:
  "vrt_reserve v < 2 ^ 64 \<Longrightarrow> \<exists>v'. shift_vrt_times k v = Inr v' \<and> vrt_reserve v' = vrt_reserve v"
proof (induction k arbitrary: v)
  case (Suc k)
  then obtain v1 where "shift_vrt v = Inr v1" "vrt_reserve v1 = vrt_reserve v"
    using shift_vrt_ok shift_vrt_reserve by blast
  then show ?case using Suc.IH [of v1] Suc.prems by simp
qed simp

lemma close_updateD:
  assumes "close_update v t ncn_epoch slot len = Inr v'"
    and "unat ncn_epoch = unat slot div unat len"
  defines "k \<equiv> unat slot div unat len - unat (v_last_full_state_update_slot v) div unat len"
  shows "shift_vrt_times (min k 2)
      (v\<lparr>v_delegation_state := vust_delegation_state t, v_last_full_state_update_slot := slot\<rparr>) = Inr v'"
    and "additional v = 0"
    and "0 < v_operator_count v \<longrightarrow> all_operators_updated t (v_operator_count v) = Inr True"
    and "unat (v_last_full_state_update_slot v) div unat len \<le> unat slot div unat len"
proof -
  have len: "len \<noteq> 0"
    using assms(1) by (auto simp: close_update_def get_epoch_def checked_div_def)
  then have e: "ncn_epoch = slot div len"
    using assms(2) by (simp add: word_unat_eq_iff unat_div)
  obtain q where *: "checked_sub (slot div len) (v_last_full_state_update_slot v div len) = Some q"
    "\<not> 0 < v_additional_assets_need_unstaking v"
    "0 < v_operator_count v \<longrightarrow> all_operators_updated t (v_operator_count v) = Inr True"
    "shift_vrt_times (unat (min q 2))
      (v\<lparr>v_delegation_state := vust_delegation_state t, v_last_full_state_update_slot := slot\<rparr>) = Inr v'"
    using assms(1) len
    by (auto simp: close_update_def get_epoch_Inr e and_then_Inr_iff map_err_Inr_iff err_if_Inr_iff ok_or_Inr_iff
        Let_def split: if_splits)
  have q: "unat (v_last_full_state_update_slot v) div unat len \<le> unat slot div unat len" "unat q = k"
    using *(1) by (simp_all add: arith_iffs unat_div k_def)
  have "unat (min q 2) = min k 2"
    using q(2) by (auto simp: min_def word_le_nat_alt)
  then show "shift_vrt_times (min k 2)
      (v\<lparr>v_delegation_state := vust_delegation_state t, v_last_full_state_update_slot := slot\<rparr>) = Inr v'"
    using *(4) by simp
  show "additional v = 0" using *(2) by (simp add: word_less_nat_alt)
  show "0 < v_operator_count v \<longrightarrow> all_operators_updated t (v_operator_count v) = Inr True" by (rule *)
  show "unat (v_last_full_state_update_slot v) div unat len \<le> unat slot div unat len" by (rule q)
qed

lemma shift_vrt_times_frame:
  "shift_vrt_times k v = Inr v' \<Longrightarrow>
     v_delegation_state v' = v_delegation_state v \<and> v_tokens_deposited v' = v_tokens_deposited v
     \<and> v_vrt_supply v' = v_vrt_supply v \<and> vrt_reserve v' = vrt_reserve v
     \<and> v_last_full_state_update_slot v' = v_last_full_state_update_slot v
     \<and> v_operator_count v' = v_operator_count v"
proof (induction k arbitrary: v)
  case (Suc k)
  then obtain v1 where v1: "shift_vrt v = Inr v1" "shift_vrt_times k v1 = Inr v'"
    by (auto simp: and_then_Inr_iff)
  have "v_delegation_state v1 = v_delegation_state v \<and> v_tokens_deposited v1 = v_tokens_deposited v
     \<and> v_vrt_supply v1 = v_vrt_supply v
     \<and> v_last_full_state_update_slot v1 = v_last_full_state_update_slot v
     \<and> v_operator_count v1 = v_operator_count v"
    by (subst (1 2 3 4 5) shift_vrtD [OF v1(1), THEN conjunct2]) simp
  then show ?case using Suc.IH [OF v1(2)] shift_vrt_reserve [OF v1(1)] by simp
qed simp

text \<open>
  A vault and its operators at the start of an update: the last update was completed, every
  operator was current then, the vault's books agree with the operators' delegations and cover
  them, and the delegations are listed in the order the tracker asks for.
\<close>

definition update_ready :: "vault \<Rightarrow> vault_config \<Rightarrow> operator_delegation list \<Rightarrow> u64 \<Rightarrow> bool" where
  "update_ready v c ds slot \<longleftrightarrow>
     (let len = unat (c_epoch_length c);
          last_full = unat (v_last_full_state_update_slot v) div len;
          epoch = unat slot div len in
      \<not> v_is_paused v \<and> 0 < len \<and> unat (v_operator_count v) = length ds
      \<and> last_full = unat (v_last_start_state_update_slot v) div len \<and> last_full < epoch
      \<and> list_all (\<lambda>d. unat (vod_last_update_slot d) div len = last_full) ds
      \<and> map (unat \<circ> vod_index) ds = map (\<lambda>j. (epoch + j) mod length ds) [0..<length ds]
      \<and> ds_sum staked_amount ds = unat (staked_amount (v_delegation_state v))
      \<and> ds_sum enqueued_for_cooldown_amount ds = unat (enqueued_for_cooldown_amount (v_delegation_state v))
      \<and> ds_sum cooling_down_amount ds = unat (cooling_down_amount (v_delegation_state v))
      \<and> ds_total (v_delegation_state v) \<le> assets_of v
      \<and> fees_wf v \<and> c_program_fee_bps c \<le> MAX_BPS
      \<and> vrt_reserve v \<le> shares_of v \<and> vrt_reserve v < 2 ^ 63)"

lemma start_update_ok:
  assumes "update_ready v c ds slot"
  shows "\<exists>v1. start_update v c slot = Inr v1
    \<and> (\<exists>a. v1 = v\<lparr>v_withdrawal_fee_bps := v_next_withdrawal_fee_bps v, v_program_fee_bps := c_program_fee_bps c,
                 v_additional_assets_need_unstaking := a, v_last_start_state_update_slot := slot\<rparr>
         \<and> unat a = assets_reserved v1 - (assets_of v - unat (staked_amount (v_delegation_state v))))"
proof -
  define w where "w = v\<lparr>v_withdrawal_fee_bps := v_next_withdrawal_fee_bps v, v_program_fee_bps := c_program_fee_bps c\<rparr>"
  have r: "0 < unat (c_epoch_length c)" "c_epoch_length c \<noteq> 0"
    "v_next_withdrawal_fee_bps v \<le> MAX_BPS" "c_program_fee_bps c \<le> MAX_BPS"
    "unat (v_last_full_state_update_slot v) div unat (c_epoch_length c)
       = unat (v_last_start_state_update_slot v) div unat (c_epoch_length c)"
    "unat (v_last_full_state_update_slot v) div unat (c_epoch_length c) \<le> unat slot div unat (c_epoch_length c)"
    "fees_wf w" "vrt_reserve w \<le> shares_of w" "vrt_reserve w < 2 ^ 63"
    "ds_total (v_delegation_state w) \<le> assets_of w"
    using assms by (auto simp: update_ready_def Let_def fees_wf_def w_def vrt_reserve_def unat_gt_0)
  obtain a where a: "calculate_additional_supported_assets_needed_to_unstake w slot (c_epoch_length c) = Inr a"
    using additional_assets_ok [OF r(7-10), of "c_epoch_length c" slot] r(1,6) by (auto simp: w_def)
  have "v_last_full_state_update_slot v div c_epoch_length c = v_last_start_state_update_slot v div c_epoch_length c"
    using r(5) by (simp add: word_unat_eq_iff unat_div)
  then have "start_update v c slot =
      Inr (w\<lparr>v_additional_assets_need_unstaking := a, v_last_start_state_update_slot := slot\<rparr>)"
    using a r(2-4) by (simp add: start_update_def get_epoch_Inr set_withdrawal_fee_bps_def
        vault_set_program_fee_bps_def w_def leD)
  moreover have "unat a = assets_reserved w - (assets_of v - unat (staked_amount (v_delegation_state v)))"
    using additional_assetsD(1) [OF a] by (simp add: w_def)
  ultimately show ?thesis
    by (auto simp: w_def assets_reserved_def net_of_fees_def vrt_reserve_def)
qed

lemma ds_sum_total:
  "(\<Sum>d\<leftarrow>ds. ds_total (vod_delegation_state d))
     = ds_sum staked_amount ds + ds_sum enqueued_for_cooldown_amount ds + ds_sum cooling_down_amount ds"
  by (induction ds) (simp_all add: ds_total_def)

lemma update_ready_cranks:
  fixes vk :: pubkey
  assumes "update_ready v c ds slot"
    and "v1 = v\<lparr>v_withdrawal_fee_bps := fee, v_program_fee_bps := fee2,
                v_additional_assets_need_unstaking := a, v_last_start_state_update_slot := slot\<rparr>"
    and "unat a \<le> unat (staked_amount (v_delegation_state v))"
  defines "t0 \<equiv> update_state_tracker_new vk (slot div c_epoch_length c) 0"
  shows "\<exists>v2 t ds'. crank_all v1 t0 ds slot (c_epoch_length c) = Inr (v2, t, ds') \<and> additional v2 = 0
    \<and> ds_sum staked_amount ds' + unat a = ds_sum staked_amount ds"
proof -
  let ?len = "c_epoch_length c"
  have r: "\<not> v_is_paused v1" "0 < unat ?len" "unat (v_operator_count v1) = length ds"
    "list_all (\<lambda>d. unat (vod_last_update_slot d) div unat ?len < unat slot div unat ?len) ds"
    "filter (due v1 ?len) ds = ds"
    using assms(1,2) by (auto simp: update_ready_def Let_def list_all_iff due_def intro!: filter_True)
  have "is_ok (update_indexes t0 (v_operator_count v1) (map vod_index ds))"
  proof (cases ds)
    case (Cons d ds0)
    then show ?thesis
      using update_indexes_ok [of "v_operator_count v1" "map vod_index ds" "unat slot div unat ?len" t0] assms(1) r(3)
      by (simp add: t0_def update_state_tracker_new_def unat_div update_ready_def Let_def comp_def)
  qed (simp add: t0_def)
  moreover have "ds_total (v_delegation_state v) < 2 ^ 64"
    using assms(1) unat_bound_u64 [of "v_tokens_deposited v"] by (simp add: update_ready_def Let_def)
  then have "ds_total (vust_delegation_state t0) + (\<Sum>d\<leftarrow>ds. ds_total (vod_delegation_state d)) < 2 ^ 64"
    using assms(1) unfolding ds_sum_total
    by (simp add: t0_def update_state_tracker_new_def update_ready_def Let_def ds_total_def)
  moreover have "vust_withdrawal_allocation_method t0 = 0"
    by (simp add: t0_def update_state_tracker_new_def)
  ultimately obtain v2 t ds' where run: "crank_all v1 t0 ds slot ?len = Inr (v2, t, ds')"
    using crank_all_ok r(1,2,4) by blast
  have "ds_sum staked_amount ds = unat (staked_amount (v_delegation_state v))"
    using assms(1) by (simp add: update_ready_def Let_def)
  then show ?thesis
    using crank_all_unstakes [OF run] run r(5) assms(2,3) by auto
qed

lemma update_ready_closes:
  fixes vk :: pubkey
  assumes "update_ready v c ds slot"
    and "v1 = v\<lparr>v_withdrawal_fee_bps := fee, v_program_fee_bps := fee2,
                v_additional_assets_need_unstaking := a, v_last_start_state_update_slot := slot\<rparr>"
    and "crank_all v1 (update_state_tracker_new vk (slot div c_epoch_length c) 0) ds slot (c_epoch_length c)
           = Inr (v2, t, ds')"
    and "additional v2 = 0"
  shows "is_ok (close_update v2 t (slot div c_epoch_length c) slot (c_epoch_length c))"
proof -
  let ?len = "c_epoch_length c" and ?t0 = "update_state_tracker_new vk (slot div c_epoch_length c) 0"
  have r: "?len \<noteq> 0" "unat (v_operator_count v) = length ds" "0 < unat ?len"
    "unat (v_last_full_state_update_slot v) div unat ?len \<le> unat slot div unat ?len"
    "vrt_reserve v < 2 ^ 63"
    using assms(1) by (auto simp: update_ready_def Let_def)
  have v2: "v2 = v1\<lparr>v_additional_assets_need_unstaking := v_additional_assets_need_unstaking v2\<rparr>"
    using crank_all_unstakes [OF assms(3)] by blast
  have v2': "v_operator_count v2 = v_operator_count v" "v_last_full_state_update_slot v2 = v_last_full_state_update_slot v"
    "vrt_reserve v2 = vrt_reserve v"
    by (subst v2, simp add: assms(2) vrt_reserve_def)+
  have all: "all_operators_updated t (v_operator_count v2) = Inr True" if pos: "0 < v_operator_count v2"
  proof -
    have "0 < length ds"
      using pos v2'(1) r(2) by (metis unat_gt_0 word_greater_zero_iff)
    then obtain d ds0 where ds: "ds = d # ds0" by (cases ds) auto
    define ids where "ids = map vod_index ds"
    have "update_indexes ?t0 (v_operator_count v1) ids
        = Inr (t\<lparr>vust_delegation_state := vust_delegation_state ?t0\<rparr>)"
      using crank_all_visits [OF assms(3)] unfolding ids_def by blast
    moreover have "v_operator_count v1 = v_operator_count v" "ids \<noteq> []"
      using assms(2) ds by (simp_all add: ids_def)
    ultimately have "all_operators_updated (t\<lparr>vust_delegation_state := vust_delegation_state ?t0\<rparr>)
        (v_operator_count v) = Inr (unat (v_operator_count v) dvd length ids)"
      using update_indexes_rotation by metis
    then show ?thesis using r(2) v2'(1) by (simp add: ids_def)
  qed
  obtain k where k: "checked_sub (slot div ?len) (v_last_full_state_update_slot v2 div ?len) = Some k"
    using r(4) v2'(2) checked_sub_ok [of "v_last_full_state_update_slot v2 div ?len" "slot div ?len"]
    by (auto simp: unat_div)
  have "\<exists>v'. shift_vrt_times (unat (min k 2)) (v2\<lparr>v_delegation_state := vust_delegation_state t,
      v_last_full_state_update_slot := slot\<rparr>) = Inr v'"
    using shift_vrt_times_ok [of "v2\<lparr>v_delegation_state := vust_delegation_state t,
      v_last_full_state_update_slot := slot\<rparr>" "unat (min k 2)"] r(5) v2'(3)
    by (auto simp: vrt_reserve_def)
  moreover have "\<not> 0 < v_additional_assets_need_unstaking v2"
    using assms(4) by (simp add: word_less_nat_alt)
  ultimately show ?thesis
    using all k r(1) by (auto simp: close_update_def get_epoch_Inr Let_def)
qed

lemma close_update_installs:
  assumes "close_update v t (slot div len) slot len = Inr v'" and "0 < unat len"
  shows "v_delegation_state v' = vust_delegation_state t \<and> v_last_full_state_update_slot v' = slot
    \<and> v_tokens_deposited v' = v_tokens_deposited v \<and> v_vrt_supply v' = v_vrt_supply v
    \<and> vrt_reserve v' = vrt_reserve v"
  using shift_vrt_times_frame [OF close_updateD(1) [OF assms(1)]] by (simp add: unat_div vrt_reserve_def)


section \<open>Properties\<close>



text \<open>
  Claim C19. A run of cranks keeps exact books, whichever operators it visits and whether or not
  some were already visited by an earlier unfinished update. The amount still to unstake drops
  by the active stake of the operators that are due, down to zero at most; what it drops by is
  exactly what leaves the active stake; nothing else in the vault changes; and the tracker
  grows, in each of its three amounts, by the sum over the visited operators.
\<close>

theorem crank_round_exact:
  assumes "crank_all v t ds slot epoch_length = Inr (v', t', ds')"
  shows "additional v' = additional v - (\<Sum>d\<leftarrow>filter (due v epoch_length) ds. staked d)
    \<and> v' = v\<lparr>v_additional_assets_need_unstaking := v_additional_assets_need_unstaking v'\<rparr>
    \<and> ds_sum staked_amount ds' + (additional v - additional v') = ds_sum staked_amount ds
    \<and> unat (staked_amount (vust_delegation_state t'))
        = unat (staked_amount (vust_delegation_state t)) + ds_sum staked_amount ds'
    \<and> unat (enqueued_for_cooldown_amount (vust_delegation_state t'))
        = unat (enqueued_for_cooldown_amount (vust_delegation_state t)) + ds_sum enqueued_for_cooldown_amount ds'
    \<and> unat (cooling_down_amount (vust_delegation_state t'))
        = unat (cooling_down_amount (vust_delegation_state t)) + ds_sum cooling_down_amount ds'
    \<and> map vod_operator ds' = map vod_operator ds"
  using crank_all_unstakes [OF assms] crank_all_accumulates [OF assms] crank_all_visits [OF assms] by blast

definition sample_operator :: "pubkey \<Rightarrow> u64 \<Rightarrow> delegation_state \<Rightarrow> operator_delegation" where
  "sample_operator k i d = (operator_delegation_new 9 k i 255 5)\<lparr>vod_delegation_state := d\<rparr>"

lemma sample_crank:
  "crank_all (sample_vault\<lparr>v_operator_count := 2, v_additional_assets_need_unstaking := 250\<rparr>)
     (update_state_tracker_new 9 1 0)
     [sample_operator 21 1 (ds_new 200 0 0), sample_operator 20 0 (ds_new 400 30 0)] 105 100
   = Inr (sample_vault\<lparr>v_operator_count := 2, v_additional_assets_need_unstaking := 0\<rparr>,
          update_state_tracker_new 9 1 0
            \<lparr>vust_last_updated_index := 0, vust_delegation_state := ds_new 350 0 280\<rparr>,
          [sample_operator 21 1 (ds_new 0 0 200)\<lparr>vod_last_update_slot := 105\<rparr>,
           sample_operator 20 0 (ds_new 350 0 80)\<lparr>vod_last_update_slot := 105\<rparr>])"
  by (simp add: has_been_partially_updated_def crank_operator_def greedy_cooldown_def
      check_is_already_updated_def check_and_update_index_def withdrawal_allocation_method_try_from_def
      operator_delegation_update_def ds_cooldown_def ds_update_def ds_accumulate_def ds_new_def ds_default_def
      decrement_additional_assets_need_unstaking_def check_is_paused_def get_epoch_def sample_operator_def
      operator_delegation_new_def update_state_tracker_new_def sample_vault_def vault_new_def eval_simps min_def)

theorem crank_round_exact_witness:
  "crank_all (sample_vault\<lparr>v_operator_count := 2, v_additional_assets_need_unstaking := 250\<rparr>)
     (update_state_tracker_new 9 1 0)
     [sample_operator 21 1 (ds_new 200 0 0), sample_operator 20 0 (ds_new 400 30 0)] 105 100
   = Inr (sample_vault\<lparr>v_operator_count := 2, v_additional_assets_need_unstaking := 0\<rparr>,
          update_state_tracker_new 9 1 0
            \<lparr>vust_last_updated_index := 0, vust_delegation_state := ds_new 350 0 280\<rparr>,
          [sample_operator 21 1 (ds_new 0 0 200)\<lparr>vod_last_update_slot := 105\<rparr>,
           sample_operator 20 0 (ds_new 350 0 80)\<lparr>vod_last_update_slot := 105\<rparr>])
   \<and> (0 + 350) + (250 - 0) = (200 + 400 :: nat)"
  using sample_crank crank_round_exact [OF sample_crank]
  by (simp add: sample_operator_def ds_new_def operator_delegation_new_def)

text \<open>
  Claim C20. An update always completes. Take a vault whose last update was completed, whose
  books agree with the delegations of its operators and are covered by its assets, and whose
  withdrawal tickets do not exceed its shares. At any slot of a later epoch the update can be
  started, every operator can be cranked in the tracker's order, nothing is left to unstake
  after that, and the tracker can be closed: the error the code calls impossible is indeed
  out of reach. Afterwards the vault's delegation state is the sum of its operators' states,
  no deposited asset, share or withdrawal ticket was lost, and the assets owed to the tickets
  are no longer actively staked.
\<close>

theorem update_cycle_completes:
  assumes "update_ready v c ds slot"
  defines "epoch \<equiv> slot div c_epoch_length c"
  shows "\<exists>v1 v2 t ds' v3.
      start_update v c slot = Inr v1
    \<and> crank_all v1 (update_state_tracker_new vk epoch 0) ds slot (c_epoch_length c) = Inr (v2, t, ds')
    \<and> additional v2 = 0
    \<and> close_update v2 t epoch slot (c_epoch_length c) = Inr v3
    \<and> unat (staked_amount (v_delegation_state v3)) = ds_sum staked_amount ds'
    \<and> unat (enqueued_for_cooldown_amount (v_delegation_state v3)) = ds_sum enqueued_for_cooldown_amount ds'
    \<and> unat (cooling_down_amount (v_delegation_state v3)) = ds_sum cooling_down_amount ds'
    \<and> assets_of v3 = assets_of v \<and> shares_of v3 = shares_of v \<and> vrt_reserve v3 = vrt_reserve v
    \<and> v_last_full_state_update_slot v3 = slot
    \<and> assets_reserved v1 + unat (staked_amount (v_delegation_state v3)) \<le> assets_of v3"
proof -
  obtain v1 a where s: "start_update v c slot = Inr v1"
    "v1 = v\<lparr>v_withdrawal_fee_bps := v_next_withdrawal_fee_bps v, v_program_fee_bps := c_program_fee_bps c,
            v_additional_assets_need_unstaking := a, v_last_start_state_update_slot := slot\<rparr>"
    "unat a = assets_reserved v1 - (assets_of v - unat (staked_amount (v_delegation_state v)))"
    using start_update_ok [OF assms(1)] by blast
  have r: "vrt_reserve v1 \<le> shares_of v1" "ds_total (v_delegation_state v) \<le> assets_of v" "0 < unat (c_epoch_length c)"
    "ds_sum staked_amount ds = unat (staked_amount (v_delegation_state v))"
    using assms(1) by (simp_all add: update_ready_def Let_def s(2) vrt_reserve_def)
  have le: "assets_reserved v1 \<le> assets_of v" "unat (staked_amount (v_delegation_state v)) \<le> assets_of v"
    using assets_reserved_le [OF r(1)] r(2) s(2) by (simp_all add: ds_total_def)
  then have "unat a \<le> unat (staked_amount (v_delegation_state v))"
    using s(3) by simp
  then obtain v2 t ds' where c: "crank_all v1 (update_state_tracker_new vk epoch 0) ds slot (c_epoch_length c) = Inr (v2, t, ds')"
    "additional v2 = 0" "ds_sum staked_amount ds' + unat a = ds_sum staked_amount ds"
    using update_ready_cranks [OF assms(1) s(2)] unfolding epoch_def by blast
  obtain v3 where v3: "close_update v2 t epoch slot (c_epoch_length c) = Inr v3"
    using update_ready_closes [OF assms(1) s(2) c(1) [unfolded epoch_def] c(2)] unfolding epoch_def is_ok_iff by blast
  note f = close_update_installs [OF v3 [unfolded epoch_def] r(3)]
  have v2: "v2 = v1\<lparr>v_additional_assets_need_unstaking := v_additional_assets_need_unstaking v2\<rparr>"
    using crank_all_unstakes [OF c(1)] by blast
  have v2': "assets_of v2 = assets_of v" "shares_of v2 = shares_of v" "vrt_reserve v2 = vrt_reserve v"
    by (subst v2, simp add: s(2) vrt_reserve_def)+
  note acc = crank_all_accumulates [OF c(1)]
  have "unat (staked_amount (v_delegation_state v3)) = ds_sum staked_amount ds'"
    "unat (enqueued_for_cooldown_amount (v_delegation_state v3)) = ds_sum enqueued_for_cooldown_amount ds'"
    "unat (cooling_down_amount (v_delegation_state v3)) = ds_sum cooling_down_amount ds'"
    using f acc by (simp_all add: update_state_tracker_new_def)
  moreover have "assets_reserved v1 + ds_sum staked_amount ds' \<le> assets_of v"
    using c(3) r(4) s(3) le by linarith
  ultimately show ?thesis using s(1) c(1,2) v3 f v2' by auto
qed

definition sample_config :: vault_config where
  "sample_config = (vault_config_new 3 8 30 10 254)\<lparr>c_epoch_length := 100\<rparr>"

lemma sample_update_ready:
  "update_ready (sample_vault\<lparr>v_operator_count := 2\<rparr>) sample_config
     [sample_operator 21 1 (ds_new 200 0 0), sample_operator 20 0 (ds_new 400 0 0)] 105"
  by (simp add: update_ready_def sample_config_def vault_config_new_def sample_operator_def
      operator_delegation_new_def ds_new_def ds_total_def fees_wf_def vrt_reserve_def MAX_BPS_def
      sample_vault_def vault_new_def)

theorem update_cycle_completes_witness:
  "\<exists>v1. start_update (sample_vault\<lparr>v_operator_count := 2\<rparr>) sample_config 105 = Inr v1"
  using update_cycle_completes [OF sample_update_ready, of 9] by blast

end
