(* ===== verification/Vault_Update_Handlers.thy ===== *)
theory Vault_Update_Handlers
  imports Epoch_Update Vault_Token_Handlers
begin

text \<open>
  The vault instructions around delegation and the epoch update, from \<open>vault_program/src\<close>:
  \<open>add_delegation.rs\<close>, \<open>cooldown_delegation.rs\<close>, \<open>initialize_vault_operator_delegation.rs\<close>,
  \<open>initialize_vault_update_state_tracker.rs\<close>, \<open>crank_vault_update_state_tracker.rs\<close> and
  \<open>close_update_state_tracker.rs\<close>. What the last three do to the loaded structs is theory
  \<open>Epoch_Update\<close>.
\<close>

section \<open>Definitions\<close>

definition process_initialize_vault_operator_delegation ::
    "env \<Rightarrow> pubkey \<Rightarrow> bank \<Rightarrow> account_info list \<Rightarrow> program_error + bank" where
  "process_initialize_vault_operator_delegation e program_id b accounts =
     and_then (accounts8 accounts) (\<lambda>(config, vault_info, operator, operator_vault_ticket, vault_operator_delegation,
       vault_operator_admin, payer, system_program).
     and_then (vault_config_load e program_id b config False) (\<lambda>_.
     and_then (get_vault_config b config) (\<lambda>c.
     and_then (vault_load e program_id b vault_info True) (\<lambda>_.
     and_then (get_vault b vault_info) (\<lambda>v.
     and_then (operator_load e (c_restaking_program c) b operator False) (\<lambda>_.
     and_then (operator_vault_ticket_load e (c_restaking_program c) b operator_vault_ticket operator vault_info False) (\<lambda>_.
     and_then (load_system_account e b vault_operator_delegation True) (\<lambda>_.
     and_then (load_signer vault_operator_admin False) (\<lambda>_.
     and_then (load_signer payer True) (\<lambda>_.
     and_then (load_system_program e system_program) (\<lambda>_.
     let (pda, bump, seeds) = vault_operator_delegation_find_program_address e program_id (ai_key vault_info)
           (ai_key operator);
         slot = e_slot e in
     and_then (err_if (pda \<noteq> ai_key vault_operator_delegation) InvalidAccountData) (\<lambda>_.
     and_then (vault_res (check_operator_admin v (ai_key vault_operator_admin))) (\<lambda>_.
     and_then (check_update_state_ok v slot (c_epoch_length c)) (\<lambda>_.
     and_then (vault_res (check_is_paused v)) (\<lambda>_.
     and_then (vault_res (ok_or (checked_add 8 size_of_vault_operator_delegation) ArithmeticOverflow)) (\<lambda>space.
     and_then (create_account e program_id b payer vault_operator_delegation system_program program_id space
       (seeds @ [[bump]])) (\<lambda>b.
     and_then (init_account b vault_operator_delegation (unat size_of_vault_operator_delegation)
       (VaultOperatorDelegationD
          (operator_delegation_new (ai_key vault_info) (ai_key operator) (v_operator_count v) bump slot))) (\<lambda>b.
     and_then (vault_res (increment_operator_count v)) (\<lambda>v.
     Inr (set_data b (ai_key vault_info) (VaultD v)))))))))))))))))))))"

definition process_add_delegation ::
    "env \<Rightarrow> pubkey \<Rightarrow> bank \<Rightarrow> account_info list \<Rightarrow> u64 \<Rightarrow> program_error + bank" where
  "process_add_delegation e program_id b accounts amount =
     and_then (accounts5 accounts) (\<lambda>(config, vault_info, operator, vault_operator_delegation, vault_delegation_admin).
     and_then (vault_config_load e program_id b config False) (\<lambda>_.
     and_then (get_vault_config b config) (\<lambda>c.
     and_then (vault_load e program_id b vault_info True) (\<lambda>_.
     and_then (get_vault b vault_info) (\<lambda>v.
     and_then (operator_load e (c_restaking_program c) b operator False) (\<lambda>_.
     and_then (vault_operator_delegation_load e program_id b vault_operator_delegation vault_info operator True) (\<lambda>_.
     and_then (get_vault_operator_delegation b vault_operator_delegation) (\<lambda>d.
     and_then (load_signer vault_delegation_admin False) (\<lambda>_.
     and_then (vault_res (check_delegation_admin v (ai_key vault_delegation_admin))) (\<lambda>_.
     and_then (check_update_state_ok v (e_slot e) (c_epoch_length c)) (\<lambda>_.
     and_then (vault_res (check_is_paused v)) (\<lambda>_.
     and_then (vault_res (vault_delegate v amount)) (\<lambda>v.
     and_then (vault_res (ds_delegate (vod_delegation_state d) amount)) (\<lambda>ds.
     Inr (set_data (set_data b (ai_key vault_info) (VaultD v))
            (ai_key vault_operator_delegation)
            (VaultOperatorDelegationD (d\<lparr>vod_delegation_state := ds\<rparr>)))))))))))))))))"

definition process_cooldown_delegation ::
    "env \<Rightarrow> pubkey \<Rightarrow> bank \<Rightarrow> account_info list \<Rightarrow> u64 \<Rightarrow> program_error + bank" where
  "process_cooldown_delegation e program_id b accounts amount =
     and_then (accounts5 accounts) (\<lambda>(config, vault_info, operator, vault_operator_delegation, vault_delegation_admin).
     and_then (vault_config_load e program_id b config False) (\<lambda>_.
     and_then (vault_load e program_id b vault_info True) (\<lambda>_.
     and_then (get_vault b vault_info) (\<lambda>v.
     and_then (get_vault_config b config) (\<lambda>c.
     and_then (operator_load e (c_restaking_program c) b operator False) (\<lambda>_.
     and_then (vault_operator_delegation_load e program_id b vault_operator_delegation vault_info operator True) (\<lambda>_.
     and_then (get_vault_operator_delegation b vault_operator_delegation) (\<lambda>d.
     and_then (load_signer vault_delegation_admin False) (\<lambda>_.
     and_then (vault_res (check_delegation_admin v (ai_key vault_delegation_admin))) (\<lambda>_.
     and_then (check_update_state_ok v (e_slot e) (c_epoch_length c)) (\<lambda>_.
     and_then (vault_res (check_is_paused v)) (\<lambda>_.
     and_then (vault_res (ds_cooldown (vod_delegation_state d) amount)) (\<lambda>ds.
     and_then (vault_res (ds_cooldown (v_delegation_state v) amount)) (\<lambda>vds.
     Inr (set_data (set_data b (ai_key vault_info) (VaultD (v\<lparr>v_delegation_state := vds\<rparr>)))
            (ai_key vault_operator_delegation)
            (VaultOperatorDelegationD (d\<lparr>vod_delegation_state := ds\<rparr>)))))))))))))))))"

definition process_initialize_vault_update_state_tracker ::
    "env \<Rightarrow> pubkey \<Rightarrow> bank \<Rightarrow> account_info list \<Rightarrow> withdrawal_allocation_method \<Rightarrow> program_error + bank" where
  "process_initialize_vault_update_state_tracker e program_id b accounts method =
     and_then (accounts5 accounts) (\<lambda>(config, vault_info, tracker, payer, system_program).
     and_then (vault_config_load e program_id b config False) (\<lambda>_.
     and_then (get_vault_config b config) (\<lambda>c.
     and_then (vault_load e program_id b vault_info True) (\<lambda>_.
     and_then (get_vault b vault_info) (\<lambda>v.
     and_then (load_system_account e b tracker True) (\<lambda>_.
     and_then (load_signer payer True) (\<lambda>_.
     and_then (load_system_program e system_program) (\<lambda>_.
     let slot = e_slot e in
     and_then (core_res (get_epoch slot (c_epoch_length c))) (\<lambda>ncn_epoch.
     let (pda, bump, seeds) = vault_update_state_tracker_find_program_address e program_id (ai_key vault_info) ncn_epoch in
     and_then (err_if (pda \<noteq> ai_key tracker) InvalidAccountData) (\<lambda>_.
     and_then (vault_res (err_if (is_ok (check_update_state_ok v slot (c_epoch_length c))) VaultIsUpdated)) (\<lambda>_.
     and_then (vault_res (check_is_paused v)) (\<lambda>_.
     and_then (vault_res (ok_or (checked_add 8 size_of_vault_update_state_tracker) ArithmeticOverflow)) (\<lambda>space.
     and_then (create_account e program_id b payer tracker system_program program_id space (seeds @ [[bump]])) (\<lambda>b.
     and_then (start_update v c slot) (\<lambda>v.
     let b = set_data b (ai_key vault_info) (VaultD v) in
     init_account b tracker (unat size_of_vault_update_state_tracker)
       (VaultUpdateStateTrackerD
          (update_state_tracker_new (ai_key vault_info) ncn_epoch (withdrawal_allocation_method_as_u8 method))))))))))))))))))"

definition process_crank_vault_update_state_tracker ::
    "env \<Rightarrow> pubkey \<Rightarrow> bank \<Rightarrow> account_info list \<Rightarrow> program_error + bank" where
  "process_crank_vault_update_state_tracker e program_id b accounts =
     and_then (accounts5 accounts) (\<lambda>(config, vault_info, operator, vault_operator_delegation, tracker).
     let slot = e_slot e in
     and_then (vault_config_load e program_id b config False) (\<lambda>_.
     and_then (get_vault_config b config) (\<lambda>c.
     and_then (vault_load e program_id b vault_info True) (\<lambda>_.
     and_then (get_vault b vault_info) (\<lambda>v.
     and_then (operator_load e (c_restaking_program c) b operator False) (\<lambda>_.
     and_then (vault_operator_delegation_load e program_id b vault_operator_delegation vault_info operator True) (\<lambda>_.
     and_then (get_vault_operator_delegation b vault_operator_delegation) (\<lambda>d.
     and_then (core_res (get_epoch slot (c_epoch_length c))) (\<lambda>ncn_epoch.
     and_then (core_res (has_been_partially_updated v d (c_epoch_length c))) (\<lambda>partially_updated.
     and_then (vault_update_state_tracker_load e program_id b tracker vault_info ncn_epoch True) (\<lambda>_.
     and_then (get_vault_update_state_tracker b tracker) (\<lambda>t.
     and_then (crank_operator partially_updated v d t slot (c_epoch_length c)) (\<lambda>(v, d, t).
     Inr (set_data (set_data (set_data b (ai_key vault_info) (VaultD v))
            (ai_key vault_operator_delegation) (VaultOperatorDelegationD d))
            (ai_key tracker) (VaultUpdateStateTrackerD t)))))))))))))))"

definition process_close_vault_update_state_tracker ::
    "env \<Rightarrow> pubkey \<Rightarrow> bank \<Rightarrow> account_info list \<Rightarrow> u64 \<Rightarrow> program_error + bank" where
  "process_close_vault_update_state_tracker e program_id b accounts ncn_epoch =
     and_then (accounts4 accounts) (\<lambda>(config, vault_info, tracker, payer).
     let slot = e_slot e in
     and_then (vault_config_load e program_id b config False) (\<lambda>_.
     and_then (get_vault_config b config) (\<lambda>c.
     and_then (vault_load e program_id b vault_info True) (\<lambda>_.
     and_then (get_vault b vault_info) (\<lambda>v.
     and_then (vault_update_state_tracker_load e program_id b tracker vault_info ncn_epoch True) (\<lambda>_.
     and_then (get_vault_update_state_tracker b tracker) (\<lambda>t.
     and_then (load_signer payer True) (\<lambda>_.
     and_then (vault_res (check_is_paused v)) (\<lambda>_.
     and_then (close_update v t ncn_epoch slot (c_epoch_length c)) (\<lambda>v.
     let b = set_data b (ai_key vault_info) (VaultD v) in
     close_program_account e b program_id tracker payer))))))))))"

end
