(* ===== verification/Vault_Ticket_Handlers.thy ===== *)
theory Vault_Ticket_Handlers
  imports Vault_Token_Handlers
begin

text \<open>
  The vault's side of the opt-in tickets, from \<open>vault_program/src\<close>: creating the tickets for an
  NCN, a slasher and the record of what a slasher took from an operator, and warming up and
  cooling down the first two.
\<close>

section \<open>Definitions\<close>

definition process_initialize_vault_ncn_ticket ::
    "env \<Rightarrow> pubkey \<Rightarrow> bank \<Rightarrow> account_info list \<Rightarrow> program_error + bank" where
  "process_initialize_vault_ncn_ticket e program_id b accounts =
     and_then (accounts8 accounts) (\<lambda>(config, vault_info, ncn, ncn_vault_ticket, vault_ncn_ticket, vault_ncn_admin,
       payer, system_program).
     and_then (vault_config_load e program_id b config False) (\<lambda>_.
     and_then (get_vault_config b config) (\<lambda>c.
     and_then (vault_load e program_id b vault_info True) (\<lambda>_.
     and_then (get_vault b vault_info) (\<lambda>v.
     and_then (ncn_load e (c_restaking_program c) b ncn False) (\<lambda>_.
     and_then (ncn_vault_ticket_load e (c_restaking_program c) b ncn_vault_ticket ncn vault_info False) (\<lambda>_.
     and_then (load_system_account e b vault_ncn_ticket False) (\<lambda>_.
     and_then (load_signer vault_ncn_admin False) (\<lambda>_.
     and_then (load_signer payer True) (\<lambda>_.
     and_then (load_system_program e system_program) (\<lambda>_.
     let (pda, bump, seeds) = vault_ncn_ticket_find_program_address e program_id (ai_key vault_info) (ai_key ncn);
         slot = e_slot e in
     and_then (err_if (pda \<noteq> ai_key vault_ncn_ticket) InvalidAccountData) (\<lambda>_.
     and_then (vault_res (check_ncn_admin v (ai_key vault_ncn_admin))) (\<lambda>_.
     and_then (check_update_state_ok v slot (c_epoch_length c)) (\<lambda>_.
     and_then (vault_res (check_is_paused v)) (\<lambda>_.
     and_then (vault_res (ok_or (checked_add 8 size_of_vault_ncn_ticket) ArithmeticOverflow)) (\<lambda>space.
     and_then (create_account e program_id b payer vault_ncn_ticket system_program program_id space
       (seeds @ [[bump]])) (\<lambda>b.
     and_then (init_account b vault_ncn_ticket (unat size_of_vault_ncn_ticket)
       (VaultNcnTicketD (vault_ncn_ticket_new (ai_key vault_info) (ai_key ncn) (v_ncn_count v) bump slot))) (\<lambda>b.
     and_then (vault_res (increment_ncn_count v)) (\<lambda>v.
     Inr (set_data b (ai_key vault_info) (VaultD v)))))))))))))))))))))"

definition process_initialize_vault_ncn_slasher_ticket ::
    "env \<Rightarrow> pubkey \<Rightarrow> bank \<Rightarrow> account_info list \<Rightarrow> program_error + bank" where
  "process_initialize_vault_ncn_slasher_ticket e program_id b accounts =
     and_then (accounts9 accounts) (\<lambda>(config, vault_info, ncn, slasher, ncn_slasher_ticket, vault_ncn_slasher_ticket,
       vault_slasher_admin, payer, system_program).
     and_then (vault_config_load e program_id b config False) (\<lambda>_.
     and_then (get_vault_config b config) (\<lambda>c.
     and_then (vault_load e program_id b vault_info False) (\<lambda>_.
     and_then (get_vault b vault_info) (\<lambda>v.
     and_then (ncn_load e (c_restaking_program c) b ncn False) (\<lambda>_.
     and_then (ncn_vault_slasher_ticket_load e (c_restaking_program c) b ncn_slasher_ticket ncn vault_info slasher False) (\<lambda>_.
     and_then (load_system_account e b vault_ncn_slasher_ticket True) (\<lambda>_.
     and_then (load_signer vault_slasher_admin False) (\<lambda>_.
     and_then (load_signer payer True) (\<lambda>_.
     and_then (load_system_program e system_program) (\<lambda>_.
     and_then (vault_res (check_is_paused v)) (\<lambda>_.
     let (pda, bump, seeds) = vault_ncn_slasher_ticket_find_program_address e program_id (ai_key vault_info)
           (ai_key ncn) (ai_key slasher);
         slot = e_slot e in
     and_then (err_if (pda \<noteq> ai_key vault_ncn_slasher_ticket) InvalidAccountData) (\<lambda>_.
     and_then (vault_res (check_slasher_admin v (ai_key vault_slasher_admin))) (\<lambda>_.
     and_then (check_update_state_ok v slot (c_epoch_length c)) (\<lambda>_.
     and_then (vault_res (ok_or (checked_add 8 size_of_vault_ncn_slasher_ticket) ArithmeticOverflow)) (\<lambda>space.
     and_then (create_account e program_id b payer vault_ncn_slasher_ticket system_program program_id space
       (seeds @ [[bump]])) (\<lambda>b.
     and_then (get_ncn_vault_slasher_ticket b ncn_slasher_ticket) (\<lambda>nt.
     and_then (init_account b vault_ncn_slasher_ticket (unat size_of_vault_ncn_slasher_ticket)
       (VaultNcnSlasherTicketD
          (vault_ncn_slasher_ticket_new (ai_key vault_info) (ai_key ncn) (ai_key slasher)
             (nvst_max_slashable_per_epoch nt) (v_slasher_count v) bump slot))) (\<lambda>b.
     and_then (vault_res (increment_slasher_count v)) (\<lambda>v.
     Inr (set_data b (ai_key vault_info) (VaultD v))))))))))))))))))))))"

definition process_initialize_vault_ncn_slasher_operator_ticket ::
    "env \<Rightarrow> pubkey \<Rightarrow> bank \<Rightarrow> account_info list \<Rightarrow> program_error + bank" where
  "process_initialize_vault_ncn_slasher_operator_ticket e program_id b accounts =
     and_then (accounts9 accounts) (\<lambda>(config, vault_info, ncn, slasher, operator, vault_ncn_slasher_ticket,
       vault_ncn_slasher_operator_ticket, payer, system_program).
     and_then (vault_config_load e program_id b config False) (\<lambda>_.
     and_then (get_vault_config b config) (\<lambda>c.
     and_then (vault_load e program_id b vault_info False) (\<lambda>_.
     and_then (get_vault b vault_info) (\<lambda>v.
     and_then (ncn_load e (c_restaking_program c) b ncn False) (\<lambda>_.
     and_then (operator_load e (c_restaking_program c) b operator False) (\<lambda>_.
     and_then (vault_ncn_slasher_ticket_load e program_id b vault_ncn_slasher_ticket vault_info ncn slasher False) (\<lambda>_.
     and_then (load_system_account e b vault_ncn_slasher_operator_ticket True) (\<lambda>_.
     and_then (load_signer payer False) (\<lambda>_.
     and_then (load_system_program e system_program) (\<lambda>_.
     let slot = e_slot e in
     and_then (core_res (get_epoch slot (c_epoch_length c))) (\<lambda>ncn_epoch.
     let (pda, bump, seeds) = vault_ncn_slasher_operator_ticket_find_program_address e program_id (ai_key vault_info)
           (ai_key ncn) (ai_key slasher) (ai_key operator) ncn_epoch in
     and_then (err_if (ai_key vault_ncn_slasher_operator_ticket \<noteq> pda) InvalidAccountData) (\<lambda>_.
     and_then (check_update_state_ok v slot (c_epoch_length c)) (\<lambda>_.
     and_then (vault_res (check_is_paused v)) (\<lambda>_.
     and_then (vault_res (ok_or (checked_add 8 size_of_vault_ncn_slasher_operator_ticket) ArithmeticOverflow)) (\<lambda>space.
     and_then (create_account e program_id b payer vault_ncn_slasher_operator_ticket system_program program_id space
       (seeds @ [[bump]])) (\<lambda>b.
     init_account b vault_ncn_slasher_operator_ticket (unat size_of_vault_ncn_slasher_operator_ticket)
       (VaultNcnSlasherOperatorTicketD
          (vault_ncn_slasher_operator_ticket_new (ai_key vault_info) (ai_key ncn) (ai_key slasher) (ai_key operator)
             ncn_epoch bump)))))))))))))))))))"

definition process_warmup_vault_ncn_ticket ::
    "env \<Rightarrow> pubkey \<Rightarrow> bank \<Rightarrow> account_info list \<Rightarrow> program_error + bank" where
  "process_warmup_vault_ncn_ticket e program_id b accounts =
     and_then (accounts5 accounts) (\<lambda>(config, vault, ncn, vault_ncn_ticket, vault_ncn_admin).
     and_then (vault_config_load e program_id b config False) (\<lambda>_.
     and_then (vault_load e program_id b vault False) (\<lambda>_.
     and_then (get_vault_config b config) (\<lambda>c.
     and_then (ncn_load e (c_restaking_program c) b ncn False) (\<lambda>_.
     and_then (vault_ncn_ticket_load e program_id b vault_ncn_ticket vault ncn True) (\<lambda>_.
     and_then (load_signer vault_ncn_admin False) (\<lambda>_.
     and_then (get_vault b vault) (\<lambda>v.
     and_then (vault_res (err_if (v_ncn_admin v \<noteq> ai_key vault_ncn_admin) VaultNcnAdminInvalid)) (\<lambda>_.
     and_then (check_update_state_ok v (e_slot e) (c_epoch_length c)) (\<lambda>_.
     and_then (vault_res (check_is_paused v)) (\<lambda>_.
     and_then (get_vault_ncn_ticket b vault_ncn_ticket) (\<lambda>t.
     and_then (toggle_activate (vnt_state t) (e_slot e) (c_epoch_length c)) (\<lambda>(state, activated).
     and_then (vault_res (err_if (\<not> activated) VaultNcnTicketFailedWarmup)) (\<lambda>_.
     Inr (set_data b (ai_key vault_ncn_ticket) (VaultNcnTicketD (t\<lparr>vnt_state := state\<rparr>)))))))))))))))))"

definition process_cooldown_vault_ncn_ticket ::
    "env \<Rightarrow> pubkey \<Rightarrow> bank \<Rightarrow> account_info list \<Rightarrow> program_error + bank" where
  "process_cooldown_vault_ncn_ticket e program_id b accounts =
     and_then (accounts5 accounts) (\<lambda>(config, vault_info, ncn, vault_ncn_ticket, vault_ncn_admin).
     and_then (vault_config_load e program_id b config False) (\<lambda>_.
     and_then (get_vault_config b config) (\<lambda>c.
     and_then (vault_load e program_id b vault_info False) (\<lambda>_.
     and_then (get_vault b vault_info) (\<lambda>v.
     and_then (ncn_load e (c_restaking_program c) b ncn False) (\<lambda>_.
     and_then (vault_ncn_ticket_load e program_id b vault_ncn_ticket vault_info ncn True) (\<lambda>_.
     and_then (get_vault_ncn_ticket b vault_ncn_ticket) (\<lambda>t.
     and_then (load_signer vault_ncn_admin False) (\<lambda>_.
     and_then (vault_res (check_ncn_admin v (ai_key vault_ncn_admin))) (\<lambda>_.
     and_then (check_update_state_ok v (e_slot e) (c_epoch_length c)) (\<lambda>_.
     and_then (vault_res (check_is_paused v)) (\<lambda>_.
     and_then (toggle_deactivate (vnt_state t) (e_slot e) (c_epoch_length c)) (\<lambda>(state, deactivated).
     and_then (vault_res (err_if (\<not> deactivated) VaultNcnTicketFailedCooldown)) (\<lambda>_.
     Inr (set_data b (ai_key vault_ncn_ticket) (VaultNcnTicketD (t\<lparr>vnt_state := state\<rparr>)))))))))))))))))"

definition process_warmup_vault_ncn_slasher_ticket ::
    "env \<Rightarrow> pubkey \<Rightarrow> bank \<Rightarrow> account_info list \<Rightarrow> program_error + bank" where
  "process_warmup_vault_ncn_slasher_ticket e program_id b accounts =
     and_then (accounts6 accounts) (\<lambda>(config, vault_info, ncn, slasher, vault_ncn_slasher_ticket, vault_slasher_admin).
     and_then (vault_config_load e program_id b config False) (\<lambda>_.
     and_then (get_vault_config b config) (\<lambda>c.
     and_then (vault_load e program_id b vault_info False) (\<lambda>_.
     and_then (get_vault b vault_info) (\<lambda>v.
     and_then (ncn_load e (c_restaking_program c) b ncn False) (\<lambda>_.
     and_then (vault_ncn_slasher_ticket_load e program_id b vault_ncn_slasher_ticket vault_info ncn slasher False) (\<lambda>_.
     and_then (get_vault_ncn_slasher_ticket b vault_ncn_slasher_ticket) (\<lambda>t.
     and_then (load_signer vault_slasher_admin False) (\<lambda>_.
     and_then (vault_res (check_slasher_admin v (ai_key vault_slasher_admin))) (\<lambda>_.
     and_then (check_update_state_ok v (e_slot e) (c_epoch_length c)) (\<lambda>_.
     and_then (vault_res (check_is_paused v)) (\<lambda>_.
     and_then (toggle_activate (vnst_state t) (e_slot e) (c_epoch_length c)) (\<lambda>(state, activated).
     and_then (vault_res (err_if (\<not> activated) VaultNcnSlasherTicketFailedWarmup)) (\<lambda>_.
     Inr (set_data b (ai_key vault_ncn_slasher_ticket) (VaultNcnSlasherTicketD (t\<lparr>vnst_state := state\<rparr>)))))))))))))))))"

definition process_cooldown_vault_ncn_slasher_ticket ::
    "env \<Rightarrow> pubkey \<Rightarrow> bank \<Rightarrow> account_info list \<Rightarrow> program_error + bank" where
  "process_cooldown_vault_ncn_slasher_ticket e program_id b accounts =
     and_then (accounts6 accounts) (\<lambda>(config, vault_info, ncn, slasher, vault_ncn_slasher_ticket, vault_slasher_admin).
     and_then (vault_config_load e program_id b config False) (\<lambda>_.
     and_then (get_vault_config b config) (\<lambda>c.
     and_then (vault_load e program_id b vault_info False) (\<lambda>_.
     and_then (get_vault b vault_info) (\<lambda>v.
     and_then (ncn_load e (c_restaking_program c) b ncn False) (\<lambda>_.
     and_then (vault_ncn_slasher_ticket_load e program_id b vault_ncn_slasher_ticket vault_info ncn slasher True) (\<lambda>_.
     and_then (get_vault_ncn_slasher_ticket b vault_ncn_slasher_ticket) (\<lambda>t.
     and_then (load_signer vault_slasher_admin False) (\<lambda>_.
     and_then (vault_res (check_slasher_admin v (ai_key vault_slasher_admin))) (\<lambda>_.
     and_then (check_update_state_ok v (e_slot e) (c_epoch_length c)) (\<lambda>_.
     and_then (vault_res (check_is_paused v)) (\<lambda>_.
     and_then (toggle_deactivate (vnst_state t) (e_slot e) (c_epoch_length c)) (\<lambda>(state, deactivated).
     and_then (vault_res (err_if (\<not> deactivated) VaultNcnSlasherTicketFailedCooldown)) (\<lambda>_.
     Inr (set_data b (ai_key vault_ncn_slasher_ticket) (VaultNcnSlasherTicketD (t\<lparr>vnst_state := state\<rparr>)))))))))))))))))"

end
