(* ===== verification/Vault_Change.thy ===== *)
theory Vault_Change
  imports Vault_Admin_Handlers Vault_Update_Handlers Vault_Ticket_Handlers
begin

text \<open>
  What any instruction may do to a vault. \<open>vault_change S P v v'\<close> says of a vault before and after
  that its identity is the same, its counters have not gone down, every change of a setting was
  signed for (\<open>S k\<close>: the key \<open>k\<close> signed), fees came into force only by the start of an update
  (\<open>P slot fee\<close>: the slot is the current one and the fee that of the configuration), a paused vault kept its funds, and the price of a share
  did not fall unless a lower balance was recorded. The theory shows it for each operation on a
  vault, and gives the frame lemmas by which theory \<open>Vault_Program\<close> shows it for each instruction.
\<close>

section \<open>Definitions\<close>

definition same_vault :: "vault \<Rightarrow> vault \<Rightarrow> bool" where
  "same_vault v v' \<longleftrightarrow> v_base v' = v_base v \<and> v_vrt_mint v' = v_vrt_mint v \<and> v_supported_mint v' = v_supported_mint v
     \<and> v_vault_index v' = v_vault_index v \<and> v_bump v' = v_bump v"

definition counts_grow :: "vault \<Rightarrow> vault \<Rightarrow> bool" where
  "counts_grow v v' \<longleftrightarrow> v_ncn_count v \<le> v_ncn_count v' \<and> v_operator_count v \<le> v_operator_count v'
     \<and> v_slasher_count v \<le> v_slasher_count v'"

definition vault_roles :: "vault \<Rightarrow> pubkey list" where
  "vault_roles v = [v_delegation_admin v, v_operator_admin v, v_ncn_admin v, v_slasher_admin v, v_capacity_admin v,
     v_fee_wallet v, v_mint_burn_admin v, v_delegate_asset_admin v, v_fee_admin v, v_metadata_admin v]"

definition vault_fees :: "vault \<Rightarrow> u16 \<times> u16 \<times> u16 \<times> u64" where
  "vault_fees v = (v_deposit_fee_bps v, v_next_withdrawal_fee_bps v, v_reward_fee_bps v, v_last_fee_change_slot v)"

text \<open>The fees that are charged change without a signature, when the update of an epoch starts.\<close>

definition fees_in_force :: "vault \<Rightarrow> u16 \<times> u16" where
  "fees_in_force v = (v_withdrawal_fee_bps v, v_program_fee_bps v)"

definition vault_authorised :: "(pubkey \<Rightarrow> bool) \<Rightarrow> (u64 \<Rightarrow> u16 \<Rightarrow> bool) \<Rightarrow> vault \<Rightarrow> vault \<Rightarrow> bool" where
  "vault_authorised S P v v' \<longleftrightarrow>
     (v_admin v' \<noteq> v_admin v \<longrightarrow> S (v_admin v) \<and> S (v_admin v')) \<and>
     (vault_roles v' \<noteq> vault_roles v \<longrightarrow> S (v_admin v)) \<and>
     (v_is_paused v' \<noteq> v_is_paused v \<longrightarrow> S (v_admin v)) \<and>
     (v_deposit_capacity v' \<noteq> v_deposit_capacity v \<longrightarrow> S (v_capacity_admin v)) \<and>
     (vault_fees v' \<noteq> vault_fees v \<longrightarrow> S (v_fee_admin v)) \<and>
     (fees_in_force v' \<noteq> fees_in_force v \<longrightarrow>
        v_withdrawal_fee_bps v' = v_next_withdrawal_fee_bps v \<and> P (v_last_start_state_update_slot v') (v_program_fee_bps v')) \<and>
     (v_ncn_count v' \<noteq> v_ncn_count v \<longrightarrow> S (v_ncn_admin v)) \<and>
     (v_operator_count v' \<noteq> v_operator_count v \<longrightarrow> S (v_operator_admin v)) \<and>
     (v_slasher_count v' \<noteq> v_slasher_count v \<longrightarrow> S (v_slasher_admin v))"

definition vault_funds :: "vault \<Rightarrow> u64 \<times> u64 \<times> delegation_state \<times> u64 \<times> u64 \<times> u64 \<times> u64" where
  "vault_funds v = (v_tokens_deposited v, v_vrt_supply v, v_delegation_state v, v_vrt_enqueued_for_cooldown_amount v,
     v_vrt_cooling_down_amount v, v_vrt_ready_to_claim_amount v, v_additional_assets_need_unstaking v)"

definition ledger_kept :: "vault \<Rightarrow> vault \<Rightarrow> bool" where
  "ledger_kept v v' \<longleftrightarrow> fees_wf v' \<and>
     (ledger_step v v' \<or> (\<exists>balance fee. balance < v_tokens_deposited v \<and> update_vault_balance v balance = Inr (v', fee)))"

definition vault_change :: "(pubkey \<Rightarrow> bool) \<Rightarrow> (u64 \<Rightarrow> u16 \<Rightarrow> bool) \<Rightarrow> vault \<Rightarrow> vault \<Rightarrow> bool" where
  "vault_change S P v v' \<longleftrightarrow> same_vault v v' \<and> counts_grow v v' \<and> vault_authorised S P v v'
     \<and> (v_is_paused v \<longrightarrow> vault_funds v' = vault_funds v) \<and> (fees_wf v \<longrightarrow> ledger_kept v v')"

text \<open>The program fee of the configuration account, at the current slot.\<close>

definition program_fee_now :: "env \<Rightarrow> pubkey \<Rightarrow> bank \<Rightarrow> u64 \<Rightarrow> u16 \<Rightarrow> bool" where
  "program_fee_now e p b slot fee \<longleftrightarrow>
     (let config = b (fst (vault_config_find_program_address e p)) in
      slot = e_slot e \<and> a_owner config = p \<and>
      (case a_data config of VaultConfigD c \<Rightarrow> fee = c_program_fee_bps c | _ \<Rightarrow> False))"

definition signed_by :: "account_info list \<Rightarrow> pubkey \<Rightarrow> bool" where
  "signed_by accounts k = list_ex (\<lambda>a. ai_is_signer a \<and> ai_key a = k) accounts"

text \<open>What an instruction does to the vaults in a bank.\<close>

definition keeps_vaults :: "pubkey \<Rightarrow> bank \<Rightarrow> bank \<Rightarrow> bool" where
  "keeps_vaults p b b' \<longleftrightarrow>
     (\<forall>k v. a_owner (b k) = p \<and> a_data (b k) = VaultD v \<longrightarrow> a_owner (b' k) = p \<and> a_data (b' k) = VaultD v)"

definition changes_vaults :: "(pubkey \<Rightarrow> bool) \<Rightarrow> (u64 \<Rightarrow> u16 \<Rightarrow> bool) \<Rightarrow> pubkey \<Rightarrow> bank \<Rightarrow> bank \<Rightarrow> bool" where
  "changes_vaults S P p b b' \<longleftrightarrow>
     (\<forall>k v. a_owner (b k) = p \<and> a_data (b k) = VaultD v \<longrightarrow>
        a_owner (b' k) = p \<and> (\<exists>v'. a_data (b' k) = VaultD v' \<and> vault_change S P v v'))"

section \<open>The operations on a vault\<close>

lemmas vault_change_defs = vault_change_def same_vault_def counts_grow_def vault_authorised_def vault_roles_def
  vault_fees_def fees_in_force_def vault_funds_def

lemma fees_wf_same:
  "v_deposit_fee_bps v' = v_deposit_fee_bps v \<Longrightarrow> v_withdrawal_fee_bps v' = v_withdrawal_fee_bps v \<Longrightarrow>
   v_next_withdrawal_fee_bps v' = v_next_withdrawal_fee_bps v \<Longrightarrow> v_reward_fee_bps v' = v_reward_fee_bps v \<Longrightarrow>
   v_program_fee_bps v' = v_program_fee_bps v \<Longrightarrow> fees_wf v' \<longleftrightarrow> fees_wf v"
  by (simp add: fees_wf_def)

lemma ledger_kept_other:
  assumes "v_tokens_deposited v' = v_tokens_deposited v" "v_vrt_supply v' = v_vrt_supply v" "fees_wf v'"
  shows "ledger_kept v v'"
  using assms by (simp add: ledger_kept_def ledger_step.other)

lemma vault_change_refl [simp]: "vault_change S P v v"
  by (simp add: vault_change_defs ledger_kept_other)

lemma vault_change_mint:
  assumes "mint_with_fee v a mn = Inr (v', ms)" and "\<not> v_is_paused v"
  shows "vault_change S P v v'"
proof -
  from assms(1) obtain s t where "v' = v\<lparr>v_vrt_supply := s, v_tokens_deposited := t\<rparr>"
    by (rule mint_with_feeE)
  then show ?thesis
    using assms by (simp add: vault_change_defs ledger_kept_def ledger_step.mint) (simp add: fees_wf_def)
qed

lemma vault_change_burn:
  assumes "burn_with_fee v p q n = Inr (v1, bs)" and "decrement_vrt_ready_to_claim_amount v1 n = Inr v'"
    and "\<not> v_is_paused v"
  shows "vault_change S P v v'"
proof -
  from assms(1) obtain s t where "v1 = v\<lparr>v_vrt_supply := s, v_tokens_deposited := t\<rparr>"
    by (rule burn_with_feeE)
  moreover from assms(2) obtain m where "v' = v1\<lparr>v_vrt_ready_to_claim_amount := m\<rparr>"
    by (auto simp: vault_counter_iffs)
  moreover have "ledger_step v v'"
    using assms(1,2) by (rule ledger_step.burn)
  ultimately show ?thesis
    using assms(3) by (simp add: vault_change_defs ledger_kept_def) (simp add: fees_wf_def)
qed

lemma update_vault_balance_Inr:
  assumes "update_vault_balance v balance = Inr (v', fee)"
  obtains s where "v' = v\<lparr>v_tokens_deposited := balance, v_vrt_supply := s\<rparr>"
  using assms
  by (auto simp: update_vault_balance_def Let_def and_then_Inr_iff increment_vrt_supply_def)

lemma vault_change_balance:
  assumes "update_vault_balance v balance = Inr (v', fee)" and "\<not> v_is_paused v"
  shows "vault_change S P v v'"
proof -
  from assms(1) obtain s where "v' = v\<lparr>v_tokens_deposited := balance, v_vrt_supply := s\<rparr>"
    by (rule update_vault_balance_Inr)
  moreover have "ledger_step v v' \<or> (\<exists>balance fee. balance < v_tokens_deposited v \<and> update_vault_balance v balance = Inr (v', fee))"
    using assms(1) by (cases "balance < v_tokens_deposited v") (auto intro: ledger_step.reward simp: not_less)
  ultimately show ?thesis
    using assms(2) by (simp add: vault_change_defs ledger_kept_def) (simp add: fees_wf_def)
qed

lemma vault_change_delegate:
  assumes "vault_delegate v n = Inr v'" and "\<not> v_is_paused v"
  shows "vault_change S P v v'"
proof -
  from assms(1) obtain d where "v' = v\<lparr>v_delegation_state := d\<rparr>"
    by (auto simp: vault_delegate_def and_then_Inr_iff)
  then show ?thesis
    using assms(2) by (simp add: vault_change_defs ledger_kept_other fees_wf_def)
qed

lemma vault_change_counts:
  assumes "\<not> v_is_paused v"
  shows "increment_ncn_count v = Inr v' \<Longrightarrow> S (v_ncn_admin v) \<Longrightarrow> vault_change S P v v'"
    and "increment_operator_count v = Inr v' \<Longrightarrow> S (v_operator_admin v) \<Longrightarrow> vault_change S P v v'"
    and "increment_slasher_count v = Inr v' \<Longrightarrow> S (v_slasher_admin v) \<Longrightarrow> vault_change S P v v'"
    and "increment_vrt_enqueued_for_cooldown_amount v n = Inr v' \<Longrightarrow> vault_change S P v v'"
  using assms
  by (auto simp: increment_ncn_count_def increment_operator_count_def increment_slasher_count_def
      increment_vrt_enqueued_for_cooldown_amount_def and_then_Inr_iff ok_or_Inr_iff checked_add_iff
      vault_change_defs ledger_kept_other fees_wf_def word_le_nat_alt)

lemma vault_change_start_update:
  assumes "start_update v c slot = Inr v'" and "\<not> v_is_paused v" and "P slot (c_program_fee_bps c)"
  shows "vault_change S P v v'"
  using assms
  by (auto simp: start_update_def Let_def and_then_Inr_iff map_err_Inr_iff set_withdrawal_fee_bps_def
      vault_set_program_fee_bps_def err_if_Inr_iff vault_change_defs ledger_kept_other fees_wf_def not_less
      split: if_splits)

lemma crank_operator_vault:
  assumes "crank_operator q v d t slot len = Inr (v', d', t')"
  shows "v' = v\<lparr>v_additional_assets_need_unstaking := v_additional_assets_need_unstaking v'\<rparr>" "\<not> v_is_paused v"
  using assms
  by (auto simp: crank_operator_def greedy_cooldown_def Let_def and_then_Inr_iff map_err_Inr_iff
      decrement_additional_assets_need_unstaking_def check_is_paused_def err_if_Inr_iff split: if_splits)

lemma vault_change_crank:
  assumes "crank_operator q v d t slot len = Inr (v', d', t')"
  shows "vault_change S P v v'"
proof -
  have "vault_change S P v (v\<lparr>v_additional_assets_need_unstaking := n\<rparr>)" for n
    using crank_operator_vault(2) [OF assms] by (simp add: vault_change_defs ledger_kept_other fees_wf_def)
  then show ?thesis
    by (subst crank_operator_vault(1) [OF assms])
qed

lemma shift_vrt_vault:
  assumes "shift_vrt_times k v = Inr v'"
  shows "\<exists>x y z. v' = v\<lparr>v_vrt_enqueued_for_cooldown_amount := x, v_vrt_cooling_down_amount := y,
    v_vrt_ready_to_claim_amount := z\<rparr>"
  using assms
proof (induction k arbitrary: v)
  case 0
  then show ?case
    by (intro exI [of _ "v_vrt_enqueued_for_cooldown_amount v"] exI [of _ "v_vrt_cooling_down_amount v"]
        exI [of _ "v_vrt_ready_to_claim_amount v"]) simp
next
  case (Suc k)
  then obtain m where "shift_vrt_times k (v\<lparr>v_vrt_ready_to_claim_amount := m,
      v_vrt_cooling_down_amount := v_vrt_enqueued_for_cooldown_amount v, v_vrt_enqueued_for_cooldown_amount := 0\<rparr>) = Inr v'"
    by (auto simp: and_then_Inr_iff shift_vrt_def increment_vrt_ready_to_claim_amount_def)
  from Suc.IH [OF this] show ?case by auto
qed

lemma vault_change_close:
  assumes "close_update v t epoch slot len = Inr v'" and "\<not> v_is_paused v"
  shows "vault_change S P v v'"
proof (cases "v' = v")
  case False
  then obtain k where "shift_vrt_times k (v\<lparr>v_delegation_state := vust_delegation_state t,
      v_last_full_state_update_slot := slot\<rparr>) = Inr v'"
    using assms(1)
    by (auto simp: close_update_def Let_def and_then_Inr_iff map_err_Inr_iff split: if_splits)
  then show ?thesis
    using assms(2) by (auto dest!: shift_vrt_vault simp: vault_change_defs ledger_kept_other fees_wf_def)
qed simp

lemma vault_change_cooldown:
  assumes "\<not> v_is_paused v"
  shows "vault_change S P v (v\<lparr>v_delegation_state := d\<rparr>)"
  using assms by (simp add: vault_change_defs ledger_kept_other fees_wf_def)

lemma vault_change_admin:
  assumes "S a" and "v_admin v = a"
  shows "S k \<Longrightarrow> vault_change S P v (update_secondary_admin (v\<lparr>v_admin := k\<rparr>) a k)"
    and "vault_change S P v (set_role role k v)"
    and "vault_change S P v (v\<lparr>v_is_paused := paused\<rparr>)"
  using assms
  by (simp_all add: vault_change_defs update_secondary_admin_def Let_def ledger_kept_other fees_wf_def)
     (cases role; simp add: vault_change_defs ledger_kept_other fees_wf_def)

lemma vault_change_capacity:
  assumes "S (v_capacity_admin v)"
  shows "vault_change S P v (v\<lparr>v_deposit_capacity := n\<rparr>)"
  using assms by (simp add: vault_change_defs ledger_kept_other fees_wf_def)

lemma change_fees_vault:
  assumes "change_fees v c d w r = Inr v'"
  obtains d' w' r' where "v' = v\<lparr>v_deposit_fee_bps := d', v_next_withdrawal_fee_bps := w', v_reward_fee_bps := r'\<rparr>"
    "fees_wf v \<longrightarrow> d' \<le> MAX_BPS \<and> w' \<le> MAX_BPS \<and> r' \<le> MAX_BPS"
proof -
  define v1 where "v1 = v\<lparr>v_deposit_fee_bps := case_option (v_deposit_fee_bps v) id d,
    v_next_withdrawal_fee_bps := case_option (v_next_withdrawal_fee_bps v) id w,
    v_reward_fee_bps := case_option (v_reward_fee_bps v) id r\<rparr>"
  have "v' = v1 \<and> (fees_wf v \<longrightarrow> v_deposit_fee_bps v1 \<le> MAX_BPS \<and> v_next_withdrawal_fee_bps v1 \<le> MAX_BPS
      \<and> v_reward_fee_bps v1 \<le> MAX_BPS)"
    using assms
    by (auto simp: v1_def change_fees_def and_then_Inr_iff set_deposit_fee_bps_def set_next_withdrawal_fee_bps_def
        set_reward_fee_bps_def err_if_Inr_iff not_less fees_wf_def split: option.splits)
  then show ?thesis
    using that unfolding v1_def by simp
qed

lemma vault_change_fees:
  assumes "change_fees v c d w r = Inr v'" and "S (v_fee_admin v)"
  shows "vault_change S P v (v'\<lparr>v_last_fee_change_slot := slot\<rparr>)"
  using assms(1)
proof (rule change_fees_vault)
  fix d' w' r'
  assume "v' = v\<lparr>v_deposit_fee_bps := d', v_next_withdrawal_fee_bps := w', v_reward_fee_bps := r'\<rparr>"
    "fees_wf v \<longrightarrow> d' \<le> MAX_BPS \<and> w' \<le> MAX_BPS \<and> r' \<le> MAX_BPS"
  then show ?thesis
    using assms(2) by (auto simp: vault_change_defs ledger_kept_other fees_wf_def)
qed

section \<open>The vaults in a bank\<close>

lemma keeps_vaults_refl [simp]: "keeps_vaults p b b"
  by (simp add: keeps_vaults_def)

lemma keeps_owned_vaults: "keeps_owned p b b' \<Longrightarrow> keeps_vaults p b b'"
  by (simp add: keeps_owned_def keeps_vaults_def)

lemma keeps_vaults_changes: "keeps_vaults p b b' \<Longrightarrow> changes_vaults S P p b b'"
  by (auto simp: keeps_vaults_def changes_vaults_def)

lemma keeps_vaults_trans: "keeps_vaults p b1 b2 \<Longrightarrow> keeps_vaults p b2 b3 \<Longrightarrow> keeps_vaults p b1 b3"
  by (simp add: keeps_vaults_def)

lemma changes_vaults_after: "keeps_vaults p b1 b2 \<Longrightarrow> changes_vaults S P p b2 b3 \<Longrightarrow> changes_vaults S P p b1 b3"
  by (fastforce simp: keeps_vaults_def changes_vaults_def)

lemma changes_vaults_before: "changes_vaults S P p b1 b2 \<Longrightarrow> keeps_vaults p b2 b3 \<Longrightarrow> changes_vaults S P p b1 b3"
  by (fastforce simp: keeps_vaults_def changes_vaults_def)

text \<open>Writing to an account that does not hold a vault, and closing one, leave the vaults alone.\<close>

definition no_vault :: "account_data \<Rightarrow> bool" where
  "no_vault d = (case d of VaultD v \<Rightarrow> False | _ \<Rightarrow> True)"

lemma no_vault_simps [simp]:
  "no_vault (Bytes bs)" "no_vault (VaultConfigD x1)" "\<not> no_vault (VaultD x2)" "no_vault (VaultNcnTicketD x3)"
  "no_vault (VaultOperatorDelegationD x4)" "no_vault (VaultNcnSlasherTicketD x5)"
  "no_vault (VaultNcnSlasherOperatorTicketD x6)" "no_vault (VaultStakerWithdrawalTicketD x7)"
  "no_vault (VaultUpdateStateTrackerD x8)"
  by (simp_all add: no_vault_def)

lemma keeps_vaults_set: "no_vault (a_data (b k)) \<Longrightarrow> keeps_vaults p b (set_data b k d)"
  by (auto simp: keeps_vaults_def)

lemma keeps_vaults_close:
  "close_program_account e b p a d = Inr b' \<Longrightarrow> no_vault (a_data (b (ai_key a))) \<Longrightarrow> keeps_vaults p b b'"
  by (auto simp: keeps_vaults_def close_program_accountD)

lemma changes_vaults_set:
  "a_data (b k) = VaultD v \<Longrightarrow> vault_change S P v v' \<Longrightarrow> changes_vaults S P p b (set_data b k (VaultD v'))"
  by (auto simp: changes_vaults_def)

end
