(* ===== verification/Sample_Bank.thy ===== *)
theory Sample_Bank
  imports Vault_Change
begin

text \<open>
  A small concrete environment and bank, on which the witnesses of theory \<open>Vault_Program\<close> and
  those after it run the handlers. Addresses are derived from the length of the seeds, which
  tells the account types apart; creating an account gives zeroed data to an empty account of
  the system program and fails on any other.
\<close>

definition sample_invoke :: "pubkey \<Rightarrow> cpi \<Rightarrow> account_info list \<Rightarrow> seeds list \<Rightarrow> bank \<Rightarrow> program_error + bank" where
  "sample_invoke program_id ix infos signers b =
     (case ix of
        SystemCreateAccount from to lamports space owner \<Rightarrow>
          if a_owner (b to) = 0
          then Inr (b(to := \<lparr>a_lamports = lamports, a_owner = owner, a_data = Bytes (replicate (unat space) 0)\<rparr>))
          else Inl (CpiFailed 0)
      | SystemAssign k owner \<Rightarrow>
          (case a_data (b k) of
             Bytes bs \<Rightarrow> if a_owner (b k) = 0 \<and> bs = replicate (length bs) 0
                         then Inr (b(k := (b k)\<lparr>a_owner := owner\<rparr>)) else Inl (CpiFailed 0)
           | _ \<Rightarrow> Inl (CpiFailed 0))
      | _ \<Rightarrow> Inr b)"

definition sample_token_account :: token_account where
  "sample_token_account = \<lparr>ta_mint = 2, ta_owner = 37, ta_amount = 1600\<rparr>"

definition sample_env :: env where
  "sample_env =
     \<lparr>e_slot = 50,
      e_minimum_balance = (\<lambda>n. n),
      e_find_program_address = (\<lambda>seeds program_id. (of_nat (length (concat seeds)), 255)),
      e_create_program_address = (\<lambda>seeds program_id. Inr (of_nat (length (concat seeds) - 1))),
      e_get_associated_token_address = (\<lambda>holder mint. 10000 + 100 * holder + mint),
      e_unpack_account = (\<lambda>bs. Inr sample_token_account),
      e_unpack_account_2022 = (\<lambda>bs. Inr sample_token_account),
      e_unpack_account_with_extensions = (\<lambda>bs. Inr sample_token_account),
      e_unpack_mint_with_extensions = (\<lambda>bs. Inr ()),
      e_mint_packed_len = 82,
      e_system_program = 0,
      e_spl_token = 900,
      e_spl_token_2022 = 901,
      e_spl_associated_token_account = 902,
      e_mpl_token_metadata = 903,
      e_invoke_signed = sample_invoke\<rparr>"

abbreviation sample_id :: pubkey where
  "sample_id \<equiv> 1000"

definition sample_bank :: bank where
  "sample_bank k =
     (if k = 6 then \<lparr>a_lamports = 1, a_owner = sample_id, a_data = VaultConfigD sample_config\<rparr>
      else if k = 37 then \<lparr>a_lamports = 1, a_owner = sample_id, a_data = VaultD sample_vault\<rparr>
      else if k = 1 \<or> k = 2 \<or> 10000 \<le> k then \<lparr>a_lamports = 1, a_owner = 900, a_data = Bytes [1]\<rparr>
      else \<lparr>a_lamports = 0, a_owner = 0, a_data = Bytes []\<rparr>)"

text \<open>An entry of the account list: a key, whether it signed, whether it is writable.\<close>

definition acc :: "pubkey \<Rightarrow> bool \<Rightarrow> bool \<Rightarrow> account_info" where
  "acc k signer writable = \<lparr>ai_key = k, ai_is_signer = signer, ai_is_writable = writable\<rparr>"

lemma acc_simps [simp]:
  "ai_key (acc k s w) = k" "ai_is_signer (acc k s w) = s" "ai_is_writable (acc k s w) = w"
  by (simp_all add: acc_def)

lemma sample_keeps_owned: "cpi_keeps_owned sample_env sample_id"
  by (auto simp: cpi_keeps_owned_def keeps_owned_def sample_env_def sample_invoke_def
      split: cpi.splits account_data.splits if_splits)

lemmas sample_env_simps = sample_env_def sample_invoke_def invoke_def

lemma sample_vault_keys [simp]:
  "v_base sample_vault = 4" "v_bump sample_vault = 255" "v_admin sample_vault = 3" "v_vrt_mint sample_vault = 1"
  "v_supported_mint sample_vault = 2" "v_is_paused sample_vault = False" "v_capacity_admin sample_vault = 3"
  "v_fee_admin sample_vault = 3" "v_fee_wallet sample_vault = 3" "v_mint_burn_admin sample_vault = 0"
  "v_delegation_admin sample_vault = 3" "v_ncn_admin sample_vault = 3" "v_ncn_count sample_vault = 0"
  by (simp_all add: sample_vault_def vault_new_def MAX_BPS_def pubkey_default_def)

lemmas sample_simps = sample_env_simps sample_bank_def sample_config_def vault_config_new_def
  vault_config_load_def load_owned_def data_is_empty_def vault_config_find_program_address_def with_seeds_def
  vault_config_seeds_def bytes_of_def vault_load_def get_vault_def get_vault_config_def
  try_from_slice_unchecked_def vault_signing_seeds_def vault_seeds_def load_signer_def set_data_def
  load_associated_token_account_def load_token_mint_def load_token_program_def raw_data_def
  accounts2_def accounts3_def accounts4_def accounts5_def accounts9_def split_at_def first_def

lemma sample_set_is_paused:
  "process_set_is_paused sample_env sample_id sample_bank [acc 6 False False, acc 37 False True, acc 3 True False] True
   = Inr (set_data sample_bank 37 (VaultD (sample_vault\<lparr>v_is_paused := True\<rparr>)))"
  by (simp add: process_set_is_paused_def sample_simps vault_check_admin_def)

lemma sample_process_mint:
  "process_mint sample_env sample_id sample_bank
     [acc 6 False False, acc 37 False True, acc 1 False True, acc 50 True False, acc 15002 False True,
      acc 13702 False True, acc 15001 False True, acc 10301 False True, acc 900 False False] 300 190
   = Inr (set_data sample_bank 37 (VaultD (sample_vault\<lparr>v_vrt_supply := 1200, v_tokens_deposited := 1800\<rparr>)))"
  by (simp add: process_mint_def sample_simps sample_mint check_mint_burn_admin_def pubkey_default_def
      check_vrt_mint_def check_update_state_ok_def is_update_needed_def get_epoch_def checked_div_def check_is_paused_def)

end
