(* ===== verification/Vault_Program.thy ===== *)
theory Vault_Program
  imports Sample_Bank
begin

text \<open>
  The vault program as a whole (\<open>vault_program/src/lib.rs\<close>): the instructions, the dispatcher, and
  what holds of every instruction and of every sequence of them. Each handler is shown to be a
  \<open>vault_change\<close> of every vault in the bank; the theorems about the program follow.
\<close>

section \<open>Definitions\<close>

datatype (plugins only: size) vault_instruction =
    InitializeConfig u16
  | InitializeVault u16 u16 u16 u8 u64
  | InitializeVaultWithMint
  | InitializeVaultNcnTicket
  | InitializeVaultOperatorDelegation
  | InitializeVaultNcnSlasherTicket
  | InitializeVaultNcnSlasherOperatorTicket
  | SetSecondaryAdmin vault_admin_role
  | SetAdmin
  | SetDepositCapacity u64
  | DelegateTokenAccount
  | RevokeDelegateTokenAccount
  | SetFees "u16 option" "u16 option" "u16 option"
  | SetProgramFee u16
  | SetProgramFeeWallet
  | SetIsPaused bool
  | MintTo u64 u64
  | EnqueueWithdrawal u64
  | ChangeWithdrawalTicketOwner
  | BurnWithdrawalTicket
  | WarmupVaultNcnTicket
  | CooldownVaultNcnTicket
  | WarmupVaultNcnSlasherTicket
  | CooldownVaultNcnSlasherTicket
  | AddDelegation u64
  | CooldownDelegation u64
  | UpdateVaultBalance
  | InitializeVaultUpdateStateTracker withdrawal_allocation_method
  | CrankVaultUpdateStateTracker
  | CloseVaultUpdateStateTracker u64
  | CreateTokenMetadata string string string
  | UpdateTokenMetadata string string string
  | SetConfigAdmin
  | SetConfigSecondaryAdmin config_admin_role

definition vault_dispatch ::
    "env \<Rightarrow> pubkey \<Rightarrow> bank \<Rightarrow> account_info list \<Rightarrow> vault_instruction \<Rightarrow> program_error + bank" where
  "vault_dispatch e program_id b accounts instruction =
     (case instruction of
        InitializeConfig program_fee_bps \<Rightarrow> process_initialize_config e program_id b accounts program_fee_bps
      | InitializeVault deposit_fee_bps withdrawal_fee_bps reward_fee_bps decimals initialize_token_amount \<Rightarrow>
          process_initialize_vault e program_id b accounts deposit_fee_bps withdrawal_fee_bps reward_fee_bps decimals
            initialize_token_amount
      | InitializeVaultWithMint \<Rightarrow> process_initialize_vault_with_mint e program_id b accounts
      | InitializeVaultNcnTicket \<Rightarrow> process_initialize_vault_ncn_ticket e program_id b accounts
      | InitializeVaultOperatorDelegation \<Rightarrow> process_initialize_vault_operator_delegation e program_id b accounts
      | InitializeVaultNcnSlasherTicket \<Rightarrow> process_initialize_vault_ncn_slasher_ticket e program_id b accounts
      | InitializeVaultNcnSlasherOperatorTicket \<Rightarrow>
          process_initialize_vault_ncn_slasher_operator_ticket e program_id b accounts
      | SetSecondaryAdmin role \<Rightarrow> process_set_secondary_admin e program_id b accounts role
      | SetAdmin \<Rightarrow> process_set_admin e program_id b accounts
      | SetDepositCapacity amount \<Rightarrow> process_set_deposit_capacity e program_id b accounts amount
      | DelegateTokenAccount \<Rightarrow> process_delegate_token_account e program_id b accounts
      | RevokeDelegateTokenAccount \<Rightarrow> process_revoke_delegate_token_account e program_id b accounts
      | SetFees deposit_fee_bps withdrawal_fee_bps reward_fee_bps \<Rightarrow>
          process_set_fees e program_id b accounts deposit_fee_bps withdrawal_fee_bps reward_fee_bps
      | SetProgramFee new_fee_bps \<Rightarrow> process_set_program_fee e program_id b accounts new_fee_bps
      | SetProgramFeeWallet \<Rightarrow> process_set_program_fee_wallet e program_id b accounts
      | SetIsPaused is_paused \<Rightarrow> process_set_is_paused e program_id b accounts is_paused
      | MintTo amount_in min_amount_out \<Rightarrow> process_mint e program_id b accounts amount_in min_amount_out
      | EnqueueWithdrawal amount \<Rightarrow> process_enqueue_withdrawal e program_id b accounts amount
      | ChangeWithdrawalTicketOwner \<Rightarrow> process_change_withdrawal_ticket_owner e program_id b accounts
      | BurnWithdrawalTicket \<Rightarrow> process_burn_withdrawal_ticket e program_id b accounts
      | WarmupVaultNcnTicket \<Rightarrow> process_warmup_vault_ncn_ticket e program_id b accounts
      | CooldownVaultNcnTicket \<Rightarrow> process_cooldown_vault_ncn_ticket e program_id b accounts
      | WarmupVaultNcnSlasherTicket \<Rightarrow> process_warmup_vault_ncn_slasher_ticket e program_id b accounts
      | CooldownVaultNcnSlasherTicket \<Rightarrow> process_cooldown_vault_ncn_slasher_ticket e program_id b accounts
      | AddDelegation amount \<Rightarrow> process_add_delegation e program_id b accounts amount
      | CooldownDelegation amount \<Rightarrow> process_cooldown_delegation e program_id b accounts amount
      | UpdateVaultBalance \<Rightarrow> process_update_vault_balance e program_id b accounts
      | InitializeVaultUpdateStateTracker method \<Rightarrow>
          process_initialize_vault_update_state_tracker e program_id b accounts method
      | CrankVaultUpdateStateTracker \<Rightarrow> process_crank_vault_update_state_tracker e program_id b accounts
      | CloseVaultUpdateStateTracker ncn_epoch \<Rightarrow>
          process_close_vault_update_state_tracker e program_id b accounts ncn_epoch
      | CreateTokenMetadata name symbol uri \<Rightarrow> process_create_token_metadata e program_id b accounts name symbol uri
      | UpdateTokenMetadata name symbol uri \<Rightarrow> process_update_token_metadata e program_id b accounts name symbol uri
      | SetConfigAdmin \<Rightarrow> process_set_config_admin e program_id b accounts
      | SetConfigSecondaryAdmin role \<Rightarrow> process_set_config_secondary_admin e program_id b accounts role)"

text \<open>
  The entry point: \<open>id\<close> is the declared program id, and \<open>decode\<close> the derived deserialisation of
  \<open>VaultInstruction\<close>.
\<close>

definition vault_process_instruction ::
    "env \<Rightarrow> pubkey \<Rightarrow> (u8 list \<Rightarrow> program_error + vault_instruction) \<Rightarrow> pubkey \<Rightarrow> bank \<Rightarrow> account_info list
     \<Rightarrow> u8 list \<Rightarrow> program_error + bank" where
  "vault_process_instruction e declared_id decode program_id b accounts instruction_data =
     and_then (err_if (program_id \<noteq> declared_id) IncorrectProgramId) (\<lambda>_.
     and_then (decode instruction_data) (\<lambda>instruction.
     vault_dispatch e program_id b accounts instruction))"

section \<open>Each handler\<close>

lemmas handler_simps = Let_def and_then_Inr_iff map_err_Inr_iff err_if_Inr_iff get_iffs vault_check_iffs
  accounts_iffs load_signer_iff init_account_iff check_new_account_iff case_prod_beta

lemma vault_load_owner: "vault_load e p b info w = Inr u \<Longrightarrow> owner_of b info = p"
  by (simp add: vault_load_iff)

text \<open>The vault is written and invocations follow; or an account is created and written first.\<close>

lemma change_then_invoke:
  assumes "a_data (b k) = VaultD v" "vault_change S P v v'" "keeps_owned p (set_data b k (VaultD v')) b'"
  shows "changes_vaults S P p b b'"
  using keeps_owned_vaults [OF assms(3)] by (rule changes_vaults_before [rotated]) (use assms(1,2) in \<open>rule changes_vaults_set\<close>)

lemma create_then_change:
  assumes "keeps_owned p b b1" "a_owner (b k) = p" "a_data (b k) = VaultD v" "a_data (b1 n) = Bytes bs"
    and "vault_change S P v v'" "keeps_owned p (set_data (set_data b1 n d) k (VaultD v')) b'"
  shows "changes_vaults S P p b b'"
proof -
  have "a_data (set_data b1 n d k) = VaultD v"
    using assms(1-4) by (auto simp: keeps_owned_def)
  then have "changes_vaults S P p (set_data b1 n d) b'"
    by (rule change_then_invoke [OF _ assms(5,6)])
  moreover have "keeps_vaults p b (set_data b1 n d)"
    by (rule keeps_vaults_trans [OF keeps_owned_vaults [OF assms(1)] keeps_vaults_set]) (simp add: assms(4))
  ultimately show ?thesis by (blast intro: changes_vaults_after)
qed

lemma create_then_keep:
  assumes "keeps_owned p b b1" "a_data (b1 n) = Bytes bs"
  shows "keeps_vaults p b (set_data b1 n d)"
  by (rule keeps_vaults_trans [OF keeps_owned_vaults [OF assms(1)] keeps_vaults_set]) (simp add: assms(2))

lemma mint_changes:
  assumes "cpi_keeps_owned e p" and "process_mint e p b accounts a mn = Inr b'"
  shows "changes_vaults S P p b b'"
  using assms(2)
  apply (clarsimp simp: process_mint_def handler_simps)
  apply (drule cpi_keeps [OF assms(1)])+
  apply (erule change_then_invoke, erule (1) vault_change_mint)
  apply (blast intro: keeps_owned_trans)
  done

lemma enqueue_withdrawal_changes:
  assumes "cpi_keeps_owned e p" and "process_enqueue_withdrawal e p b accounts n = Inr b'"
  shows "changes_vaults S P p b b'"
  using assms(2)
  apply (clarsimp simp: process_enqueue_withdrawal_def handler_simps)
  apply (drule cpi_keeps [OF assms(1)])+
  apply (drule vault_load_owner)
  apply (erule create_then_change, assumption+, erule (1) vault_change_counts(4), assumption)
  done

lemma burn_withdrawal_ticket_changes:
  assumes "cpi_keeps_owned e p" and "process_burn_withdrawal_ticket e p b accounts = Inr b'"
  shows "changes_vaults S P p b b'"
proof -
  from assms(2) obtain vi ti staker v v1 v2 bs q1 q2 t b1 b2 b3 b4 b5 where *:
    "a_data (b vi) = VaultD v" "\<not> v_is_paused v" "burn_with_fee v q1 q2 (wt_vrt_amount t) = Inr (v1, bs)"
    "decrement_vrt_ready_to_claim_amount v1 (wt_vrt_amount t) = Inr v2"
    "owner_of b ti = p" "a_data (b (ai_key ti)) = VaultStakerWithdrawalTicketD t"
    "keeps_owned p (set_data b vi (VaultD v2)) b1" "keeps_owned p b1 b2" "keeps_owned p b2 b3" "keeps_owned p b3 b4"
    "close_program_account e b4 p ti staker = Inr b5" "keeps_owned p b5 b'"
    apply (clarsimp simp: process_burn_withdrawal_ticket_def handler_simps)
    apply (drule cpi_keeps [OF assms(1)])+
    apply (auto simp: vault_staker_withdrawal_ticket_load_iff)
    done
  have k4: "keeps_owned p (set_data b vi (VaultD v2)) b4"
    using *(7-10) by (blast intro: keeps_owned_trans)
  have "changes_vaults S P p b b4"
    by (rule change_then_invoke [OF *(1) _ k4]) (rule vault_change_burn [OF *(3,4,2)])
  moreover have "a_data (b4 (ai_key ti)) = VaultStakerWithdrawalTicketD t"
    using keeps_ownedD(2) [OF k4, of "ai_key ti"] *(1,5,6) by auto
  then have "keeps_vaults p b4 b'"
    using keeps_vaults_close [OF *(11)] keeps_owned_vaults [OF *(12)] by (auto intro: keeps_vaults_trans)
  ultimately show ?thesis
    by (rule changes_vaults_before)
qed

lemma update_vault_balance_changes:
  assumes "cpi_keeps_owned e p" and "process_update_vault_balance e p b accounts = Inr b'"
  shows "changes_vaults S P p b b'"
proof -
  from assms(2) obtain vi v n v' fee where "a_data (b vi) = VaultD v" "\<not> v_is_paused v"
    "update_vault_balance v n = Inr (v', fee)" "keeps_owned p (set_data b vi (VaultD v')) b'"
    by (auto simp: process_update_vault_balance_def handler_simps split: if_splits dest!: cpi_keeps [OF assms(1)])
  then show ?thesis
    by (auto intro: change_then_invoke vault_change_balance)
qed

lemma admin_changes:
  "process_set_admin e p b accounts = Inr b' \<Longrightarrow> changes_vaults (signed_by accounts) P p b b'"
  "process_set_secondary_admin e p b accounts role = Inr b' \<Longrightarrow> changes_vaults (signed_by accounts) P p b b'"
  "process_set_is_paused e p b accounts paused = Inr b' \<Longrightarrow> changes_vaults (signed_by accounts) P p b b'"
  "process_set_deposit_capacity e p b accounts n = Inr b' \<Longrightarrow> changes_vaults (signed_by accounts) P p b b'"
  by (auto simp: process_set_admin_def process_set_secondary_admin_def process_set_is_paused_def
      process_set_deposit_capacity_def handler_simps signed_by_def
      intro!: changes_vaults_set vault_change_admin vault_change_capacity)

lemma set_fees_changes:
  "process_set_fees e p b accounts d w r = Inr b' \<Longrightarrow> changes_vaults (signed_by accounts) P p b b'"
  by (auto simp: process_set_fees_def handler_simps signed_by_def intro!: changes_vaults_set elim!: vault_change_fees)

lemma config_keeps:
  "process_set_config_admin e p b accounts = Inr b' \<Longrightarrow> keeps_vaults p b b'"
  "process_set_config_secondary_admin e p b accounts role = Inr b' \<Longrightarrow> keeps_vaults p b b'"
  "process_set_program_fee e p b accounts n = Inr b' \<Longrightarrow> keeps_vaults p b b'"
  "process_set_program_fee_wallet e p b accounts = Inr b' \<Longrightarrow> keeps_vaults p b b'"
  "process_change_withdrawal_ticket_owner e p b accounts = Inr b' \<Longrightarrow> keeps_vaults p b b'"
  "process_initialize_vault_with_mint e p b accounts = Inr b' \<Longrightarrow> keeps_vaults p b b'"
  by (auto simp: process_set_config_admin_def process_set_config_secondary_admin_def process_set_program_fee_def
      process_set_program_fee_wallet_def process_change_withdrawal_ticket_owner_def
      process_initialize_vault_with_mint_def handler_simps intro!: keeps_vaults_set)

lemma toggle_keeps:
  "process_warmup_vault_ncn_ticket e p b accounts = Inr b' \<Longrightarrow> keeps_vaults p b b'"
  "process_cooldown_vault_ncn_ticket e p b accounts = Inr b' \<Longrightarrow> keeps_vaults p b b'"
  "process_warmup_vault_ncn_slasher_ticket e p b accounts = Inr b' \<Longrightarrow> keeps_vaults p b b'"
  "process_cooldown_vault_ncn_slasher_ticket e p b accounts = Inr b' \<Longrightarrow> keeps_vaults p b b'"
  by (auto simp: process_warmup_vault_ncn_ticket_def process_cooldown_vault_ncn_ticket_def
      process_warmup_vault_ncn_slasher_ticket_def process_cooldown_vault_ncn_slasher_ticket_def handler_simps
      intro!: keeps_vaults_set)

lemma metadata_keeps:
  assumes "cpi_keeps_owned e p"
  shows "process_create_token_metadata e p b accounts name symbol uri = Inr b' \<Longrightarrow> keeps_vaults p b b'"
    and "process_update_token_metadata e p b accounts name symbol uri = Inr b' \<Longrightarrow> keeps_vaults p b b'"
    and "process_delegate_token_account e p b accounts = Inr b' \<Longrightarrow> keeps_vaults p b b'"
    and "process_revoke_delegate_token_account e p b accounts = Inr b' \<Longrightarrow> keeps_vaults p b b'"
  by (auto simp: process_create_token_metadata_def process_update_token_metadata_def
      process_delegate_token_account_def process_revoke_delegate_token_account_def handler_simps
      dest!: cpi_keeps [OF assms] intro!: keeps_owned_vaults)

lemma initialize_keeps:
  assumes "cpi_keeps_owned e p"
  shows "process_initialize_config e p b accounts n = Inr b' \<Longrightarrow> keeps_vaults p b b'"
    and "process_initialize_vault_ncn_slasher_operator_ticket e p b accounts = Inr b' \<Longrightarrow> keeps_vaults p b b'"
  by (auto simp: process_initialize_config_def process_initialize_vault_ncn_slasher_operator_ticket_def handler_simps
      dest!: cpi_keeps [OF assms] intro: create_then_keep)

lemma ticket_changes:
  assumes "cpi_keeps_owned e p"
  shows "process_initialize_vault_ncn_ticket e p b accounts = Inr b' \<Longrightarrow> changes_vaults (signed_by accounts) P p b b'"
    and "process_initialize_vault_ncn_slasher_ticket e p b accounts = Inr b' \<Longrightarrow> changes_vaults (signed_by accounts) P p b b'"
    and "process_initialize_vault_operator_delegation e p b accounts = Inr b' \<Longrightarrow> changes_vaults (signed_by accounts) P p b b'"
  subgoal
    apply (clarsimp simp: process_initialize_vault_ncn_ticket_def handler_simps)
    apply (drule cpi_keeps [OF assms])
    apply (drule vault_load_owner)
    apply (rule create_then_change [OF _ _ _ _ vault_change_counts(1) keeps_owned_refl], assumption+)
    apply (simp add: signed_by_def)
    done
  subgoal
    apply (clarsimp simp: process_initialize_vault_ncn_slasher_ticket_def handler_simps)
    apply (drule cpi_keeps [OF assms])
    apply (drule vault_load_owner)
    apply (rule create_then_change [OF _ _ _ _ vault_change_counts(3) keeps_owned_refl], assumption+)
    apply (simp add: signed_by_def)
    done
  subgoal
    apply (clarsimp simp: process_initialize_vault_operator_delegation_def handler_simps)
    apply (drule cpi_keeps [OF assms])
    apply (drule vault_load_owner)
    apply (rule create_then_change [OF _ _ _ _ vault_change_counts(2) keeps_owned_refl], assumption+)
    apply (simp add: signed_by_def)
    done
  done

lemma delegation_changes:
  "process_add_delegation e p b accounts n = Inr b' \<Longrightarrow> changes_vaults S P p b b'"
  "process_cooldown_delegation e p b accounts n = Inr b' \<Longrightarrow> changes_vaults S P p b b'"
  "process_crank_vault_update_state_tracker e p b accounts = Inr b' \<Longrightarrow> changes_vaults S P p b b'"
    apply (clarsimp simp: process_add_delegation_def handler_simps)
    apply (rule changes_vaults_before [OF changes_vaults_set keeps_vaults_set], assumption,
      erule (1) vault_change_delegate, force)
   apply (clarsimp simp: process_cooldown_delegation_def handler_simps)
   apply (rule changes_vaults_before [OF changes_vaults_set keeps_vaults_set], assumption,
      erule vault_change_cooldown, force)
  apply (clarsimp simp: process_crank_vault_update_state_tracker_def handler_simps)
  apply (rule changes_vaults_before [OF changes_vaults_set keeps_vaults_trans [OF keeps_vaults_set keeps_vaults_set]],
      assumption, erule vault_change_crank, force, force)
  done

lemma start_update_changes:
  assumes "cpi_keeps_owned e p" and "process_initialize_vault_update_state_tracker e p b accounts method = Inr b'"
  shows "changes_vaults S (program_fee_now e p b) p b b'"
proof -
  from assms(2) obtain vi ti v v' c b1 bs d where *: "a_owner (b vi) = p" "a_data (b vi) = VaultD v" "\<not> v_is_paused v"
    "start_update v c (e_slot e) = Inr v'" "keeps_owned p b b1" "ti \<noteq> vi" "a_data (b1 ti) = Bytes bs"
    "b' = set_data (set_data b1 vi (VaultD v')) ti d"
    "program_fee_now e p b (e_slot e) (c_program_fee_bps c)"
    apply (clarsimp simp: process_initialize_vault_update_state_tracker_def handler_simps)
    apply (drule cpi_keeps [OF assms(1)])
    apply (drule vault_load_owner)
    apply (auto simp: program_fee_now_def pda_load_iffs Let_def split: if_splits)
    done
  have v: "a_data (b1 vi) = VaultD v"
    using keeps_ownedD(2) [OF *(5,1)] *(2) by simp
  have "changes_vaults S (program_fee_now e p b) p b1 b'"
    unfolding *(8)
    by (rule changes_vaults_before [OF changes_vaults_set [where v = v] keeps_vaults_set])
      (use v *(6,7) vault_change_start_update [where P = "program_fee_now e p b", OF *(4,3,9)] in simp_all)
  then show ?thesis
    using keeps_owned_vaults [OF *(5)] by (blast intro: changes_vaults_after)
qed

lemma close_update_changes:
  assumes "process_close_vault_update_state_tracker e p b accounts n = Inr b'"
  shows "changes_vaults S P p b b'"
proof -
  from assms obtain vi ti payer v v' t len where *: "a_data (b vi) = VaultD v" "\<not> v_is_paused v"
    "close_update v t n (e_slot e) len = Inr v'" "a_data (b (ai_key ti)) = VaultUpdateStateTrackerD t"
    "close_program_account e (set_data b vi (VaultD v')) p ti payer = Inr b'"
    by (clarsimp simp: process_close_vault_update_state_tracker_def handler_simps)
  show ?thesis
    by (rule changes_vaults_before [OF changes_vaults_set keeps_vaults_close [OF *(5)]])
      (use * in \<open>auto intro: vault_change_close\<close>)
qed

lemma initialize_vault_keeps:
  assumes "cpi_keeps_owned e p" and "process_initialize_vault e p b accounts d w r dec n = Inr b'"
  shows "keeps_vaults p b b'"
proof -
  from assms(2) obtain ci vi c c' v b1 b2 b3 bs b4 b5 b6 where *:
    "a_owner (b ci) = p" "a_data (b ci) = VaultConfigD c"
    "keeps_owned p b b1" "keeps_owned p b1 b2" "keeps_owned p b2 b3" "a_data (b3 vi) = Bytes bs"
    "keeps_owned p (set_data b3 vi (VaultD v)) b4" "keeps_owned p b4 b5" "keeps_owned p b5 b6"
    "b' = set_data b6 ci (VaultConfigD c')"
    apply (clarsimp simp: process_initialize_vault_def handler_simps)
    apply (drule cpi_keeps [OF assms(1)])+
    apply (auto simp: pda_load_iffs)
    done
  have k3: "keeps_owned p b b3" and k6: "keeps_owned p (set_data b3 vi (VaultD v)) b6"
    using *(3-5,7-9) by (blast intro: keeps_owned_trans)+
  have c3: "a_owner (b3 ci) = p" "a_data (b3 ci) = VaultConfigD c"
    using keeps_ownedD [OF k3 *(1)] *(2) by simp_all
  then have "ci \<noteq> vi" using *(6) by auto
  then have "a_data (b6 ci) = VaultConfigD c"
    using keeps_ownedD(2) [OF k6, of ci] c3 by simp
  then have "keeps_vaults p b6 b'"
    unfolding *(10) by (intro keeps_vaults_set) simp
  moreover have "keeps_vaults p b (set_data b3 vi (VaultD v))"
    using k3 *(6) by (rule create_then_keep)
  ultimately show ?thesis
    using keeps_owned_vaults [OF k6] by (blast intro: keeps_vaults_trans)
qed

lemma dispatch_changes:
  assumes "cpi_keeps_owned e p" and "vault_dispatch e p b accounts ix = Inr b'"
  shows "changes_vaults (signed_by accounts) (program_fee_now e p b) p b b'"
  using assms(2)
  by (cases ix; simp add: vault_dispatch_def)
    (use assms(1) in \<open>blast intro: keeps_vaults_changes initialize_keeps initialize_vault_keeps config_keeps
      metadata_keeps toggle_keeps mint_changes enqueue_withdrawal_changes burn_withdrawal_ticket_changes
      update_vault_balance_changes admin_changes set_fees_changes ticket_changes delegation_changes
      start_update_changes close_update_changes\<close>)+

lemma instruction_changes:
  assumes "cpi_keeps_owned e p" and "vault_process_instruction e p decode p b accounts data = Inr b'"
    and "a_owner (b k) = p" and "a_data (b k) = VaultD v"
  obtains v' where "a_owner (b' k) = p" "a_data (b' k) = VaultD v'" "vault_change (signed_by accounts) (program_fee_now e p b) v v'"
proof -
  from assms(2) obtain ix where "vault_dispatch e p b accounts ix = Inr b'"
    by (auto simp: vault_process_instruction_def and_then_Inr_iff)
  from dispatch_changes [OF assms(1) this] show ?thesis
    using assms(3,4) that by (auto simp: changes_vaults_def)
qed

section \<open>Sequences of instructions\<close>

text \<open>
  The bank changes by instructions of the vault program, at any slot and with any arguments, and
  by everything else on the chain, which leaves the accounts of the vault program as they are.
\<close>

inductive vault_system :: "pubkey \<Rightarrow> bank \<Rightarrow> bank \<Rightarrow> bool" for p :: pubkey and b :: bank where
  start: "vault_system p b b"
| instruction: "vault_system p b b1 \<Longrightarrow> cpi_keeps_owned e p \<Longrightarrow> vault_dispatch e p b1 accounts ix = Inr b2 \<Longrightarrow>
    vault_system p b b2"
| elsewhere: "vault_system p b b1 \<Longrightarrow> keeps_owned p b1 b2 \<Longrightarrow> vault_system p b b2"

lemma same_vault_trans: "same_vault v1 v2 \<Longrightarrow> same_vault v2 v3 \<Longrightarrow> same_vault v1 v3"
  by (simp add: same_vault_def)

lemma counts_grow_trans: "counts_grow v1 v2 \<Longrightarrow> counts_grow v2 v3 \<Longrightarrow> counts_grow v1 v3"
  by (auto simp: counts_grow_def)

lemma vault_system_vault:
  assumes "vault_system p b b'" and "a_owner (b k) = p" and "a_data (b k) = VaultD v" and "fees_wf v"
  shows "a_owner (b' k) = p \<and> (\<exists>v'. a_data (b' k) = VaultD v' \<and> same_vault v v' \<and> counts_grow v v' \<and> fees_wf v')"
  using assms(1)
proof induction
  case start
  then show ?case using assms(2-4) by (simp add: same_vault_def counts_grow_def)
next
  case (instruction b1 e accounts ix b2)
  then obtain v1 where v1: "a_owner (b1 k) = p" "a_data (b1 k) = VaultD v1" "same_vault v v1" "counts_grow v v1" "fees_wf v1"
    by blast
  with dispatch_changes [OF instruction(2,3)] obtain v2
    where "a_owner (b2 k) = p" "a_data (b2 k) = VaultD v2" "vault_change (signed_by accounts) (program_fee_now e p b1) v1 v2"
    by (auto simp: changes_vaults_def)
  with v1 show ?case
    by (auto simp: vault_change_def ledger_kept_def intro: same_vault_trans counts_grow_trans)
next
  case (elsewhere b1 b2)
  then show ?case by (auto simp: keeps_owned_def)
qed

section \<open>Properties\<close>

lemma sample_dispatch_pause:
  "vault_dispatch sample_env sample_id sample_bank [acc 6 False False, acc 37 False True, acc 3 True False] (SetIsPaused True)
   = Inr (set_data sample_bank 37 (VaultD (sample_vault\<lparr>v_is_paused := True\<rparr>)))"
  by (simp add: vault_dispatch_def sample_set_is_paused)

lemma sample_dispatch_mint:
  "vault_dispatch sample_env sample_id sample_bank
     [acc 6 False False, acc 37 False True, acc 1 False True, acc 50 True False, acc 15002 False True,
      acc 13702 False True, acc 15001 False True, acc 10301 False True, acc 900 False False] (MintTo 300 190)
   = Inr (set_data sample_bank 37 (VaultD (sample_vault\<lparr>v_vrt_supply := 1200, v_tokens_deposited := 1800\<rparr>)))"
  by (simp add: vault_dispatch_def sample_process_mint)

lemma sample_bank_vault: "a_owner (sample_bank 37) = sample_id" "a_data (sample_bank 37) = VaultD sample_vault"
  by (simp_all add: sample_bank_def)

text \<open>
  Claim C8. No instruction changes the settings of any vault without the right signature: the admin
  only when the old and the new admin sign, any other role and the pause flag only when the admin
  signs, the capacity only when the capacity admin signs, the deposit fee, the reward fee and the
  withdrawal fee scheduled for the next epoch only when the fee admin signs, and the NCN, operator and
  slasher counts only when the admin of that list signs. The two fees that need no signature, the
  withdrawal fee and the program fee in force, change only when the update of the vault is started at
  the current slot, and then to the withdrawal fee that was scheduled and to the program fee of the
  configuration account.
\<close>

theorem vault_settings_authorised:
  assumes "cpi_keeps_owned e p" and "vault_process_instruction e p decode p b accounts data = Inr b'"
    and "a_owner (b k) = p" and "a_data (b k) = VaultD v"
  shows "\<exists>v'. a_data (b' k) = VaultD v' \<and> vault_authorised (signed_by accounts) (program_fee_now e p b) v v'"
  using assms by (rule instruction_changes) (auto simp: vault_change_def)

theorem vault_settings_authorised_witness:
  "\<exists>v'. a_data (set_data sample_bank 37 (VaultD (sample_vault\<lparr>v_is_paused := True\<rparr>)) 37) = VaultD v'
     \<and> vault_authorised (signed_by [acc 6 False False, acc 37 False True, acc 3 True False])
          (program_fee_now sample_env sample_id sample_bank) sample_vault v'"
  by (rule vault_settings_authorised [where e = sample_env and p = sample_id and b = sample_bank and data = "[]"
        and decode = "\<lambda>_. Inr (SetIsPaused True)"])
    (simp_all add: vault_process_instruction_def sample_dispatch_pause sample_bank_vault sample_keeps_owned)

text \<open>
  Claim C9. While a vault is paused, no instruction changes its funds: the assets recorded, the
  share supply, the delegations, the VRT in withdrawal tickets and the assets to unstake.
\<close>

theorem paused_vault_keeps_funds:
  assumes "cpi_keeps_owned e p" and "vault_process_instruction e p decode p b accounts data = Inr b'"
    and "a_owner (b k) = p" and "a_data (b k) = VaultD v" and "v_is_paused v"
  shows "\<exists>v'. a_data (b' k) = VaultD v' \<and> vault_funds v' = vault_funds v"
  using assms(1-4) by (rule instruction_changes) (use assms(5) in \<open>auto simp: vault_change_def\<close>)

lemma sample_unpause:
  "vault_dispatch sample_env sample_id (set_data sample_bank 37 (VaultD (sample_vault\<lparr>v_is_paused := True\<rparr>)))
     [acc 6 False False, acc 37 False True, acc 3 True False] (SetIsPaused False)
   = Inr (set_data sample_bank 37 (VaultD (sample_vault\<lparr>v_is_paused := False\<rparr>)))"
  by (simp add: vault_dispatch_def process_set_is_paused_def sample_simps vault_check_admin_def)

theorem paused_vault_keeps_funds_witness:
  "\<exists>v'. a_data (set_data sample_bank 37 (VaultD (sample_vault\<lparr>v_is_paused := False\<rparr>)) 37) = VaultD v'
     \<and> vault_funds v' = vault_funds (sample_vault\<lparr>v_is_paused := True\<rparr>)"
  by (rule paused_vault_keeps_funds [where e = sample_env and p = sample_id and data = "[]"
        and decode = "\<lambda>_. Inr (SetIsPaused False)" and accounts = "[acc 6 False False, acc 37 False True, acc 3 True False]"
        and b = "set_data sample_bank 37 (VaultD (sample_vault\<lparr>v_is_paused := True\<rparr>))"
        and b' = "set_data sample_bank 37 (VaultD (sample_vault\<lparr>v_is_paused := False\<rparr>))"])
    (simp_all add: vault_process_instruction_def sample_unpause sample_bank_vault sample_keeps_owned)

text \<open>
  Claim C10. Whatever instruction runs, for every vault in the bank the assets per share do not go
  down, unless the instruction recorded that the vault's token account holds less than before.
  The fee rates stay within one hundred percent.
\<close>

theorem instruction_no_dilution:
  assumes "cpi_keeps_owned e p" and "vault_process_instruction e p decode p b accounts data = Inr b'"
    and "a_owner (b k) = p" and "a_data (b k) = VaultD v" and "fees_wf v"
  shows "\<exists>v'. a_data (b' k) = VaultD v' \<and> fees_wf v' \<and>
    (assets_of v * shares_of v' \<le> assets_of v' * shares_of v \<or>
     (\<exists>balance fee. balance < v_tokens_deposited v \<and> update_vault_balance v balance = Inr (v', fee)))"
  using assms(1-4)
  by (rule instruction_changes)
    (use assms(5) vault_ledger.no_dilution in \<open>auto simp: vault_change_def ledger_kept_def\<close>)

theorem instruction_no_dilution_witness:
  "\<exists>v'. a_data (set_data sample_bank 37 (VaultD (sample_vault\<lparr>v_vrt_supply := 1200, v_tokens_deposited := 1800\<rparr>)) 37)
       = VaultD v' \<and> fees_wf v' \<and>
    (assets_of sample_vault * shares_of v' \<le> assets_of v' * shares_of sample_vault \<or>
     (\<exists>balance fee. balance < v_tokens_deposited sample_vault
        \<and> update_vault_balance sample_vault balance = Inr (v', fee)))"
  by (rule instruction_no_dilution [where e = sample_env and p = sample_id and b = sample_bank and data = "[]"
        and decode = "\<lambda>_. Inr (MintTo 300 190)"
        and b' = "set_data sample_bank 37 (VaultD (sample_vault\<lparr>v_vrt_supply := 1200, v_tokens_deposited := 1800\<rparr>))"
        and accounts = "[acc 6 False False, acc 37 False True, acc 1 False True, acc 50 True False,
            acc 15002 False True, acc 13702 False True, acc 15001 False True, acc 10301 False True,
            acc 900 False False]"])
    (simp_all add: vault_process_instruction_def sample_dispatch_mint sample_bank_vault sample_keeps_owned
      sample_vault_wf)

text \<open>
  Claim C11. A vault stays the vault it is. Through any sequence of instructions of the vault
  program, interleaved with anything other programs do, the account stays a vault of the program
  with the same base, VRT mint, supported mint, index and bump, so it is still found at its address;
  its NCN, operator and slasher counts never go down; and its fees stay within one hundred percent.
\<close>

theorem vault_identity_kept:
  assumes "vault_system p b b'" and "a_owner (b k) = p" and "a_data (b k) = VaultD v" and "fees_wf v"
  shows "a_owner (b' k) = p \<and> (\<exists>v'. a_data (b' k) = VaultD v' \<and> same_vault v v' \<and> counts_grow v v' \<and> fees_wf v'
    \<and> vault_signing_seeds v' = vault_signing_seeds v)"
  using vault_system_vault [OF assms] by (auto simp: same_vault_def vault_signing_seeds_def)

theorem vault_identity_kept_witness:
  "a_owner (set_data sample_bank 37 (VaultD (sample_vault\<lparr>v_vrt_supply := 1200, v_tokens_deposited := 1800\<rparr>)) 37) = sample_id"
  using vault_identity_kept [OF vault_system.instruction [OF vault_system.start sample_keeps_owned sample_dispatch_mint]
      sample_bank_vault sample_vault_wf]
  by blast

end
