(* ===== verification/Account_Registry.thy ===== *)
theory Account_Registry
  imports Account_Loads
begin

text \<open>
  Numbered accounts. Both programs give every account they create under a parent (an NCN under
  the configuration, an operator delegation under its vault, and so on) the current value of a
  counter of the parent as its index, and then increment the counter. The theory states when the
  accounts of a program are numbered consistently, and shows that adding one account in this way
  keeps them so. It also says which structs of a program a step of the chain adds: another
  program never gives away an account with contents.
\<close>

section \<open>The structs a program owns\<close>

definition is_struct :: "account_data \<Rightarrow> bool" where
  "is_struct d = (case d of Bytes bs \<Rightarrow> False | _ \<Rightarrow> True)"

definition structs :: "pubkey \<Rightarrow> bank \<Rightarrow> pubkey set" where
  "structs p b = {k. a_owner (b k) = p \<and> is_struct (a_data (b k))}"

text \<open>
  The rules of the runtime for what other programs do to the accounts of \<open>p\<close>: those it owns
  keep their owner and data, and an account is given to it with zeroed data only.
\<close>

definition gives_zeroed :: "pubkey \<Rightarrow> bank \<Rightarrow> bank \<Rightarrow> bool" where
  "gives_zeroed p b b' \<longleftrightarrow>
     (\<forall>k. a_owner (b' k) = p \<longrightarrow> a_owner (b k) = p \<or> (\<exists>n. a_data (b' k) = Bytes (replicate n 0)))"

definition outside_step :: "pubkey \<Rightarrow> bank \<Rightarrow> bank \<Rightarrow> bool" where
  "outside_step p b b' \<longleftrightarrow> keeps_owned p b b' \<and> gives_zeroed p b b'"

text \<open>
  Every invocation by \<open>p\<close> follows these rules, and the system program hands an account over to the
  owner that \<open>create_account\<close> or \<open>assign\<close> names.
\<close>

definition cpi_runtime :: "env \<Rightarrow> pubkey \<Rightarrow> bool" where
  "cpi_runtime e p \<longleftrightarrow>
     (\<forall>ix infos seeds b b'. e_invoke_signed e p ix infos seeds b = Inr b' \<longrightarrow> outside_step p b b' \<and>
        (case ix of
           SystemCreateAccount from to lamports space holder \<Rightarrow> a_owner (b' to) = holder
         | SystemAssign k holder \<Rightarrow> a_owner (b' k) = holder
         | _ \<Rightarrow> True))"

lemma is_struct_simps [simp]:
  "\<not> is_struct (Bytes bs)" "is_struct (VaultConfigD x1)" "is_struct (VaultD x2)" "is_struct (VaultNcnTicketD x3)"
  "is_struct (VaultOperatorDelegationD x4)" "is_struct (VaultNcnSlasherTicketD x5)"
  "is_struct (VaultNcnSlasherOperatorTicketD x6)" "is_struct (VaultStakerWithdrawalTicketD x7)"
  "is_struct (VaultUpdateStateTrackerD x8)" "is_struct (RestakingConfigD x9)" "is_struct (NcnD x10)"
  "is_struct (OperatorD x11)" "is_struct (NcnOperatorStateD x12)" "is_struct (OperatorVaultTicketD x13)"
  "is_struct (NcnVaultTicketD x14)" "is_struct (NcnVaultSlasherTicketD x15)"
  by (simp_all add: is_struct_def)

lemma not_struct_iff: "\<not> is_struct d \<longleftrightarrow> (\<exists>bs. d = Bytes bs)"
  by (cases d) auto

lemma structs_iff [simp]: "k \<in> structs p b \<longleftrightarrow> a_owner (b k) = p \<and> is_struct (a_data (b k))"
  by (simp add: structs_def)

lemma outside_step_refl [simp]: "outside_step p b b"
  by (simp add: outside_step_def gives_zeroed_def)

lemma outside_step_trans: "outside_step p b1 b2 \<Longrightarrow> outside_step p b2 b3 \<Longrightarrow> outside_step p b1 b3"
  unfolding outside_step_def gives_zeroed_def by (metis keeps_ownedD(2) keeps_owned_trans)

lemma outside_step_keeps: "outside_step p b b' \<Longrightarrow> keeps_owned p b b'"
  by (simp add: outside_step_def)

lemma outside_step_structs: "outside_step p b b' \<Longrightarrow> structs p b' = structs p b"
  by (auto simp: outside_step_def keeps_owned_def gives_zeroed_def)

lemma cpi_runtime_keeps: "cpi_runtime e p \<Longrightarrow> cpi_keeps_owned e p"
  by (auto simp: cpi_runtime_def cpi_keeps_owned_def outside_step_def)

lemma invoke_signed_outside:
  "cpi_runtime e p \<Longrightarrow> e_invoke_signed e p ix infos seeds b = Inr b' \<Longrightarrow> outside_step p b b'"
  by (auto simp: cpi_runtime_def)

lemma invoke_outside: "cpi_runtime e p \<Longrightarrow> invoke e p ix infos b = Inr b' \<Longrightarrow> outside_step p b b'"
  by (simp add: invoke_def invoke_signed_outside)

lemma create_account_outside:
  assumes "cpi_runtime e p" and "create_account e p b payer new sys program_owner space seeds = Inr b'"
  shows "outside_step p b b'"
  using assms(2)
  by (auto simp: create_account_def Let_def and_then_Inr_iff split: if_splits
      dest!: invoke_signed_outside [OF assms(1)] invoke_outside [OF assms(1)] intro: outside_step_trans)

lemma create_account_owner:
  assumes "cpi_runtime e p" and "create_account e p b payer new sys program_owner space seeds = Inr b'"
  shows "a_owner (b' (ai_key new)) = program_owner"
proof -
  have "a_owner (b2 to) = holder"
    if "e_invoke_signed e p (SystemCreateAccount payer to lamports n holder) infos sds b1 = Inr b2"
    for payer to lamports n holder infos sds b1 b2
    using assms(1) that unfolding cpi_runtime_def by fastforce
  moreover have "a_owner (b2 k) = holder" if "e_invoke_signed e p (SystemAssign k holder) infos sds b1 = Inr b2"
    for k holder infos sds b1 b2
    using assms(1) that unfolding cpi_runtime_def by fastforce
  ultimately show ?thesis
    using assms(2) by (auto simp: create_account_def Let_def and_then_Inr_iff split: if_splits)
qed

lemmas cpi_outside = invoke_signed_outside invoke_outside create_account_outside

text \<open>Writing to a struct adds none; writing to an account with raw data may add that one.\<close>

lemma structs_set: "structs p (set_data b k d) \<subseteq> insert k (structs p b)"
  by (auto split: if_splits)

lemma structs_set_struct: "is_struct (a_data (b k)) \<Longrightarrow> structs p (set_data b k d) \<subseteq> structs p b"
  by (auto split: if_splits)

section \<open>Consistent numbering\<close>

text \<open>
  \<open>reg\<close> reads from a struct the list it is entered in, the account that list belongs to, and its
  index there; \<open>count\<close> reads the length of a list from the account it belongs to.
\<close>

definition entries ::
    "(account_data \<Rightarrow> ('f \<times> pubkey \<times> u64) option) \<Rightarrow> pubkey \<Rightarrow> bank \<Rightarrow> (pubkey \<times> 'f \<times> pubkey \<times> u64) set" where
  "entries reg p b = {(k, x). a_owner (b k) = p \<and> reg (a_data (b k)) = Some x}"

definition counts ::
    "('f \<Rightarrow> account_data \<Rightarrow> u64 option) \<Rightarrow> pubkey \<Rightarrow> bank \<Rightarrow> (('f \<times> pubkey) \<times> u64) set" where
  "counts count p b = {((f, k), n). a_owner (b k) = p \<and> count f (a_data (b k)) = Some n}"

text \<open>
  The numbering is consistent when the entries of every list have exactly the indexes below its
  length, each of them once.
\<close>

definition numbering_ok ::
    "(account_data \<Rightarrow> ('f \<times> pubkey \<times> u64) option) \<Rightarrow> ('f \<Rightarrow> account_data \<Rightarrow> u64 option) \<Rightarrow> pubkey \<Rightarrow> bank \<Rightarrow> bool" where
  "numbering_ok reg count p b \<longleftrightarrow>
     (\<forall>k f q i. (k, f, q, i) \<in> entries reg p b \<longrightarrow> (\<exists>n. ((f, q), n) \<in> counts count p b \<and> i < n)) \<and>
     (\<forall>k k' x. (k, x) \<in> entries reg p b \<and> (k', x) \<in> entries reg p b \<longrightarrow> k = k') \<and>
     (\<forall>f q n i. ((f, q), n) \<in> counts count p b \<and> i < n \<longrightarrow> (\<exists>k. (k, f, q, i) \<in> entries reg p b))"

text \<open>
  What one instruction does: it enters no account, possibly creating one with empty lists; or it
  enters one account under the next index of a list and increments the counter of the list.
\<close>

definition numbering_step ::
    "(account_data \<Rightarrow> ('f \<times> pubkey \<times> u64) option) \<Rightarrow> ('f \<Rightarrow> account_data \<Rightarrow> u64 option) \<Rightarrow> pubkey \<Rightarrow> bank \<Rightarrow> bank \<Rightarrow> bool" where
  "numbering_step reg count p b b' \<longleftrightarrow>
     (let E = entries reg p b; E' = entries reg p b'; C = counts count p b; C' = counts count p b';
          fresh = {(l, 0) | l. \<forall>n. (l, n) \<notin> C} in
      E' = E \<and> C \<subseteq> C' \<and> C' \<subseteq> C \<union> fresh \<or>
      (\<exists>new f q n. E' = insert (new, f, q, n) E \<and> ((f, q), n) \<in> C \<and> ((f, q), n + 1) \<in> C' \<and> n < n + 1 \<and>
         C - {((f, q), n)} \<subseteq> C' \<and> C' \<subseteq> insert ((f, q), n + 1) (C - {((f, q), n)}) \<union> fresh))"

lemma plus_one_less: "i < n + 1 \<Longrightarrow> n < n + 1 \<Longrightarrow> i = n \<or> i < n" for i n :: u64
  by uint_arith

lemma counts_fun: "(l, m) \<in> counts count p b \<Longrightarrow> (l, n) \<in> counts count p b \<Longrightarrow> m = n"
  by (auto simp: counts_def)

lemma numbering_okD:
  assumes "numbering_ok reg count p b"
  shows "(k, f, q, i) \<in> entries reg p b \<Longrightarrow> \<exists>n. ((f, q), n) \<in> counts count p b \<and> i < n"
    and "(k, x) \<in> entries reg p b \<Longrightarrow> (k', x) \<in> entries reg p b \<Longrightarrow> k = k'"
    and "((f, q), n) \<in> counts count p b \<Longrightarrow> i < n \<Longrightarrow> \<exists>k. (k, f, q, i) \<in> entries reg p b"
  using assms unfolding numbering_ok_def by blast+

lemma numbering_ok_same:
  assumes ok: "numbering_ok reg count p b" and E: "entries reg p b' = entries reg p b"
    and C: "counts count p b \<subseteq> counts count p b'"
      "counts count p b' \<subseteq> counts count p b \<union> {(l, 0) | l. \<forall>n. (l, n) \<notin> counts count p b}"
  shows "numbering_ok reg count p b'"
  unfolding numbering_ok_def E
proof (intro conjI allI impI)
  fix k f q i assume "(k, f, q, i) \<in> entries reg p b"
  then show "\<exists>n. ((f, q), n) \<in> counts count p b' \<and> i < n"
    using numbering_okD(1) [OF ok] C(1) by blast
next
  fix k k' x assume "(k, x) \<in> entries reg p b \<and> (k', x) \<in> entries reg p b"
  then show "k = k'" using numbering_okD(2) [OF ok] by blast
next
  fix f q n i assume *: "((f, q), n) \<in> counts count p b' \<and> i < n"
  then have "n \<noteq> 0" by auto
  then have "((f, q), n) \<in> counts count p b" using * C(2) by auto
  then show "\<exists>k. (k, f, q, i) \<in> entries reg p b"
    using numbering_okD(3) [OF ok] * by blast
qed

lemma numbering_ok_insert:
  assumes ok: "numbering_ok reg count p b" and E: "entries reg p b' = insert (new, f, q, n) (entries reg p b)"
    and n: "((f, q), n) \<in> counts count p b" "((f, q), n + 1) \<in> counts count p b'" "n < n + 1"
    and C: "counts count p b - {((f, q), n)} \<subseteq> counts count p b'"
      "counts count p b' \<subseteq> insert ((f, q), n + 1) (counts count p b - {((f, q), n)}) \<union>
         {(l, 0) | l. \<forall>n. (l, n) \<notin> counts count p b}"
  shows "numbering_ok reg count p b'"
proof -
  have fresh: "(k, f, q, n) \<notin> entries reg p b" for k
    using numbering_okD(1) [OF ok, of k f q n] counts_fun [OF n(1)] by blast
  show ?thesis
    unfolding numbering_ok_def E
  proof (intro conjI allI impI)
    fix k g r i assume "(k, g, r, i) \<in> insert (new, f, q, n) (entries reg p b)"
    then consider "g = f" "r = q" "i = n" | "(k, g, r, i) \<in> entries reg p b" by blast
    then show "\<exists>m. ((g, r), m) \<in> counts count p b' \<and> i < m"
    proof cases
      case 1
      then show ?thesis using n(2,3) by blast
    next
      case 2
      then obtain m where m: "((g, r), m) \<in> counts count p b" "i < m"
        using numbering_okD(1) [OF ok] by blast
      show ?thesis
      proof (cases "g = f \<and> r = q")
        case True
        then have "i < n + 1" using m n(3) counts_fun [OF n(1)] by fastforce
        then show ?thesis using True n(2) by blast
      next
        case False
        then have "((g, r), m) \<in> counts count p b'" using m(1) C(1) by auto
        then show ?thesis using m(2) by blast
      qed
    qed
  next
    fix k k' x assume "(k, x) \<in> insert (new, f, q, n) (entries reg p b) \<and> (k', x) \<in> insert (new, f, q, n) (entries reg p b)"
    then show "k = k'"
      using fresh [of k] fresh [of k'] numbering_okD(2) [OF ok, of k x k'] by auto
  next
    fix g r m i assume *: "((g, r), m) \<in> counts count p b' \<and> i < m"
    then have "m \<noteq> 0" by auto
    with * C(2) consider "g = f" "r = q" "m = n + 1" | "((g, r), m) \<in> counts count p b" by auto
    then show "\<exists>k. (k, g, r, i) \<in> insert (new, f, q, n) (entries reg p b)"
    proof cases
      case 1
      then have "i < n + 1" using * by simp
      then have "i = n \<or> i < n" using n(3) plus_one_less by blast
      then show ?thesis using 1 numbering_okD(3) [OF ok n(1)] by auto
    next
      case 2
      then show ?thesis using numbering_okD(3) [OF ok 2] * by blast
    qed
  qed
qed

lemma numbering_step_ok:
  "numbering_ok reg count p b \<Longrightarrow> numbering_step reg count p b b' \<Longrightarrow> numbering_ok reg count p b'"
  unfolding numbering_step_def Let_def by (elim disjE conjE exE) (rule numbering_ok_same numbering_ok_insert; assumption)+

section \<open>Steps that keep the numbering\<close>

lemma entries_set_same: "reg d = reg (a_data (b k)) \<Longrightarrow> entries reg p (set_data b k d) = entries reg p b"
  by (auto simp: entries_def split: if_splits)

lemma counts_set_same: "(\<And>f. count f d = count f (a_data (b k))) \<Longrightarrow> counts count p (set_data b k d) = counts count p b"
  by (auto simp: counts_def split: if_splits)

lemma entries_set_new:
  assumes "a_owner (b k) = p" and "reg (a_data (b k)) = None" and "reg d = Some x"
  shows "entries reg p (set_data b k d) = insert (k, x) (entries reg p b)"
  using assms by (auto simp: entries_def split: if_splits)

lemma counts_set_new:
  assumes "\<And>f. count f (a_data (b k)) = None" and "\<And>f m. count f d = Some m \<Longrightarrow> m = 0"
  shows "counts count p b \<subseteq> counts count p (set_data b k d)"
    and "counts count p (set_data b k d) \<subseteq> counts count p b \<union> {(l, 0) | l. \<forall>n. (l, n) \<notin> counts count p b}"
  using assms by (auto simp: counts_def split: if_splits)

lemma counts_set_next:
  assumes "a_owner (b q) = p" and "count f (a_data (b q)) = Some n" and "count f d = Some m"
    and "\<And>g. g \<noteq> f \<Longrightarrow> count g d = count g (a_data (b q))"
  shows "counts count p (set_data b q d) = insert ((f, q), m) (counts count p b - {((f, q), n)})"
proof (rule set_eqI)
  fix x :: "('a \<times> pubkey) \<times> u64"
  obtain g k i where x: "x = ((g, k), i)" by (metis surj_pair)
  show "x \<in> counts count p (set_data b q d) \<longleftrightarrow> x \<in> insert ((f, q), m) (counts count p b - {((f, q), n)})"
    using assms unfolding x counts_def by (cases "g = f"; cases "k = q") auto
qed

lemma numbering_step_write:
  assumes "numbering_step reg count p b b1" and "reg d = reg (a_data (b1 r))" and "\<And>f. count f d = count f (a_data (b1 r))"
  shows "numbering_step reg count p b (set_data b1 r d)"
  using assms(1) unfolding numbering_step_def
  by (simp only: entries_set_same [where reg = reg and b = b1 and k = r, OF assms(2)]
      counts_set_same [where count = count and b = b1 and k = r, OF assms(3)])

lemma numbering_step_refl: "numbering_step reg count p b b"
  by (simp add: numbering_step_def)

text \<open>Raw data is entered nowhere and has no lists.\<close>

locale numbered =
  fixes reg :: "account_data \<Rightarrow> ('f \<times> pubkey \<times> u64) option"
    and count :: "'f \<Rightarrow> account_data \<Rightarrow> u64 option"
  assumes reg_Bytes [simp]: "reg (Bytes bs) = None"
    and count_Bytes [simp]: "count f (Bytes bs) = None"
begin

lemma outside_numbers:
  assumes "outside_step p b b'"
  shows "entries reg p b' = entries reg p b" and "counts count p b' = counts count p b"
proof -
  have "a_owner (b' k) = p \<and> reg (a_data (b' k)) = Some x \<longleftrightarrow> a_owner (b k) = p \<and> reg (a_data (b k)) = Some x" for k x
    using assms unfolding outside_step_def keeps_owned_def gives_zeroed_def by (metis option.distinct(1) reg_Bytes)
  then show "entries reg p b' = entries reg p b" by (simp add: entries_def)
  have "a_owner (b' k) = p \<and> count f (a_data (b' k)) = Some x \<longleftrightarrow> a_owner (b k) = p \<and> count f (a_data (b k)) = Some x" for k f x
    using assms unfolding outside_step_def keeps_owned_def gives_zeroed_def by (metis option.distinct(1) count_Bytes)
  then show "counts count p b' = counts count p b" by (simp add: counts_def)
qed

lemma numbering_start:
  assumes "structs p b = {}"
  shows "numbering_ok reg count p b"
proof -
  have "\<exists>bs. a_data (b k) = Bytes bs" if "a_owner (b k) = p" for k
    using assms that unfolding structs_def by (metis (mono_tags, lifting) empty_Collect_eq not_struct_iff)
  then have "entries reg p b = {}" and "counts count p b = {}"
    unfolding entries_def counts_def by fastforce+
  then show ?thesis by (simp add: numbering_ok_def)
qed

lemma step_outside:
  assumes "numbering_step reg count p b b1" and "outside_step p b1 b2"
  shows "numbering_step reg count p b b2"
  using assms(1) unfolding numbering_step_def outside_numbers [OF assms(2)] .

lemma step_unlisted:
  assumes "outside_step p b b1" and "a_data (b1 new) = Bytes bs" and "reg d = None" and "\<And>g m. count g d = Some m \<Longrightarrow> m = 0"
  shows "numbering_step reg count p b (set_data b1 new d)"
proof -
  have "entries reg p (set_data b1 new d) = entries reg p b"
    using outside_numbers [OF assms(1)] entries_set_same [of reg d b1 new p] assms(2,3) by simp
  moreover note counts_set_new [of count b1 new d p, OF _ assms(4)]
  ultimately show ?thesis
    unfolding numbering_step_def outside_numbers(2) [OF assms(1), symmetric] using assms(2) by simp
qed

text \<open>A new account is written under the next index; the counter of its parent is written later.\<close>

lemma step_enter:
  assumes out: "outside_step p b b1" "outside_step p (set_data b1 new d) b2"
    and new: "a_data (b1 new) = Bytes bs" "a_owner (b1 new) = p" "reg d = Some (f, q, n)" "\<And>g m. count g d = Some m \<Longrightarrow> m = 0"
    and q: "a_owner (b q) = p" "a_data (b q) = dq0" "count f dq0 = Some n"
    and dq: "reg dq = reg dq0" "count f dq = Some (n + 1)" "\<And>g. g \<noteq> f \<Longrightarrow> count g dq = count g dq0" "n < n + 1"
  shows "numbering_step reg count p b (set_data b2 q dq)"
proof -
  let ?b = "set_data b2 q dq"
  have q1: "a_owner (b1 q) = p" "a_data (b1 q) = dq0"
    using keeps_ownedD [OF outside_step_keeps [OF out(1)] q(1)] q(2) by simp_all
  have "q \<noteq> new" using q(3) q1(2) new(1) by auto
  then have q2: "a_owner (b2 q) = p" "a_data (b2 q) = dq0"
    using keeps_ownedD [OF outside_step_keeps [OF out(2)], of q] q1 by simp_all
  have "entries reg p ?b = entries reg p (set_data b1 new d)"
    using outside_numbers(1) [OF out(2)] entries_set_same [of reg dq b2 q p] dq(1) q2(2) by simp
  also have "\<dots> = insert (new, f, q, n) (entries reg p b)"
    using outside_numbers(1) [OF out(1)] entries_set_new [of b1 new p reg d] new(1-3) by simp
  finally have E: "entries reg p ?b = insert (new, f, q, n) (entries reg p b)" .
  have C1: "counts count p b1 \<subseteq> counts count p b2" "counts count p b2 \<subseteq> counts count p b1 \<union> {(l, 0) | l. \<forall>n. (l, n) \<notin> counts count p b1}"
    unfolding outside_numbers(2) [OF out(2)] using counts_set_new [of count b1 new d p, OF _ new(4)] new(1) by simp_all
  have "counts count p ?b = insert ((f, q), n + 1) (counts count p b2 - {((f, q), n)})"
    using counts_set_next [of b2 q p count f n dq "n + 1"] q2 q(3) dq(2,3) by simp
  moreover have "((f, q), n) \<in> counts count p b1" using q1 q(3) by (simp add: counts_def)
  moreover note C1
  ultimately show ?thesis
    unfolding numbering_step_def Let_def E outside_numbers(2) [OF out(1), symmetric] using dq(4) by blast
qed

end

end
