(* ===== verification/Vault_Effects.thy ===== *)
theory Vault_Effects
  imports Vault_Program Account_Registry
begin

text \<open>
  An abstract specification of the vault program. What an instruction does is a sequence of
  actions: invoking another program, creating an account, reading or writing a struct, closing an
  account. \<open>vault_effect\<close> gives for every instruction the sequences it may have, with the operation on
  the vault that computes each write, the accounts that tokens move between, the signatures that were
  needed and the other conditions that hold when it runs. Every successful instruction is shown to
  have one of its own sequences; the theories that follow draw their invariants from the specification
  alone.
\<close>

section \<open>Actions\<close>

text \<open>
  An invocation comes with the seeds that sign for it; a new account with who pays for it, its size
  and the seeds of its address; a closed account with where its lamports go.
\<close>

datatype (plugins only: size) action =
    Invoke cpi "seeds list"
  | Create pubkey pubkey u64 seeds
  | Read pubkey account_data
  | Write pubkey account_data account_data
  | Close pubkey account_data pubkey

fun act :: "env \<Rightarrow> pubkey \<Rightarrow> action \<Rightarrow> bank \<Rightarrow> bank \<Rightarrow> bool" where
  "act e p (Invoke ix sds) b b' \<longleftrightarrow> (\<exists>infos. e_invoke_signed e p ix infos sds b = Inr b')"
| "act e p (Create f k space sds) b b' \<longleftrightarrow>
     (\<exists>payer new sys. ai_key payer = f \<and> ai_key new = k \<and> create_account e p b payer new sys p space sds = Inr b')"
| "act e p (Read k d) b b' \<longleftrightarrow> a_data (b k) = d \<and> b' = b"
| "act e p (Write k d d') b b' \<longleftrightarrow> a_owner (b k) = p \<and> a_data (b k) = d \<and> b' = set_data b k d'"
| "act e p (Close k d f) b b' \<longleftrightarrow>
     (\<exists>info dest. ai_key info = k \<and> ai_key dest = f \<and> a_data (b k) = d \<and> close_program_account e b p info dest = Inr b')"

fun acts :: "env \<Rightarrow> pubkey \<Rightarrow> action list \<Rightarrow> bank \<Rightarrow> bank \<Rightarrow> bool" where
  "acts e p [] b b' \<longleftrightarrow> b' = b"
| "acts e p (a # as) b b' \<longleftrightarrow> (\<exists>b1. act e p a b b1 \<and> acts e p as b1 b')"

section \<open>The specification\<close>

subsection \<open>Conditions\<close>

definition config_of :: "env \<Rightarrow> pubkey \<Rightarrow> bank \<Rightarrow> vault_config \<Rightarrow> bool" where
  "config_of e p b c \<longleftrightarrow>
     (let k = fst (vault_config_find_program_address e p) in a_owner (b k) = p \<and> a_data (b k) = VaultConfigD c)"

definition vault_of :: "pubkey \<Rightarrow> bank \<Rightarrow> pubkey \<Rightarrow> vault \<Rightarrow> bool" where
  "vault_of p b k v \<longleftrightarrow> a_owner (b k) = p \<and> a_data (b k) = VaultD v"

text \<open>The vault is not paused and its update for the current epoch is done.\<close>

definition open_vault :: "env \<Rightarrow> pubkey \<Rightarrow> bank \<Rightarrow> pubkey \<Rightarrow> vault \<Rightarrow> vault_config \<Rightarrow> bool" where
  "open_vault e p b k v c \<longleftrightarrow>
     config_of e p b c \<and> vault_of p b k v \<and> \<not> v_is_paused v \<and>
     check_update_state_ok v (e_slot e) (c_epoch_length c) = Inr ()"

definition mint_burn_allowed :: "(pubkey \<Rightarrow> bool) \<Rightarrow> vault \<Rightarrow> bool" where
  "mint_burn_allowed S v \<longleftrightarrow> v_mint_burn_admin v = pubkey_default \<or> S (v_mint_burn_admin v)"

text \<open>A token account of \<open>k\<close> that is not for the supported mint of its vault.\<close>

definition stray_account :: "env \<Rightarrow> bank \<Rightarrow> pubkey \<Rightarrow> vault \<Rightarrow> account_info \<Rightarrow> bool" where
  "stray_account e b k v account \<longleftrightarrow>
     (\<exists>mint tp. load_token_account e b account k mint tp = Inr () \<and> mint \<noteq> v_supported_mint v)"

definition toggled :: "env \<Rightarrow> vault_config \<Rightarrow> bool \<Rightarrow> slot_toggle \<Rightarrow> slot_toggle \<Rightarrow> bool" where
  "toggled e c up s s' \<longleftrightarrow>
     (if up then toggle_activate s (e_slot e) (c_epoch_length c) else toggle_deactivate s (e_slot e) (c_epoch_length c)) = Inr (s', True)"

abbreviation pda_bump :: "pubkey \<times> u8 \<times> seeds \<Rightarrow> u8" where
  "pda_bump pda \<equiv> fst (snd pda)"

abbreviation pda_seeds :: "pubkey \<times> u8 \<times> seeds \<Rightarrow> seeds" where
  "pda_seeds pda \<equiv> snd (snd pda) @ [[fst (snd pda)]]"

subsection \<open>Settings\<close>

fun config_setting :: "(pubkey \<Rightarrow> bool) \<Rightarrow> vault_instruction \<Rightarrow> vault_config \<Rightarrow> vault_config \<Rightarrow> bool" where
  "config_setting S SetConfigAdmin c c' \<longleftrightarrow> S (c_admin c) \<and> (\<exists>k. c' = config_set_admin c k)"
| "config_setting S (SetConfigSecondaryAdmin ConfigFeeAdmin) c c' \<longleftrightarrow> S (c_admin c) \<and> (\<exists>k. c' = c\<lparr>c_fee_admin := k\<rparr>)"
| "config_setting S (SetProgramFee fee) c c' \<longleftrightarrow> S (c_admin c) \<and> config_set_program_fee_bps c fee = Inr c'"
| "config_setting S SetProgramFeeWallet c c' \<longleftrightarrow> S (c_fee_admin c) \<and> (\<exists>k. c' = c\<lparr>c_program_fee_wallet := k\<rparr>)"
| "config_setting S _ c c' \<longleftrightarrow> False"

fun vault_setting :: "env \<Rightarrow> pubkey \<Rightarrow> (pubkey \<Rightarrow> bool) \<Rightarrow> bank \<Rightarrow> vault_instruction \<Rightarrow> vault \<Rightarrow> vault \<Rightarrow> bool" where
  "vault_setting e p S b SetAdmin v v' \<longleftrightarrow>
     S (v_admin v) \<and> (\<exists>k. S k \<and> v' = update_secondary_admin (v\<lparr>v_admin := k\<rparr>) (v_admin v) k)"
| "vault_setting e p S b (SetSecondaryAdmin role) v v' \<longleftrightarrow> S (v_admin v) \<and> (\<exists>k. v' = set_role role k v)"
| "vault_setting e p S b (SetIsPaused paused) v v' \<longleftrightarrow> S (v_admin v) \<and> v' = v\<lparr>v_is_paused := paused\<rparr>"
| "vault_setting e p S b (SetDepositCapacity n) v v' \<longleftrightarrow> S (v_capacity_admin v) \<and> v' = v\<lparr>v_deposit_capacity := n\<rparr>"
| "vault_setting e p S b (SetFees dfee wfee rfee) v v' \<longleftrightarrow>
     S (v_fee_admin v) \<and> (dfee, wfee, rfee) \<noteq> (None, None, None) \<and>
     (\<exists>c v1. config_of e p b c \<and> check_can_modify_fees v (e_slot e) (c_epoch_length c) = Inr () \<and>
        change_fees v c dfee wfee rfee = Inr v1 \<and> v' = v1\<lparr>v_last_fee_change_slot := e_slot e\<rparr>)"
| "vault_setting e p S b _ v v' \<longleftrightarrow> False"

subsection \<open>Every instruction\<close>

text \<open>
  \<open>S\<close> says which keys have signed. The rules are ordered as the theories of the handlers are:
  configuration and vaults, settings, tickets, tokens, delegation and the epoch update.
\<close>

inductive vault_effect :: "env \<Rightarrow> pubkey \<Rightarrow> (pubkey \<Rightarrow> bool) \<Rightarrow> bank \<Rightarrow> vault_instruction \<Rightarrow> action list \<Rightarrow> bool"
  for e :: env and p :: pubkey and S :: "pubkey \<Rightarrow> bool" and b :: bank where
  config_new: "pda = vault_config_find_program_address e p \<Longrightarrow> ck = fst pda \<Longrightarrow> S admin \<Longrightarrow> fee \<le> MAX_BPS \<Longrightarrow>
    checked_add 8 size_of_vault_config = Some space \<Longrightarrow>
    vault_effect e p S b (InitializeConfig fee)
      [Create admin ck space (pda_seeds pda),
       Write ck (Bytes bs) (VaultConfigD (vault_config_new admin restaking_program wallet fee (pda_bump pda)))]"
| config_set: "ck = fst (vault_config_find_program_address e p) \<Longrightarrow> config_setting S ix c c' \<Longrightarrow>
    vault_effect e p S b ix [Write ck (VaultConfigD c) (VaultConfigD c')]"
| vault_new: "pda = vault_find_program_address e p (ai_key base) \<Longrightarrow> vk = fst pda \<Longrightarrow> ck = fst (vault_config_find_program_address e p) \<Longrightarrow>
    config_of e p b c \<Longrightarrow> initial_vault mint st admin c base dfee wfee rfee (pda_bump pda) (e_slot e) n = Inr v \<Longrightarrow>
    increment_num_vaults c = Inr c' \<Longrightarrow> S admin \<Longrightarrow> S mint \<Longrightarrow> S (ai_key base) \<Longrightarrow> n \<noteq> 0 \<Longrightarrow>
    dfee \<le> c_deposit_withdrawal_fee_cap_bps c \<Longrightarrow> wfee \<le> c_deposit_withdrawal_fee_cap_bps c \<Longrightarrow> rfee \<le> MAX_BPS \<Longrightarrow>
    load_token_account e b src admin st tp = Inr () \<Longrightarrow> load_token_account e b dst vk st tp = Inr () \<Longrightarrow>
    burn_vault = fst (burn_vault_find_program_address e p (ai_key base)) \<Longrightarrow> checked_add 8 size_of_vault = Some space \<Longrightarrow>
    vault_effect e p S b (InitializeVault dfee wfee rfee decimals n)
      [Invoke (SystemCreateAccount admin mint (e_minimum_balance e (e_mint_packed_len e)) (e_mint_packed_len e) (e_spl_token e)) [],
       Invoke (TokenInitializeMint2 (e_spl_token e) mint vk decimals) [],
       Create admin vk space (pda_seeds pda),
       Write vk (Bytes bs) (VaultD v),
       Invoke (TokenTransfer (e_spl_token e) (ai_key src) (ai_key dst) admin n) [],
       Invoke (CreateAssociatedTokenAccount admin burn_vault mint (e_spl_token e)) [],
       Invoke (TokenMintTo (e_spl_token e) mint burn_account vk n) [vault_signing_seeds v],
       Write ck (VaultConfigD c) (VaultConfigD c')]"
| vault_with_mint: "vault_effect e p S b InitializeVaultWithMint []"
| settings: "vault_setting e p S b ix v v' \<Longrightarrow> vault_effect e p S b ix [Write vk (VaultD v) (VaultD v')]"
| ticket_owner: "vault_of p b (wt_vault t) v \<Longrightarrow> \<not> v_is_paused v \<Longrightarrow> S (wt_staker t) \<Longrightarrow>
    vault_effect e p S b ChangeWithdrawalTicketOwner
      [Write tk (VaultStakerWithdrawalTicketD t) (VaultStakerWithdrawalTicketD (t\<lparr>wt_staker := k\<rparr>))]"
| create_metadata: "vault_of p b vk v \<Longrightarrow> S (v_admin v) \<Longrightarrow> S payer \<Longrightarrow> md = fst (find_metadata_account e (v_vrt_mint v)) \<Longrightarrow>
    vault_effect e p S b (CreateTokenMetadata name symbol uri)
      [Invoke (CreateMetadataAccountsV3 (e_mpl_token_metadata e) md (v_vrt_mint v) vk payer vk name symbol uri) [vault_signing_seeds v]]"
| update_metadata: "vault_of p b vk v \<Longrightarrow> S (v_admin v) \<Longrightarrow> md = fst (find_metadata_account e (v_vrt_mint v)) \<Longrightarrow>
    vault_effect e p S b (UpdateTokenMetadata name symbol uri)
      [Invoke (UpdateMetadataAccountsV2 (e_mpl_token_metadata e) md vk name symbol uri) [vault_signing_seeds v]]"
| delegate_token: "vault_of p b vk v \<Longrightarrow> S (v_delegate_asset_admin v) \<Longrightarrow> stray_account e b vk v account \<Longrightarrow>
    vault_effect e p S b DelegateTokenAccount
      [Invoke (TokenApprove (e_spl_token e) (ai_key account) delegate vk u64_MAX) [vault_signing_seeds v]]"
| revoke_token: "vault_of p b vk v \<Longrightarrow> S (v_delegate_asset_admin v) \<Longrightarrow> stray_account e b vk v account \<Longrightarrow>
    vault_effect e p S b RevokeDelegateTokenAccount
      [Invoke (TokenRevoke (e_spl_token e) (ai_key account) vk) [vault_signing_seeds v]]"
| ncn_ticket: "open_vault e p b (ai_key vi) v c \<Longrightarrow> ncn_load e (c_restaking_program c) b ni False = Inr () \<Longrightarrow>
    ncn_vault_ticket_load e (c_restaking_program c) b ti ni vi False = Inr () \<Longrightarrow> S (v_ncn_admin v) \<Longrightarrow> S payer \<Longrightarrow>
    pda = vault_ncn_ticket_find_program_address e p (ai_key vi) (ai_key ni) \<Longrightarrow> tk = fst pda \<Longrightarrow>
    increment_ncn_count v = Inr v' \<Longrightarrow> checked_add 8 size_of_vault_ncn_ticket = Some space \<Longrightarrow>
    vault_effect e p S b InitializeVaultNcnTicket
      [Create payer tk space (pda_seeds pda),
       Write tk (Bytes bs)
         (VaultNcnTicketD (vault_ncn_ticket_new (ai_key vi) (ai_key ni) (v_ncn_count v) (pda_bump pda) (e_slot e))),
       Write (ai_key vi) (VaultD v) (VaultD v')]"
| operator_delegation: "open_vault e p b (ai_key vi) v c \<Longrightarrow> operator_load e (c_restaking_program c) b oi False = Inr () \<Longrightarrow>
    operator_vault_ticket_load e (c_restaking_program c) b ti oi vi False = Inr () \<Longrightarrow> S (v_operator_admin v) \<Longrightarrow> S payer \<Longrightarrow>
    pda = vault_operator_delegation_find_program_address e p (ai_key vi) (ai_key oi) \<Longrightarrow> tk = fst pda \<Longrightarrow>
    increment_operator_count v = Inr v' \<Longrightarrow> checked_add 8 size_of_vault_operator_delegation = Some space \<Longrightarrow>
    vault_effect e p S b InitializeVaultOperatorDelegation
      [Create payer tk space (pda_seeds pda),
       Write tk (Bytes bs)
         (VaultOperatorDelegationD (operator_delegation_new (ai_key vi) (ai_key oi) (v_operator_count v) (pda_bump pda) (e_slot e))),
       Write (ai_key vi) (VaultD v) (VaultD v')]"
| slasher_ticket: "open_vault e p b (ai_key vi) v c \<Longrightarrow> ncn_load e (c_restaking_program c) b ni False = Inr () \<Longrightarrow>
    ncn_vault_slasher_ticket_load e (c_restaking_program c) b ti ni vi si False = Inr () \<Longrightarrow> S (v_slasher_admin v) \<Longrightarrow> S payer \<Longrightarrow>
    pda = vault_ncn_slasher_ticket_find_program_address e p (ai_key vi) (ai_key ni) (ai_key si) \<Longrightarrow> tk = fst pda \<Longrightarrow>
    increment_slasher_count v = Inr v' \<Longrightarrow> checked_add 8 size_of_vault_ncn_slasher_ticket = Some space \<Longrightarrow>
    vault_effect e p S b InitializeVaultNcnSlasherTicket
      [Create payer tk space (pda_seeds pda),
       Read (ai_key ti) (NcnVaultSlasherTicketD nt),
       Write tk (Bytes bs)
         (VaultNcnSlasherTicketD (vault_ncn_slasher_ticket_new (ai_key vi) (ai_key ni) (ai_key si) (nvst_max_slashable_per_epoch nt)
            (v_slasher_count v) (pda_bump pda) (e_slot e))),
       Write (ai_key vi) (VaultD v) (VaultD v')]"
| slasher_operator_ticket: "open_vault e p b (ai_key vi) v c \<Longrightarrow> ncn_load e (c_restaking_program c) b ni False = Inr () \<Longrightarrow>
    operator_load e (c_restaking_program c) b oi False = Inr () \<Longrightarrow>
    vault_ncn_slasher_ticket_load e p b ti vi ni si False = Inr () \<Longrightarrow> S payer \<Longrightarrow>
    get_epoch (e_slot e) (c_epoch_length c) = Inr epoch \<Longrightarrow>
    pda = vault_ncn_slasher_operator_ticket_find_program_address e p (ai_key vi) (ai_key ni) (ai_key si) (ai_key oi) epoch \<Longrightarrow> tk = fst pda \<Longrightarrow>
    checked_add 8 size_of_vault_ncn_slasher_operator_ticket = Some space \<Longrightarrow>
    vault_effect e p S b InitializeVaultNcnSlasherOperatorTicket
      [Create payer tk space (pda_seeds pda),
       Write tk (Bytes bs)
         (VaultNcnSlasherOperatorTicketD (vault_ncn_slasher_operator_ticket_new (ai_key vi) (ai_key ni) (ai_key si) (ai_key oi) epoch
            (pda_bump pda)))]"
| toggle_ncn: "open_vault e p b vk v c \<Longrightarrow> ncn_load e (c_restaking_program c) b ni False = Inr () \<Longrightarrow> S (v_ncn_admin v) \<Longrightarrow>
    tk = fst (vault_ncn_ticket_find_program_address e p vk (ai_key ni)) \<Longrightarrow> toggled e c up (vnt_state t) s \<Longrightarrow>
    vault_effect e p S b (if up then WarmupVaultNcnTicket else CooldownVaultNcnTicket)
      [Write tk (VaultNcnTicketD t) (VaultNcnTicketD (t\<lparr>vnt_state := s\<rparr>))]"
| toggle_slasher: "open_vault e p b vk v c \<Longrightarrow> ncn_load e (c_restaking_program c) b ni False = Inr () \<Longrightarrow> S (v_slasher_admin v) \<Longrightarrow>
    tk = fst (vault_ncn_slasher_ticket_find_program_address e p vk (ai_key ni) slasher) \<Longrightarrow> toggled e c up (vnst_state t) s \<Longrightarrow>
    vault_effect e p S b (if up then WarmupVaultNcnSlasherTicket else CooldownVaultNcnSlasherTicket)
      [Write tk (VaultNcnSlasherTicketD t) (VaultNcnSlasherTicketD (t\<lparr>vnst_state := s\<rparr>))]"
| mint: "open_vault e p b vk v c \<Longrightarrow> S depositor \<Longrightarrow> depositor \<noteq> vk \<Longrightarrow> mint_burn_allowed S v \<Longrightarrow>
    mint_with_fee v n least = Inr (v', ms) \<Longrightarrow> ms_vrt_to_depositor ms \<noteq> 0 \<Longrightarrow>
    src = e_get_associated_token_address e depositor (v_supported_mint v) \<Longrightarrow>
    dst = e_get_associated_token_address e vk (v_supported_mint v) \<Longrightarrow> src \<noteq> dst \<Longrightarrow>
    vrt_account = e_get_associated_token_address e depositor (v_vrt_mint v) \<Longrightarrow>
    fee_account = e_get_associated_token_address e (v_fee_wallet v) (v_vrt_mint v) \<Longrightarrow>
    vault_effect e p S b (MintTo n least)
      [Write vk (VaultD v) (VaultD v'),
       Invoke (TokenTransfer (e_spl_token e) src dst depositor n) [],
       Invoke (TokenMintTo (e_spl_token e) (v_vrt_mint v) vrt_account vk (ms_vrt_to_depositor ms)) [vault_signing_seeds v'],
       Invoke (TokenMintTo (e_spl_token e) (v_vrt_mint v) fee_account vk (ms_vrt_to_fee_wallet ms)) [vault_signing_seeds v']]"
| enqueue: "open_vault e p b vk v c \<Longrightarrow> S staker \<Longrightarrow> S base \<Longrightarrow> mint_burn_allowed S v \<Longrightarrow> n \<noteq> 0 \<Longrightarrow>
    increment_vrt_enqueued_for_cooldown_amount v n = Inr v' \<Longrightarrow>
    pda = vault_staker_withdrawal_ticket_find_program_address e p vk base \<Longrightarrow> tk = fst pda \<Longrightarrow>
    checked_add 8 size_of_vault_staker_withdrawal_ticket = Some space \<Longrightarrow>
    src = e_get_associated_token_address e staker (v_vrt_mint v) \<Longrightarrow>
    dst = e_get_associated_token_address e tk (v_vrt_mint v) \<Longrightarrow>
    vault_effect e p S b (EnqueueWithdrawal n)
      [Create staker tk space (pda_seeds pda),
       Write tk (Bytes bs) (VaultStakerWithdrawalTicketD (withdrawal_ticket_new vk staker base n (e_slot e) (pda_bump pda))),
       Write vk (VaultD v) (VaultD v'),
       Invoke (TokenTransfer (e_spl_token e) src dst staker n) []]"
| burn: "open_vault e p b vk v c \<Longrightarrow> mint_burn_allowed S v \<Longrightarrow> a_data (b tk) = VaultStakerWithdrawalTicketD t \<Longrightarrow> wt_vault t = vk \<Longrightarrow>
    is_withdrawable t (e_slot e) (c_epoch_length c) = Inr True \<Longrightarrow>
    burn_with_fee v (c_program_fee_wallet c = wt_staker t) (v_fee_wallet v = wt_staker t) (wt_vrt_amount t) = Inr (v1, bs) \<Longrightarrow>
    decrement_vrt_ready_to_claim_amount v1 (wt_vrt_amount t) = Inr v' \<Longrightarrow>
    ai_key ticket_account = e_get_associated_token_address e tk (v_vrt_mint v) \<Longrightarrow>
    e_unpack_account_2022 e (raw_data b ticket_account) = Inr ta \<Longrightarrow> checked_sub (ta_amount ta) (wt_vrt_amount t) = Some extra \<Longrightarrow>
    checked_add (bs_program_fee_amount bs) extra = Some program_fee \<Longrightarrow>
    src = e_get_associated_token_address e vk (v_supported_mint v) \<Longrightarrow>
    dst = e_get_associated_token_address e (wt_staker t) (v_supported_mint v) \<Longrightarrow>
    fee_account = e_get_associated_token_address e (v_fee_wallet v) (v_vrt_mint v) \<Longrightarrow>
    program_account = e_get_associated_token_address e (c_program_fee_wallet c) (v_vrt_mint v) \<Longrightarrow>
    sds = vault_staker_withdrawal_ticket_signing_seeds t vk \<Longrightarrow>
    vault_effect e p S b BurnWithdrawalTicket
      [Write vk (VaultD v) (VaultD v'),
       Invoke (TokenTransfer (e_spl_token e) (ai_key ticket_account) fee_account tk (bs_vault_fee_amount bs)) [sds],
       Invoke (TokenTransfer (e_spl_token e) (ai_key ticket_account) program_account tk program_fee) [sds],
       Invoke (TokenBurn (e_spl_token e) (ai_key ticket_account) (v_vrt_mint v) tk (bs_burn_amount bs)) [sds],
       Invoke (TokenCloseAccount (e_spl_token e) (ai_key ticket_account) (wt_staker t) tk) [sds],
       Close tk (VaultStakerWithdrawalTicketD t) (wt_staker t),
       Invoke (TokenTransfer (e_spl_token e) src dst vk (bs_out_amount bs)) [vault_signing_seeds v']]"
| update_balance: "open_vault e p b vk v c \<Longrightarrow> ai_key account = e_get_associated_token_address e vk (v_supported_mint v) \<Longrightarrow>
    owner_of b account = e_spl_token e \<Longrightarrow> e_unpack_account e (raw_data b account) = Inr ta \<Longrightarrow>
    update_vault_balance v (ta_amount ta) = Inr (v', fee) \<Longrightarrow>
    fee_account = e_get_associated_token_address e (v_fee_wallet v) (v_vrt_mint v) \<Longrightarrow>
    rest = (if 0 < fee then [Invoke (TokenMintTo (e_spl_token e) (v_vrt_mint v) fee_account vk fee) [vault_signing_seeds v']] else []) \<Longrightarrow>
    vault_effect e p S b UpdateVaultBalance (Write vk (VaultD v) (VaultD v') # rest)"
| add_delegation: "open_vault e p b vk v c \<Longrightarrow> S (v_delegation_admin v) \<Longrightarrow>
    operator_load e (c_restaking_program c) b oi False = Inr () \<Longrightarrow>
    dk = fst (vault_operator_delegation_find_program_address e p vk (ai_key oi)) \<Longrightarrow>
    vault_delegate v n = Inr v' \<Longrightarrow> ds_delegate (vod_delegation_state d) n = Inr ds \<Longrightarrow>
    vault_effect e p S b (AddDelegation n)
      [Write vk (VaultD v) (VaultD v'),
       Write dk (VaultOperatorDelegationD d) (VaultOperatorDelegationD (d\<lparr>vod_delegation_state := ds\<rparr>))]"
| cooldown_delegation: "open_vault e p b vk v c \<Longrightarrow> S (v_delegation_admin v) \<Longrightarrow>
    operator_load e (c_restaking_program c) b oi False = Inr () \<Longrightarrow>
    dk = fst (vault_operator_delegation_find_program_address e p vk (ai_key oi)) \<Longrightarrow>
    ds_cooldown (v_delegation_state v) n = Inr vds \<Longrightarrow> ds_cooldown (vod_delegation_state d) n = Inr ds \<Longrightarrow>
    vault_effect e p S b (CooldownDelegation n)
      [Write vk (VaultD v) (VaultD (v\<lparr>v_delegation_state := vds\<rparr>)),
       Write dk (VaultOperatorDelegationD d) (VaultOperatorDelegationD (d\<lparr>vod_delegation_state := ds\<rparr>))]"
| start_update: "config_of e p b c \<Longrightarrow> vault_of p b vk v \<Longrightarrow> \<not> v_is_paused v \<Longrightarrow>
    \<not> is_ok (check_update_state_ok v (e_slot e) (c_epoch_length c)) \<Longrightarrow> S payer \<Longrightarrow>
    get_epoch (e_slot e) (c_epoch_length c) = Inr epoch \<Longrightarrow>
    pda = vault_update_state_tracker_find_program_address e p vk epoch \<Longrightarrow> tk = fst pda \<Longrightarrow>
    start_update v c (e_slot e) = Inr v' \<Longrightarrow> checked_add 8 size_of_vault_update_state_tracker = Some space \<Longrightarrow>
    vault_effect e p S b (InitializeVaultUpdateStateTracker method)
      [Create payer tk space (pda_seeds pda), Write vk (VaultD v) (VaultD v'),
       Write tk (Bytes bs)
         (VaultUpdateStateTrackerD (update_state_tracker_new vk epoch (withdrawal_allocation_method_as_u8 method)))]"
| crank: "config_of e p b c \<Longrightarrow> operator_load e (c_restaking_program c) b oi False = Inr () \<Longrightarrow>
    get_epoch (e_slot e) (c_epoch_length c) = Inr epoch \<Longrightarrow>
    has_been_partially_updated v d (c_epoch_length c) = Inr partly \<Longrightarrow>
    crank_operator partly v d t (e_slot e) (c_epoch_length c) = Inr (v', d', t') \<Longrightarrow>
    dk = fst (vault_operator_delegation_find_program_address e p vk (ai_key oi)) \<Longrightarrow>
    tk = fst (vault_update_state_tracker_find_program_address e p vk epoch) \<Longrightarrow>
    vault_effect e p S b CrankVaultUpdateStateTracker
      [Write vk (VaultD v) (VaultD v'), Write dk (VaultOperatorDelegationD d) (VaultOperatorDelegationD d'),
       Write tk (VaultUpdateStateTrackerD t) (VaultUpdateStateTrackerD t')]"
| close_update: "config_of e p b c \<Longrightarrow> \<not> v_is_paused v \<Longrightarrow> S payer \<Longrightarrow>
    close_update v t epoch (e_slot e) (c_epoch_length c) = Inr v' \<Longrightarrow>
    tk = fst (vault_update_state_tracker_find_program_address e p vk epoch) \<Longrightarrow>
    vault_effect e p S b (CloseVaultUpdateStateTracker epoch)
      [Write vk (VaultD v) (VaultD v'), Close tk (VaultUpdateStateTrackerD t) payer]"

section \<open>Every instruction has its effect\<close>

definition has_effect :: "env \<Rightarrow> pubkey \<Rightarrow> (pubkey \<Rightarrow> bool) \<Rightarrow> vault_instruction \<Rightarrow> bank \<Rightarrow> bank \<Rightarrow> bool" where
  "has_effect e p S ix b b' \<longleftrightarrow> (\<exists>as. vault_effect e p S b ix as \<and> acts e p as b b')"

lemma has_effectI: "acts e p as b b' \<Longrightarrow> vault_effect e p S b ix as \<Longrightarrow> has_effect e p S ix b b'"
  by (auto simp: has_effect_def)

lemma acts_Nil: "acts e p [] b b"
  by simp

lemma acts_Invoke:
  "e_invoke_signed e p ix infos sds b = Inr b1 \<Longrightarrow> acts e p as b1 b' \<Longrightarrow> acts e p (Invoke ix sds # as) b b'"
  by auto

lemma acts_Create:
  "create_account e p b payer new sys p space sds = Inr b1 \<Longrightarrow> ai_key new = k \<Longrightarrow> acts e p as b1 b' \<Longrightarrow>
   acts e p (Create (ai_key payer) k space sds # as) b b'"
  unfolding acts.simps act.simps by blast

lemma acts_Read: "a_data (b k) = d \<Longrightarrow> acts e p as b b' \<Longrightarrow> acts e p (Read k d # as) b b'"
  by simp

lemma acts_Write:
  "a_owner (b k) = p \<Longrightarrow> a_data (b k) = d \<Longrightarrow> acts e p as (set_data b k d') b' \<Longrightarrow> acts e p (Write k d d' # as) b b'"
  by auto

lemma acts_Close:
  "close_program_account e b p info dest = Inr b1 \<Longrightarrow> a_data (b (ai_key info)) = d \<Longrightarrow> ai_key dest = f \<Longrightarrow> acts e p as b1 b' \<Longrightarrow>
   acts e p (Close (ai_key info) d f # as) b b'"
  unfolding acts.simps act.simps by blast

lemma acts_last_Invoke: "e_invoke_signed e p ix infos sds b = Inr b' \<Longrightarrow> acts e p [Invoke ix sds] b b'"
  by auto

lemma load_vault_owners:
  "vault_config_load e p b info w = Inr u \<Longrightarrow> owner_of b info = p"
  "vault_ncn_ticket_load e p b info i1 i2 w = Inr u \<Longrightarrow> owner_of b info = p"
  "vault_ncn_slasher_ticket_load e p b info i1 i2 i3 w = Inr u \<Longrightarrow> owner_of b info = p"
  "vault_operator_delegation_load e p b info i1 i2 w = Inr u \<Longrightarrow> owner_of b info = p"
  "vault_update_state_tracker_load e p b info i1 n w = Inr u \<Longrightarrow> owner_of b info = p"
  "vault_staker_withdrawal_ticket_load e p b info i1 w = Inr u \<Longrightarrow> owner_of b info = p"
  unfolding pda_load_iffs vault_staker_withdrawal_ticket_load_iff by blast+

lemma load_vault_keys:
  "vault_staker_withdrawal_ticket_load e p b info vi w = Inr u \<Longrightarrow> a_data (b (ai_key info)) = VaultStakerWithdrawalTicketD t \<Longrightarrow>
   wt_vault t = ai_key vi"
  "vault_config_load e p b info w = Inr u \<Longrightarrow> ai_key info = fst (vault_config_find_program_address e p)"
  "vault_operator_delegation_load e p b info vi oi w = Inr u \<Longrightarrow>
     ai_key info = fst (vault_operator_delegation_find_program_address e p (ai_key vi) (ai_key oi))"
  "vault_update_state_tracker_load e p b info vi epoch w = Inr u \<Longrightarrow>
     ai_key info = fst (vault_update_state_tracker_find_program_address e p (ai_key vi) epoch)"
  "vault_ncn_ticket_load e p b info vi ni w = Inr u \<Longrightarrow>
     ai_key info = fst (vault_ncn_ticket_find_program_address e p (ai_key vi) (ai_key ni))"
  "vault_ncn_slasher_ticket_load e p b info vi ni si w = Inr u \<Longrightarrow>
     ai_key info = fst (vault_ncn_slasher_ticket_find_program_address e p (ai_key vi) (ai_key ni) (ai_key si))"
  unfolding pda_load_iffs vault_staker_withdrawal_ticket_load_iff by auto

lemma config_ofI:
  "vault_config_load e p b ci w = Inr u \<Longrightarrow> a_data (b (ai_key ci)) = VaultConfigD c \<Longrightarrow> config_of e p b c"
  unfolding pda_load_iffs config_of_def Let_def by auto

lemma vault_ofI: "vault_load e p b vi w = Inr u \<Longrightarrow> a_data (b (ai_key vi)) = VaultD v \<Longrightarrow> vault_of p b (ai_key vi) v"
  by (simp add: vault_of_def vault_load_owner)

lemma open_vaultI:
  "vault_config_load e p b ci w = Inr u \<Longrightarrow> a_data (b (ai_key ci)) = VaultConfigD c \<Longrightarrow> vault_load e p b vi w' = Inr u' \<Longrightarrow>
   a_data (b (ai_key vi)) = VaultD v \<Longrightarrow> \<not> v_is_paused v \<Longrightarrow> check_update_state_ok v (e_slot e) (c_epoch_length c) = Inr u'' \<Longrightarrow>
   open_vault e p b (ai_key vi) v c"
  by (auto simp: open_vault_def intro: config_ofI vault_ofI)

lemma signed_split: "split_at n accounts = Inr (xs, ys) \<Longrightarrow> a \<in> set xs \<Longrightarrow> ai_is_signer a \<Longrightarrow> signed_by accounts (ai_key a)"
  unfolding signed_by_def split_at_iff by (auto simp: list_ex_iff dest: in_set_takeD)

lemma signed_first:
  assumes "split_at n accounts = Inr (xs, ys)" and "check_mint_burn_admin v (first ys) = Inr u"
  shows "mint_burn_allowed (signed_by accounts) v"
proof (cases "v_mint_burn_admin v = pubkey_default")
  case False
  then obtain a zs where "ys = a # zs" "ai_is_signer a" "ai_key a = v_mint_burn_admin v"
    using assms(2)
    by (cases ys) (auto simp: check_mint_burn_admin_def first_def and_then_Inr_iff map_err_Inr_iff err_if_Inr_iff load_signer_iff
        split: option.splits)
  moreover have "a \<in> set accounts" using assms(1) calculation(1) unfolding split_at_iff by (metis in_set_dropD list.set_intros(1))
  ultimately show ?thesis by (auto simp: mint_burn_allowed_def signed_by_def list_ex_iff)
qed (simp add: mint_burn_allowed_def)

text \<open>Settings.\<close>

lemma settings_effect:
  "process_set_admin e p b accounts = Inr b' \<Longrightarrow> has_effect e p (signed_by accounts) SetAdmin b b'"
  "process_set_secondary_admin e p b accounts role = Inr b' \<Longrightarrow> has_effect e p (signed_by accounts) (SetSecondaryAdmin role) b b'"
  "process_set_is_paused e p b accounts paused = Inr b' \<Longrightarrow> has_effect e p (signed_by accounts) (SetIsPaused paused) b b'"
  "process_set_deposit_capacity e p b accounts n = Inr b' \<Longrightarrow> has_effect e p (signed_by accounts) (SetDepositCapacity n) b b'"
  by (clarsimp simp: process_set_admin_def process_set_secondary_admin_def process_set_is_paused_def
      process_set_deposit_capacity_def handler_simps,
      rule has_effectI [OF acts_Write [OF vault_load_owner _ acts_Nil] settings], assumption, assumption,
      simp add: signed_by_def, blast?)+

lemma set_fees_effect:
  "process_set_fees e p b accounts d w r = Inr b' \<Longrightarrow> has_effect e p (signed_by accounts) (SetFees d w r) b b'"
  by (clarsimp simp: process_set_fees_def handler_simps,
      rule has_effectI [OF acts_Write [OF vault_load_owner _ acts_Nil] settings], assumption, assumption,
      auto simp: signed_by_def intro: config_ofI)

lemma config_effect:
  "process_set_config_admin e p b accounts = Inr b' \<Longrightarrow> has_effect e p (signed_by accounts) SetConfigAdmin b b'"
  "process_set_config_secondary_admin e p b accounts role = Inr b' \<Longrightarrow>
     has_effect e p (signed_by accounts) (SetConfigSecondaryAdmin role) b b'"
  "process_set_program_fee e p b accounts n = Inr b' \<Longrightarrow> has_effect e p (signed_by accounts) (SetProgramFee n) b b'"
  "process_set_program_fee_wallet e p b accounts = Inr b' \<Longrightarrow> has_effect e p (signed_by accounts) SetProgramFeeWallet b b'"
  by (clarsimp simp: process_set_config_admin_def process_set_config_secondary_admin_def process_set_program_fee_def
      process_set_program_fee_wallet_def config_check_admin_def handler_simps,
      rule has_effectI [OF acts_Write [OF load_vault_owners(1) _ acts_Nil] config_set], assumption, assumption,
      erule load_vault_keys, (cases role)?, auto simp: signed_by_def)+

lemma ticket_owner_effect:
  "process_change_withdrawal_ticket_owner e p b accounts = Inr b' \<Longrightarrow>
   has_effect e p (signed_by accounts) ChangeWithdrawalTicketOwner b b'"
  apply (clarsimp simp: process_change_withdrawal_ticket_owner_def handler_simps)
  apply (frule (1) load_vault_keys(1))
  apply (rule has_effectI [OF acts_Write [OF load_vault_owners(6) _ acts_Nil] ticket_owner], assumption, assumption)
    apply (auto simp: signed_by_def check_staker_def err_if_Inr_iff intro: vault_ofI)
  done

text \<open>Toggles.\<close>

lemma toggle_effect:
  "process_warmup_vault_ncn_ticket e p b accounts = Inr b' \<Longrightarrow> has_effect e p (signed_by accounts) WarmupVaultNcnTicket b b'"
  "process_cooldown_vault_ncn_ticket e p b accounts = Inr b' \<Longrightarrow> has_effect e p (signed_by accounts) CooldownVaultNcnTicket b b'"
  by (clarsimp simp: process_warmup_vault_ncn_ticket_def process_cooldown_vault_ncn_ticket_def handler_simps,
      rule has_effectI [OF acts_Write [OF load_vault_owners(2) _ acts_Nil] toggle_ncn [where up = True, simplified]]
        has_effectI [OF acts_Write [OF load_vault_owners(2) _ acts_Nil] toggle_ncn [where up = False, simplified]],
      assumption, assumption, erule (5) open_vaultI, simp, simp add: signed_by_def, erule load_vault_keys, simp add: toggled_def)+

lemma toggle_slasher_effect:
  "process_warmup_vault_ncn_slasher_ticket e p b accounts = Inr b' \<Longrightarrow>
   has_effect e p (signed_by accounts) WarmupVaultNcnSlasherTicket b b'"
  "process_cooldown_vault_ncn_slasher_ticket e p b accounts = Inr b' \<Longrightarrow>
   has_effect e p (signed_by accounts) CooldownVaultNcnSlasherTicket b b'"
  by (clarsimp simp: process_warmup_vault_ncn_slasher_ticket_def process_cooldown_vault_ncn_slasher_ticket_def handler_simps,
      rule has_effectI [OF acts_Write [OF load_vault_owners(3) _ acts_Nil] toggle_slasher [where up = True, simplified]]
        has_effectI [OF acts_Write [OF load_vault_owners(3) _ acts_Nil] toggle_slasher [where up = False, simplified]],
      assumption, assumption, erule (5) open_vaultI, simp, simp add: signed_by_def, erule load_vault_keys, simp add: toggled_def)+

text \<open>Invocations for the vault.\<close>

lemma invoke_effect: "vault_effect e p S b ix [Invoke cpi sds] \<Longrightarrow> e_invoke_signed e p cpi infos sds b = Inr b' \<Longrightarrow> has_effect e p S ix b b'"
  by (rule has_effectI [OF acts_last_Invoke])

lemma metadata_effect:
  "process_create_token_metadata e p b accounts name symbol uri = Inr b' \<Longrightarrow>
   has_effect e p (signed_by accounts) (CreateTokenMetadata name symbol uri) b b'"
  "process_update_token_metadata e p b accounts name symbol uri = Inr b' \<Longrightarrow>
   has_effect e p (signed_by accounts) (UpdateTokenMetadata name symbol uri) b b'"
  subgoal
    apply (clarsimp simp: process_create_token_metadata_def handler_simps load_account_iffs(4))
    apply (rule invoke_effect [OF create_metadata], erule (1) vault_ofI)
       apply (simp add: signed_by_def)
      prefer 3
      apply simp
     apply (simp_all add: signed_by_def)
    done
  subgoal
    apply (clarsimp simp: process_update_token_metadata_def handler_simps load_account_iffs(4,5))
    apply (rule invoke_effect [OF update_metadata], erule (1) vault_ofI)
      apply (simp add: signed_by_def)
     apply (assumption | simp)+
    done
  done

lemma stray_accountI:
  "load_token_account e b account k mint tp = Inr u \<Longrightarrow> mint \<noteq> v_supported_mint v \<Longrightarrow> stray_account e b k v account"
  by (auto simp: stray_account_def)

lemma delegate_token_effect:
  "process_delegate_token_account e p b accounts = Inr b' \<Longrightarrow> has_effect e p (signed_by accounts) DelegateTokenAccount b b'"
  "process_revoke_delegate_token_account e p b accounts = Inr b' \<Longrightarrow>
   has_effect e p (signed_by accounts) RevokeDelegateTokenAccount b b'"
  by (clarsimp simp: process_delegate_token_account_def process_revoke_delegate_token_account_def handler_simps
      load_account_iffs(2),
      rule invoke_effect [OF delegate_token] invoke_effect [OF revoke_token],
      erule (1) vault_ofI, simp add: signed_by_def, erule stray_accountI, simp, simp)+

text \<open>A new account is written, then the account it is entered under.\<close>

lemma kept_after_create:
  assumes "cpi_runtime e p" and "create_account e p b payer new sys p space sds = Inr b1"
    and "a_owner (b k) = p" and "a_data (b k) = d" and "a_data (b1 (ai_key new)) = Bytes bs" and "is_struct d"
  shows "a_owner (b1 k) = p" "a_data (b1 k) = d" "k \<noteq> ai_key new"
proof -
  show k: "a_owner (b1 k) = p" "a_data (b1 k) = d"
    using keeps_ownedD [OF outside_step_keeps [OF create_account_outside [OF assms(1,2)]] assms(3)] assms(4) by simp_all
  show "k \<noteq> ai_key new" using k(2) assms(5,6) by auto
qed

lemma acts_write_child:
  assumes "cpi_runtime e p" and "create_account e p b payer new sys p space sds = Inr b1" and "ai_key new = n"
    and "a_data (b1 n) = Bytes bs" and "a_owner (b k) = p" and "a_data (b k) = d" and "is_struct d"
    and "acts e p as (set_data (set_data b1 n child) k d') b'"
  shows "acts e p (Write n (Bytes bs) child # Write k d d' # as) b1 b'"
proof (rule acts_Write)
  show "a_owner (b1 n) = p" using create_account_owner [OF assms(1,2)] assms(3) by simp
  show "a_data (b1 n) = Bytes bs" by (rule assms(4))
  show "acts e p (Write k d d' # as) (set_data b1 n child) b'"
    by (rule acts_Write [OF _ _ assms(8)]) (use kept_after_create [OF assms(1,2,5,6) _ assms(7)] assms(3,4) in simp_all)
qed

lemma acts_create_child:
  assumes "cpi_runtime e p" and "create_account e p b payer new sys p space sds = Inr b1" and "ai_key new = n"
    and "a_data (b1 n) = Bytes bs" and "a_owner (b k) = p" and "a_data (b k) = d" and "is_struct d"
    and "acts e p as (set_data (set_data b1 n child) k d') b'"
  shows "acts e p (Create (ai_key payer) n space sds # Write n (Bytes bs) child # Write k d d' # as) b b'"
  by (rule acts_Create [OF assms(2,3) acts_write_child [OF assms]])

lemma child_effect:
  assumes "cpi_runtime e p"
  shows "process_initialize_vault_ncn_ticket e p b accounts = Inr b' \<Longrightarrow>
      has_effect e p (signed_by accounts) InitializeVaultNcnTicket b b'"
    and "process_initialize_vault_operator_delegation e p b accounts = Inr b' \<Longrightarrow>
      has_effect e p (signed_by accounts) InitializeVaultOperatorDelegation b b'"
    and "process_initialize_vault_ncn_slasher_ticket e p b accounts = Inr b' \<Longrightarrow>
      has_effect e p (signed_by accounts) InitializeVaultNcnSlasherTicket b b'"
  subgoal
    apply (clarsimp simp: process_initialize_vault_ncn_ticket_def handler_simps ok_or_Inr_iff)
    apply (rule has_effectI [OF acts_create_child [OF assms _ _ _ vault_load_owner _ _ acts_Nil] ncn_ticket])
                   apply (assumption | erule (5) open_vaultI | simp add: signed_by_def)+
    done
  subgoal
    apply (clarsimp simp: process_initialize_vault_operator_delegation_def handler_simps ok_or_Inr_iff)
    apply (rule has_effectI [OF acts_create_child [OF assms _ _ _ vault_load_owner _ _ acts_Nil] operator_delegation])
                   apply (assumption | erule (5) open_vaultI | simp add: signed_by_def)+
    done
  subgoal
    apply (clarsimp simp: process_initialize_vault_ncn_slasher_ticket_def handler_simps ok_or_Inr_iff)
    apply (frule acts_write_child [OF assms _ refl _ vault_load_owner _ _ acts_Nil], assumption, assumption, assumption, simp)
    apply (rule has_effectI [OF acts_Create [OF _ _ acts_Read] slasher_ticket])
                apply (assumption | erule (5) open_vaultI | simp add: signed_by_def)+
    done
  done

lemma acts_create_only:
  assumes "cpi_runtime e p" and "create_account e p b payer new sys p space sds = Inr b1" and "ai_key new = n"
    and "a_data (b1 n) = Bytes bs"
  shows "acts e p [Create (ai_key payer) n space sds, Write n (Bytes bs) d] b (set_data b1 n d)"
proof (rule acts_Create [OF assms(2,3)], rule acts_Write)
  show "a_owner (b1 n) = p" using create_account_owner [OF assms(1,2)] assms(3) by simp
qed (simp_all add: assms(4))

lemma create_effect:
  assumes "cpi_runtime e p"
  shows "process_initialize_config e p b accounts n = Inr b' \<Longrightarrow> has_effect e p (signed_by accounts) (InitializeConfig n) b b'"
    and "process_initialize_vault_ncn_slasher_operator_ticket e p b accounts = Inr b' \<Longrightarrow>
      has_effect e p (signed_by accounts) InitializeVaultNcnSlasherOperatorTicket b b'"
  subgoal
    apply (clarsimp simp: process_initialize_config_def handler_simps ok_or_Inr_iff not_less)
    apply (rule has_effectI [OF acts_create_only [OF assms] config_new])
          apply (assumption | simp add: signed_by_def)+
    done
  subgoal
    apply (clarsimp simp: process_initialize_vault_ncn_slasher_operator_ticket_def handler_simps ok_or_Inr_iff)
    apply (rule has_effectI [OF acts_create_only [OF assms] slasher_operator_ticket])
              apply (assumption | erule (5) open_vaultI | simp add: signed_by_def)+
    done
  done

text \<open>Tokens.\<close>

lemma mint_effect:
  "process_mint e p b accounts n least = Inr b' \<Longrightarrow> has_effect e p (signed_by accounts) (MintTo n least) b b'"
  apply (clarsimp simp: process_mint_def handler_simps invoke_def load_account_iffs(7))
  apply (rule has_effectI [OF acts_Write [OF vault_load_owner _ acts_Invoke [OF _ acts_Invoke [OF _ acts_last_Invoke]]] mint])
                 apply (assumption | erule (5) open_vaultI | erule (1) signed_first | erule signed_split, simp, simp | simp)+
  done

lemma enqueue_effect:
  assumes "cpi_runtime e p"
  shows "process_enqueue_withdrawal e p b accounts n = Inr b' \<Longrightarrow> has_effect e p (signed_by accounts) (EnqueueWithdrawal n) b b'"
  apply (clarsimp simp: process_enqueue_withdrawal_def handler_simps invoke_def load_account_iffs(7) ok_or_Inr_iff)
  apply (rule has_effectI [OF acts_create_child [OF assms _ _ _ vault_load_owner _ _ acts_last_Invoke] enqueue])
                    apply (assumption | erule (5) open_vaultI | erule (1) signed_first | erule signed_split, simp, simp | simp)+
  done

lemma burn_acts:
  fixes vi ti :: account_info
  assumes "cpi_runtime e p" "open_vault e p b (ai_key vi) v c" "mint_burn_allowed S v"
    and "a_data (b (ai_key ti)) = VaultStakerWithdrawalTicketD t" "owner_of b ti = p" "wt_vault t = ai_key vi"
    and "is_withdrawable t (e_slot e) (c_epoch_length c) = Inr True"
    and "burn_with_fee v (c_program_fee_wallet c = wt_staker t) (v_fee_wallet v = wt_staker t) (wt_vrt_amount t) = Inr (v1, bs)"
    and "decrement_vrt_ready_to_claim_amount v1 (wt_vrt_amount t) = Inr v'"
    and "ai_key ai = e_get_associated_token_address e (ai_key ti) (v_vrt_mint v)"
    and "e_unpack_account_2022 e (raw_data b ai) = Inr ta" "checked_sub (ta_amount ta) (wt_vrt_amount t) = Some extra"
    and "checked_add (bs_program_fee_amount bs) extra = Some pf"
    and "sds = vault_staker_withdrawal_ticket_signing_seeds t (ai_key vi)"
    and "e_invoke_signed e p (TokenTransfer (e_spl_token e) (ai_key ai) fa (ai_key ti) (bs_vault_fee_amount bs)) i1 [sds] (set_data b (ai_key vi) (VaultD v')) = Inr b1"
    and "e_invoke_signed e p (TokenTransfer (e_spl_token e) (ai_key ai) pa (ai_key ti) pf) i2 [sds] b1 = Inr b2"
    and "e_invoke_signed e p (TokenBurn (e_spl_token e) (ai_key ai) (v_vrt_mint v) (ai_key ti) (bs_burn_amount bs)) i3 [sds] b2 = Inr b3"
    and "e_invoke_signed e p (TokenCloseAccount (e_spl_token e) (ai_key ai) (wt_staker t) (ai_key ti)) i4 [sds] b3 = Inr b4"
    and "close_program_account e b4 p ti staker = Inr b5" "ai_key staker = wt_staker t"
    and "e_invoke_signed e p (TokenTransfer (e_spl_token e) src dst (ai_key vi) (bs_out_amount bs)) i5 [vault_signing_seeds v'] b5 = Inr b'"
    and "src = e_get_associated_token_address e (ai_key vi) (v_supported_mint v)"
    and "dst = e_get_associated_token_address e (wt_staker t) (v_supported_mint v)"
    and "fa = e_get_associated_token_address e (v_fee_wallet v) (v_vrt_mint v)"
    and "pa = e_get_associated_token_address e (c_program_fee_wallet c) (v_vrt_mint v)"
  shows "has_effect e p S BurnWithdrawalTicket b b'"
proof -
  have v: "owner_of b vi = p" "a_data (b (ai_key vi)) = VaultD v" using assms(2) by (simp_all add: open_vault_def vault_of_def)
  have "keeps_owned p (set_data b (ai_key vi) (VaultD v')) b4"
    using cpi_keeps(1) [OF cpi_runtime_keeps [OF assms(1)]] assms(15-18) by (blast intro: keeps_owned_trans)
  then have "a_data (b4 (ai_key ti)) = VaultStakerWithdrawalTicketD t"
    using keeps_ownedD(2) [of p _ b4 "ai_key ti"] assms(4,5) v(2) by auto
  note a = acts_Write [where as = "[_, _, _, _, _, _]", OF v acts_Invoke [OF assms(15) acts_Invoke [OF assms(16)
    acts_Invoke [OF assms(17) acts_Invoke [OF assms(18) acts_Close [OF assms(19) this assms(20) acts_last_Invoke [OF assms(21)]]]]]]]
  show ?thesis
    by (rule has_effectI [OF a]) (rule burn [OF assms(2-4,6-13,22-25,14)])
qed

lemma burn_effect:
  assumes "cpi_runtime e p" and "process_burn_withdrawal_ticket e p b accounts = Inr b'"
  shows "has_effect e p (signed_by accounts) BurnWithdrawalTicket b b'"
  using assms(2)
  apply (clarsimp simp: process_burn_withdrawal_ticket_def handler_simps check_staker_def load_account_iffs ok_or_Inr_iff)
  apply (frule load_vault_owners(6), frule (1) load_vault_keys(1))
  apply (rule burn_acts [OF assms(1)])
                      apply (assumption | erule (5) open_vaultI | erule (1) signed_first | simp)+
  done

lemma update_balance_effect:
  "process_update_vault_balance e p b accounts = Inr b' \<Longrightarrow> has_effect e p (signed_by accounts) UpdateVaultBalance b b'"
  apply (clarsimp simp: process_update_vault_balance_def handler_simps load_account_iffs)
  apply (rename_tac config vi ai mint fi tp c v ta v' fee)
  apply (case_tac "0 < fee")
   apply (rule has_effectI [OF acts_Write [OF vault_load_owner _ acts_last_Invoke] update_balance])
           apply (assumption | erule (5) open_vaultI | simp)+
  apply clarsimp
  apply (rule has_effectI [OF acts_Write [OF vault_load_owner _ acts_Nil] update_balance])
         apply (assumption | erule (5) open_vaultI | simp)+
  done

text \<open>Delegation and the epoch update.\<close>

lemma delegation_effect:
  "process_add_delegation e p b accounts n = Inr b' \<Longrightarrow> has_effect e p (signed_by accounts) (AddDelegation n) b b'"
  "process_cooldown_delegation e p b accounts n = Inr b' \<Longrightarrow> has_effect e p (signed_by accounts) (CooldownDelegation n) b b'"
  subgoal
    apply (clarsimp simp: process_add_delegation_def handler_simps)
    apply (frule vault_load_owner, frule load_vault_owners(4))
    apply (rule has_effectI [OF acts_Write [OF _ _ acts_Write [OF _ _ acts_Nil]] add_delegation])
             apply (assumption | erule (5) open_vaultI | erule load_vault_keys | simp add: signed_by_def | force)+
    done
  subgoal
    apply (clarsimp simp: process_cooldown_delegation_def handler_simps)
    apply (frule vault_load_owner, frule load_vault_owners(4))
    apply (rule has_effectI [OF acts_Write [OF _ _ acts_Write [OF _ _ acts_Nil]] cooldown_delegation])
             apply (assumption | erule (5) open_vaultI | erule load_vault_keys | simp add: signed_by_def | force)+
    done
  done

lemma crank_acts:
  assumes "a_data (b vk) = VaultD v" "a_owner (b vk) = p" "a_data (b dk) = VaultOperatorDelegationD d" "a_owner (b dk) = p"
    and "a_data (b tk) = VaultUpdateStateTrackerD t" "a_owner (b tk) = p"
  shows "acts e p [Write vk (VaultD v) (VaultD v'), Write dk (VaultOperatorDelegationD d) (VaultOperatorDelegationD d'),
      Write tk (VaultUpdateStateTrackerD t) (VaultUpdateStateTrackerD t')] b
    (set_data (set_data (set_data b vk (VaultD v')) dk (VaultOperatorDelegationD d')) tk (VaultUpdateStateTrackerD t'))"
proof -
  have "vk \<noteq> dk" "vk \<noteq> tk" "dk \<noteq> tk" using assms(1,3,5) by auto
  then show ?thesis using assms by simp
qed

lemma crank_effect:
  "process_crank_vault_update_state_tracker e p b accounts = Inr b' \<Longrightarrow>
   has_effect e p (signed_by accounts) CrankVaultUpdateStateTracker b b'"
  apply (clarsimp simp: process_crank_vault_update_state_tracker_def handler_simps)
  apply (frule vault_load_owner, frule load_vault_owners(4), frule load_vault_owners(5), drule load_vault_keys(3), drule load_vault_keys(4))
  apply (rule has_effectI [OF crank_acts crank])
              apply (assumption | erule (1) config_ofI)+
  done

lemma start_update_effect:
  assumes "cpi_runtime e p" and "process_initialize_vault_update_state_tracker e p b accounts method = Inr b'"
  shows "has_effect e p (signed_by accounts) (InitializeVaultUpdateStateTracker method) b b'"
  using assms(2)
  apply (clarsimp simp: process_initialize_vault_update_state_tracker_def handler_simps ok_or_Inr_iff split: if_splits)
  apply (frule vault_load_owner, frule create_account_owner [OF assms(1)])
  apply (frule kept_after_create(1) [OF assms(1)], assumption, assumption, assumption, simp)
  apply (frule kept_after_create(2) [OF assms(1)], assumption, assumption, assumption, simp)
  apply (rule has_effectI [OF acts_Create [OF _ refl acts_Write [OF _ _ acts_Write [OF _ _ acts_Nil]]] start_update])
                apply (assumption | erule (1) config_ofI | erule (1) vault_ofI | simp add: signed_by_def)+
  done

lemma close_update_effect:
  "process_close_vault_update_state_tracker e p b accounts n = Inr b' \<Longrightarrow>
   has_effect e p (signed_by accounts) (CloseVaultUpdateStateTracker n) b b'"
  apply (clarsimp simp: process_close_vault_update_state_tracker_def handler_simps)
  apply (frule vault_load_owner, drule load_vault_keys(4))
  apply (rule has_effectI [OF acts_Write [OF _ _ acts_Close [OF _ _ refl acts_Nil]] close_update])
           apply (assumption | erule (1) config_ofI | simp add: signed_by_def | force)+
  done

lemma vault_new_acts:
  fixes vi admin :: account_info
  assumes "cpi_runtime e p" "config_of e p b c" "ck = fst (vault_config_find_program_address e p)"
    and "pda = vault_find_program_address e p (ai_key base)" "ai_key vi = fst pda"
    and "e_invoke_signed e p (SystemCreateAccount (ai_key admin) mint (e_minimum_balance e (e_mint_packed_len e)) (e_mint_packed_len e)
      (e_spl_token e)) i1 [] b = Inr b1"
    and "e_invoke_signed e p (TokenInitializeMint2 (e_spl_token e) mint (ai_key vi) decimals) i2 [] b1 = Inr b2"
    and "create_account e p b2 admin vi sys p space (pda_seeds pda) = Inr b3" "a_data (b3 (ai_key vi)) = Bytes bs"
    and "initial_vault mint st (ai_key admin) c base dfee wfee rfee (pda_bump pda) (e_slot e) n = Inr v"
    and "e_invoke_signed e p (TokenTransfer (e_spl_token e) (ai_key src) (ai_key dst) (ai_key admin) n) i3 []
      (set_data b3 (ai_key vi) (VaultD v)) = Inr b4"
    and "e_invoke_signed e p (CreateAssociatedTokenAccount (ai_key admin) bv mint (e_spl_token e)) i4 [] b4 = Inr b5"
    and "e_invoke_signed e p (TokenMintTo (e_spl_token e) mint ba (ai_key vi) n) i5 [vault_signing_seeds v] b5 = Inr b6"
    and "increment_num_vaults c = Inr c'" "S (ai_key admin)" "S mint" "S (ai_key base)" "n \<noteq> 0"
    and "dfee \<le> c_deposit_withdrawal_fee_cap_bps c" "wfee \<le> c_deposit_withdrawal_fee_cap_bps c" "rfee \<le> MAX_BPS"
    and "load_token_account e b src (ai_key admin) st tp = Inr ()" "load_token_account e b dst (ai_key vi) st tp = Inr ()"
    and "bv = fst (burn_vault_find_program_address e p (ai_key base))" "checked_add 8 size_of_vault = Some space"
  shows "has_effect e p S (InitializeVault dfee wfee rfee decimals n) b (set_data b6 ck (VaultConfigD c'))"
proof -
  have c: "a_owner (b ck) = p" "a_data (b ck) = VaultConfigD c" using assms(2,3) by (simp_all add: config_of_def Let_def)
  note out = invoke_signed_outside [OF assms(1)]
  have "outside_step p b b3"
    using out [OF assms(6)] out [OF assms(7)] create_account_outside [OF assms(1,8)] by (blast intro: outside_step_trans)
  then have c3: "a_owner (b3 ck) = p" "a_data (b3 ck) = VaultConfigD c"
    using keeps_ownedD [OF outside_step_keeps, of p b b3 ck] c by simp_all
  have "outside_step p (set_data b3 (ai_key vi) (VaultD v)) b6"
    using out [OF assms(11)] out [OF assms(12)] out [OF assms(13)] by (blast intro: outside_step_trans)
  then have c6: "a_owner (b6 ck) = p" "a_data (b6 ck) = VaultConfigD c"
    using keeps_ownedD [OF outside_step_keeps, of p _ b6 ck] c3 assms(9) by auto
  note a = acts_Invoke [OF assms(6) acts_Invoke [OF assms(7) acts_Create [OF assms(8) refl
    acts_Write [where as = "[_, _, _, _]", OF create_account_owner [OF assms(1,8)] assms(9)
      acts_Invoke [OF assms(11) acts_Invoke [OF assms(12) acts_Invoke [OF assms(13) acts_Write [where b = b6, OF c6 acts_Nil]]]]]]]]
  show ?thesis
    by (rule has_effectI [OF a]) (rule vault_new [where S = S, OF assms(4,5,3,2,10,14-25)])
qed

lemma initialize_vault_effect:
  assumes "cpi_runtime e p" and "process_initialize_vault e p b accounts d w r dec n = Inr b'"
  shows "has_effect e p (signed_by accounts) (InitializeVault d w r dec n) b b'"
  using assms(2)
  apply (clarsimp simp: process_initialize_vault_def handler_simps invoke_def load_account_iffs(2) burn_vault_load_def ok_or_Inr_iff not_less)
  apply (rule vault_new_acts [OF assms(1)])
                      apply (assumption | erule (1) config_ofI | erule load_vault_keys | simp add: signed_by_def)+
  done

lemma initialize_vault_with_mint_effect:
  "process_initialize_vault_with_mint e p b accounts = Inr b' \<Longrightarrow> has_effect e p S InitializeVaultWithMint b b'"
  using has_effectI [OF acts_Nil vault_effect.vault_with_mint] by (simp add: process_initialize_vault_with_mint_def)

lemma dispatch_effect:
  assumes "cpi_runtime e p" and "vault_dispatch e p b accounts ix = Inr b'"
  shows "has_effect e p (signed_by accounts) ix b b'"
  using assms(2)
  by (cases ix; simp add: vault_dispatch_def)
    (use assms(1) in \<open>blast intro: settings_effect set_fees_effect config_effect ticket_owner_effect toggle_effect
      toggle_slasher_effect metadata_effect delegate_token_effect child_effect create_effect mint_effect enqueue_effect burn_effect
      update_balance_effect delegation_effect crank_effect start_update_effect close_update_effect
      initialize_vault_effect initialize_vault_with_mint_effect\<close>)+

section \<open>Settings and the books\<close>

text \<open>A setting of a vault leaves its books alone: only roles, fee rates, capacity, pause and dates differ.\<close>

definition same_books :: "vault \<Rightarrow> vault \<Rightarrow> bool" where
  "same_books v v' \<longleftrightarrow>
     v_base v' = v_base v \<and> v_vrt_mint v' = v_vrt_mint v \<and> v_supported_mint v' = v_supported_mint v \<and>
     v_vrt_supply v' = v_vrt_supply v \<and> v_tokens_deposited v' = v_tokens_deposited v \<and>
     v_delegation_state v' = v_delegation_state v \<and>
     v_vrt_enqueued_for_cooldown_amount v' = v_vrt_enqueued_for_cooldown_amount v \<and>
     v_vrt_cooling_down_amount v' = v_vrt_cooling_down_amount v \<and>
     v_vrt_ready_to_claim_amount v' = v_vrt_ready_to_claim_amount v \<and>
     v_vault_index v' = v_vault_index v \<and> v_ncn_count v' = v_ncn_count v \<and>
     v_operator_count v' = v_operator_count v \<and> v_slasher_count v' = v_slasher_count v"

lemma same_books_role: "same_books v (set_role role k v)"
  by (cases role) (simp_all add: same_books_def)

lemma setting_same_books:
  assumes "vault_setting e p S b ix v v'"
  shows "same_books v v'"
proof (cases "\<exists>role. ix = SetSecondaryAdmin role")
  case True
  then show ?thesis using assms same_books_role by auto
next
  case False
  then show ?thesis using assms
    by (cases ix) (auto simp: same_books_def update_secondary_admin_def Let_def elim!: change_fees_vault)
qed

section \<open>Bookkeeping over actions\<close>

text \<open>
  A quantity of the bank that each action changes by at least an amount that depends on the action
  only. \<open>rules\<close> is what is relied on of other programs, \<open>good\<close> what must hold of the bank for the
  quantity to make sense, and \<open>fine\<close> are the actions that keep it so. In \<open>measured\<close> the change is
  exactly this amount.
\<close>

locale at_least =
  fixes p :: pubkey and rules :: "env \<Rightarrow> bool" and good :: "bank \<Rightarrow> bool" and fine :: "action \<Rightarrow> bool"
    and measure_of :: "bank \<Rightarrow> int" and delta :: "action \<Rightarrow> int"
  assumes act_at_least: "rules e \<Longrightarrow> good b \<Longrightarrow> fine a \<Longrightarrow> act e p a b b' \<Longrightarrow> good b' \<and> measure_of b + delta a \<le> measure_of b'"
begin

lemma acts_at_least:
  assumes "rules e" and "good b" and "list_all fine as" and "acts e p as b b'"
  shows "good b' \<and> measure_of b + sum_list (map delta as) \<le> measure_of b'"
  using assms by (induction as arbitrary: b) (use act_at_least [OF assms(1)] in fastforce)+

end

locale measured =
  fixes p :: pubkey and rules :: "env \<Rightarrow> bool" and good :: "bank \<Rightarrow> bool" and fine :: "action \<Rightarrow> bool"
    and measure_of :: "bank \<Rightarrow> int" and delta :: "action \<Rightarrow> int"
  assumes act_measured: "rules e \<Longrightarrow> good b \<Longrightarrow> fine a \<Longrightarrow> act e p a b b' \<Longrightarrow> good b' \<and> measure_of b' = measure_of b + delta a"

sublocale measured \<subseteq> below: at_least p rules good fine measure_of delta
  using act_measured by unfold_locales force

sublocale measured \<subseteq> above: at_least p rules good fine "\<lambda>b. - measure_of b" "\<lambda>a. - delta a"
  using act_measured by unfold_locales force

context measured
begin

lemma acts_measured:
  assumes "rules e" and "good b" and "list_all fine as" and "acts e p as b b'"
  shows "good b' \<and> measure_of b' = measure_of b + sum_list (map delta as)"
proof -
  have "(\<Sum>a\<leftarrow>as. - delta a) = - (\<Sum>a\<leftarrow>as. delta a)" by (induction as) simp_all
  then show ?thesis using below.acts_at_least [OF assms] above.acts_at_least [OF assms] by simp
qed

end

section \<open>The chain\<close>

text \<open>
  The bank changes by instructions of the vault program, at any slot and with any arguments, and by
  everything else on the chain, which follows the rules of the runtime.
\<close>

inductive vault_chain :: "pubkey \<Rightarrow> bank \<Rightarrow> bank \<Rightarrow> bool" for p :: pubkey and b :: bank where
  start: "vault_chain p b b"
| instruction: "vault_chain p b b1 \<Longrightarrow> cpi_runtime e p \<Longrightarrow> vault_dispatch e p b1 accounts ix = Inr b2 \<Longrightarrow> vault_chain p b b2"
| elsewhere: "vault_chain p b b1 \<Longrightarrow> outside_step p b1 b2 \<Longrightarrow> vault_chain p b b2"

lemma vault_chain_invariant:
  assumes "vault_chain p b b'" and "I b"
    and "\<And>e S ix b1 b2. I b1 \<Longrightarrow> cpi_runtime e p \<Longrightarrow> has_effect e p S ix b1 b2 \<Longrightarrow> I b2"
    and "\<And>b1 b2. I b1 \<Longrightarrow> outside_step p b1 b2 \<Longrightarrow> I b2"
  shows "I b'"
  using assms(1)
proof induction
  case (instruction b1 e accounts ix b2)
  then show ?case using assms(3) dispatch_effect by blast
qed (use assms(2,4) in blast)+

lemma act_outside:
  assumes "cpi_runtime e p"
  shows "act e p (Invoke ix sds) b b' \<Longrightarrow> outside_step p b b'" and "act e p (Create f k n seeds) b b' \<Longrightarrow> outside_step p b b'"
  using cpi_outside [OF assms] by auto

end
