(* ===== verification/Sample_Chain.thy ===== *)
theory Sample_Chain
  imports Vault_Effects
begin

text \<open>
  A run of the vault program from an empty start, on which the witnesses of the theories that
  follow evaluate: the configuration is created, then a vault with an initial deposit, and the
  depositor asks for a part of the deposit back.
\<close>

definition chain_env :: env where
  "chain_env = sample_env
     \<lparr>e_unpack_account_with_extensions :=
        (\<lambda>bs. Inr \<lparr>ta_mint = 2, ta_owner = if bs = [1] then 3 else 37, ta_amount = 1600\<rparr>)\<rparr>"

text \<open>The mint of the deposited token, and token accounts of the admin, the future vault and the future ticket.\<close>

definition chain_start :: bank where
  "chain_start k =
     (if k = 2 \<or> k = 50 \<or> k = 10301 \<or> k = 19401 then \<lparr>a_lamports = 1, a_owner = 900, a_data = Bytes [1]\<rparr>
      else if k = 51 then \<lparr>a_lamports = 1, a_owner = 900, a_data = Bytes [2]\<rparr>
      else \<lparr>a_lamports = 0, a_owner = 0, a_data = Bytes []\<rparr>)"

definition chain_config :: vault_config where
  "chain_config = vault_config_new 3 8 30 10 255"

definition chain_bank1 :: bank where
  "chain_bank1 = chain_start(6 := \<lparr>a_lamports = 390, a_owner = sample_id, a_data = VaultConfigD chain_config\<rparr>)"

definition chain_vault :: vault where
  "chain_vault = (projr (vault_new 1 2 3 0 4 100 50 1000 10 255 50))\<lparr>v_vrt_supply := 100, v_tokens_deposited := 100\<rparr>"

definition chain_bank2 :: bank where
  "chain_bank2 = chain_bank1
     (1 := \<lparr>a_lamports = 82, a_owner = 900, a_data = Bytes (replicate 82 0)\<rparr>,
      37 := \<lparr>a_lamports = 1111, a_owner = sample_id, a_data = VaultD chain_vault\<rparr>,
      6 := \<lparr>a_lamports = 390, a_owner = sample_id, a_data = VaultConfigD (chain_config\<lparr>c_num_vaults := 1\<rparr>)\<rparr>)"

definition chain_ticket :: withdrawal_ticket where
  "chain_ticket = withdrawal_ticket_new 37 3 8 30 50 255"

definition chain_end :: bank where
  "chain_end = chain_bank2
     (94 := \<lparr>a_lamports = 384, a_owner = sample_id, a_data = VaultStakerWithdrawalTicketD chain_ticket\<rparr>,
      37 := \<lparr>a_lamports = 1111, a_owner = sample_id, a_data = VaultD (chain_vault\<lparr>v_vrt_enqueued_for_cooldown_amount := 30\<rparr>)\<rparr>)"

lemma chain_runtime: "cpi_runtime chain_env sample_id"
  by (auto simp: cpi_runtime_def outside_step_def keeps_owned_def gives_zeroed_def chain_env_def sample_env_def sample_invoke_def
      split: cpi.splits account_data.splits if_splits)

lemmas chain_simps = chain_env_def sample_simps chain_start_def chain_config_def chain_bank1_def load_system_account_def
  load_system_program_def create_account_def init_account_def check_new_account_def checked_add_def

lemma chain_step1:
  "vault_dispatch chain_env sample_id chain_start
     [acc 6 False True, acc 3 True True, acc 8 False False, acc 30 False False, acc 0 False False] (InitializeConfig 10)
   = Inr chain_bank1"
  by (simp add: vault_dispatch_def process_initialize_config_def chain_simps size_of_vault_config_def MAX_BPS_def)

lemma chain_initial_vault:
  "initial_vault 1 2 3 chain_config (acc 4 True False) 100 50 1000 255 50 100 = Inr chain_vault"
  by (simp add: initial_vault_def chain_config_def vault_config_new_def vault_new_def chain_vault_def
      initialize_vault_override_deposit_fee_bps_def mint_with_fee_def calculate_vrt_mint_amount_def calculate_deposit_fee_def
      eval_simps err_if_def and_then_def)

lemma chain_step2:
  "vault_dispatch chain_env sample_id chain_bank1
     [acc 6 False True, acc 37 False True, acc 1 True True, acc 2 False False, acc 50 False True, acc 51 False True,
      acc 42 False False, acc 60 False True, acc 3 True True, acc 4 True False, acc 0 False False, acc 900 False False,
      acc 902 False False] (InitializeVault 100 50 1000 9 100)
   = Inr chain_bank2"
  using chain_initial_vault
  by (simp add: vault_dispatch_def process_initialize_vault_def chain_simps accounts13_def burn_vault_load_def
      burn_vault_find_program_address_def burn_vault_seeds_def load_token_account_def load_associated_token_account_program_def
      vault_find_program_address_def size_of_vault_def increment_num_vaults_def eval_simps chain_bank2_def fun_upd_twist
      DEFAULT_FEES_CAP_BPS_def)

lemma chain_vault_fields [simp]:
  "v_base chain_vault = 4" "v_bump chain_vault = 255" "v_vrt_mint chain_vault = 1" "v_mint_burn_admin chain_vault = 0"
  "v_last_full_state_update_slot chain_vault = 50" "v_is_paused chain_vault = False"
  "v_vrt_enqueued_for_cooldown_amount chain_vault = 0"
  by (simp_all add: chain_vault_def vault_new_def MAX_BPS_def pubkey_default_def)

lemma chain_step3:
  "vault_dispatch chain_env sample_id chain_bank2
     [acc 6 False False, acc 37 False True, acc 94 False True, acc 19401 False True, acc 3 True True, acc 10301 False True,
      acc 8 True False, acc 900 False False, acc 0 False False] (EnqueueWithdrawal 30)
   = Inr chain_end"
  by (simp add: vault_dispatch_def process_enqueue_withdrawal_def chain_bank2_def chain_simps chain_end_def chain_ticket_def
      vault_staker_withdrawal_ticket_find_program_address_def vault_staker_withdrawal_ticket_seeds_def
      size_of_vault_staker_withdrawal_ticket_def increment_vrt_enqueued_for_cooldown_amount_def eval_simps
      check_mint_burn_admin_def pubkey_default_def check_update_state_ok_def is_update_needed_def get_epoch_def checked_div_def
      check_is_paused_def DEFAULT_SLOTS_PER_EPOCH_def)

lemma chain: "vault_chain sample_id chain_start chain_end"
  by (rule vault_chain.instruction [OF vault_chain.instruction [OF vault_chain.instruction [OF vault_chain.start
      chain_runtime chain_step1] chain_runtime chain_step2] chain_runtime chain_step3])

lemma chain_start_empty: "structs sample_id chain_start = {}"
  by (auto simp: structs_def is_struct_def chain_start_def)

section \<open>The instructions and their effects\<close>

text \<open>
  Claim C14. An instruction that succeeds has the effect that the abstract program gives to that
  instruction: it performs, in order and all of them, the invocations, account creations, reads, writes
  and closures of a rule of \<^const>\<open>vault_effect\<close> for it, under the conditions of the rule, and nothing
  else. The rules fix what is written, the amounts and the recipients of every token movement, who pays
  for a new account and its address and seeds, where the lamports of a closed one go, the seeds that
  sign an invocation, and the signatures that were needed. What they leave open is what the accounts of
  the transaction choose: which vault, depositor, delegate or new admin, and which infos an invocation gets.
\<close>

theorem vault_instruction_effects:
  assumes "cpi_runtime e p" and "decode data = Inr ix" and "vault_process_instruction e p decode p b accounts data = Inr b'"
  shows "\<exists>as. vault_effect e p (signed_by accounts) b ix as \<and> acts e p as b b'"
proof -
  from assms(2,3) have "vault_dispatch e p b accounts ix = Inr b'"
    by (auto simp: vault_process_instruction_def and_then_Inr_iff)
  from dispatch_effect [OF assms(1) this] show ?thesis by (simp add: has_effect_def)
qed

theorem vault_instruction_effects_witness:
  "\<exists>as. vault_effect chain_env sample_id
     (signed_by [acc 6 False False, acc 37 False True, acc 94 False True, acc 19401 False True, acc 3 True True,
        acc 10301 False True, acc 8 True False, acc 900 False False, acc 0 False False]) chain_bank2 (EnqueueWithdrawal 30) as
   \<and> acts chain_env sample_id as chain_bank2 chain_end"
  by (rule vault_instruction_effects [where decode = "\<lambda>_. Inr (EnqueueWithdrawal 30)" and data = "[]"])
    (simp_all add: chain_runtime vault_process_instruction_def chain_step3)

end
