(* ===== verification/Vault_Queue.thy ===== *)
theory Vault_Queue
  imports Sample_Chain
begin

text \<open>
  The withdrawal queue of a vault. A withdrawal ticket holds an amount of VRT, and the vault keeps
  three counters of the VRT in tickets: enqueued, cooling down and ready to claim. The theory shows
  that over the life of the program the counters of every vault add up to exactly what its tickets
  hold, which is why a redemption never fails on the counters and why the reserve computed from
  them covers every ticket.
\<close>

section \<open>Definitions\<close>

definition queued :: "account_data \<Rightarrow> int" where
  "queued d =
     (case d of
        VaultD v \<Rightarrow> int (unat (v_vrt_enqueued_for_cooldown_amount v)) + int (unat (v_vrt_cooling_down_amount v))
          + int (unat (v_vrt_ready_to_claim_amount v))
      | _ \<Rightarrow> 0)"

definition ticket_of :: "pubkey \<Rightarrow> account_data \<Rightarrow> bool" where
  "ticket_of vk d = (case d of VaultStakerWithdrawalTicketD t \<Rightarrow> wt_vault t = vk | _ \<Rightarrow> False)"

definition ticketed :: "pubkey \<Rightarrow> account_data \<Rightarrow> int" where
  "ticketed vk d =
     (case d of VaultStakerWithdrawalTicketD t \<Rightarrow> if wt_vault t = vk then int (unat (wt_vrt_amount t)) else 0 | _ \<Rightarrow> 0)"

definition tickets :: "pubkey \<Rightarrow> pubkey \<Rightarrow> bank \<Rightarrow> pubkey set" where
  "tickets p vk b = {k. a_owner (b k) = p \<and> ticket_of vk (a_data (b k))}"

definition ticket_total :: "pubkey \<Rightarrow> pubkey \<Rightarrow> bank \<Rightarrow> int" where
  "ticket_total p vk b = (\<Sum>k\<in>tickets p vk b. ticketed vk (a_data (b k)))"

definition queue_gap :: "pubkey \<Rightarrow> pubkey \<Rightarrow> bank \<Rightarrow> int" where
  "queue_gap p vk b = (if a_owner (b vk) = p then queued (a_data (b vk)) else 0) - ticket_total p vk b"

text \<open>The books of every key: the counters of a vault, or nothing, against the tickets for it.\<close>

definition queue_ok :: "pubkey \<Rightarrow> bank \<Rightarrow> bool" where
  "queue_ok p b \<longleftrightarrow> (\<forall>vk. finite (tickets p vk b) \<and> queue_gap p vk b = 0)"

fun queue_fine :: "action \<Rightarrow> bool" where
  "queue_fine (Close k d f) \<longleftrightarrow> queued d = 0"
| "queue_fine _ \<longleftrightarrow> True"

fun queue_delta :: "pubkey \<Rightarrow> action \<Rightarrow> int" where
  "queue_delta vk (Write k d d') = (if k = vk then queued d' - queued d else 0) - ticketed vk d' + ticketed vk d"
| "queue_delta vk (Close k d f) = ticketed vk d"
| "queue_delta vk _ = 0"

section \<open>Lemmas\<close>

lemma queue_simps [simp]:
  "queued (Bytes bs) = 0" "queued (VaultConfigD c) = 0" "queued (VaultNcnTicketD x1) = 0"
  "queued (VaultOperatorDelegationD x2) = 0" "queued (VaultNcnSlasherTicketD x3) = 0"
  "queued (VaultNcnSlasherOperatorTicketD x4) = 0" "queued (VaultStakerWithdrawalTicketD t) = 0"
  "queued (VaultUpdateStateTrackerD x5) = 0"
  "ticketed vk (VaultD v) = 0" "ticketed vk (Bytes bs) = 0" "ticketed vk (VaultConfigD c) = 0"
  "ticketed vk (VaultNcnTicketD x1) = 0" "ticketed vk (VaultOperatorDelegationD x2) = 0"
  "ticketed vk (VaultNcnSlasherTicketD x3) = 0" "ticketed vk (VaultNcnSlasherOperatorTicketD x4) = 0"
  "ticketed vk (VaultUpdateStateTrackerD x5) = 0"
  "ticketed vk (VaultStakerWithdrawalTicketD t) = (if wt_vault t = vk then int (unat (wt_vrt_amount t)) else 0)"
  "\<not> ticket_of vk (Bytes bs)"
  by (simp_all add: queued_def ticketed_def ticket_of_def)

lemma ticketed_0: "\<not> ticket_of vk d \<Longrightarrow> ticketed vk d = 0"
  by (auto simp: ticket_of_def ticketed_def split: account_data.splits)

lemma outside_queue:
  assumes "outside_step p b b'"
  shows "tickets p vk b' = tickets p vk b" and "queue_gap p vk b' = queue_gap p vk b"
proof -
  note o = assms [unfolded outside_step_def keeps_owned_def gives_zeroed_def]
  have "a_owner (b' k) = p \<and> ticket_of vk (a_data (b' k)) \<longleftrightarrow> a_owner (b k) = p \<and> ticket_of vk (a_data (b k))" for k
    using o by (metis queue_simps(18))
  then show t: "tickets p vk b' = tickets p vk b" by (simp add: tickets_def)
  have "ticket_total p vk b' = ticket_total p vk b"
    unfolding ticket_total_def t by (rule sum.cong) (use o in \<open>auto simp: tickets_def\<close>)
  moreover have "(if a_owner (b' vk) = p then queued (a_data (b' vk)) else 0) = (if a_owner (b vk) = p then queued (a_data (b vk)) else 0)"
    using o by (metis queue_simps(1))
  ultimately show "queue_gap p vk b' = queue_gap p vk b" by (simp add: queue_gap_def)
qed

lemma total_change:
  assumes "finite (tickets p vk b)" and "a_owner (b k) = p" and "\<And>j. j \<noteq> k \<Longrightarrow> a_owner (b' j) = a_owner (b j) \<and> a_data (b' j) = a_data (b j)"
    and "a_owner (b' k) = p \<or> \<not> ticket_of vk (a_data (b' k))"
  shows "finite (tickets p vk b')" and "ticket_total p vk b' = ticket_total p vk b - ticketed vk (a_data (b k)) + ticketed vk (a_data (b' k))"
proof -
  let ?A = "tickets p vk b - {k}"
  have A': "tickets p vk b' - {k} = ?A" using assms(3) by (auto simp: tickets_def)
  then have "finite (tickets p vk b' - {k})" using assms(1) by simp
  then show "finite (tickets p vk b')" by simp
  have "ticket_total p vk c = (\<Sum>j\<in>tickets p vk c - {k}. ticketed vk (a_data (c j))) + ticketed vk (a_data (c k))"
    if "finite (tickets p vk c)" "a_owner (c k) = p \<or> \<not> ticket_of vk (a_data (c k))" for c
  proof (cases "k \<in> tickets p vk c")
    case True
    then show ?thesis unfolding ticket_total_def using that(1) by (simp add: sum.remove)
  next
    case False
    then have "ticketed vk (a_data (c k)) = 0" using that(2) by (auto simp: tickets_def intro: ticketed_0)
    then show ?thesis unfolding ticket_total_def using False by simp
  qed
  note s = this
  have "(\<Sum>j\<in>?A. ticketed vk (a_data (b' j))) = (\<Sum>j\<in>?A. ticketed vk (a_data (b j)))"
    using assms(3) by (intro sum.cong) auto
  then show "ticket_total p vk b' = ticket_total p vk b - ticketed vk (a_data (b k)) + ticketed vk (a_data (b' k))"
    using s [OF assms(1)] s [OF \<open>finite (tickets p vk b')\<close>] assms(2,4) A' by simp
qed

lemma queue_act:
  assumes "cpi_runtime e p" and "finite (tickets p vk b)" and "queue_fine a" and "act e p a b b'"
  shows "finite (tickets p vk b') \<and> queue_gap p vk b' = queue_gap p vk b + queue_delta vk a"
proof (cases a)
  case (Invoke ix sds)
  then have "outside_step p b b'" using act_outside(1) [OF assms(1)] assms(4) by simp
  then show ?thesis using assms(2) Invoke by (simp add: outside_queue)
next
  case (Create f k n sds)
  then have "outside_step p b b'" using act_outside(2) [OF assms(1)] assms(4) by simp
  then show ?thesis using assms(2) Create by (simp add: outside_queue)
next
  case (Read k d)
  then show ?thesis using assms(2,4) by simp
next
  case (Write k d d')
  then have w: "a_owner (b k) = p" "a_data (b k) = d" "b' = set_data b k d'"
    using assms(4) by auto
  have "finite (tickets p vk b')" "ticket_total p vk b' = ticket_total p vk b - ticketed vk d + ticketed vk d'"
    using total_change [of p vk b k b'] assms(2) w by simp_all
  then show ?thesis using w Write by (cases "k = vk") (simp_all add: queue_gap_def)
next
  case (Close k d f)
  then obtain info dest where c: "ai_key info = k" "a_data (b k) = d" "close_program_account e b p info dest = Inr b'"
    using assms(4) by auto
  note cl = close_program_accountD [OF c(3)]
  have "finite (tickets p vk b')" "ticket_total p vk b' = ticket_total p vk b - ticketed vk d"
    using total_change [of p vk b k b'] assms(2) cl c(1,2) by simp_all
  then show ?thesis
    using assms(3) Close cl(2,3) [of vk] c(1,2) by (simp add: queue_gap_def)
qed

interpretation queue: measured p "\<lambda>e. cpi_runtime e p" "\<lambda>b. finite (tickets p vk b)" queue_fine "queue_gap p vk"
  "queue_delta vk" for p vk
  using queue_act by unfold_locales blast

section \<open>Every instruction keeps the books\<close>

lemma same_queue:
  "same_books v v' \<Longrightarrow> queued (VaultD v') = queued (VaultD v)"
  "increment_ncn_count v = Inr v' \<Longrightarrow> queued (VaultD v') = queued (VaultD v)"
  "increment_operator_count v = Inr v' \<Longrightarrow> queued (VaultD v') = queued (VaultD v)"
  "increment_slasher_count v = Inr v' \<Longrightarrow> queued (VaultD v') = queued (VaultD v)"
  "mint_with_fee v n least = Inr (v', ms) \<Longrightarrow> queued (VaultD v') = queued (VaultD v)"
  "update_vault_balance v n = Inr (v', fee) \<Longrightarrow> queued (VaultD v') = queued (VaultD v)"
  "vault_delegate v n = Inr v' \<Longrightarrow> queued (VaultD v') = queued (VaultD v)"
  "start_update v c slot = Inr v' \<Longrightarrow> queued (VaultD v') = queued (VaultD v)"
  "queued (VaultD (v\<lparr>v_delegation_state := ds\<rparr>)) = queued (VaultD v)"
  by (auto simp: queued_def same_books_def increment_ncn_count_def increment_operator_count_def increment_slasher_count_def
      vault_delegate_def start_update_def set_withdrawal_fee_bps_def vault_set_program_fee_bps_def Let_def and_then_Inr_iff
      map_err_Inr_iff elim!: mint_with_feeE update_vault_balance_Inr split: if_splits)

lemma crank_queue: "crank_operator q v d t slot len = Inr (v', d', t') \<Longrightarrow> queued (VaultD v') = queued (VaultD v)"
  by (subst crank_operator_vault(1), assumption) (simp add: queued_def)

lemma enqueue_queue:
  "increment_vrt_enqueued_for_cooldown_amount v n = Inr v' \<Longrightarrow> queued (VaultD v') = queued (VaultD v) + int (unat n)"
  by (auto simp: queued_def increment_vrt_enqueued_for_cooldown_amount_def and_then_Inr_iff ok_or_Inr_iff checked_add_iff
      simp del: of_nat_unat)

lemma burn_queue:
  assumes "burn_with_fee v q1 q2 n = Inr (v1, bs)" and "decrement_vrt_ready_to_claim_amount v1 n = Inr v'"
  shows "queued (VaultD v') = queued (VaultD v) - int (unat n)"
proof -
  from assms(1) obtain s t where "v1 = v\<lparr>v_vrt_supply := s, v_tokens_deposited := t\<rparr>" by (rule burn_with_feeE)
  then show ?thesis
    using assms(2)
    by (auto simp: queued_def decrement_vrt_ready_to_claim_amount_def and_then_Inr_iff ok_or_Inr_iff checked_sub_iff
      simp del: of_nat_unat)
qed

lemma shift_queue: "shift_vrt_times k v = Inr v' \<Longrightarrow> queued (VaultD v') = queued (VaultD v)"
proof (induction k arbitrary: v)
  case (Suc k)
  then obtain v1 where "shift_vrt v = Inr v1" "shift_vrt_times k v1 = Inr v'" by (auto simp: and_then_Inr_iff)
  moreover from this(1) have "queued (VaultD v1) = queued (VaultD v)"
    by (auto simp: shift_vrt_def increment_vrt_ready_to_claim_amount_def queued_def and_then_Inr_iff ok_or_Inr_iff checked_add_iff
      simp del: of_nat_unat)
  ultimately show ?case using Suc.IH by simp
qed simp

lemma close_queue: "close_update v t epoch slot len = Inr v' \<Longrightarrow> queued (VaultD v') = queued (VaultD v)"
  by (auto simp: close_update_def Let_def and_then_Inr_iff map_err_Inr_iff split: if_splits dest!: shift_queue)
    (auto simp: queued_def)

lemma initial_queue:
  "initial_vault mint st admin c base df wf' rf bump slot n = Inr v \<Longrightarrow> queued (VaultD v) = 0"
  by (auto simp: initial_vault_def initialize_vault_override_deposit_fee_bps_def vault_new_def queued_def Let_def
      and_then_Inr_iff map_err_Inr_iff elim!: mint_with_feeE split: if_splits)

lemma effect_queue:
  assumes "vault_effect e p S b ix as"
  shows "list_all queue_fine as" and "sum_list (map (queue_delta vk) as) = 0"
  using assms
  by (induction)
    (auto simp: same_queue crank_queue enqueue_queue burn_queue close_queue initial_queue withdrawal_ticket_new_def
      dest: setting_same_books)

lemma queue_step:
  assumes "queue_ok p b" and "cpi_runtime e p" and "has_effect e p S ix b b'"
  shows "queue_ok p b'"
proof -
  from assms(3) obtain as where "vault_effect e p S b ix as" "acts e p as b b'" by (auto simp: has_effect_def)
  then have "finite (tickets p vk b') \<and> queue_gap p vk b' = 0" for vk
    using queue.acts_measured [OF assms(2), of vk b as b'] effect_queue [of e p S b ix as] assms(1) by (simp add: queue_ok_def)
  then show ?thesis by (simp add: queue_ok_def)
qed

lemma queue_start:
  assumes "structs p b = {}"
  shows "queue_ok p b"
proof -
  have "\<exists>bs. a_data (b k) = Bytes bs" if "a_owner (b k) = p" for k
    using assms that by (cases "a_data (b k)") (auto simp: structs_def is_struct_def)
  then have "tickets p vk b = {}" "a_owner (b vk) = p \<Longrightarrow> queued (a_data (b vk)) = 0" for vk
    by (force simp: tickets_def)+
  then show ?thesis by (simp add: queue_ok_def queue_gap_def ticket_total_def)
qed

section \<open>Properties\<close>

text \<open>
  Claim C12. From an empty start, through any sequence of instructions interleaved with anything the
  rest of the chain does, the three withdrawal counters of a vault add up to exactly the VRT held by
  the open withdrawal tickets of that vault.
\<close>

theorem withdrawal_queue_exact:
  assumes "vault_chain p b b'" and "structs p b = {}" and "a_owner (b' k) = p" and "a_data (b' k) = VaultD v"
  shows "finite (tickets p k b') \<and>
    int (unat (v_vrt_enqueued_for_cooldown_amount v)) + int (unat (v_vrt_cooling_down_amount v))
      + int (unat (v_vrt_ready_to_claim_amount v)) = (\<Sum>t\<in>tickets p k b'. ticketed k (a_data (b' t)))"
proof -
  have "queue_ok p b'"
    using assms(1) queue_start [OF assms(2)] queue_step
    by (rule vault_chain_invariant) (simp_all add: queue_ok_def outside_queue)
  then have "finite (tickets p k b') \<and> queue_gap p k b' = 0" by (simp add: queue_ok_def)
  then show ?thesis
    using assms(3,4) by (simp add: queue_gap_def queued_def ticket_total_def del: of_nat_unat)
qed

theorem withdrawal_queue_exact_witness:
  "vault_chain sample_id chain_start chain_end \<and> structs sample_id chain_start = {} \<and>
   a_data (chain_end 37) = VaultD (chain_vault\<lparr>v_vrt_enqueued_for_cooldown_amount := 30\<rparr>) \<and>
   (\<Sum>t\<in>tickets sample_id 37 chain_end. ticketed 37 (a_data (chain_end t))) = 30"
proof -
  have v: "a_owner (chain_end 37) = sample_id" "a_data (chain_end 37) = VaultD (chain_vault\<lparr>v_vrt_enqueued_for_cooldown_amount := 30\<rparr>)"
    by (simp_all add: chain_end_def)
  have "v_vrt_cooling_down_amount chain_vault = 0" "v_vrt_ready_to_claim_amount chain_vault = 0"
    by (simp_all add: chain_vault_def vault_new_def MAX_BPS_def pubkey_default_def)
  then show ?thesis
    using withdrawal_queue_exact [OF chain chain_start_empty v] v chain chain_start_empty by simp
qed

end
