(* ===== verification/Restaking_Handlers.thy ===== *)
theory Restaking_Handlers
  imports Account_Loads
begin

text \<open>
  The instructions of the restaking program (\<open>restaking_program/src\<close>), each as a whole: creating
  the configuration, NCNs, operators and the tickets between them and the vaults; warming up and
  cooling down the tickets; the administrators of NCNs and operators; and the delegation of stray
  token accounts. Names that the vault program also uses carry the prefix \<open>restaking\<close>.
\<close>

section \<open>Definitions\<close>

definition MAX_FEE_BPS :: u16 where
  "MAX_FEE_BPS = 10000"

subsection \<open>Configuration, NCNs and operators\<close>

definition restaking_process_initialize_config ::
    "env \<Rightarrow> pubkey \<Rightarrow> bank \<Rightarrow> account_info list \<Rightarrow> program_error + bank" where
  "restaking_process_initialize_config e program_id b accounts =
     and_then (accounts4 accounts) (\<lambda>(config, admin, vault_program, system_program).
     and_then (load_system_account e b config True) (\<lambda>_.
     and_then (load_signer admin True) (\<lambda>_.
     and_then (load_system_program e system_program) (\<lambda>_.
     let (config_pubkey, config_bump, config_seeds) = restaking_config_find_program_address e program_id in
     and_then (err_if (ai_key config \<noteq> config_pubkey) InvalidAccountData) (\<lambda>_.
     and_then (restaking_res (ok_or (checked_add 8 size_of_restaking_config) RestakingArithmeticOverflow)) (\<lambda>space.
     and_then (create_account e program_id b admin config system_program program_id space
       (config_seeds @ [[config_bump]])) (\<lambda>b.
     init_account b config (unat size_of_restaking_config)
       (RestakingConfigD (restaking_config_new (ai_key admin) (ai_key vault_program) config_bump)))))))))"

definition process_initialize_ncn ::
    "env \<Rightarrow> pubkey \<Rightarrow> bank \<Rightarrow> account_info list \<Rightarrow> program_error + bank" where
  "process_initialize_ncn e program_id b accounts =
     and_then (accounts5 accounts) (\<lambda>(config, ncn, admin, base, system_program).
     and_then (restaking_config_load e program_id b config True) (\<lambda>_.
     and_then (load_system_account e b ncn True) (\<lambda>_.
     and_then (load_signer admin True) (\<lambda>_.
     and_then (load_signer base False) (\<lambda>_.
     and_then (load_system_program e system_program) (\<lambda>_.
     let (pda, bump, seeds) = ncn_find_program_address e program_id (ai_key base) in
     and_then (err_if (ai_key ncn \<noteq> pda) InvalidAccountData) (\<lambda>_.
     and_then (restaking_res (ok_or (checked_add 8 size_of_ncn) RestakingArithmeticOverflow)) (\<lambda>space.
     and_then (create_account e program_id b admin ncn system_program program_id space (seeds @ [[bump]])) (\<lambda>b.
     and_then (get_restaking_config b config) (\<lambda>c.
     and_then (init_account b ncn (unat size_of_ncn)
       (NcnD (ncn_new (ai_key base) (ai_key admin) (rc_ncn_count c) bump))) (\<lambda>b.
     and_then (restaking_res (config_increment_ncn_count c)) (\<lambda>c.
     Inr (set_data b (ai_key config) (RestakingConfigD c))))))))))))))"

definition process_initialize_operator ::
    "env \<Rightarrow> pubkey \<Rightarrow> bank \<Rightarrow> account_info list \<Rightarrow> u16 \<Rightarrow> program_error + bank" where
  "process_initialize_operator e program_id b accounts operator_fee_bps =
     and_then (accounts5 accounts) (\<lambda>(config, operator, admin, base, system_program).
     and_then (restaking_config_load e program_id b config True) (\<lambda>_.
     and_then (load_system_account e b operator True) (\<lambda>_.
     and_then (load_signer admin True) (\<lambda>_.
     and_then (load_signer base False) (\<lambda>_.
     and_then (load_system_program e system_program) (\<lambda>_.
     let (operator_pubkey, operator_bump, seeds) = operator_find_program_address e program_id (ai_key base) in
     and_then (err_if (ai_key operator \<noteq> operator_pubkey) InvalidAccountData) (\<lambda>_.
     and_then (restaking_res (err_if (MAX_FEE_BPS < operator_fee_bps) OperatorFeeCapExceeded)) (\<lambda>_.
     and_then (restaking_res (ok_or (checked_add 8 size_of_operator) RestakingArithmeticOverflow)) (\<lambda>space.
     and_then (create_account e program_id b admin operator system_program program_id space
       (seeds @ [[operator_bump]])) (\<lambda>b.
     and_then (get_restaking_config b config) (\<lambda>c.
     and_then (init_account b operator (unat size_of_operator)
       (OperatorD (operator_new (ai_key base) (ai_key admin) (rc_operator_count c) operator_fee_bps operator_bump))) (\<lambda>b.
     and_then (restaking_res (config_increment_operator_count c)) (\<lambda>c.
     Inr (set_data b (ai_key config) (RestakingConfigD c)))))))))))))))"

definition restaking_process_set_config_admin ::
    "env \<Rightarrow> pubkey \<Rightarrow> bank \<Rightarrow> account_info list \<Rightarrow> program_error + bank" where
  "restaking_process_set_config_admin e program_id b accounts =
     and_then (accounts3 accounts) (\<lambda>(config, old_admin, new_admin).
     and_then (restaking_config_load e program_id b config True) (\<lambda>_.
     and_then (get_restaking_config b config) (\<lambda>c.
     and_then (load_signer old_admin False) (\<lambda>_.
     and_then (restaking_res (err_if (rc_admin c \<noteq> ai_key old_admin) RestakingConfigAdminInvalid)) (\<lambda>_.
     Inr (set_data b (ai_key config) (RestakingConfigD (restaking_config_set_admin c (ai_key new_admin)))))))))"

subsection \<open>Tickets\<close>

definition process_initialize_ncn_operator_state ::
    "env \<Rightarrow> pubkey \<Rightarrow> bank \<Rightarrow> account_info list \<Rightarrow> program_error + bank" where
  "process_initialize_ncn_operator_state e program_id b accounts =
     and_then (accounts7 accounts) (\<lambda>(config, ncn_info, operator, ncn_operator_state, admin_info, payer,
       system_program).
     and_then (restaking_config_load e program_id b config False) (\<lambda>_.
     and_then (ncn_load e program_id b ncn_info True) (\<lambda>_.
     and_then (operator_load e program_id b operator True) (\<lambda>_.
     and_then (load_system_account e b ncn_operator_state True) (\<lambda>_.
     and_then (load_signer admin_info False) (\<lambda>_.
     and_then (load_signer payer True) (\<lambda>_.
     and_then (load_system_program e system_program) (\<lambda>_.
     let (pda, bump, seeds) = ncn_operator_state_find_program_address e program_id (ai_key ncn_info) (ai_key operator) in
     and_then (err_if (pda \<noteq> ai_key ncn_operator_state) InvalidAccountData) (\<lambda>_.
     and_then (get_ncn b ncn_info) (\<lambda>n.
     and_then (restaking_res (err_if (ncn_operator_admin n \<noteq> ai_key admin_info) NcnOperatorAdminInvalid)) (\<lambda>_.
     and_then (restaking_res (ok_or (checked_add 8 size_of_ncn_operator_state) RestakingArithmeticOverflow)) (\<lambda>space.
     and_then (create_account e program_id b payer ncn_operator_state system_program program_id space
       (seeds @ [[bump]])) (\<lambda>b.
     and_then (init_account b ncn_operator_state (unat size_of_ncn_operator_state)
       (NcnOperatorStateD
          (ncn_operator_state_new (ai_key ncn_info) (ai_key operator) (ncn_operator_count n) bump (e_slot e)))) (\<lambda>b.
     and_then (get_operator b operator) (\<lambda>o1.
     and_then (restaking_res (ncn_increment_operator_count n)) (\<lambda>n.
     and_then (restaking_res (operator_increment_ncn_count o1)) (\<lambda>o1.
     Inr (set_data (set_data b (ai_key ncn_info) (NcnD n)) (ai_key operator) (OperatorD o1)))))))))))))))))))"

definition process_initialize_ncn_vault_ticket ::
    "env \<Rightarrow> pubkey \<Rightarrow> bank \<Rightarrow> account_info list \<Rightarrow> program_error + bank" where
  "process_initialize_ncn_vault_ticket e program_id b accounts =
     and_then (accounts7 accounts) (\<lambda>(config, ncn_info, vault, ncn_vault_ticket, admin_info, payer, system_program).
     and_then (restaking_config_load e program_id b config False) (\<lambda>_.
     and_then (ncn_load e program_id b ncn_info True) (\<lambda>_.
     and_then (get_restaking_config b config) (\<lambda>c.
     and_then (vault_load e (rc_vault_program c) b vault False) (\<lambda>_.
     and_then (load_system_account e b ncn_vault_ticket True) (\<lambda>_.
     and_then (load_signer admin_info False) (\<lambda>_.
     and_then (load_signer payer True) (\<lambda>_.
     and_then (load_system_program e system_program) (\<lambda>_.
     let (pda, bump, seeds) = ncn_vault_ticket_find_program_address e program_id (ai_key ncn_info) (ai_key vault) in
     and_then (err_if (pda \<noteq> ai_key ncn_vault_ticket) InvalidAccountData) (\<lambda>_.
     and_then (get_ncn b ncn_info) (\<lambda>n.
     and_then (restaking_res (err_if (ncn_vault_admin n \<noteq> ai_key admin_info) NcnVaultAdminInvalid)) (\<lambda>_.
     and_then (restaking_res (ok_or (checked_add 8 size_of_ncn_vault_ticket) RestakingArithmeticOverflow)) (\<lambda>space.
     and_then (create_account e program_id b payer ncn_vault_ticket system_program program_id space
       (seeds @ [[bump]])) (\<lambda>b.
     and_then (init_account b ncn_vault_ticket (unat size_of_ncn_vault_ticket)
       (NcnVaultTicketD
          (ncn_vault_ticket_new (ai_key ncn_info) (ai_key vault) (ncn_vault_count n) bump (e_slot e)))) (\<lambda>b.
     and_then (restaking_res (ncn_increment_vault_count n)) (\<lambda>n.
     Inr (set_data b (ai_key ncn_info) (NcnD n))))))))))))))))))"

definition process_initialize_ncn_vault_slasher_ticket ::
    "env \<Rightarrow> pubkey \<Rightarrow> bank \<Rightarrow> account_info list \<Rightarrow> u64 \<Rightarrow> program_error + bank" where
  "process_initialize_ncn_vault_slasher_ticket e program_id b accounts max_slashable_per_epoch =
     and_then (accounts9 accounts) (\<lambda>(config, ncn_info, vault, slasher, ncn_vault_ticket, ncn_vault_slasher_ticket,
       admin_info, payer, system_program).
     and_then (restaking_config_load e program_id b config False) (\<lambda>_.
     and_then (ncn_load e program_id b ncn_info True) (\<lambda>_.
     and_then (get_restaking_config b config) (\<lambda>c.
     and_then (vault_load e (rc_vault_program c) b vault False) (\<lambda>_.
     and_then (ncn_vault_ticket_load e program_id b ncn_vault_ticket ncn_info vault False) (\<lambda>_.
     and_then (load_system_account e b ncn_vault_slasher_ticket True) (\<lambda>_.
     and_then (load_signer admin_info False) (\<lambda>_.
     and_then (load_signer payer True) (\<lambda>_.
     and_then (load_system_program e system_program) (\<lambda>_.
     let (pda, bump, seeds) = ncn_vault_slasher_ticket_find_program_address e program_id (ai_key ncn_info)
           (ai_key vault) (ai_key slasher) in
     and_then (err_if (ai_key ncn_vault_slasher_ticket \<noteq> pda) InvalidAccountData) (\<lambda>_.
     and_then (get_ncn b ncn_info) (\<lambda>n.
     and_then (restaking_res (err_if (ncn_slasher_admin n \<noteq> ai_key admin_info) NcnSlasherAdminInvalid)) (\<lambda>_.
     and_then (restaking_res (ok_or (checked_add 8 size_of_ncn_vault_slasher_ticket) RestakingArithmeticOverflow)) (\<lambda>space.
     and_then (create_account e program_id b payer ncn_vault_slasher_ticket system_program program_id space
       (seeds @ [[bump]])) (\<lambda>b.
     and_then (init_account b ncn_vault_slasher_ticket (unat size_of_ncn_vault_slasher_ticket)
       (NcnVaultSlasherTicketD
          (ncn_vault_slasher_ticket_new (ai_key ncn_info) (ai_key vault) (ai_key slasher) max_slashable_per_epoch
             (ncn_slasher_count n) bump (e_slot e)))) (\<lambda>b.
     and_then (restaking_res (ncn_increment_slasher_count n)) (\<lambda>n.
     Inr (set_data b (ai_key ncn_info) (NcnD n)))))))))))))))))))"

definition process_initialize_operator_vault_ticket ::
    "env \<Rightarrow> pubkey \<Rightarrow> bank \<Rightarrow> account_info list \<Rightarrow> program_error + bank" where
  "process_initialize_operator_vault_ticket e program_id b accounts =
     and_then (accounts7 accounts) (\<lambda>(config, operator_info, vault, operator_vault_ticket, operator_vault_admin, payer,
       system_program).
     and_then (restaking_config_load e program_id b config False) (\<lambda>_.
     and_then (operator_load e program_id b operator_info True) (\<lambda>_.
     and_then (get_restaking_config b config) (\<lambda>c.
     and_then (vault_load e (rc_vault_program c) b vault False) (\<lambda>_.
     and_then (load_system_account e b operator_vault_ticket True) (\<lambda>_.
     and_then (load_signer operator_vault_admin False) (\<lambda>_.
     and_then (load_signer payer True) (\<lambda>_.
     and_then (load_system_program e system_program) (\<lambda>_.
     let (pda, bump, seeds) = operator_vault_ticket_find_program_address e program_id (ai_key operator_info)
           (ai_key vault) in
     and_then (err_if (ai_key operator_vault_ticket \<noteq> pda) InvalidArgument) (\<lambda>_.
     and_then (get_operator b operator_info) (\<lambda>o1.
     and_then (err_if (op_vault_admin o1 \<noteq> ai_key operator_vault_admin) InvalidAccountData) (\<lambda>_.
     and_then (restaking_res (ok_or (checked_add 8 size_of_operator_vault_ticket) RestakingArithmeticOverflow)) (\<lambda>space.
     and_then (create_account e program_id b payer operator_vault_ticket system_program program_id space
       (seeds @ [[bump]])) (\<lambda>b.
     and_then (init_account b operator_vault_ticket (unat size_of_operator_vault_ticket)
       (OperatorVaultTicketD
          (operator_vault_ticket_new (ai_key operator_info) (ai_key vault) (op_vault_count o1) bump (e_slot e)))) (\<lambda>b.
     and_then (restaking_res (operator_increment_vault_count o1)) (\<lambda>o1.
     Inr (set_data b (ai_key operator_info) (OperatorD o1))))))))))))))))))"

subsection \<open>Warming up and cooling down\<close>

definition process_ncn_warmup_operator :: "env \<Rightarrow> pubkey \<Rightarrow> bank \<Rightarrow> account_info list \<Rightarrow> program_error + bank" where
  "process_ncn_warmup_operator e program_id b accounts =
     and_then (accounts5 accounts) (\<lambda>(config, ncn, operator, ncn_operator_state, admin_info).
     and_then (restaking_config_load e program_id b config False) (\<lambda>_.
     and_then (ncn_load e program_id b ncn False) (\<lambda>_.
     and_then (operator_load e program_id b operator False) (\<lambda>_.
     and_then (ncn_operator_state_load e program_id b ncn_operator_state ncn operator True) (\<lambda>_.
     and_then (load_signer admin_info False) (\<lambda>_.
     and_then (get_ncn b ncn) (\<lambda>x.
     and_then (restaking_res (err_if (ncn_operator_admin x \<noteq> ai_key admin_info) NcnOperatorAdminInvalid)) (\<lambda>_.
     and_then (get_restaking_config b config) (\<lambda>c.
     and_then (get_ncn_operator_state b ncn_operator_state) (\<lambda>s.
     and_then (toggle_activate (nos_ncn_opt_in_state s) (e_slot e) (rc_epoch_length c)) (\<lambda>(state, changed).
     and_then (restaking_res (err_if (\<not> changed) NcnWarmupOperatorFailed)) (\<lambda>_.
     Inr (set_data b (ai_key ncn_operator_state) (NcnOperatorStateD (s\<lparr>nos_ncn_opt_in_state := state\<rparr>)))))))))))))))"

definition process_ncn_cooldown_operator :: "env \<Rightarrow> pubkey \<Rightarrow> bank \<Rightarrow> account_info list \<Rightarrow> program_error + bank" where
  "process_ncn_cooldown_operator e program_id b accounts =
     and_then (accounts5 accounts) (\<lambda>(config, ncn, operator, ncn_operator_state, admin_info).
     and_then (restaking_config_load e program_id b config False) (\<lambda>_.
     and_then (ncn_load e program_id b ncn False) (\<lambda>_.
     and_then (operator_load e program_id b operator False) (\<lambda>_.
     and_then (ncn_operator_state_load e program_id b ncn_operator_state ncn operator True) (\<lambda>_.
     and_then (load_signer admin_info False) (\<lambda>_.
     and_then (get_ncn b ncn) (\<lambda>x.
     and_then (restaking_res (err_if (ncn_operator_admin x \<noteq> ai_key admin_info) NcnOperatorAdminInvalid)) (\<lambda>_.
     and_then (get_restaking_config b config) (\<lambda>c.
     and_then (get_ncn_operator_state b ncn_operator_state) (\<lambda>s.
     and_then (toggle_deactivate (nos_ncn_opt_in_state s) (e_slot e) (rc_epoch_length c)) (\<lambda>(state, changed).
     and_then (restaking_res (err_if (\<not> changed) NcnCooldownOperatorFailed)) (\<lambda>_.
     Inr (set_data b (ai_key ncn_operator_state) (NcnOperatorStateD (s\<lparr>nos_ncn_opt_in_state := state\<rparr>)))))))))))))))"

definition process_operator_warmup_ncn :: "env \<Rightarrow> pubkey \<Rightarrow> bank \<Rightarrow> account_info list \<Rightarrow> program_error + bank" where
  "process_operator_warmup_ncn e program_id b accounts =
     and_then (accounts5 accounts) (\<lambda>(config, ncn, operator, ncn_operator_state, operator_ncn_admin).
     and_then (restaking_config_load e program_id b config False) (\<lambda>_.
     and_then (operator_load e program_id b operator False) (\<lambda>_.
     and_then (ncn_load e program_id b ncn False) (\<lambda>_.
     and_then (ncn_operator_state_load e program_id b ncn_operator_state ncn operator True) (\<lambda>_.
     and_then (load_signer operator_ncn_admin False) (\<lambda>_.
     and_then (get_operator b operator) (\<lambda>x.
     and_then (restaking_res (err_if (op_ncn_admin x \<noteq> ai_key operator_ncn_admin) OperatorNcnAdminInvalid)) (\<lambda>_.
     and_then (get_restaking_config b config) (\<lambda>c.
     and_then (get_ncn_operator_state b ncn_operator_state) (\<lambda>s.
     and_then (toggle_activate (nos_operator_opt_in_state s) (e_slot e) (rc_epoch_length c)) (\<lambda>(state, changed).
     and_then (restaking_res (err_if (\<not> changed) OperatorWarmupNcnFailed)) (\<lambda>_.
     Inr (set_data b (ai_key ncn_operator_state) (NcnOperatorStateD (s\<lparr>nos_operator_opt_in_state := state\<rparr>)))))))))))))))"

definition process_operator_cooldown_ncn :: "env \<Rightarrow> pubkey \<Rightarrow> bank \<Rightarrow> account_info list \<Rightarrow> program_error + bank" where
  "process_operator_cooldown_ncn e program_id b accounts =
     and_then (accounts5 accounts) (\<lambda>(config, ncn, operator, ncn_operator_state, operator_ncn_admin).
     and_then (restaking_config_load e program_id b config False) (\<lambda>_.
     and_then (operator_load e program_id b operator False) (\<lambda>_.
     and_then (ncn_load e program_id b ncn False) (\<lambda>_.
     and_then (ncn_operator_state_load e program_id b ncn_operator_state ncn operator True) (\<lambda>_.
     and_then (load_signer operator_ncn_admin False) (\<lambda>_.
     and_then (get_operator b operator) (\<lambda>x.
     and_then (restaking_res (err_if (op_ncn_admin x \<noteq> ai_key operator_ncn_admin) OperatorNcnAdminInvalid)) (\<lambda>_.
     and_then (get_restaking_config b config) (\<lambda>c.
     and_then (get_ncn_operator_state b ncn_operator_state) (\<lambda>s.
     and_then (toggle_deactivate (nos_operator_opt_in_state s) (e_slot e) (rc_epoch_length c)) (\<lambda>(state, changed).
     and_then (restaking_res (err_if (\<not> changed) OperatorCooldownNcnFailed)) (\<lambda>_.
     Inr (set_data b (ai_key ncn_operator_state) (NcnOperatorStateD (s\<lparr>nos_operator_opt_in_state := state\<rparr>)))))))))))))))"

definition process_warmup_ncn_vault_ticket ::
    "env \<Rightarrow> pubkey \<Rightarrow> bank \<Rightarrow> account_info list \<Rightarrow> program_error + bank" where
  "process_warmup_ncn_vault_ticket e program_id b accounts =
     and_then (accounts5 accounts) (\<lambda>(config, ncn, vault, ncn_vault_ticket, admin_info).
     and_then (restaking_config_load e program_id b config False) (\<lambda>_.
     and_then (ncn_load e program_id b ncn False) (\<lambda>_.
     and_then (get_restaking_config b config) (\<lambda>c.
     and_then (vault_load e (rc_vault_program c) b vault False) (\<lambda>_.
     and_then (ncn_vault_ticket_load e program_id b ncn_vault_ticket ncn vault True) (\<lambda>_.
     and_then (load_signer admin_info False) (\<lambda>_.
     and_then (get_ncn b ncn) (\<lambda>n.
     and_then (restaking_res (err_if (ncn_vault_admin n \<noteq> ai_key admin_info) NcnVaultAdminInvalid)) (\<lambda>_.
     and_then (get_ncn_vault_ticket b ncn_vault_ticket) (\<lambda>t.
     and_then (toggle_activate (nvt_state t) (e_slot e) (rc_epoch_length c)) (\<lambda>(state, changed).
     and_then (restaking_res (err_if (\<not> changed) NcnVaultTicketFailedWarmup)) (\<lambda>_.
     Inr (set_data b (ai_key ncn_vault_ticket) (NcnVaultTicketD (t\<lparr>nvt_state := state\<rparr>)))))))))))))))"

definition process_cooldown_ncn_vault_ticket ::
    "env \<Rightarrow> pubkey \<Rightarrow> bank \<Rightarrow> account_info list \<Rightarrow> program_error + bank" where
  "process_cooldown_ncn_vault_ticket e program_id b accounts =
     and_then (accounts5 accounts) (\<lambda>(config, ncn, vault, ncn_vault_ticket, admin_info).
     and_then (restaking_config_load e program_id b config False) (\<lambda>_.
     and_then (ncn_load e program_id b ncn False) (\<lambda>_.
     and_then (ncn_vault_ticket_load e program_id b ncn_vault_ticket ncn vault True) (\<lambda>_.
     and_then (load_signer admin_info False) (\<lambda>_.
     and_then (get_ncn b ncn) (\<lambda>n.
     and_then (restaking_res (err_if (ncn_vault_admin n \<noteq> ai_key admin_info) NcnVaultAdminInvalid)) (\<lambda>_.
     and_then (get_restaking_config b config) (\<lambda>c.
     and_then (get_ncn_vault_ticket b ncn_vault_ticket) (\<lambda>t.
     and_then (toggle_deactivate (nvt_state t) (e_slot e) (rc_epoch_length c)) (\<lambda>(state, changed).
     and_then (restaking_res (err_if (\<not> changed) NcnVaultTicketFailedCooldown)) (\<lambda>_.
     Inr (set_data b (ai_key ncn_vault_ticket) (NcnVaultTicketD (t\<lparr>nvt_state := state\<rparr>))))))))))))))"

definition process_warmup_operator_vault_ticket ::
    "env \<Rightarrow> pubkey \<Rightarrow> bank \<Rightarrow> account_info list \<Rightarrow> program_error + bank" where
  "process_warmup_operator_vault_ticket e program_id b accounts =
     and_then (accounts5 accounts) (\<lambda>(config, operator, vault, operator_vault_ticket, operator_vault_admin).
     and_then (restaking_config_load e program_id b config False) (\<lambda>_.
     and_then (operator_load e program_id b operator False) (\<lambda>_.
     and_then (get_restaking_config b config) (\<lambda>c.
     and_then (vault_load e (rc_vault_program c) b vault False) (\<lambda>_.
     and_then (operator_vault_ticket_load e program_id b operator_vault_ticket operator vault True) (\<lambda>_.
     and_then (load_signer operator_vault_admin False) (\<lambda>_.
     and_then (get_operator b operator) (\<lambda>o1.
     and_then (restaking_res (err_if (op_vault_admin o1 \<noteq> ai_key operator_vault_admin) OperatorVaultAdminInvalid)) (\<lambda>_.
     and_then (get_operator_vault_ticket b operator_vault_ticket) (\<lambda>t.
     and_then (toggle_activate (ovt_state t) (e_slot e) (rc_epoch_length c)) (\<lambda>(state, changed).
     and_then (restaking_res (err_if (\<not> changed) OperatorVaultTicketFailedWarmup)) (\<lambda>_.
     Inr (set_data b (ai_key operator_vault_ticket) (OperatorVaultTicketD (t\<lparr>ovt_state := state\<rparr>)))))))))))))))"

definition process_cooldown_operator_vault_ticket ::
    "env \<Rightarrow> pubkey \<Rightarrow> bank \<Rightarrow> account_info list \<Rightarrow> program_error + bank" where
  "process_cooldown_operator_vault_ticket e program_id b accounts =
     and_then (accounts5 accounts) (\<lambda>(config, operator, vault, operator_vault_ticket, operator_vault_admin).
     and_then (restaking_config_load e program_id b config False) (\<lambda>_.
     and_then (operator_load e program_id b operator False) (\<lambda>_.
     and_then (get_restaking_config b config) (\<lambda>c.
     and_then (vault_load e (rc_vault_program c) b vault False) (\<lambda>_.
     and_then (operator_vault_ticket_load e program_id b operator_vault_ticket operator vault True) (\<lambda>_.
     and_then (load_signer operator_vault_admin False) (\<lambda>_.
     and_then (get_operator b operator) (\<lambda>o1.
     and_then (restaking_res (err_if (op_vault_admin o1 \<noteq> ai_key operator_vault_admin) OperatorVaultAdminInvalid)) (\<lambda>_.
     and_then (get_operator_vault_ticket b operator_vault_ticket) (\<lambda>t.
     and_then (toggle_deactivate (ovt_state t) (e_slot e) (rc_epoch_length c)) (\<lambda>(state, changed).
     and_then (restaking_res (err_if (\<not> changed) OperatorVaultTicketFailedCooldown)) (\<lambda>_.
     Inr (set_data b (ai_key operator_vault_ticket) (OperatorVaultTicketD (t\<lparr>ovt_state := state\<rparr>)))))))))))))))"

definition process_warmup_ncn_vault_slasher_ticket ::
    "env \<Rightarrow> pubkey \<Rightarrow> bank \<Rightarrow> account_info list \<Rightarrow> program_error + bank" where
  "process_warmup_ncn_vault_slasher_ticket e program_id b accounts =
     and_then (accounts7 accounts) (\<lambda>(config, ncn, vault, slasher, ncn_vault_ticket, ncn_vault_slasher_ticket, admin).
     and_then (restaking_config_load e program_id b config False) (\<lambda>_.
     and_then (ncn_load e program_id b ncn False) (\<lambda>_.
     and_then (get_restaking_config b config) (\<lambda>c.
     and_then (vault_load e (rc_vault_program c) b vault False) (\<lambda>_.
     and_then (ncn_vault_ticket_load e program_id b ncn_vault_ticket ncn vault False) (\<lambda>_.
     and_then (ncn_vault_slasher_ticket_load e program_id b ncn_vault_slasher_ticket ncn vault slasher True) (\<lambda>_.
     and_then (load_signer admin False) (\<lambda>_.
     and_then (get_ncn b ncn) (\<lambda>n.
     and_then (restaking_res (err_if (ncn_slasher_admin n \<noteq> ai_key admin) NcnSlasherAdminInvalid)) (\<lambda>_.
     and_then (get_ncn_vault_slasher_ticket b ncn_vault_slasher_ticket) (\<lambda>t.
     and_then (toggle_activate (nvst_state t) (e_slot e) (rc_epoch_length c)) (\<lambda>(state, changed).
     and_then (restaking_res (err_if (\<not> changed) NcnVaultSlasherTicketFailedWarmup)) (\<lambda>_.
     Inr (set_data b (ai_key ncn_vault_slasher_ticket) (NcnVaultSlasherTicketD (t\<lparr>nvst_state := state\<rparr>))))))))))))))))"

definition process_cooldown_ncn_vault_slasher_ticket ::
    "env \<Rightarrow> pubkey \<Rightarrow> bank \<Rightarrow> account_info list \<Rightarrow> program_error + bank" where
  "process_cooldown_ncn_vault_slasher_ticket e program_id b accounts =
     and_then (accounts6 accounts) (\<lambda>(config, ncn, vault, slasher, ncn_vault_slasher_ticket, admin_info).
     and_then (restaking_config_load e program_id b config False) (\<lambda>_.
     and_then (ncn_load e program_id b ncn False) (\<lambda>_.
     and_then (get_restaking_config b config) (\<lambda>c.
     and_then (vault_load e (rc_vault_program c) b vault False) (\<lambda>_.
     and_then (ncn_vault_slasher_ticket_load e program_id b ncn_vault_slasher_ticket ncn vault slasher True) (\<lambda>_.
     and_then (load_signer admin_info False) (\<lambda>_.
     and_then (get_ncn b ncn) (\<lambda>n.
     and_then (restaking_res (err_if (ncn_slasher_admin n \<noteq> ai_key admin_info) NcnSlasherAdminInvalid)) (\<lambda>_.
     and_then (get_ncn_vault_slasher_ticket b ncn_vault_slasher_ticket) (\<lambda>t.
     and_then (toggle_deactivate (nvst_state t) (e_slot e) (rc_epoch_length c)) (\<lambda>(state, changed).
     and_then (restaking_res (err_if (\<not> changed) NcnVaultSlasherTicketFailedCooldown)) (\<lambda>_.
     Inr (set_data b (ai_key ncn_vault_slasher_ticket) (NcnVaultSlasherTicketD (t\<lparr>nvst_state := state\<rparr>)))))))))))))))"

subsection \<open>Administration\<close>

definition process_ncn_set_admin :: "env \<Rightarrow> pubkey \<Rightarrow> bank \<Rightarrow> account_info list \<Rightarrow> program_error + bank" where
  "process_ncn_set_admin e program_id b accounts =
     and_then (accounts3 accounts) (\<lambda>(ncn, old_admin, new_admin).
     and_then (ncn_load e program_id b ncn True) (\<lambda>_.
     and_then (load_signer old_admin False) (\<lambda>_.
     and_then (load_signer new_admin False) (\<lambda>_.
     and_then (get_ncn b ncn) (\<lambda>n.
     and_then (restaking_res (err_if (ncn_admin n \<noteq> ai_key old_admin) NcnAdminInvalid)) (\<lambda>_.
     let n = n\<lparr>ncn_admin := ai_key new_admin\<rparr>;
         n = ncn_update_secondary_admin n (ai_key old_admin) (ai_key new_admin) in
     Inr (set_data b (ai_key ncn) (NcnD n))))))))"

datatype ncn_admin_role =
    NcnOperatorAdmin | NcnVaultAdmin | NcnSlasherAdmin | NcnDelegateAdmin | NcnMetadataAdmin
  | NcnWeightTableAdmin | NcnProgramAdmin

fun set_ncn_role :: "ncn_admin_role \<Rightarrow> pubkey \<Rightarrow> ncn \<Rightarrow> ncn" where
  "set_ncn_role NcnOperatorAdmin k n = n\<lparr>ncn_operator_admin := k\<rparr>"
| "set_ncn_role NcnVaultAdmin k n = n\<lparr>ncn_vault_admin := k\<rparr>"
| "set_ncn_role NcnSlasherAdmin k n = n\<lparr>ncn_slasher_admin := k\<rparr>"
| "set_ncn_role NcnDelegateAdmin k n = n\<lparr>ncn_delegate_admin := k\<rparr>"
| "set_ncn_role NcnMetadataAdmin k n = n\<lparr>ncn_metadata_admin := k\<rparr>"
| "set_ncn_role NcnWeightTableAdmin k n = n\<lparr>ncn_weight_table_admin := k\<rparr>"
| "set_ncn_role NcnProgramAdmin k n = n\<lparr>ncn_ncn_program_admin := k\<rparr>"

definition process_ncn_set_secondary_admin ::
    "env \<Rightarrow> pubkey \<Rightarrow> bank \<Rightarrow> account_info list \<Rightarrow> ncn_admin_role \<Rightarrow> program_error + bank" where
  "process_ncn_set_secondary_admin e program_id b accounts role =
     and_then (accounts3 accounts) (\<lambda>(ncn, admin, new_admin).
     and_then (ncn_load e program_id b ncn True) (\<lambda>_.
     and_then (load_signer admin False) (\<lambda>_.
     and_then (get_ncn b ncn) (\<lambda>n.
     and_then (restaking_res (err_if (ncn_admin n \<noteq> ai_key admin) NcnAdminInvalid)) (\<lambda>_.
     Inr (set_data b (ai_key ncn) (NcnD (set_ncn_role role (ai_key new_admin) n))))))))"

definition process_set_node_operator_admin ::
    "env \<Rightarrow> pubkey \<Rightarrow> bank \<Rightarrow> account_info list \<Rightarrow> program_error + bank" where
  "process_set_node_operator_admin e program_id b accounts =
     and_then (accounts3 accounts) (\<lambda>(operator, old_admin, new_admin).
     and_then (operator_load e program_id b operator True) (\<lambda>_.
     and_then (load_signer old_admin False) (\<lambda>_.
     and_then (load_signer new_admin False) (\<lambda>_.
     and_then (get_operator b operator) (\<lambda>o1.
     and_then (restaking_res (operator_check_admin o1 (ai_key old_admin))) (\<lambda>_.
     let o1 = o1\<lparr>op_admin := ai_key new_admin\<rparr>;
         o1 = operator_update_secondary_admin o1 (ai_key old_admin) (ai_key new_admin) in
     Inr (set_data b (ai_key operator) (OperatorD o1))))))))"

datatype operator_admin_role =
    OperatorNcnAdmin | OperatorVaultAdmin | OperatorVoterAdmin | OperatorDelegateAdmin | OperatorMetadataAdmin

fun set_operator_role :: "operator_admin_role \<Rightarrow> pubkey \<Rightarrow> operator \<Rightarrow> operator" where
  "set_operator_role OperatorNcnAdmin k o1 = o1\<lparr>op_ncn_admin := k\<rparr>"
| "set_operator_role OperatorVaultAdmin k o1 = o1\<lparr>op_vault_admin := k\<rparr>"
| "set_operator_role OperatorVoterAdmin k o1 = o1\<lparr>op_voter := k\<rparr>"
| "set_operator_role OperatorDelegateAdmin k o1 = o1\<lparr>op_delegate_admin := k\<rparr>"
| "set_operator_role OperatorMetadataAdmin k o1 = o1\<lparr>op_metadata_admin := k\<rparr>"

definition process_set_operator_secondary_admin ::
    "env \<Rightarrow> pubkey \<Rightarrow> bank \<Rightarrow> account_info list \<Rightarrow> operator_admin_role \<Rightarrow> program_error + bank" where
  "process_set_operator_secondary_admin e program_id b accounts role =
     and_then (accounts3 accounts) (\<lambda>(operator, admin, new_admin).
     and_then (operator_load e program_id b operator True) (\<lambda>_.
     and_then (load_signer admin False) (\<lambda>_.
     and_then (get_operator b operator) (\<lambda>o1.
     and_then (restaking_res (err_if (op_admin o1 \<noteq> ai_key admin) OperatorAdminInvalid)) (\<lambda>_.
     Inr (set_data b (ai_key operator) (OperatorD (set_operator_role role (ai_key new_admin) o1))))))))"

definition process_operator_set_fee ::
    "env \<Rightarrow> pubkey \<Rightarrow> bank \<Rightarrow> account_info list \<Rightarrow> u16 \<Rightarrow> program_error + bank" where
  "process_operator_set_fee e program_id b accounts new_fee_bps =
     and_then (accounts3 accounts) (\<lambda>(_, operator_account, admin).
     and_then (operator_load e program_id b operator_account True) (\<lambda>_.
     and_then (load_signer admin False) (\<lambda>_.
     and_then (get_operator b operator_account) (\<lambda>o1.
     and_then (restaking_res (operator_check_admin o1 (ai_key admin))) (\<lambda>_.
     and_then (restaking_res (err_if (MAX_FEE_BPS < new_fee_bps) OperatorFeeCapExceeded)) (\<lambda>_.
     Inr (set_data b (ai_key operator_account) (OperatorD (o1\<lparr>op_operator_fee_bps := new_fee_bps\<rparr>)))))))))"

definition process_ncn_delegate_token_account ::
    "env \<Rightarrow> pubkey \<Rightarrow> bank \<Rightarrow> account_info list \<Rightarrow> program_error + bank" where
  "process_ncn_delegate_token_account e program_id b accounts =
     and_then (accounts6 accounts) (\<lambda>(ncn_info, delegate_admin, token_mint, token_account, delegate, token_program_info).
     and_then (ncn_load e program_id b ncn_info False) (\<lambda>_.
     and_then (load_signer delegate_admin False) (\<lambda>_.
     and_then (load_token_mint e b token_mint) (\<lambda>_.
     and_then (load_token_account e b token_account (ai_key ncn_info) (ai_key token_mint) token_program_info) (\<lambda>_.
     and_then (load_token_program e token_program_info) (\<lambda>_.
     and_then (err_if (owner_of b token_mint \<noteq> owner_of b token_account) InvalidAccountData) (\<lambda>_.
     and_then (get_ncn b ncn_info) (\<lambda>n.
     and_then (restaking_res (ncn_check_delegate_admin n (ai_key delegate_admin))) (\<lambda>_.
     e_invoke_signed e program_id
       (TokenApprove (ai_key token_program_info) (ai_key token_account) (ai_key delegate) (ai_key ncn_info) u64_MAX)
       [token_program_info, token_account, delegate, ncn_info] [ncn_seeds (ncn_base n) @ [[ncn_bump n]]] b)))))))))"

definition process_operator_delegate_token_account ::
    "env \<Rightarrow> pubkey \<Rightarrow> bank \<Rightarrow> account_info list \<Rightarrow> program_error + bank" where
  "process_operator_delegate_token_account e program_id b accounts =
     and_then (accounts6 accounts) (\<lambda>(operator_info, delegate_admin, token_mint, token_account, delegate,
       token_program_info).
     and_then (operator_load e program_id b operator_info False) (\<lambda>_.
     and_then (load_signer delegate_admin False) (\<lambda>_.
     and_then (load_token_mint e b token_mint) (\<lambda>_.
     and_then (load_token_account e b token_account (ai_key operator_info) (ai_key token_mint) token_program_info) (\<lambda>_.
     and_then (load_token_program e token_program_info) (\<lambda>_.
     and_then (err_if (owner_of b token_mint \<noteq> owner_of b token_account) InvalidAccountData) (\<lambda>_.
     and_then (get_operator b operator_info) (\<lambda>o1.
     and_then (restaking_res (operator_check_delegate_admin o1 (ai_key delegate_admin))) (\<lambda>_.
     e_invoke_signed e program_id
       (TokenApprove (ai_key token_program_info) (ai_key token_account) (ai_key delegate) (ai_key operator_info) u64_MAX)
       [token_program_info, token_account, delegate, operator_info] [operator_seeds (op_base o1) @ [[op_bump o1]]] b)))))))))"

end
