(* ===== verification/Restaking_Program.thy ===== *)
theory Restaking_Program
  imports Restaking_Handlers Account_Registry Sample_Bank
begin

text \<open>
  The restaking program as a whole (\<open>restaking_program/src/lib.rs\<close>): the instructions, the
  dispatcher, and what holds of every instruction and of every sequence of them. Each handler is
  shown to be a \<open>restaking_change\<close> of every account of the program, which says who must have
  signed for what; an account is created only under its parent, with the next index.
\<close>

section \<open>Definitions\<close>

datatype (plugins only: size) restaking_instruction =
    RestakingInitializeConfig
  | InitializeNcn
  | InitializeOperator u16
  | InitializeNcnVaultTicket
  | InitializeNcnOperatorState
  | InitializeNcnVaultSlasherTicket u64
  | InitializeOperatorVaultTicket
  | WarmupNcnVaultTicket
  | CooldownNcnVaultTicket
  | NcnWarmupOperator
  | NcnCooldownOperator
  | WarmupNcnVaultSlasherTicket
  | CooldownNcnVaultSlasherTicket
  | WarmupOperatorVaultTicket
  | CooldownOperatorVaultTicket
  | OperatorWarmupNcn
  | OperatorCooldownNcn
  | NcnSetAdmin
  | NcnSetSecondaryAdmin ncn_admin_role
  | OperatorSetAdmin
  | OperatorSetSecondaryAdmin operator_admin_role
  | OperatorSetFee u16
  | NcnDelegateTokenAccount
  | OperatorDelegateTokenAccount
  | RestakingSetConfigAdmin

definition restaking_dispatch ::
    "env \<Rightarrow> pubkey \<Rightarrow> bank \<Rightarrow> account_info list \<Rightarrow> restaking_instruction \<Rightarrow> program_error + bank" where
  "restaking_dispatch e program_id b accounts instruction =
     (case instruction of
        RestakingInitializeConfig \<Rightarrow> restaking_process_initialize_config e program_id b accounts
      | InitializeNcn \<Rightarrow> process_initialize_ncn e program_id b accounts
      | InitializeOperator operator_fee_bps \<Rightarrow> process_initialize_operator e program_id b accounts operator_fee_bps
      | InitializeNcnVaultTicket \<Rightarrow> process_initialize_ncn_vault_ticket e program_id b accounts
      | InitializeNcnOperatorState \<Rightarrow> process_initialize_ncn_operator_state e program_id b accounts
      | InitializeNcnVaultSlasherTicket max_slashable_per_epoch \<Rightarrow>
          process_initialize_ncn_vault_slasher_ticket e program_id b accounts max_slashable_per_epoch
      | InitializeOperatorVaultTicket \<Rightarrow> process_initialize_operator_vault_ticket e program_id b accounts
      | WarmupNcnVaultTicket \<Rightarrow> process_warmup_ncn_vault_ticket e program_id b accounts
      | CooldownNcnVaultTicket \<Rightarrow> process_cooldown_ncn_vault_ticket e program_id b accounts
      | NcnWarmupOperator \<Rightarrow> process_ncn_warmup_operator e program_id b accounts
      | NcnCooldownOperator \<Rightarrow> process_ncn_cooldown_operator e program_id b accounts
      | WarmupNcnVaultSlasherTicket \<Rightarrow> process_warmup_ncn_vault_slasher_ticket e program_id b accounts
      | CooldownNcnVaultSlasherTicket \<Rightarrow> process_cooldown_ncn_vault_slasher_ticket e program_id b accounts
      | WarmupOperatorVaultTicket \<Rightarrow> process_warmup_operator_vault_ticket e program_id b accounts
      | CooldownOperatorVaultTicket \<Rightarrow> process_cooldown_operator_vault_ticket e program_id b accounts
      | OperatorWarmupNcn \<Rightarrow> process_operator_warmup_ncn e program_id b accounts
      | OperatorCooldownNcn \<Rightarrow> process_operator_cooldown_ncn e program_id b accounts
      | NcnSetAdmin \<Rightarrow> process_ncn_set_admin e program_id b accounts
      | NcnSetSecondaryAdmin role \<Rightarrow> process_ncn_set_secondary_admin e program_id b accounts role
      | OperatorSetAdmin \<Rightarrow> process_set_node_operator_admin e program_id b accounts
      | OperatorSetSecondaryAdmin role \<Rightarrow> process_set_operator_secondary_admin e program_id b accounts role
      | OperatorSetFee new_fee_bps \<Rightarrow> process_operator_set_fee e program_id b accounts new_fee_bps
      | NcnDelegateTokenAccount \<Rightarrow> process_ncn_delegate_token_account e program_id b accounts
      | OperatorDelegateTokenAccount \<Rightarrow> process_operator_delegate_token_account e program_id b accounts
      | RestakingSetConfigAdmin \<Rightarrow> restaking_process_set_config_admin e program_id b accounts)"

definition restaking_process_instruction ::
    "env \<Rightarrow> pubkey \<Rightarrow> (u8 list \<Rightarrow> program_error + restaking_instruction) \<Rightarrow> pubkey \<Rightarrow> bank \<Rightarrow> account_info list
     \<Rightarrow> u8 list \<Rightarrow> program_error + bank" where
  "restaking_process_instruction e declared_id decode program_id b accounts instruction_data =
     and_then (err_if (program_id \<noteq> declared_id) IncorrectProgramId) (\<lambda>_.
     and_then (decode instruction_data) (\<lambda>instruction.
     restaking_dispatch e program_id b accounts instruction))"

subsection \<open>What an instruction may do to an account\<close>

definition config_change :: "(pubkey \<Rightarrow> bool) \<Rightarrow> restaking_config \<Rightarrow> restaking_config \<Rightarrow> bool" where
  "config_change S c c' \<longleftrightarrow>
     rc_vault_program c' = rc_vault_program c \<and> rc_epoch_length c' = rc_epoch_length c \<and> rc_bump c' = rc_bump c \<and>
     rc_ncn_count c \<le> rc_ncn_count c' \<and> rc_operator_count c \<le> rc_operator_count c' \<and>
     (rc_admin c' \<noteq> rc_admin c \<longrightarrow> S (rc_admin c))"

definition ncn_roles :: "ncn \<Rightarrow> pubkey list" where
  "ncn_roles n = [ncn_operator_admin n, ncn_vault_admin n, ncn_slasher_admin n, ncn_delegate_admin n,
     ncn_metadata_admin n, ncn_weight_table_admin n, ncn_ncn_program_admin n]"

definition ncn_change :: "(pubkey \<Rightarrow> bool) \<Rightarrow> ncn \<Rightarrow> ncn \<Rightarrow> bool" where
  "ncn_change S n n' \<longleftrightarrow>
     ncn_base n' = ncn_base n \<and> ncn_index n' = ncn_index n \<and> ncn_bump n' = ncn_bump n \<and>
     ncn_operator_count n \<le> ncn_operator_count n' \<and> ncn_vault_count n \<le> ncn_vault_count n' \<and>
     ncn_slasher_count n \<le> ncn_slasher_count n' \<and>
     (ncn_admin n' \<noteq> ncn_admin n \<longrightarrow> S (ncn_admin n) \<and> S (ncn_admin n')) \<and>
     (ncn_roles n' \<noteq> ncn_roles n \<longrightarrow> S (ncn_admin n)) \<and>
     (ncn_operator_count n' \<noteq> ncn_operator_count n \<longrightarrow> S (ncn_operator_admin n)) \<and>
     (ncn_vault_count n' \<noteq> ncn_vault_count n \<longrightarrow> S (ncn_vault_admin n)) \<and>
     (ncn_slasher_count n' \<noteq> ncn_slasher_count n \<longrightarrow> S (ncn_slasher_admin n))"

definition operator_roles :: "operator \<Rightarrow> pubkey list" where
  "operator_roles o1 = [op_ncn_admin o1, op_vault_admin o1, op_delegate_admin o1, op_metadata_admin o1, op_voter o1]"

definition operator_change :: "(pubkey \<Rightarrow> bool) \<Rightarrow> operator \<Rightarrow> operator \<Rightarrow> bool" where
  "operator_change S o1 o2 \<longleftrightarrow>
     op_base o2 = op_base o1 \<and> op_index o2 = op_index o1 \<and> op_bump o2 = op_bump o1 \<and>
     op_ncn_count o1 \<le> op_ncn_count o2 \<and> op_vault_count o1 \<le> op_vault_count o2 \<and>
     (op_operator_fee_bps o1 \<le> MAX_FEE_BPS \<longrightarrow> op_operator_fee_bps o2 \<le> MAX_FEE_BPS) \<and>
     (op_admin o2 \<noteq> op_admin o1 \<longrightarrow> S (op_admin o1) \<and> S (op_admin o2)) \<and>
     (operator_roles o2 \<noteq> operator_roles o1 \<longrightarrow> S (op_admin o1)) \<and>
     (op_operator_fee_bps o2 \<noteq> op_operator_fee_bps o1 \<longrightarrow> S (op_admin o1)) \<and>
     (op_vault_count o2 \<noteq> op_vault_count o1 \<longrightarrow> S (op_vault_admin o1))"

text \<open>
  A ticket changes only by switching a toggle, which is due to an administrator of the NCN or
  operator the ticket's address is derived from. The switch is the one that the instruction asks for,
  \<open>Some True\<close> for a warm-up and \<open>Some False\<close> for a cool-down, at the current slot and with the epoch
  length of the configuration account.
\<close>

fun toggle_direction :: "restaking_instruction \<Rightarrow> bool option" where
  "toggle_direction WarmupNcnVaultTicket = Some True"
| "toggle_direction NcnWarmupOperator = Some True"
| "toggle_direction WarmupNcnVaultSlasherTicket = Some True"
| "toggle_direction WarmupOperatorVaultTicket = Some True"
| "toggle_direction OperatorWarmupNcn = Some True"
| "toggle_direction CooldownNcnVaultTicket = Some False"
| "toggle_direction NcnCooldownOperator = Some False"
| "toggle_direction CooldownNcnVaultSlasherTicket = Some False"
| "toggle_direction CooldownOperatorVaultTicket = Some False"
| "toggle_direction OperatorCooldownNcn = Some False"
| "toggle_direction _ = None"

definition switched :: "env \<Rightarrow> pubkey \<Rightarrow> bool option \<Rightarrow> bank \<Rightarrow> slot_toggle \<Rightarrow> slot_toggle \<Rightarrow> bool" where
  "switched e p w b t t' \<longleftrightarrow>
     (let config = b (fst (restaking_config_find_program_address e p)) in
      a_owner config = p \<and>
      (case a_data config of
         RestakingConfigD c \<Rightarrow>
           (case w of
              Some True \<Rightarrow> toggle_activate t (e_slot e) (rc_epoch_length c) = Inr (t', True)
            | Some False \<Rightarrow> toggle_deactivate t (e_slot e) (rc_epoch_length c) = Inr (t', True)
            | None \<Rightarrow> False)
       | _ \<Rightarrow> False))"

definition ncn_signed :: "pubkey \<Rightarrow> (pubkey \<Rightarrow> bool) \<Rightarrow> bank \<Rightarrow> (ncn \<Rightarrow> pubkey) \<Rightarrow> pubkey \<Rightarrow> bool" where
  "ncn_signed p S b role k \<longleftrightarrow> (\<exists>n. a_owner (b k) = p \<and> a_data (b k) = NcnD n \<and> S (role n))"

definition operator_signed :: "pubkey \<Rightarrow> (pubkey \<Rightarrow> bool) \<Rightarrow> bank \<Rightarrow> (operator \<Rightarrow> pubkey) \<Rightarrow> pubkey \<Rightarrow> bool" where
  "operator_signed p S b role k \<longleftrightarrow> (\<exists>o1. a_owner (b k) = p \<and> a_data (b k) = OperatorD o1 \<and> S (role o1))"

definition ncn_operator_state_change ::
    "env \<Rightarrow> pubkey \<Rightarrow> (pubkey \<Rightarrow> bool) \<Rightarrow> bool option \<Rightarrow> bank \<Rightarrow> pubkey \<Rightarrow> ncn_operator_state \<Rightarrow> ncn_operator_state \<Rightarrow> bool" where
  "ncn_operator_state_change e p S w b k s s' \<longleftrightarrow>
     s' = s \<or>
     (\<exists>nk ok t. k = fst (ncn_operator_state_find_program_address e p nk ok) \<and>
        (s' = s\<lparr>nos_ncn_opt_in_state := t\<rparr> \<and> switched e p w b (nos_ncn_opt_in_state s) t
           \<and> ncn_signed p S b ncn_operator_admin nk \<or>
         s' = s\<lparr>nos_operator_opt_in_state := t\<rparr> \<and> switched e p w b (nos_operator_opt_in_state s) t
           \<and> operator_signed p S b op_ncn_admin ok))"

definition ncn_vault_ticket_change ::
    "env \<Rightarrow> pubkey \<Rightarrow> (pubkey \<Rightarrow> bool) \<Rightarrow> bool option \<Rightarrow> bank \<Rightarrow> pubkey \<Rightarrow> ncn_vault_ticket \<Rightarrow> ncn_vault_ticket \<Rightarrow> bool" where
  "ncn_vault_ticket_change e p S w b k s s' \<longleftrightarrow>
     s' = s \<or>
     (\<exists>nk vk t. k = fst (ncn_vault_ticket_find_program_address e p nk vk) \<and>
        s' = s\<lparr>nvt_state := t\<rparr> \<and> switched e p w b (nvt_state s) t \<and> ncn_signed p S b ncn_vault_admin nk)"

definition operator_vault_ticket_change ::
    "env \<Rightarrow> pubkey \<Rightarrow> (pubkey \<Rightarrow> bool) \<Rightarrow> bool option \<Rightarrow> bank \<Rightarrow> pubkey \<Rightarrow> operator_vault_ticket \<Rightarrow> operator_vault_ticket \<Rightarrow> bool" where
  "operator_vault_ticket_change e p S w b k s s' \<longleftrightarrow>
     s' = s \<or>
     (\<exists>ok vk t. k = fst (operator_vault_ticket_find_program_address e p ok vk) \<and>
        s' = s\<lparr>ovt_state := t\<rparr> \<and> switched e p w b (ovt_state s) t \<and> operator_signed p S b op_vault_admin ok)"

definition ncn_vault_slasher_ticket_change ::
    "env \<Rightarrow> pubkey \<Rightarrow> (pubkey \<Rightarrow> bool) \<Rightarrow> bool option \<Rightarrow> bank \<Rightarrow> pubkey \<Rightarrow> ncn_vault_slasher_ticket \<Rightarrow> ncn_vault_slasher_ticket
     \<Rightarrow> bool" where
  "ncn_vault_slasher_ticket_change e p S w b k s s' \<longleftrightarrow>
     s' = s \<or>
     (\<exists>nk vk sk t. k = fst (ncn_vault_slasher_ticket_find_program_address e p nk vk sk) \<and>
        s' = s\<lparr>nvst_state := t\<rparr> \<and> switched e p w b (nvst_state s) t \<and> ncn_signed p S b ncn_slasher_admin nk)"

definition restaking_change ::
    "env \<Rightarrow> pubkey \<Rightarrow> (pubkey \<Rightarrow> bool) \<Rightarrow> bool option \<Rightarrow> bank \<Rightarrow> pubkey \<Rightarrow> account_data \<Rightarrow> account_data \<Rightarrow> bool" where
  "restaking_change e p S w b k d d' =
     (case d of
        RestakingConfigD c \<Rightarrow> (\<exists>c'. d' = RestakingConfigD c' \<and> config_change S c c')
      | NcnD n \<Rightarrow> (\<exists>n'. d' = NcnD n' \<and> ncn_change S n n')
      | OperatorD o1 \<Rightarrow> (\<exists>o2. d' = OperatorD o2 \<and> operator_change S o1 o2)
      | NcnOperatorStateD s \<Rightarrow> (\<exists>s'. d' = NcnOperatorStateD s' \<and> ncn_operator_state_change e p S w b k s s')
      | NcnVaultTicketD s \<Rightarrow> (\<exists>s'. d' = NcnVaultTicketD s' \<and> ncn_vault_ticket_change e p S w b k s s')
      | OperatorVaultTicketD s \<Rightarrow> (\<exists>s'. d' = OperatorVaultTicketD s' \<and> operator_vault_ticket_change e p S w b k s s')
      | NcnVaultSlasherTicketD s \<Rightarrow>
          (\<exists>s'. d' = NcnVaultSlasherTicketD s' \<and> ncn_vault_slasher_ticket_change e p S w b k s s')
      | Bytes bs \<Rightarrow> True
      | _ \<Rightarrow> d' = d)"

definition changes_restaking :: "env \<Rightarrow> pubkey \<Rightarrow> (pubkey \<Rightarrow> bool) \<Rightarrow> bool option \<Rightarrow> bank \<Rightarrow> bank \<Rightarrow> bool" where
  "changes_restaking e p S w b b' \<longleftrightarrow>
     (\<forall>k. a_owner (b k) = p \<longrightarrow> a_owner (b' k) = p \<and> restaking_change e p S w b k (a_data (b k)) (a_data (b' k)))"

section \<open>Each handler\<close>

lemma change_refl [simp]:
  "config_change S c c" "ncn_change S n n" "operator_change S o1 o1" "ncn_operator_state_change e p S w b k s1 s1"
  "ncn_vault_ticket_change e p S w b k s2 s2" "operator_vault_ticket_change e p S w b k s3 s3"
  "ncn_vault_slasher_ticket_change e p S w b k s4 s4"
  by (simp_all add: config_change_def ncn_change_def operator_change_def ncn_operator_state_change_def
      ncn_vault_ticket_change_def operator_vault_ticket_change_def ncn_vault_slasher_ticket_change_def)

lemma restaking_change_refl [simp]: "restaking_change e p S w b k d d"
  by (cases d) (simp_all add: restaking_change_def)

lemma restaking_change_simps [simp]:
  "restaking_change e p S w b k (Bytes bs) d"
  "restaking_change e p S w b k (RestakingConfigD c) (RestakingConfigD c') = config_change S c c'"
  "restaking_change e p S w b k (NcnD n) (NcnD n') = ncn_change S n n'"
  "restaking_change e p S w b k (OperatorD o1) (OperatorD o2) = operator_change S o1 o2"
  "restaking_change e p S w b k (NcnOperatorStateD s1) (NcnOperatorStateD t1) = ncn_operator_state_change e p S w b k s1 t1"
  "restaking_change e p S w b k (NcnVaultTicketD s2) (NcnVaultTicketD t2) = ncn_vault_ticket_change e p S w b k s2 t2"
  "restaking_change e p S w b k (OperatorVaultTicketD s3) (OperatorVaultTicketD t3)
     = operator_vault_ticket_change e p S w b k s3 t3"
  "restaking_change e p S w b k (NcnVaultSlasherTicketD s4) (NcnVaultSlasherTicketD t4)
     = ncn_vault_slasher_ticket_change e p S w b k s4 t4"
  by (simp_all add: restaking_change_def)

lemma changes_outside: "outside_step p b b' \<Longrightarrow> changes_restaking e p S w b b'"
  by (simp add: changes_restaking_def outside_step_def keeps_owned_def)

lemma changes_set:
  assumes "changes_restaking e p S w b b1" and "restaking_change e p S w b k (a_data (b k)) d"
  shows "changes_restaking e p S w b (set_data b1 k d)"
  using assms by (simp add: changes_restaking_def)

text \<open>Counters and administrators.\<close>

lemma increments_change:
  "config_increment_ncn_count c = Inr c' \<Longrightarrow> config_change S c c'"
  "config_increment_operator_count c = Inr c' \<Longrightarrow> config_change S c c'"
  "ncn_increment_operator_count n = Inr n' \<Longrightarrow> S (ncn_operator_admin n) \<Longrightarrow> ncn_change S n n'"
  "ncn_increment_vault_count n = Inr n' \<Longrightarrow> S (ncn_vault_admin n) \<Longrightarrow> ncn_change S n n'"
  "ncn_increment_slasher_count n = Inr n' \<Longrightarrow> S (ncn_slasher_admin n) \<Longrightarrow> ncn_change S n n'"
  "operator_increment_ncn_count o1 = Inr o2 \<Longrightarrow> operator_change S o1 o2"
  "operator_increment_vault_count o1 = Inr o2 \<Longrightarrow> S (op_vault_admin o1) \<Longrightarrow> operator_change S o1 o2"
  by (auto simp: config_increment_ncn_count_def config_increment_operator_count_def ncn_increment_operator_count_def
      ncn_increment_vault_count_def ncn_increment_slasher_count_def operator_increment_ncn_count_def
      operator_increment_vault_count_def and_then_Inr_iff ok_or_Inr_iff checked_add_iff word_le_nat_alt
      config_change_def ncn_change_def operator_change_def ncn_roles_def operator_roles_def)

lemma admin_change:
  "S (rc_admin c) \<Longrightarrow> config_change S c (restaking_config_set_admin c k)"
  "S a \<Longrightarrow> S k \<Longrightarrow> ncn_admin n = a \<Longrightarrow> ncn_change S n (ncn_update_secondary_admin (n\<lparr>ncn_admin := k\<rparr>) a k)"
  "S a \<Longrightarrow> S k \<Longrightarrow> op_admin o1 = a \<Longrightarrow> operator_change S o1 (operator_update_secondary_admin (o1\<lparr>op_admin := k\<rparr>) a k)"
  "S a \<Longrightarrow> op_admin o1 = a \<Longrightarrow> fee \<le> MAX_FEE_BPS \<Longrightarrow> operator_change S o1 (o1\<lparr>op_operator_fee_bps := fee\<rparr>)"
  by (simp_all add: config_change_def restaking_config_set_admin_def ncn_change_def operator_change_def ncn_roles_def
      operator_roles_def ncn_update_secondary_admin_def operator_update_secondary_admin_def Let_def)

lemma role_change:
  "S a \<Longrightarrow> ncn_admin n = a \<Longrightarrow> ncn_change S n (set_ncn_role role k n)"
  "S a \<Longrightarrow> op_admin o1 = a \<Longrightarrow> operator_change S o1 (set_operator_role orole k o1)"
  by (cases role; simp add: ncn_change_def ncn_roles_def) (cases orole; simp add: operator_change_def operator_roles_def)

lemmas restaking_simps = Let_def and_then_Inr_iff map_err_Inr_iff err_if_Inr_iff get_iffs restaking_check_iffs
  accounts_iffs load_signer_iff init_account_iff check_new_account_iff case_prod_beta

subsection \<open>Writes to one struct\<close>

text \<open>
  The lists of the restaking program: the NCNs and operators of the configuration, whose account
  is at \<open>config_key\<close>; the operators, vaults and slashers of an NCN; and the vaults of an operator.
\<close>

datatype restaking_list = NcnList | OperatorList | NcnOperators | NcnVaults | NcnSlashers | OperatorVaults

definition restaking_reg :: "pubkey \<Rightarrow> account_data \<Rightarrow> (restaking_list \<times> pubkey \<times> u64) option" where
  "restaking_reg config_key d =
     (case d of
        NcnD n \<Rightarrow> Some (NcnList, config_key, ncn_index n)
      | OperatorD o1 \<Rightarrow> Some (OperatorList, config_key, op_index o1)
      | NcnOperatorStateD s \<Rightarrow> Some (NcnOperators, nos_ncn s, nos_index s)
      | NcnVaultTicketD t \<Rightarrow> Some (NcnVaults, nvt_ncn t, nvt_index t)
      | NcnVaultSlasherTicketD t \<Rightarrow> Some (NcnSlashers, nvst_ncn t, nvst_index t)
      | OperatorVaultTicketD t \<Rightarrow> Some (OperatorVaults, ovt_operator t, ovt_index t)
      | _ \<Rightarrow> None)"

definition restaking_count :: "restaking_list \<Rightarrow> account_data \<Rightarrow> u64 option" where
  "restaking_count l d =
     (case (l, d) of
        (NcnList, RestakingConfigD c) \<Rightarrow> Some (rc_ncn_count c)
      | (OperatorList, RestakingConfigD c) \<Rightarrow> Some (rc_operator_count c)
      | (NcnOperators, NcnD n) \<Rightarrow> Some (ncn_operator_count n)
      | (NcnVaults, NcnD n) \<Rightarrow> Some (ncn_vault_count n)
      | (NcnSlashers, NcnD n) \<Rightarrow> Some (ncn_slasher_count n)
      | (OperatorVaults, OperatorD o1) \<Rightarrow> Some (op_vault_count o1)
      | _ \<Rightarrow> None)"

interpretation restaking_numbers: numbered "restaking_reg config_key" restaking_count for config_key
  by unfold_locales (auto simp: restaking_reg_def restaking_count_def split: restaking_list.splits)

text \<open>A handler that writes to one struct and leaves the length of its lists.\<close>

definition one_write :: "env \<Rightarrow> pubkey \<Rightarrow> (pubkey \<Rightarrow> bool) \<Rightarrow> bool option \<Rightarrow> bank \<Rightarrow> bank \<Rightarrow> bool" where
  "one_write e p S w b b' \<longleftrightarrow>
     (\<exists>k d. is_struct (a_data (b k)) \<and> restaking_change e p S w b k (a_data (b k)) d \<and>
        (\<forall>l. restaking_count l d = restaking_count l (a_data (b k))) \<and> b' = set_data b k d)"

lemma one_writeI:
  assumes "a_data (b k) = d" and "is_struct d" and "restaking_change e p S w b k d d'"
    and "\<And>l. restaking_count l d' = restaking_count l d"
  shows "one_write e p S w b (set_data b k d')"
  using assms by (auto simp: one_write_def)

lemma one_write_changes: "one_write e p S w b b' \<Longrightarrow> changes_restaking e p S w b b' \<and> structs p b' \<subseteq> structs p b"
  using structs_set_struct
  by (fastforce simp: one_write_def intro: changes_set [OF changes_outside [OF outside_step_refl]])

lemma same_counts:
  "restaking_count l (RestakingConfigD (restaking_config_set_admin c k)) = restaking_count l (RestakingConfigD c)"
  "restaking_count l (NcnD (ncn_update_secondary_admin (n\<lparr>ncn_admin := k\<rparr>) a k')) = restaking_count l (NcnD n)"
  "restaking_count l (NcnD (set_ncn_role role k n)) = restaking_count l (NcnD n)"
  "restaking_count l (OperatorD (operator_update_secondary_admin (o1\<lparr>op_admin := k\<rparr>) a k')) = restaking_count l (OperatorD o1)"
  "restaking_count l (OperatorD (set_operator_role orole k o1)) = restaking_count l (OperatorD o1)"
  "restaking_count l (OperatorD (o1\<lparr>op_operator_fee_bps := fee\<rparr>)) = restaking_count l (OperatorD o1)"
  by (cases l; cases role; cases orole;
      simp add: restaking_count_def restaking_config_set_admin_def ncn_update_secondary_admin_def
        operator_update_secondary_admin_def Let_def)+

lemma no_counts [simp]:
  "restaking_count l (Bytes bs) = None" "restaking_count l (NcnOperatorStateD s1) = None"
  "restaking_count l (NcnVaultTicketD s2) = None" "restaking_count l (OperatorVaultTicketD s3) = None"
  "restaking_count l (NcnVaultSlasherTicketD s4) = None"
  by (cases l; simp add: restaking_count_def)+

lemma admin_one_write:
  "restaking_process_set_config_admin e p b accounts = Inr b' \<Longrightarrow> one_write e p (signed_by accounts) w b b'"
  "process_ncn_set_admin e p b accounts = Inr b' \<Longrightarrow> one_write e p (signed_by accounts) w b b'"
  "process_ncn_set_secondary_admin e p b accounts role = Inr b' \<Longrightarrow> one_write e p (signed_by accounts) w b b'"
  "process_set_node_operator_admin e p b accounts = Inr b' \<Longrightarrow> one_write e p (signed_by accounts) w b b'"
  "process_set_operator_secondary_admin e p b accounts orole = Inr b' \<Longrightarrow> one_write e p (signed_by accounts) w b b'"
  "process_operator_set_fee e p b accounts fee = Inr b' \<Longrightarrow> one_write e p (signed_by accounts) w b b'"
  by (auto simp: restaking_process_set_config_admin_def process_ncn_set_admin_def process_ncn_set_secondary_admin_def
      process_set_node_operator_admin_def process_set_operator_secondary_admin_def process_operator_set_fee_def
      restaking_simps signed_by_def not_less intro!: one_writeI admin_change role_change same_counts)

text \<open>The handlers that switch a toggle.\<close>

lemma signedI:
  "ncn_load e p b ni wr = Inr u1 \<Longrightarrow> a_data (b (ai_key ni)) = NcnD n \<Longrightarrow> S (role n) \<Longrightarrow> ncn_signed p S b role (ai_key ni)"
  "operator_load e p b oi wr = Inr u1 \<Longrightarrow> a_data (b (ai_key oi)) = OperatorD o1 \<Longrightarrow> S (orole o1) \<Longrightarrow>
     operator_signed p S b orole (ai_key oi)"
  by (auto simp: base_load_iffs ncn_signed_def operator_signed_def)

lemma switched_ncn_operator:
  assumes "ncn_operator_state_load e p b si ni oi True = Inr u" and "switched e p w b (nos_ncn_opt_in_state s) t"
    and "ncn_load e p b ni wr = Inr u1" and "a_data (b (ai_key ni)) = NcnD n" and "S (ncn_operator_admin n)"
  shows "ncn_operator_state_change e p S w b (ai_key si) s (s\<lparr>nos_ncn_opt_in_state := t\<rparr>)"
  using signedI(1) [where S = S and role = ncn_operator_admin, OF assms(3-5)] assms(1,2) unfolding ncn_operator_state_change_def pda_load_iffs by blast

lemma switched_operator_ncn:
  assumes "ncn_operator_state_load e p b si ni oi True = Inr u" and "switched e p w b (nos_operator_opt_in_state s) t"
    and "operator_load e p b oi wr = Inr u1" and "a_data (b (ai_key oi)) = OperatorD o1" and "S (op_ncn_admin o1)"
  shows "ncn_operator_state_change e p S w b (ai_key si) s (s\<lparr>nos_operator_opt_in_state := t\<rparr>)"
  using signedI(2) [where S = S and orole = op_ncn_admin, OF assms(3-5)] assms(1,2) unfolding ncn_operator_state_change_def pda_load_iffs by blast

lemma switched_ncn_vault:
  assumes "ncn_vault_ticket_load e p b si ni vi True = Inr u" and "switched e p w b (nvt_state s) t"
    and "ncn_load e p b ni wr = Inr u1" and "a_data (b (ai_key ni)) = NcnD n" and "S (ncn_vault_admin n)"
  shows "ncn_vault_ticket_change e p S w b (ai_key si) s (s\<lparr>nvt_state := t\<rparr>)"
  using signedI(1) [where S = S and role = ncn_vault_admin, OF assms(3-5)] assms(1,2) unfolding ncn_vault_ticket_change_def pda_load_iffs by blast

lemma switched_operator_vault:
  assumes "operator_vault_ticket_load e p b si oi vi True = Inr u" and "switched e p w b (ovt_state s) t"
    and "operator_load e p b oi wr = Inr u1" and "a_data (b (ai_key oi)) = OperatorD o1" and "S (op_vault_admin o1)"
  shows "operator_vault_ticket_change e p S w b (ai_key si) s (s\<lparr>ovt_state := t\<rparr>)"
  using signedI(2) [where S = S and orole = op_vault_admin, OF assms(3-5)] assms(1,2) unfolding operator_vault_ticket_change_def pda_load_iffs by blast

lemma switched_slasher:
  assumes "ncn_vault_slasher_ticket_load e p b si ni vi sl True = Inr u" and "switched e p w b (nvst_state s) t"
    and "ncn_load e p b ni wr = Inr u1" and "a_data (b (ai_key ni)) = NcnD n" and "S (ncn_slasher_admin n)"
  shows "ncn_vault_slasher_ticket_change e p S w b (ai_key si) s (s\<lparr>nvst_state := t\<rparr>)"
  using signedI(1) [where S = S and role = ncn_slasher_admin, OF assms(3-5)] assms(1,2) unfolding ncn_vault_slasher_ticket_change_def pda_load_iffs by blast

lemma switchedI:
  assumes "restaking_config_load e p b ci wr = Inr u" and "a_data (b (ai_key ci)) = RestakingConfigD c"
  shows "toggle_activate t (e_slot e) (rc_epoch_length c) = Inr (t', True) \<Longrightarrow> switched e p (Some True) b t t'"
    and "toggle_deactivate t (e_slot e) (rc_epoch_length c) = Inr (t', True) \<Longrightarrow> switched e p (Some False) b t t'"
  using assms by (auto simp: switched_def pda_load_iffs Let_def)

lemma toggle_one_write:
  "process_ncn_warmup_operator e p b accounts = Inr b' \<Longrightarrow> one_write e p (signed_by accounts) (Some True) b b'"
  "process_ncn_cooldown_operator e p b accounts = Inr b' \<Longrightarrow> one_write e p (signed_by accounts) (Some False) b b'"
  "process_operator_warmup_ncn e p b accounts = Inr b' \<Longrightarrow> one_write e p (signed_by accounts) (Some True) b b'"
  "process_operator_cooldown_ncn e p b accounts = Inr b' \<Longrightarrow> one_write e p (signed_by accounts) (Some False) b b'"
  "process_warmup_ncn_vault_ticket e p b accounts = Inr b' \<Longrightarrow> one_write e p (signed_by accounts) (Some True) b b'"
  "process_cooldown_ncn_vault_ticket e p b accounts = Inr b' \<Longrightarrow> one_write e p (signed_by accounts) (Some False) b b'"
  "process_warmup_operator_vault_ticket e p b accounts = Inr b' \<Longrightarrow> one_write e p (signed_by accounts) (Some True) b b'"
  "process_cooldown_operator_vault_ticket e p b accounts = Inr b' \<Longrightarrow> one_write e p (signed_by accounts) (Some False) b b'"
  "process_warmup_ncn_vault_slasher_ticket e p b accounts = Inr b' \<Longrightarrow> one_write e p (signed_by accounts) (Some True) b b'"
  "process_cooldown_ncn_vault_slasher_ticket e p b accounts = Inr b' \<Longrightarrow> one_write e p (signed_by accounts) (Some False) b b'"
  by (clarsimp simp: process_ncn_warmup_operator_def process_ncn_cooldown_operator_def process_operator_warmup_ncn_def
      process_operator_cooldown_ncn_def process_warmup_ncn_vault_ticket_def process_cooldown_ncn_vault_ticket_def
      process_warmup_operator_vault_ticket_def process_cooldown_operator_vault_ticket_def
      process_warmup_ncn_vault_slasher_ticket_def process_cooldown_ncn_vault_slasher_ticket_def restaking_simps,
      rule one_writeI, assumption, simp, simp,
      rule switched_ncn_operator switched_operator_ncn switched_ncn_vault switched_operator_vault switched_slasher,
      assumption, erule (2) switchedI, assumption, assumption, simp add: signed_by_def, simp)+

subsection \<open>New accounts\<close>

text \<open>Every struct is at the address derived from its contents, and fees stay within one hundred percent.\<close>

definition restaking_account_ok :: "(seeds \<Rightarrow> pubkey \<Rightarrow> pubkey \<times> u8) \<Rightarrow> pubkey \<Rightarrow> pubkey \<Rightarrow> account_data \<Rightarrow> bool" where
  "restaking_account_ok find_address p k d =
     (case d of
        RestakingConfigD c \<Rightarrow> k = fst (find_address restaking_config_seeds p)
      | NcnD n \<Rightarrow> k = fst (find_address (ncn_seeds (ncn_base n)) p)
      | OperatorD o1 \<Rightarrow> k = fst (find_address (operator_seeds (op_base o1)) p) \<and> op_operator_fee_bps o1 \<le> MAX_FEE_BPS
      | NcnOperatorStateD s \<Rightarrow> k = fst (find_address (ncn_operator_state_seeds (nos_ncn s) (nos_operator s)) p)
      | NcnVaultTicketD t \<Rightarrow> k = fst (find_address (ncn_vault_ticket_seeds (nvt_ncn t) (nvt_vault t)) p)
      | NcnVaultSlasherTicketD t \<Rightarrow>
          k = fst (find_address (ncn_vault_slasher_ticket_seeds (nvst_ncn t) (nvst_vault t) (nvst_slasher t)) p)
      | OperatorVaultTicketD t \<Rightarrow> k = fst (find_address (operator_vault_ticket_seeds (ovt_operator t) (ovt_vault t)) p)
      | _ \<Rightarrow> True)"

definition restaking_ok :: "(seeds \<Rightarrow> pubkey \<Rightarrow> pubkey \<times> u8) \<Rightarrow> pubkey \<Rightarrow> bank \<Rightarrow> bool" where
  "restaking_ok find_address p b \<longleftrightarrow>
     numbering_ok (restaking_reg (fst (find_address restaking_config_seeds p))) restaking_count p b \<and>
     (\<forall>k. a_owner (b k) = p \<longrightarrow> restaking_account_ok find_address p k (a_data (b k)))"

definition one_entry :: "env \<Rightarrow> pubkey \<Rightarrow> (pubkey \<Rightarrow> bool) \<Rightarrow> bool option \<Rightarrow> bank \<Rightarrow> bank \<Rightarrow> bool" where
  "one_entry e p S w b b' \<longleftrightarrow>
     changes_restaking e p S w b b' \<and>
     numbering_step (restaking_reg (fst (e_find_program_address e restaking_config_seeds p))) restaking_count p b b' \<and>
     (\<exists>new. structs p b' \<subseteq> insert new (structs p b) \<and>
        restaking_account_ok (e_find_program_address e) p new (a_data (b' new)))"

lemmas restaking_change_defs = restaking_change_def config_change_def ncn_change_def operator_change_def
  ncn_operator_state_change_def ncn_vault_ticket_change_def operator_vault_ticket_change_def
  ncn_vault_slasher_ticket_change_def

lemma restaking_change_reg:
  assumes "restaking_change e p S w b k d d'" and "is_struct d"
  shows "restaking_reg ck d' = restaking_reg ck d"
  using assms by (cases d) (auto simp: restaking_change_defs restaking_reg_def)

lemma restaking_change_ok:
  assumes "restaking_change e p S w b k d d'" and "is_struct d" and "restaking_account_ok F p k d"
  shows "restaking_account_ok F p k d'"
  using assms by (cases d) (auto simp: restaking_change_defs restaking_account_ok_def)

lemma changes_account_ok:
  assumes "changes_restaking e p S w b b'" and "\<And>k. a_owner (b k) = p \<Longrightarrow> restaking_account_ok F p k (a_data (b k))"
    and "\<And>k. k \<in> structs p b' \<Longrightarrow> k \<notin> structs p b \<Longrightarrow> restaking_account_ok F p k (a_data (b' k))" and "a_owner (b' k) = p"
  shows "restaking_account_ok F p k (a_data (b' k))"
proof (cases "k \<in> structs p b")
  case True
  then show ?thesis
    using assms(1,2) restaking_change_ok unfolding changes_restaking_def structs_iff by blast
next
  case False
  show ?thesis
  proof (cases "is_struct (a_data (b' k))")
    case True
    then show ?thesis using assms(3,4) False by simp
  next
    case False
    then show ?thesis by (auto simp: not_struct_iff restaking_account_ok_def)
  qed
qed

lemma one_entry_ok:
  assumes "one_entry e p S w b b'" and "restaking_ok (e_find_program_address e) p b"
  shows "restaking_ok (e_find_program_address e) p b'"
proof -
  let ?F = "e_find_program_address e"
  from assms(1) obtain new where c: "changes_restaking e p S w b b'"
    and step: "numbering_step (restaking_reg (fst (?F restaking_config_seeds p))) restaking_count p b b'"
    and new: "structs p b' \<subseteq> insert new (structs p b)" "restaking_account_ok ?F p new (a_data (b' new))"
    unfolding one_entry_def by blast
  have "restaking_account_ok ?F p k (a_data (b' k))" if "a_owner (b' k) = p" for k
    by (rule changes_account_ok [OF c _ _ that]) (use assms(2) new in \<open>auto simp: restaking_ok_def\<close>)
  then show ?thesis
    using numbering_step_ok [OF _ step] assms(2) by (simp add: restaking_ok_def)
qed

text \<open>A handler that writes to one struct adds no entry.\<close>

lemma one_write_entry:
  assumes "one_write e p S w b b'" and "restaking_ok (e_find_program_address e) p b"
  shows "restaking_ok (e_find_program_address e) p b'"
proof -
  let ?F = "e_find_program_address e"
  let ?r = "restaking_reg (fst (?F restaking_config_seeds p))"
  from assms(1) obtain k d where k: "is_struct (a_data (b k))" "restaking_change e p S w b k (a_data (b k)) d"
      "\<And>l. restaking_count l d = restaking_count l (a_data (b k))" and b': "b' = set_data b k d"
    unfolding one_write_def by blast
  have "numbering_step ?r restaking_count p b b'"
    unfolding b' by (rule numbering_step_write [OF numbering_step_refl]) (use restaking_change_reg [OF k(2,1)] k(3) in auto)
  moreover note w = one_write_changes [OF assms(1)]
  moreover have "restaking_account_ok ?F p l (a_data (b' l))" if "a_owner (b' l) = p" for l
    by (rule changes_account_ok [OF conjunct1 [OF w] _ _ that])
      (use assms(2) conjunct2 [OF w] in \<open>auto simp: restaking_ok_def\<close>)
  ultimately show ?thesis
    using numbering_step_ok assms(2) unfolding restaking_ok_def by blast
qed

text \<open>A new account is written, then its parent's counter.\<close>

lemma one_entry_parent:
  assumes "outside_step p b b1" "a_data (b1 new) = Bytes bs" "a_owner (b1 new) = p"
    and "a_owner (b q) = p" "a_data (b q) = dq0" "is_struct dq0"
    and "restaking_change e p S w b q dq0 dq" "is_struct dq"
    and "restaking_account_ok (e_find_program_address e) p new d"
    and "restaking_reg (fst (e_find_program_address e restaking_config_seeds p)) d = Some (l, q, n)"
    and "\<And>g m. restaking_count g d = Some m \<Longrightarrow> m = 0" "restaking_count l dq0 = Some n"
    and "restaking_count l dq = Some (n + 1)" "\<And>g. g \<noteq> l \<Longrightarrow> restaking_count g dq = restaking_count g dq0" "n < n + 1"
  shows "one_entry e p S w b (set_data (set_data b1 new d) q dq)"
proof -
  have b1: "a_data (b1 q) = dq0" "a_owner (b1 q) = p"
    using keeps_ownedD [OF outside_step_keeps [OF assms(1)] assms(4)] assms(5) by simp_all
  then have nq: "q \<noteq> new" using assms(2,6) by auto
  have "restaking_change e p S w b new (a_data (b new)) d" if "a_owner (b new) = p"
    using keeps_ownedD(2) [OF outside_step_keeps [OF assms(1)] that] assms(2) by (metis restaking_change_simps(1))
  then have "changes_restaking e p S w b (set_data b1 new d)"
    using changes_outside [OF assms(1), of e S w] by (simp add: changes_restaking_def)
  then have "changes_restaking e p S w b (set_data (set_data b1 new d) q dq)"
    by (rule changes_set) (use assms(5,7) in simp)
  moreover have "structs p (set_data (set_data b1 new d) q dq) \<subseteq> insert new (structs p b)"
    using outside_step_structs [OF assms(1)] b1 nq assms(6) by (auto split: if_splits)
  moreover have "numbering_step (restaking_reg (fst (e_find_program_address e restaking_config_seeds p))) restaking_count p b
      (set_data (set_data b1 new d) q dq)"
    by (rule restaking_numbers.step_enter [OF assms(1) outside_step_refl assms(2,3,10,11,4,5,12)
        restaking_change_reg [OF assms(7,6)] assms(13-15)])
  ultimately show ?thesis
    unfolding one_entry_def using assms(9) nq by (intro conjI exI [of _ new]) auto
qed

text \<open>Another account is written whose lists stay as they are.\<close>

lemma one_entry_write:
  assumes "one_entry e p S w b b1" "a_owner (b r) = p" "a_data (b r) = old" "a_data (b1 r) = old" "is_struct old"
    and "restaking_change e p S w b r old d" "\<And>l. restaking_count l d = restaking_count l old"
  shows "one_entry e p S w b (set_data b1 r d)"
proof -
  let ?F = "e_find_program_address e"
  from assms(1) obtain new where c: "changes_restaking e p S w b b1"
    and step: "numbering_step (restaking_reg (fst (?F restaking_config_seeds p))) restaking_count p b b1"
    and new: "structs p b1 \<subseteq> insert new (structs p b)" "restaking_account_ok ?F p new (a_data (b1 new))"
    unfolding one_entry_def by blast
  have "changes_restaking e p S w b (set_data b1 r d)"
    by (rule changes_set [OF c]) (use assms(3,6) in simp)
  moreover have "numbering_step (restaking_reg (fst (?F restaking_config_seeds p))) restaking_count p b (set_data b1 r d)"
    by (rule numbering_step_write [OF step]) (use assms(4,7) restaking_change_reg [OF assms(6,5)] in auto)
  moreover have "structs p (set_data b1 r d) \<subseteq> insert new (structs p b)"
    using structs_set_struct [of b1 r p d] assms(4,5) new(1) by auto
  moreover have "restaking_account_ok ?F p new (a_data (set_data b1 r d new))"
    using new(2) restaking_change_ok [OF assms(6,5)] assms(4) by auto
  ultimately show ?thesis unfolding one_entry_def by blast
qed

lemmas entry_simps = restaking_account_ok_def restaking_reg_def restaking_count_def with_seeds_def case_prod_beta
  ncn_find_program_address_def operator_find_program_address_def ncn_operator_state_find_program_address_def
  ncn_vault_ticket_find_program_address_def operator_vault_ticket_find_program_address_def
  ncn_vault_slasher_ticket_find_program_address_def restaking_config_find_program_address_def
  ncn_new_def operator_new_def ncn_operator_state_new_def ncn_vault_ticket_new_def operator_vault_ticket_new_def
  ncn_vault_slasher_ticket_new_def

lemma next_word: "Suc (unat m) = unat n \<Longrightarrow> n = m + 1 \<and> m < m + 1" for m n :: u64
  unfolding word_unat_eq_iff word_less_nat_alt using unsigned_less [of n, where 'a = nat] by (simp add: unat_word_ariths)

lemma counts_next:
  "config_increment_ncn_count c = Inr c' \<Longrightarrow> rc_ncn_count c' = rc_ncn_count c + 1 \<and> rc_ncn_count c < rc_ncn_count c + 1 \<and>
     rc_operator_count c' = rc_operator_count c"
  "config_increment_operator_count c = Inr c' \<Longrightarrow> rc_operator_count c' = rc_operator_count c + 1 \<and>
     rc_operator_count c < rc_operator_count c + 1 \<and> rc_ncn_count c' = rc_ncn_count c"
  "ncn_increment_operator_count n = Inr n' \<Longrightarrow> ncn_operator_count n' = ncn_operator_count n + 1 \<and>
     ncn_operator_count n < ncn_operator_count n + 1 \<and> ncn_vault_count n' = ncn_vault_count n \<and>
     ncn_slasher_count n' = ncn_slasher_count n"
  "ncn_increment_vault_count n = Inr n' \<Longrightarrow> ncn_vault_count n' = ncn_vault_count n + 1 \<and>
     ncn_vault_count n < ncn_vault_count n + 1 \<and> ncn_operator_count n' = ncn_operator_count n \<and>
     ncn_slasher_count n' = ncn_slasher_count n"
  "ncn_increment_slasher_count n = Inr n' \<Longrightarrow> ncn_slasher_count n' = ncn_slasher_count n + 1 \<and>
     ncn_slasher_count n < ncn_slasher_count n + 1 \<and> ncn_operator_count n' = ncn_operator_count n \<and>
     ncn_vault_count n' = ncn_vault_count n"
  "operator_increment_vault_count o1 = Inr o2 \<Longrightarrow> op_vault_count o2 = op_vault_count o1 + 1 \<and>
     op_vault_count o1 < op_vault_count o1 + 1"
  "operator_increment_ncn_count o1 = Inr o2 \<Longrightarrow> op_vault_count o2 = op_vault_count o1"
  by (auto simp: config_increment_ncn_count_def config_increment_operator_count_def ncn_increment_operator_count_def
      ncn_increment_vault_count_def ncn_increment_slasher_count_def operator_increment_ncn_count_def
      operator_increment_vault_count_def and_then_Inr_iff ok_or_Inr_iff checked_add_iff dest: next_word)

lemma load_owners:
  "ncn_load e p b i wr = Inr u \<Longrightarrow> owner_of b i = p"
  "operator_load e p b i wr = Inr u \<Longrightarrow> owner_of b i = p"
  "restaking_config_load e p b i wr = Inr u \<Longrightarrow> owner_of b i = p"
  unfolding base_load_iffs pda_load_iffs by blast+

lemma kept_data: "outside_step p b b1 \<Longrightarrow> a_owner (b q) = p \<Longrightarrow> a_data (b1 q) = d \<Longrightarrow> a_data (b q) = d"
  using keeps_ownedD(2) [OF outside_step_keeps] by fastforce

lemma initialize_config_list_entry:
  assumes "cpi_runtime e p"
  shows "process_initialize_ncn e p b accounts = Inr b' \<Longrightarrow> one_entry e p (signed_by accounts) w b b'"
    and "process_initialize_operator e p b accounts fee = Inr b' \<Longrightarrow> one_entry e p (signed_by accounts) w b b'"
  subgoal
    apply (clarsimp simp: process_initialize_ncn_def restaking_simps)
    apply (frule create_account_owner [OF assms(1)], drule cpi_outside [OF assms(1)])
    apply (rule one_entry_parent, assumption, assumption, simp, erule load_owners, erule (1) kept_data [OF _ load_owners(3)], simp)
            apply (auto simp: entry_simps pda_load_iffs counts_next split: restaking_list.splits intro: increments_change)
    done
  subgoal
    apply (clarsimp simp: process_initialize_operator_def restaking_simps)
    apply (frule create_account_owner [OF assms(1)], drule cpi_outside [OF assms(1)])
    apply (rule one_entry_parent, assumption, assumption, simp, erule load_owners, erule (1) kept_data [OF _ load_owners(3)], simp)
            apply (auto simp: entry_simps pda_load_iffs counts_next split: restaking_list.splits intro: increments_change)
    done
  done

lemma initialize_ticket_entry:
  assumes "cpi_runtime e p"
  shows "process_initialize_ncn_vault_ticket e p b accounts = Inr b' \<Longrightarrow> one_entry e p (signed_by accounts) w b b'"
    and "process_initialize_ncn_vault_slasher_ticket e p b accounts n = Inr b' \<Longrightarrow> one_entry e p (signed_by accounts) w b b'"
    and "process_initialize_operator_vault_ticket e p b accounts = Inr b' \<Longrightarrow> one_entry e p (signed_by accounts) w b b'"
  subgoal
    apply (clarsimp simp: process_initialize_ncn_vault_ticket_def restaking_simps)
    apply (frule create_account_owner [OF assms(1)], drule cpi_outside [OF assms(1)])
    apply (rule one_entry_parent, assumption, assumption, simp, erule load_owners, assumption, simp)
            apply (auto simp: entry_simps signed_by_def counts_next split: restaking_list.splits intro: increments_change)
    done
  subgoal
    apply (clarsimp simp: process_initialize_ncn_vault_slasher_ticket_def restaking_simps)
    apply (frule create_account_owner [OF assms(1)], drule cpi_outside [OF assms(1)])
    apply (rule one_entry_parent, assumption, assumption, simp, erule load_owners, assumption, simp)
            apply (auto simp: entry_simps signed_by_def counts_next split: restaking_list.splits intro: increments_change)
    done
  subgoal
    apply (clarsimp simp: process_initialize_operator_vault_ticket_def restaking_simps)
    apply (frule create_account_owner [OF assms(1)], drule cpi_outside [OF assms(1)])
    apply (rule one_entry_parent, assumption, assumption, simp, erule load_owners, assumption, simp)
            apply (auto simp: entry_simps signed_by_def counts_next split: restaking_list.splits intro: increments_change)
    done
  done

lemma initialize_ncn_operator_state_entry:
  assumes "cpi_runtime e p" and "process_initialize_ncn_operator_state e p b accounts = Inr b'"
  shows "one_entry e p (signed_by accounts) w b b'"
  using assms(2)
  apply (clarsimp simp: process_initialize_ncn_operator_state_def restaking_simps split: if_splits)
  apply (frule create_account_owner [OF assms(1)], drule cpi_outside [OF assms(1)])
  apply (rename_tac config ni oi si admin payer sys n space b1 bs o1 n' o2)
  apply (frule kept_data [OF _ load_owners(2)], assumption, assumption)
  apply (frule load_owners(1), drule load_owners(2))
  apply (rule_tac old = "OperatorD o1" in one_entry_write)
        apply (rule_tac l = NcnOperators and n = "ncn_operator_count n" and dq = "NcnD n'" in one_entry_parent)
                      apply (assumption | simp add: entry_simps)+
                 apply (auto simp: entry_simps signed_by_def counts_next split: restaking_list.splits intro: increments_change)
  done

lemma initialize_config_entry:
  assumes "cpi_runtime e p" and "restaking_process_initialize_config e p b accounts = Inr b'"
  shows "one_entry e p (signed_by accounts) w b b'"
proof -
  from assms(2) obtain ci k v b1 bs bump where *: "outside_step p b b1" "a_data (b1 ci) = Bytes bs"
    "ci = fst (restaking_config_find_program_address e p)"
    "b' = set_data b1 ci (RestakingConfigD (restaking_config_new k v bump))"
    apply (clarsimp simp: restaking_process_initialize_config_def restaking_simps)
    apply (drule cpi_outside [OF assms(1)])
    apply auto
    done
  have "restaking_change e p (signed_by accounts) w b ci (a_data (b ci)) (RestakingConfigD (restaking_config_new k v bump))"
    if "a_owner (b ci) = p"
    using kept_data [OF *(1) that *(2)] by simp
  then have "changes_restaking e p (signed_by accounts) w b b'"
    unfolding *(4) using changes_outside [OF *(1), of e "signed_by accounts" w] by (simp add: changes_restaking_def)
  moreover have "structs p b' \<subseteq> insert ci (structs p b)"
    unfolding *(4) using structs_set outside_step_structs [OF *(1)] by blast
  moreover have "numbering_step (restaking_reg (fst (e_find_program_address e restaking_config_seeds p))) restaking_count p b b'"
    unfolding *(4) by (rule restaking_numbers.step_unlisted [OF *(1,2)])
      (auto simp: restaking_reg_def restaking_count_def restaking_config_new_def split: restaking_list.splits)
  ultimately show ?thesis
    unfolding one_entry_def by (intro conjI exI [of _ ci]) (simp_all add: *(3,4) entry_simps)
qed

lemma delegate_outside:
  assumes "cpi_runtime e p"
  shows "process_ncn_delegate_token_account e p b accounts = Inr b' \<Longrightarrow> outside_step p b b'"
    and "process_operator_delegate_token_account e p b accounts = Inr b' \<Longrightarrow> outside_step p b b'"
  by (auto simp: process_ncn_delegate_token_account_def process_operator_delegate_token_account_def restaking_simps
      dest!: cpi_outside [OF assms])

section \<open>Every instruction\<close>

lemma restaking_dispatch_cases:
  assumes "cpi_runtime e p" and "restaking_dispatch e p b accounts ix = Inr b'"
  shows "one_write e p (signed_by accounts) (toggle_direction ix) b b' \<or> one_entry e p (signed_by accounts) (toggle_direction ix) b b' \<or>
    outside_step p b b'"
  using assms(2)
  by (cases ix; simp add: restaking_dispatch_def)
    (use assms(1) in \<open>blast intro: admin_one_write toggle_one_write initialize_config_list_entry initialize_ticket_entry
      initialize_ncn_operator_state_entry initialize_config_entry delegate_outside\<close>)+

lemma restaking_dispatch_changes:
  assumes "cpi_runtime e p" and "restaking_dispatch e p b accounts ix = Inr b'"
  shows "changes_restaking e p (signed_by accounts) (toggle_direction ix) b b'"
  using restaking_dispatch_cases [OF assms] one_write_changes changes_outside by (auto simp: one_entry_def)

lemma outside_account_ok:
  assumes "outside_step p b b'" and "a_owner (b k) = p \<Longrightarrow> restaking_account_ok F p k (a_data (b k))" and "a_owner (b' k) = p"
  shows "restaking_account_ok F p k (a_data (b' k))"
proof (cases "a_owner (b k) = p")
  case True
  then show ?thesis using assms(2) keeps_ownedD(2) [OF outside_step_keeps [OF assms(1)] True] by simp
next
  case False
  then obtain n where "a_data (b' k) = Bytes (replicate n 0)"
    using assms(1,3) unfolding outside_step_def gives_zeroed_def by blast
  then show ?thesis by (simp add: restaking_account_ok_def)
qed

lemma outside_ok: "outside_step p b b' \<Longrightarrow> restaking_ok F p b \<Longrightarrow> restaking_ok F p b'"
  unfolding restaking_ok_def
  using numbering_step_ok [OF _ restaking_numbers.step_outside [OF numbering_step_refl]] outside_account_ok by blast

lemma restaking_dispatch_ok:
  assumes "cpi_runtime e p" and "restaking_dispatch e p b accounts ix = Inr b'"
    and "restaking_ok (e_find_program_address e) p b"
  shows "restaking_ok (e_find_program_address e) p b'"
  using restaking_dispatch_cases [OF assms(1,2)] outside_ok one_write_entry one_entry_ok assms(3) by blast

inductive restaking_system :: "(seeds \<Rightarrow> pubkey \<Rightarrow> pubkey \<times> u8) \<Rightarrow> pubkey \<Rightarrow> bank \<Rightarrow> bank \<Rightarrow> bool"
  for F :: "seeds \<Rightarrow> pubkey \<Rightarrow> pubkey \<times> u8" and p :: pubkey and b :: bank where
  start: "restaking_system F p b b"
| instruction: "restaking_system F p b b1 \<Longrightarrow> cpi_runtime e p \<Longrightarrow> e_find_program_address e = F \<Longrightarrow>
    restaking_dispatch e p b1 accounts ix = Inr b2 \<Longrightarrow> restaking_system F p b b2"
| elsewhere: "restaking_system F p b b1 \<Longrightarrow> outside_step p b1 b2 \<Longrightarrow> restaking_system F p b b2"

lemma restaking_system_ok: "restaking_system F p b b' \<Longrightarrow> restaking_ok F p b \<Longrightarrow> restaking_ok F p b'"
  by (induction rule: restaking_system.induct) (auto intro: restaking_dispatch_ok outside_ok)

lemma restaking_instruction_change:
  assumes "cpi_runtime e p" and "restaking_process_instruction e p decode p b accounts data = Inr b'"
    and "a_owner (b k) = p"
  obtains ix where "decode data = Inr ix"
    and "restaking_change e p (signed_by accounts) (toggle_direction ix) b k (a_data (b k)) (a_data (b' k))"
proof -
  from assms(2) obtain ix where ix: "decode data = Inr ix" "restaking_dispatch e p b accounts ix = Inr b'"
    by (auto simp: restaking_process_instruction_def and_then_Inr_iff)
  have "restaking_change e p (signed_by accounts) (toggle_direction ix) b k (a_data (b k)) (a_data (b' k))"
    using restaking_dispatch_changes [OF assms(1) ix(2)] assms(3) by (simp add: changes_restaking_def)
  with ix(1) show thesis by (rule that)
qed

lemma restaking_ok_start:
  assumes "structs p b = {}"
  shows "restaking_ok F p b"
proof -
  have "\<exists>bs. a_data (b k) = Bytes bs" if "a_owner (b k) = p" for k
    using assms that unfolding structs_def by (metis (mono_tags, lifting) empty_Collect_eq not_struct_iff)
  then show ?thesis
    unfolding restaking_ok_def using restaking_numbers.numbering_start [OF assms] by (fastforce simp: restaking_account_ok_def)
qed

section \<open>Properties\<close>

abbreviation sample_restaking_id :: pubkey where
  "sample_restaking_id \<equiv> 2000"

definition sample_ncn :: ncn where
  "sample_ncn = ncn_new 4 3 0 255"

definition sample_state :: ncn_operator_state where
  "sample_state = ncn_operator_state_new 35 40 0 255 0"

definition sample_restaking_bank :: bank where
  "sample_restaking_bank k =
     (if k = 6 then \<lparr>a_lamports = 1, a_owner = sample_restaking_id,
        a_data = RestakingConfigD ((restaking_config_new 3 1000 255)\<lparr>rc_ncn_count := 1, rc_operator_count := 1, rc_epoch_length := 10\<rparr>)\<rparr>
      else if k = 35 then \<lparr>a_lamports = 1, a_owner = sample_restaking_id, a_data = NcnD sample_ncn\<rparr>
      else if k = 40 then \<lparr>a_lamports = 1, a_owner = sample_restaking_id, a_data = OperatorD (operator_new 5 3 0 100 255)\<rparr>
      else if k = 82 then \<lparr>a_lamports = 1, a_owner = sample_restaking_id, a_data = NcnOperatorStateD sample_state\<rparr>
      else \<lparr>a_lamports = 0, a_owner = 0, a_data = Bytes []\<rparr>)"

lemma sample_runtime: "cpi_runtime sample_env sample_restaking_id"
  by (auto simp: cpi_runtime_def outside_step_def keeps_owned_def gives_zeroed_def sample_env_def sample_invoke_def
      split: cpi.splits account_data.splits if_splits)

lemmas sample_restaking_simps = sample_env_simps sample_restaking_bank_def sample_ncn_def sample_state_def
  restaking_config_new_def ncn_new_def operator_new_def ncn_operator_state_new_def toggle_new_def
  restaking_config_load_def ncn_load_def operator_load_def ncn_operator_state_load_def load_owned_def
  data_is_empty_def restaking_config_find_program_address_def ncn_find_program_address_def
  operator_find_program_address_def ncn_operator_state_find_program_address_def with_seeds_def
  restaking_seeds_defs bytes_of_def get_restaking_config_def get_ncn_def get_operator_def get_ncn_operator_state_def
  try_from_slice_unchecked_def load_signer_def accounts3_def accounts4_def accounts5_def

text \<open>
  Claim C17. No instruction of the restaking program changes an NCN, an operator or the
  configuration without the right signature. The admin of an NCN or operator changes only when
  the old and the new admin sign; every other role, and the operator's fee, only when the admin
  signs; the operator, vault and slasher lists of an NCN and the vault list of an operator grow only
  when the admin of that list signs. Identities never change, counters never go down, and a fee
  within one hundred percent stays so.
\<close>

theorem restaking_settings_authorised:
  assumes "cpi_runtime e p" and "restaking_process_instruction e p decode p b accounts data = Inr b'"
    and "a_owner (b k) = p"
  shows "(\<forall>n. a_data (b k) = NcnD n \<longrightarrow> (\<exists>n'. a_data (b' k) = NcnD n' \<and> ncn_change (signed_by accounts) n n')) \<and>
    (\<forall>o1. a_data (b k) = OperatorD o1 \<longrightarrow>
      (\<exists>o2. a_data (b' k) = OperatorD o2 \<and> operator_change (signed_by accounts) o1 o2)) \<and>
    (\<forall>c. a_data (b k) = RestakingConfigD c \<longrightarrow>
      (\<exists>c'. a_data (b' k) = RestakingConfigD c' \<and> config_change (signed_by accounts) c c'))"
  by (rule restaking_instruction_change [OF assms]) (auto simp: restaking_change_def)

theorem restaking_settings_authorised_witness:
  "\<exists>n'. a_data (set_data sample_restaking_bank 35 (NcnD (sample_ncn\<lparr>ncn_vault_admin := 77\<rparr>)) 35) = NcnD n' \<and>
     ncn_change (signed_by [acc 35 False True, acc 3 True False, acc 77 False False]) sample_ncn n'"
proof -
  have "restaking_process_instruction sample_env sample_restaking_id (\<lambda>_. Inr (NcnSetSecondaryAdmin NcnVaultAdmin))
      sample_restaking_id sample_restaking_bank [acc 35 False True, acc 3 True False, acc 77 False False] []
    = Inr (set_data sample_restaking_bank 35 (NcnD (sample_ncn\<lparr>ncn_vault_admin := 77\<rparr>)))"
    by (simp add: restaking_process_instruction_def restaking_dispatch_def process_ncn_set_secondary_admin_def
        sample_restaking_simps)
  from restaking_settings_authorised [OF sample_runtime this, of 35] show ?thesis
    by (simp add: sample_restaking_bank_def)
qed

text \<open>
  Claim C16. Opting in and out is in the hands of the two sides. Whatever instruction runs, a
  ticket of the restaking program keeps its parties and index, and each of its toggles changes
  only by a successful activation, if the instruction is a warm-up, or deactivation, if it is a
  cool-down, at the current slot and with the epoch length that the configuration account of the
  program holds. Of the state between an NCN and an operator the NCN's side is switched only with the
  signature of the operator admin of the NCN, and the operator's side only with that of the NCN admin
  of the operator; an NCN's vault ticket needs the NCN's vault admin, an operator's vault ticket the
  operator's vault admin, and a slasher ticket the NCN's slasher admin.
\<close>

theorem opt_in_authorised:
  assumes "cpi_runtime e p" and "restaking_process_instruction e p decode p b accounts data = Inr b'"
    and "a_owner (b k) = p" and "decode data = Inr ix"
  shows "(\<forall>s. a_data (b k) = NcnOperatorStateD s \<longrightarrow>
      (\<exists>s'. a_data (b' k) = NcnOperatorStateD s' \<and>
         ncn_operator_state_change e p (signed_by accounts) (toggle_direction ix) b k s s')) \<and>
    (\<forall>t. a_data (b k) = NcnVaultTicketD t \<longrightarrow>
      (\<exists>t'. a_data (b' k) = NcnVaultTicketD t' \<and>
         ncn_vault_ticket_change e p (signed_by accounts) (toggle_direction ix) b k t t')) \<and>
    (\<forall>t. a_data (b k) = OperatorVaultTicketD t \<longrightarrow>
      (\<exists>t'. a_data (b' k) = OperatorVaultTicketD t' \<and>
         operator_vault_ticket_change e p (signed_by accounts) (toggle_direction ix) b k t t')) \<and>
    (\<forall>t. a_data (b k) = NcnVaultSlasherTicketD t \<longrightarrow>
      (\<exists>t'. a_data (b' k) = NcnVaultSlasherTicketD t' \<and>
         ncn_vault_slasher_ticket_change e p (signed_by accounts) (toggle_direction ix) b k t t'))"
  using assms(4) by (rule_tac restaking_instruction_change [OF assms(1-3)]) (auto simp: restaking_change_def)

theorem opt_in_authorised_witness:
  "\<exists>s'. a_data (set_data sample_restaking_bank 82
       (NcnOperatorStateD (sample_state\<lparr>nos_ncn_opt_in_state := \<lparr>slot_added = 50, slot_removed = 0\<rparr>\<rparr>)) 82) = NcnOperatorStateD s' \<and>
     ncn_operator_state_change sample_env sample_restaking_id
       (signed_by [acc 6 False False, acc 35 False False, acc 40 False False, acc 82 False True, acc 3 True False])
       (Some True) sample_restaking_bank 82 sample_state s'"
proof -
  have "restaking_process_instruction sample_env sample_restaking_id (\<lambda>_. Inr NcnWarmupOperator)
      sample_restaking_id sample_restaking_bank
      [acc 6 False False, acc 35 False False, acc 40 False False, acc 82 False True, acc 3 True False] []
    = Inr (set_data sample_restaking_bank 82
       (NcnOperatorStateD (sample_state\<lparr>nos_ncn_opt_in_state := \<lparr>slot_added = 50, slot_removed = 0\<rparr>\<rparr>)))"
    by (simp add: restaking_process_instruction_def restaking_dispatch_def process_ncn_warmup_operator_def
        sample_restaking_simps toggle_activate_def toggle_state_def get_epoch_def checked_div_def)
  from opt_in_authorised [OF sample_runtime this, of 82 NcnWarmupOperator] show ?thesis
    by (simp add: sample_restaking_bank_def)
qed

text \<open>
  Claim C15. The accounts of the restaking program are always in order. Starting from a bank where
  the program owns no struct, through any sequence of its instructions interleaved with anything
  the rest of the chain does, every configuration, NCN, operator and ticket is at the address
  derived from its own contents; the NCN or operator that a ticket is entered under exists (and so
  does the configuration of every NCN and operator); the accounts of a list of length \<open>n\<close> have
  exactly the indexes from \<open>0\<close> to \<open>n - 1\<close>, each once; and operator fees are within one hundred
  percent.
\<close>

theorem restaking_accounts_in_order:
  assumes "restaking_system find_address p b b'" and "structs p b = {}"
  shows "restaking_ok find_address p b'"
  using assms(1) restaking_ok_start [OF assms(2)] by (rule restaking_system_ok)

theorem restaking_accounts_in_order_witness:
  "\<exists>c. restaking_ok (e_find_program_address sample_env) sample_restaking_id
     ((\<lambda>k. \<lparr>a_lamports = 0, a_owner = 0, a_data = Bytes []\<rparr>)(6 :=
        \<lparr>a_lamports = 360, a_owner = sample_restaking_id, a_data = RestakingConfigD c\<rparr>))"
proof -
  let ?b = "\<lambda>k :: pubkey. \<lparr>a_lamports = 0, a_owner = 0, a_data = Bytes []\<rparr>"
  let ?c = "restaking_config_new 3 1000 255"
  have "restaking_dispatch sample_env sample_restaking_id ?b
      [acc 6 False True, acc 3 True True, acc 1000 False False, acc 0 False False] RestakingInitializeConfig
    = Inr (?b(6 := \<lparr>a_lamports = 360, a_owner = sample_restaking_id, a_data = RestakingConfigD ?c\<rparr>))"
    by (simp add: restaking_dispatch_def restaking_process_initialize_config_def sample_restaking_simps
        load_system_account_def load_system_program_def create_account_def init_account_def check_new_account_def
        size_of_restaking_config_def checked_add_def set_data_def)
  from restaking_accounts_in_order [OF restaking_system.instruction
      [OF restaking_system.start sample_runtime refl this]]
  show ?thesis by (auto simp: structs_def)
qed

end
