(* ===== verification/Account_Bytes.thy ===== *)
theory Account_Bytes
  imports Account_Registry
begin

text \<open>
  The bytes of accounts: the integer and boolean types of \<open>bytemuck/src/types.rs\<close>, the layout of
  every account struct of the two programs, and the deserialisation of
  \<open>bytemuck/src/lib.rs\<close> on the data of an account as it is on chain. All structs are \<open>repr(C)\<close>
  with fields of alignment one, so their fields follow one another without padding; the reserved
  bytes of a struct are part of its layout but not of its value. Reading and writing the bytes is
  shown to implement the accounts of theory \<open>Accounts\<close>.
\<close>

section \<open>Integers and booleans\<close>

primrec from_le_bytes :: "u8 list \<Rightarrow> 'a::len word" where
  "from_le_bytes [] = 0"
| "from_le_bytes (x # xs) = or (ucast x) (push_bit 8 (from_le_bytes xs))"

text \<open>
  A type that is a fixed number of bytes: reading a value, and assigning one over bytes that are
  there already.
\<close>

record 'a pod =
  pod_size :: nat
  pod_get :: "u8 list \<Rightarrow> 'a"
  pod_put :: "'a \<Rightarrow> u8 list \<Rightarrow> u8 list"

definition u8_pod :: "u8 pod" where
  "u8_pod = \<lparr>pod_size = 1, pod_get = hd, pod_put = (\<lambda>x _. [x])\<rparr>"

definition u16_pod :: "u16 pod" where
  "u16_pod = \<lparr>pod_size = 2, pod_get = from_le_bytes, pod_put = (\<lambda>n _. to_le_bytes 2 n)\<rparr>"

definition u32_pod :: "u32 pod" where
  "u32_pod = \<lparr>pod_size = 4, pod_get = from_le_bytes, pod_put = (\<lambda>n _. to_le_bytes 4 n)\<rparr>"

definition u64_pod :: "u64 pod" where
  "u64_pod = \<lparr>pod_size = 8, pod_get = from_le_bytes, pod_put = (\<lambda>n _. to_le_bytes 8 n)\<rparr>"

definition u128_pod :: "u128 pod" where
  "u128_pod = \<lparr>pod_size = 16, pod_get = from_le_bytes, pod_put = (\<lambda>n _. to_le_bytes 16 n)\<rparr>"

definition bool_pod :: "bool pod" where
  "bool_pod = \<lparr>pod_size = 1, pod_get = (\<lambda>bs. hd bs \<noteq> 0), pod_put = (\<lambda>b _. [if b then 1 else 0])\<rparr>"

definition pubkey_pod :: "pubkey pod" where
  "pubkey_pod = \<lparr>pod_size = 32, pod_get = from_le_bytes, pod_put = (\<lambda>k _. to_bytes k)\<rparr>"

text \<open>Reserved bytes carry no value and stay as they are when a struct is changed in place.\<close>

definition reserved_pod :: "nat \<Rightarrow> unit pod" where
  "reserved_pod n = \<lparr>pod_size = n, pod_get = (\<lambda>_. ()), pod_put = (\<lambda>_ bs. bs)\<rparr>"

definition pair_pod :: "'a pod \<Rightarrow> 'b pod \<Rightarrow> ('a \<times> 'b) pod" where
  "pair_pod P Q =
     \<lparr>pod_size = pod_size P + pod_size Q,
      pod_get = (\<lambda>bs. (pod_get P (take (pod_size P) bs), pod_get Q (drop (pod_size P) bs))),
      pod_put = (\<lambda>(x, y) bs. pod_put P x (take (pod_size P) bs) @ pod_put Q y (drop (pod_size P) bs))\<rparr>"

definition map_pod :: "('a \<Rightarrow> 'b) \<Rightarrow> ('b \<Rightarrow> 'a) \<Rightarrow> 'a pod \<Rightarrow> 'b pod" where
  "map_pod f g P =
     \<lparr>pod_size = pod_size P, pod_get = (\<lambda>bs. f (pod_get P bs)), pod_put = (\<lambda>x. pod_put P (g x))\<rparr>"

section \<open>The layout of the structs\<close>

definition slot_toggle_pod :: "slot_toggle pod" where
  "slot_toggle_pod =
     map_pod
       (\<lambda>(slot_added, slot_removed, _).
          \<lparr>slot_added = slot_added, slot_removed = slot_removed\<rparr>)
       (\<lambda>r. (slot_added r, slot_removed r, ()))
       (pair_pod u64_pod (pair_pod u64_pod (reserved_pod 32)))"

definition delegation_state_pod :: "delegation_state pod" where
  "delegation_state_pod =
     map_pod
       (\<lambda>(staked_amount, enqueued_for_cooldown_amount, cooling_down_amount, _).
          \<lparr>staked_amount = staked_amount, enqueued_for_cooldown_amount = enqueued_for_cooldown_amount,
           cooling_down_amount = cooling_down_amount\<rparr>)
       (\<lambda>r. (staked_amount r, enqueued_for_cooldown_amount r, cooling_down_amount r, ()))
       (pair_pod u64_pod (pair_pod u64_pod (pair_pod u64_pod (reserved_pod 256))))"

definition vault_config_pod :: "vault_config pod" where
  "vault_config_pod =
     map_pod
       (\<lambda>(admin, restaking_program, epoch_length, num_vaults, deposit_withdrawal_fee_cap_bps,
         fee_rate_of_change_bps, fee_bump_bps, program_fee_bps, program_fee_wallet, fee_admin, bump, _).
          \<lparr>c_admin = admin, c_restaking_program = restaking_program, c_epoch_length = epoch_length,
           c_num_vaults = num_vaults, c_deposit_withdrawal_fee_cap_bps = deposit_withdrawal_fee_cap_bps,
           c_fee_rate_of_change_bps = fee_rate_of_change_bps, c_fee_bump_bps = fee_bump_bps,
           c_program_fee_bps = program_fee_bps, c_program_fee_wallet = program_fee_wallet,
           c_fee_admin = fee_admin, c_bump = bump\<rparr>)
       (\<lambda>r. (c_admin r, c_restaking_program r, c_epoch_length r, c_num_vaults r, c_deposit_withdrawal_fee_cap_bps r,
         c_fee_rate_of_change_bps r, c_fee_bump_bps r, c_program_fee_bps r, c_program_fee_wallet r,
         c_fee_admin r, c_bump r, ()))
       (pair_pod pubkey_pod (pair_pod pubkey_pod (pair_pod u64_pod (pair_pod u64_pod (pair_pod u16_pod
        (pair_pod u16_pod (pair_pod u16_pod (pair_pod u16_pod (pair_pod pubkey_pod (pair_pod pubkey_pod
        (pair_pod u8_pod (reserved_pod 229))))))))))))"

definition vault_pod :: "vault pod" where
  "vault_pod =
     map_pod
       (\<lambda>(base, vrt_mint, supported_mint, vrt_supply, tokens_deposited, deposit_capacity, delegation_state,
         additional_assets_need_unstaking, vrt_enqueued_for_cooldown_amount, vrt_cooling_down_amount,
         vrt_ready_to_claim_amount, admin, delegation_admin, operator_admin, ncn_admin, slasher_admin,
         capacity_admin, fee_admin, delegate_asset_admin, fee_wallet, mint_burn_admin, metadata_admin,
         vault_index, ncn_count, operator_count, slasher_count, last_fee_change_slot,
         last_full_state_update_slot, deposit_fee_bps, withdrawal_fee_bps, next_withdrawal_fee_bps,
         reward_fee_bps, program_fee_bps, bump, is_paused, last_start_state_update_slot, _).
          \<lparr>v_base = base, v_vrt_mint = vrt_mint, v_supported_mint = supported_mint, v_vrt_supply = vrt_supply,
           v_tokens_deposited = tokens_deposited, v_deposit_capacity = deposit_capacity,
           v_delegation_state = delegation_state,
           v_additional_assets_need_unstaking = additional_assets_need_unstaking,
           v_vrt_enqueued_for_cooldown_amount = vrt_enqueued_for_cooldown_amount,
           v_vrt_cooling_down_amount = vrt_cooling_down_amount,
           v_vrt_ready_to_claim_amount = vrt_ready_to_claim_amount, v_admin = admin,
           v_delegation_admin = delegation_admin, v_operator_admin = operator_admin, v_ncn_admin = ncn_admin,
           v_slasher_admin = slasher_admin, v_capacity_admin = capacity_admin, v_fee_admin = fee_admin,
           v_delegate_asset_admin = delegate_asset_admin, v_fee_wallet = fee_wallet,
           v_mint_burn_admin = mint_burn_admin, v_metadata_admin = metadata_admin, v_vault_index = vault_index,
           v_ncn_count = ncn_count, v_operator_count = operator_count, v_slasher_count = slasher_count,
           v_last_fee_change_slot = last_fee_change_slot,
           v_last_full_state_update_slot = last_full_state_update_slot, v_deposit_fee_bps = deposit_fee_bps,
           v_withdrawal_fee_bps = withdrawal_fee_bps, v_next_withdrawal_fee_bps = next_withdrawal_fee_bps,
           v_reward_fee_bps = reward_fee_bps, v_program_fee_bps = program_fee_bps, v_bump = bump,
           v_is_paused = is_paused, v_last_start_state_update_slot = last_start_state_update_slot\<rparr>)
       (\<lambda>r. (v_base r, v_vrt_mint r, v_supported_mint r, v_vrt_supply r, v_tokens_deposited r, v_deposit_capacity r,
         v_delegation_state r, v_additional_assets_need_unstaking r, v_vrt_enqueued_for_cooldown_amount r,
         v_vrt_cooling_down_amount r, v_vrt_ready_to_claim_amount r, v_admin r, v_delegation_admin r,
         v_operator_admin r, v_ncn_admin r, v_slasher_admin r, v_capacity_admin r, v_fee_admin r,
         v_delegate_asset_admin r, v_fee_wallet r, v_mint_burn_admin r, v_metadata_admin r, v_vault_index r,
         v_ncn_count r, v_operator_count r, v_slasher_count r, v_last_fee_change_slot r,
         v_last_full_state_update_slot r, v_deposit_fee_bps r, v_withdrawal_fee_bps r,
         v_next_withdrawal_fee_bps r, v_reward_fee_bps r, v_program_fee_bps r, v_bump r, v_is_paused r,
         v_last_start_state_update_slot r, ()))
       (pair_pod pubkey_pod (pair_pod pubkey_pod (pair_pod pubkey_pod (pair_pod u64_pod (pair_pod u64_pod
        (pair_pod u64_pod (pair_pod delegation_state_pod (pair_pod u64_pod (pair_pod u64_pod (pair_pod u64_pod
        (pair_pod u64_pod (pair_pod pubkey_pod (pair_pod pubkey_pod (pair_pod pubkey_pod (pair_pod pubkey_pod
        (pair_pod pubkey_pod (pair_pod pubkey_pod (pair_pod pubkey_pod (pair_pod pubkey_pod (pair_pod pubkey_pod
        (pair_pod pubkey_pod (pair_pod pubkey_pod (pair_pod u64_pod (pair_pod u64_pod (pair_pod u64_pod
        (pair_pod u64_pod (pair_pod u64_pod (pair_pod u64_pod (pair_pod u16_pod (pair_pod u16_pod
        (pair_pod u16_pod (pair_pod u16_pod (pair_pod u16_pod (pair_pod u8_pod (pair_pod bool_pod
        (pair_pod u64_pod (reserved_pod 251)))))))))))))))))))))))))))))))))))))"

definition vault_ncn_ticket_pod :: "vault_ncn_ticket pod" where
  "vault_ncn_ticket_pod =
     map_pod
       (\<lambda>(vault, ncn, index, state, bump, _).
          \<lparr>vnt_vault = vault, vnt_ncn = ncn, vnt_index = index, vnt_state = state, vnt_bump = bump\<rparr>)
       (\<lambda>r. (vnt_vault r, vnt_ncn r, vnt_index r, vnt_state r, vnt_bump r, ()))
       (pair_pod pubkey_pod (pair_pod pubkey_pod (pair_pod u64_pod (pair_pod slot_toggle_pod (pair_pod u8_pod
        (reserved_pod 263))))))"

definition vault_operator_delegation_pod :: "operator_delegation pod" where
  "vault_operator_delegation_pod =
     map_pod
       (\<lambda>(vault, operator, delegation_state, last_update_slot, index, bump, _).
          \<lparr>vod_vault = vault, vod_operator = operator, vod_delegation_state = delegation_state,
           vod_last_update_slot = last_update_slot, vod_index = index, vod_bump = bump\<rparr>)
       (\<lambda>r. (vod_vault r, vod_operator r, vod_delegation_state r, vod_last_update_slot r, vod_index r, vod_bump r,
         ()))
       (pair_pod pubkey_pod (pair_pod pubkey_pod (pair_pod delegation_state_pod (pair_pod u64_pod
        (pair_pod u64_pod (pair_pod u8_pod (reserved_pod 263)))))))"

definition vault_ncn_slasher_ticket_pod :: "vault_ncn_slasher_ticket pod" where
  "vault_ncn_slasher_ticket_pod =
     map_pod
       (\<lambda>(vault, ncn, slasher, max_slashable_per_epoch, index, state, bump, _).
          \<lparr>vnst_vault = vault, vnst_ncn = ncn, vnst_slasher = slasher,
           vnst_max_slashable_per_epoch = max_slashable_per_epoch, vnst_index = index, vnst_state = state,
           vnst_bump = bump\<rparr>)
       (\<lambda>r. (vnst_vault r, vnst_ncn r, vnst_slasher r, vnst_max_slashable_per_epoch r, vnst_index r, vnst_state r,
         vnst_bump r, ()))
       (pair_pod pubkey_pod (pair_pod pubkey_pod (pair_pod pubkey_pod (pair_pod u64_pod (pair_pod u64_pod
        (pair_pod slot_toggle_pod (pair_pod u8_pod (reserved_pod 263))))))))"

definition vault_ncn_slasher_operator_ticket_pod :: "vault_ncn_slasher_operator_ticket pod" where
  "vault_ncn_slasher_operator_ticket_pod =
     map_pod
       (\<lambda>(vault, ncn, slasher, operator, epoch, slashed, bump, _).
          \<lparr>vnsot_vault = vault, vnsot_ncn = ncn, vnsot_slasher = slasher, vnsot_operator = operator,
           vnsot_epoch = epoch, vnsot_slashed = slashed, vnsot_bump = bump\<rparr>)
       (\<lambda>r. (vnsot_vault r, vnsot_ncn r, vnsot_slasher r, vnsot_operator r, vnsot_epoch r, vnsot_slashed r,
         vnsot_bump r, ()))
       (pair_pod pubkey_pod (pair_pod pubkey_pod (pair_pod pubkey_pod (pair_pod pubkey_pod (pair_pod u64_pod
        (pair_pod u64_pod (pair_pod u8_pod (reserved_pod 263))))))))"

definition vault_staker_withdrawal_ticket_pod :: "withdrawal_ticket pod" where
  "vault_staker_withdrawal_ticket_pod =
     map_pod
       (\<lambda>(vault, staker, base, vrt_amount, slot_unstaked, bump, _).
          \<lparr>wt_vault = vault, wt_staker = staker, wt_base = base, wt_vrt_amount = vrt_amount,
           wt_slot_unstaked = slot_unstaked, wt_bump = bump\<rparr>)
       (\<lambda>r. (wt_vault r, wt_staker r, wt_base r, wt_vrt_amount r, wt_slot_unstaked r, wt_bump r, ()))
       (pair_pod pubkey_pod (pair_pod pubkey_pod (pair_pod pubkey_pod (pair_pod u64_pod (pair_pod u64_pod
        (pair_pod u8_pod (reserved_pod 263)))))))"

definition vault_update_state_tracker_pod :: "update_state_tracker pod" where
  "vault_update_state_tracker_pod =
     map_pod
       (\<lambda>(vault, ncn_epoch, last_updated_index, delegation_state, withdrawal_allocation_method, _).
          \<lparr>vust_vault = vault, vust_ncn_epoch = ncn_epoch, vust_last_updated_index = last_updated_index,
           vust_delegation_state = delegation_state,
           vust_withdrawal_allocation_method = withdrawal_allocation_method\<rparr>)
       (\<lambda>r. (vust_vault r, vust_ncn_epoch r, vust_last_updated_index r, vust_delegation_state r,
         vust_withdrawal_allocation_method r, ()))
       (pair_pod pubkey_pod (pair_pod u64_pod (pair_pod u64_pod (pair_pod delegation_state_pod (pair_pod u8_pod
        (reserved_pod 263))))))"

definition restaking_config_pod :: "restaking_config pod" where
  "restaking_config_pod =
     map_pod
       (\<lambda>(admin, vault_program, ncn_count, operator_count, epoch_length, bump, _).
          \<lparr>rc_admin = admin, rc_vault_program = vault_program, rc_ncn_count = ncn_count,
           rc_operator_count = operator_count, rc_epoch_length = epoch_length, rc_bump = bump\<rparr>)
       (\<lambda>r. (rc_admin r, rc_vault_program r, rc_ncn_count r, rc_operator_count r, rc_epoch_length r, rc_bump r, ()))
       (pair_pod pubkey_pod (pair_pod pubkey_pod (pair_pod u64_pod (pair_pod u64_pod (pair_pod u64_pod
        (pair_pod u8_pod (reserved_pod 263)))))))"

definition ncn_pod :: "ncn pod" where
  "ncn_pod =
     map_pod
       (\<lambda>(base, admin, operator_admin, vault_admin, slasher_admin, delegate_admin, metadata_admin,
         weight_table_admin, ncn_program_admin, index, operator_count, vault_count, slasher_count, bump, _).
          \<lparr>ncn_base = base, ncn_admin = admin, ncn_operator_admin = operator_admin,
           ncn_vault_admin = vault_admin, ncn_slasher_admin = slasher_admin,
           ncn_delegate_admin = delegate_admin, ncn_metadata_admin = metadata_admin,
           ncn_weight_table_admin = weight_table_admin, ncn_ncn_program_admin = ncn_program_admin,
           ncn_index = index, ncn_operator_count = operator_count, ncn_vault_count = vault_count,
           ncn_slasher_count = slasher_count, ncn_bump = bump\<rparr>)
       (\<lambda>r. (ncn_base r, ncn_admin r, ncn_operator_admin r, ncn_vault_admin r, ncn_slasher_admin r,
         ncn_delegate_admin r, ncn_metadata_admin r, ncn_weight_table_admin r, ncn_ncn_program_admin r,
         ncn_index r, ncn_operator_count r, ncn_vault_count r, ncn_slasher_count r, ncn_bump r, ()))
       (pair_pod pubkey_pod (pair_pod pubkey_pod (pair_pod pubkey_pod (pair_pod pubkey_pod (pair_pod pubkey_pod
        (pair_pod pubkey_pod (pair_pod pubkey_pod (pair_pod pubkey_pod (pair_pod pubkey_pod (pair_pod u64_pod
        (pair_pod u64_pod (pair_pod u64_pod (pair_pod u64_pod (pair_pod u8_pod (reserved_pod 263)))))))))))))))"

definition operator_pod :: "operator pod" where
  "operator_pod =
     map_pod
       (\<lambda>(base, admin, ncn_admin, vault_admin, delegate_admin, metadata_admin, voter, index, ncn_count,
         vault_count, operator_fee_bps, bump, _).
          \<lparr>op_base = base, op_admin = admin, op_ncn_admin = ncn_admin, op_vault_admin = vault_admin,
           op_delegate_admin = delegate_admin, op_metadata_admin = metadata_admin, op_voter = voter,
           op_index = index, op_ncn_count = ncn_count, op_vault_count = vault_count,
           op_operator_fee_bps = operator_fee_bps, op_bump = bump\<rparr>)
       (\<lambda>r. (op_base r, op_admin r, op_ncn_admin r, op_vault_admin r, op_delegate_admin r, op_metadata_admin r,
         op_voter r, op_index r, op_ncn_count r, op_vault_count r, op_operator_fee_bps r, op_bump r, ()))
       (pair_pod pubkey_pod (pair_pod pubkey_pod (pair_pod pubkey_pod (pair_pod pubkey_pod (pair_pod pubkey_pod
        (pair_pod pubkey_pod (pair_pod pubkey_pod (pair_pod u64_pod (pair_pod u64_pod (pair_pod u64_pod
        (pair_pod u16_pod (pair_pod u8_pod (reserved_pod 261)))))))))))))"

definition ncn_operator_state_pod :: "ncn_operator_state pod" where
  "ncn_operator_state_pod =
     map_pod
       (\<lambda>(ncn, operator, index, ncn_opt_in_state, operator_opt_in_state, bump, _).
          \<lparr>nos_ncn = ncn, nos_operator = operator, nos_index = index, nos_ncn_opt_in_state = ncn_opt_in_state,
           nos_operator_opt_in_state = operator_opt_in_state, nos_bump = bump\<rparr>)
       (\<lambda>r. (nos_ncn r, nos_operator r, nos_index r, nos_ncn_opt_in_state r, nos_operator_opt_in_state r,
         nos_bump r, ()))
       (pair_pod pubkey_pod (pair_pod pubkey_pod (pair_pod u64_pod (pair_pod slot_toggle_pod
        (pair_pod slot_toggle_pod (pair_pod u8_pod (reserved_pod 263)))))))"

definition operator_vault_ticket_pod :: "operator_vault_ticket pod" where
  "operator_vault_ticket_pod =
     map_pod
       (\<lambda>(operator, vault, index, state, bump, _).
          \<lparr>ovt_operator = operator, ovt_vault = vault, ovt_index = index, ovt_state = state, ovt_bump = bump\<rparr>)
       (\<lambda>r. (ovt_operator r, ovt_vault r, ovt_index r, ovt_state r, ovt_bump r, ()))
       (pair_pod pubkey_pod (pair_pod pubkey_pod (pair_pod u64_pod (pair_pod slot_toggle_pod (pair_pod u8_pod
        (reserved_pod 263))))))"

definition ncn_vault_ticket_pod :: "ncn_vault_ticket pod" where
  "ncn_vault_ticket_pod =
     map_pod
       (\<lambda>(ncn, vault, index, state, bump, _).
          \<lparr>nvt_ncn = ncn, nvt_vault = vault, nvt_index = index, nvt_state = state, nvt_bump = bump\<rparr>)
       (\<lambda>r. (nvt_ncn r, nvt_vault r, nvt_index r, nvt_state r, nvt_bump r, ()))
       (pair_pod pubkey_pod (pair_pod pubkey_pod (pair_pod u64_pod (pair_pod slot_toggle_pod (pair_pod u8_pod
        (reserved_pod 263))))))"

definition ncn_vault_slasher_ticket_pod :: "ncn_vault_slasher_ticket pod" where
  "ncn_vault_slasher_ticket_pod =
     map_pod
       (\<lambda>(ncn, vault, slasher, max_slashable_per_epoch, index, state, bump, _).
          \<lparr>nvst_ncn = ncn, nvst_vault = vault, nvst_slasher = slasher,
           nvst_max_slashable_per_epoch = max_slashable_per_epoch, nvst_index = index, nvst_state = state,
           nvst_bump = bump\<rparr>)
       (\<lambda>r. (nvst_ncn r, nvst_vault r, nvst_slasher r, nvst_max_slashable_per_epoch r, nvst_index r, nvst_state r,
         nvst_bump r, ()))
       (pair_pod pubkey_pod (pair_pod pubkey_pod (pair_pod pubkey_pod (pair_pod u64_pod (pair_pod u64_pod
        (pair_pod slot_toggle_pod (pair_pod u8_pod (reserved_pod 263))))))))"

section \<open>The data of an account\<close>

text \<open>
  \<open>try_from_slice_unchecked\<close> on bytes, for a type with layout \<open>P\<close>: the first byte is compared, the
  eight bytes of the header are cut off and the rest must have the size of the struct.
\<close>

definition bytes_try_from_slice_unchecked :: "u8 \<Rightarrow> 'a pod \<Rightarrow> u8 list \<Rightarrow> program_error + 'a" where
  "bytes_try_from_slice_unchecked disc P data =
     (if first data \<noteq> Some disc then
        (case first data of None \<Rightarrow> Inl Panic | Some _ \<Rightarrow> Inl InvalidAccountData)
      else if length data < 8 then Inl Panic
      else if length (drop 8 data) \<noteq> pod_size P then Inl InvalidAccountData
      else Inr (pod_get P (drop 8 data)))"

text \<open>A change through the reference that \<open>try_from_slice_unchecked_mut\<close> returns.\<close>

definition bytes_write :: "'a pod \<Rightarrow> 'a \<Rightarrow> u8 list \<Rightarrow> u8 list" where
  "bytes_write P x data = take 8 data @ pod_put P x (drop 8 data)"

text \<open>
  The first use of an account: the discriminator is written and a new struct assigned, whose
  reserved bytes are zero.
\<close>

definition bytes_init :: "u8 \<Rightarrow> 'a pod \<Rightarrow> 'a \<Rightarrow> u8 list \<Rightarrow> program_error + u8 list" where
  "bytes_init disc P x data =
     and_then (case data of [] \<Rightarrow> Inl Panic | _ # rest \<Rightarrow> Inr (disc # rest)) (\<lambda>data.
     and_then (bytes_try_from_slice_unchecked disc P data) (\<lambda>_.
     Inr (take 8 data @ pod_put P x (replicate (pod_size P) 0))))"

text \<open>
  What the data of an account of either program stands for: the struct of the type that the first
  byte says, provided that the data has the size of that type.
\<close>

definition view_as :: "u8 \<Rightarrow> 'a pod \<Rightarrow> ('a \<Rightarrow> account_data) \<Rightarrow> u8 list \<Rightarrow> account_data option" where
  "view_as disc P con data =
     (if first data = Some disc \<and> length data = 8 + pod_size P then Some (con (pod_get P (drop 8 data))) else None)"

primrec first_view :: "(u8 list \<Rightarrow> account_data option) list \<Rightarrow> u8 list \<Rightarrow> account_data" where
  "first_view [] data = Bytes data"
| "first_view (f # fs) data = (case f data of None \<Rightarrow> first_view fs data | Some d \<Rightarrow> d)"

definition vault_view :: "u8 list \<Rightarrow> account_data" where
  "vault_view =
     first_view
       [view_as 1 vault_config_pod VaultConfigD,
        view_as 2 vault_pod VaultD,
        view_as 3 vault_ncn_ticket_pod VaultNcnTicketD,
        view_as 4 vault_operator_delegation_pod VaultOperatorDelegationD,
        view_as 5 vault_ncn_slasher_ticket_pod VaultNcnSlasherTicketD,
        view_as 6 vault_ncn_slasher_operator_ticket_pod VaultNcnSlasherOperatorTicketD,
        view_as 7 vault_staker_withdrawal_ticket_pod VaultStakerWithdrawalTicketD,
        view_as 8 vault_update_state_tracker_pod VaultUpdateStateTrackerD]"

definition restaking_view :: "u8 list \<Rightarrow> account_data" where
  "restaking_view =
     first_view
       [view_as 1 restaking_config_pod RestakingConfigD,
        view_as 2 ncn_pod NcnD,
        view_as 3 operator_pod OperatorD,
        view_as 4 ncn_operator_state_pod NcnOperatorStateD,
        view_as 5 operator_vault_ticket_pod OperatorVaultTicketD,
        view_as 6 ncn_vault_ticket_pod NcnVaultTicketD,
        view_as 7 ncn_vault_slasher_ticket_pod NcnVaultSlasherTicketD]"

text \<open>Changing and creating a struct of any type.\<close>

definition data_size :: "account_data \<Rightarrow> nat" where
  "data_size d =
     (case d of
        Bytes bs \<Rightarrow> length bs
      | VaultConfigD x \<Rightarrow> pod_size vault_config_pod
      | VaultD x \<Rightarrow> pod_size vault_pod
      | VaultNcnTicketD x \<Rightarrow> pod_size vault_ncn_ticket_pod
      | VaultOperatorDelegationD x \<Rightarrow> pod_size vault_operator_delegation_pod
      | VaultNcnSlasherTicketD x \<Rightarrow> pod_size vault_ncn_slasher_ticket_pod
      | VaultNcnSlasherOperatorTicketD x \<Rightarrow> pod_size vault_ncn_slasher_operator_ticket_pod
      | VaultStakerWithdrawalTicketD x \<Rightarrow> pod_size vault_staker_withdrawal_ticket_pod
      | VaultUpdateStateTrackerD x \<Rightarrow> pod_size vault_update_state_tracker_pod
      | RestakingConfigD x \<Rightarrow> pod_size restaking_config_pod
      | NcnD x \<Rightarrow> pod_size ncn_pod
      | OperatorD x \<Rightarrow> pod_size operator_pod
      | NcnOperatorStateD x \<Rightarrow> pod_size ncn_operator_state_pod
      | OperatorVaultTicketD x \<Rightarrow> pod_size operator_vault_ticket_pod
      | NcnVaultTicketD x \<Rightarrow> pod_size ncn_vault_ticket_pod
      | NcnVaultSlasherTicketD x \<Rightarrow> pod_size ncn_vault_slasher_ticket_pod)"

definition data_write :: "account_data \<Rightarrow> u8 list \<Rightarrow> u8 list" where
  "data_write d data =
     (case d of
        Bytes bs \<Rightarrow> bs
      | VaultConfigD x \<Rightarrow> bytes_write vault_config_pod x data
      | VaultD x \<Rightarrow> bytes_write vault_pod x data
      | VaultNcnTicketD x \<Rightarrow> bytes_write vault_ncn_ticket_pod x data
      | VaultOperatorDelegationD x \<Rightarrow> bytes_write vault_operator_delegation_pod x data
      | VaultNcnSlasherTicketD x \<Rightarrow> bytes_write vault_ncn_slasher_ticket_pod x data
      | VaultNcnSlasherOperatorTicketD x \<Rightarrow> bytes_write vault_ncn_slasher_operator_ticket_pod x data
      | VaultStakerWithdrawalTicketD x \<Rightarrow> bytes_write vault_staker_withdrawal_ticket_pod x data
      | VaultUpdateStateTrackerD x \<Rightarrow> bytes_write vault_update_state_tracker_pod x data
      | RestakingConfigD x \<Rightarrow> bytes_write restaking_config_pod x data
      | NcnD x \<Rightarrow> bytes_write ncn_pod x data
      | OperatorD x \<Rightarrow> bytes_write operator_pod x data
      | NcnOperatorStateD x \<Rightarrow> bytes_write ncn_operator_state_pod x data
      | OperatorVaultTicketD x \<Rightarrow> bytes_write operator_vault_ticket_pod x data
      | NcnVaultTicketD x \<Rightarrow> bytes_write ncn_vault_ticket_pod x data
      | NcnVaultSlasherTicketD x \<Rightarrow> bytes_write ncn_vault_slasher_ticket_pod x data)"

definition data_init :: "account_data \<Rightarrow> u8 list \<Rightarrow> program_error + u8 list" where
  "data_init d data =
     (case d of
        Bytes bs \<Rightarrow> Inr bs
      | VaultConfigD x \<Rightarrow> bytes_init 1 vault_config_pod x data
      | VaultD x \<Rightarrow> bytes_init 2 vault_pod x data
      | VaultNcnTicketD x \<Rightarrow> bytes_init 3 vault_ncn_ticket_pod x data
      | VaultOperatorDelegationD x \<Rightarrow> bytes_init 4 vault_operator_delegation_pod x data
      | VaultNcnSlasherTicketD x \<Rightarrow> bytes_init 5 vault_ncn_slasher_ticket_pod x data
      | VaultNcnSlasherOperatorTicketD x \<Rightarrow> bytes_init 6 vault_ncn_slasher_operator_ticket_pod x data
      | VaultStakerWithdrawalTicketD x \<Rightarrow> bytes_init 7 vault_staker_withdrawal_ticket_pod x data
      | VaultUpdateStateTrackerD x \<Rightarrow> bytes_init 8 vault_update_state_tracker_pod x data
      | RestakingConfigD x \<Rightarrow> bytes_init 1 restaking_config_pod x data
      | NcnD x \<Rightarrow> bytes_init 2 ncn_pod x data
      | OperatorD x \<Rightarrow> bytes_init 3 operator_pod x data
      | NcnOperatorStateD x \<Rightarrow> bytes_init 4 ncn_operator_state_pod x data
      | OperatorVaultTicketD x \<Rightarrow> bytes_init 5 operator_vault_ticket_pod x data
      | NcnVaultTicketD x \<Rightarrow> bytes_init 6 ncn_vault_ticket_pod x data
      | NcnVaultSlasherTicketD x \<Rightarrow> bytes_init 7 ncn_vault_slasher_ticket_pod x data)"

text \<open>
  The chain as it is, with bytes in every account, and the bank of theory \<open>Accounts\<close> that it
  stands for when \<open>vp\<close> is the vault program and \<open>rp\<close> the restaking program.
\<close>

record raw_account =
  r_lamports :: u64
  r_owner :: pubkey
  r_data :: "u8 list"

type_synonym raw_bank = "pubkey \<Rightarrow> raw_account"

definition owner_view :: "pubkey \<Rightarrow> pubkey \<Rightarrow> pubkey \<Rightarrow> u8 list \<Rightarrow> account_data" where
  "owner_view vp rp holder data =
     (if holder = vp then vault_view data else if holder = rp then restaking_view data else Bytes data)"

definition bank_view :: "pubkey \<Rightarrow> pubkey \<Rightarrow> raw_bank \<Rightarrow> bank" where
  "bank_view vp rp rb k =
     \<lparr>a_lamports = r_lamports (rb k), a_owner = r_owner (rb k), a_data = owner_view vp rp (r_owner (rb k)) (r_data (rb k))\<rparr>"

definition raw_set :: "raw_bank \<Rightarrow> pubkey \<Rightarrow> u8 list \<Rightarrow> raw_bank" where
  "raw_set rb k data = rb(k := (rb k)\<lparr>r_data := data\<rparr>)"

text \<open>The program whose accounts hold a struct.\<close>

definition program_of :: "pubkey \<Rightarrow> pubkey \<Rightarrow> account_data \<Rightarrow> pubkey" where
  "program_of vp rp d = (if vault_discriminator d \<noteq> None then vp else rp)"

section \<open>Laws\<close>

locale pod =
  fixes P :: "'a pod"
  assumes length_put: "length bs = pod_size P \<Longrightarrow> length (pod_put P x bs) = pod_size P"
    and get_put: "length bs = pod_size P \<Longrightarrow> pod_get P (pod_put P x bs) = x"
    and put_put: "length bs = pod_size P \<Longrightarrow> pod_put P x (pod_put P y bs) = pod_put P x bs"

text \<open>Every byte string is the encoding of its value, up to the reserved bytes.\<close>

locale exact_pod = pod +
  assumes put_get: "length bs = pod_size P \<Longrightarrow> pod_put P (pod_get P bs) bs = bs"

lemma bit_from_le_bytes:
  "bit (from_le_bytes bs :: 'a::len word) m \<longleftrightarrow> m < LENGTH('a) \<and> m div 8 < length bs \<and> bit (bs ! (m div 8)) (m mod 8)"
proof (induction bs arbitrary: m)
  case (Cons x xs)
  show ?case
  proof (cases "m < 8")
    case True
    then show ?thesis by (auto simp: bit_simps)
  next
    case False
    then have "m div 8 = Suc ((m - 8) div 8)" "m mod 8 = (m - 8) mod 8"
      by (simp_all add: le_div_geq le_mod_geq not_less)
    then show ?thesis using False by (auto simp: bit_simps Cons.IH dest: bit_imp_le_length)
  qed
qed simp

lemma from_to_le_bytes:
  assumes "LENGTH('a) \<le> 8 * n"
  shows "from_le_bytes (to_le_bytes n w) = (w :: 'a::len word)"
proof (rule bit_word_eqI)
  fix m assume "m < LENGTH('a)"
  moreover from this assms have "m div 8 < n" by auto
  ultimately show "bit (from_le_bytes (to_le_bytes n w) :: 'a word) m = bit w m"
    by (simp add: bit_from_le_bytes to_le_bytes_def bit_simps)
qed

lemma to_from_le_bytes:
  assumes "LENGTH('a) = 8 * length bs"
  shows "to_le_bytes (length bs) (from_le_bytes bs :: 'a::len word) = bs"
proof (rule nth_equalityI)
  fix i assume i: "i < length (to_le_bytes (length bs) (from_le_bytes bs :: 'a word))"
  have "bit (ucast (drop_bit (8 * i) (from_le_bytes bs :: 'a word)) :: u8) m = bit (bs ! i) m" if "m < 8" for m
    using i assms that by (auto simp: bit_simps bit_from_le_bytes)
  then show "to_le_bytes (length bs) (from_le_bytes bs :: 'a word) ! i = bs ! i"
    using i by (auto simp: to_le_bytes_def intro: bit_word_eqI)
qed simp

lemma word_pod:
  assumes "LENGTH('a) = 8 * n"
  shows "exact_pod \<lparr>pod_size = n, pod_get = from_le_bytes, pod_put = (\<lambda>w _. to_le_bytes n (w :: 'a::len word))\<rparr>"
  using assms to_from_le_bytes [where 'a = 'a] by unfold_locales (auto simp: from_to_le_bytes)

lemma base_pods:
  "exact_pod u8_pod" "exact_pod u16_pod" "exact_pod u32_pod" "exact_pod u64_pod" "exact_pod u128_pod"
  "exact_pod pubkey_pod" "exact_pod (reserved_pod n)" "pod bool_pod"
proof -
  show "exact_pod u16_pod" "exact_pod u32_pod" "exact_pod u64_pod" "exact_pod u128_pod" "exact_pod pubkey_pod"
    unfolding u16_pod_def u32_pod_def u64_pod_def u128_pod_def pubkey_pod_def by (rule word_pod; simp)+
  show "exact_pod u8_pod" "exact_pod (reserved_pod n)" "pod bool_pod"
    by (unfold_locales; auto simp: u8_pod_def reserved_pod_def bool_pod_def length_Suc_conv)+
qed

lemma pair_pod: "pod P \<Longrightarrow> pod Q \<Longrightarrow> pod (pair_pod P Q)"
  unfolding pod_def pair_pod_def by simp

lemma pair_exact_pod: "exact_pod P \<Longrightarrow> exact_pod Q \<Longrightarrow> exact_pod (pair_pod P Q)"
  unfolding exact_pod_def exact_pod_axioms_def using pair_pod [of P Q] by (simp add: pair_pod_def)

lemma map_pod: "pod P \<Longrightarrow> (\<And>x. f (g x) = x) \<Longrightarrow> pod (map_pod f g P)"
  unfolding pod_def map_pod_def by simp

lemma map_exact_pod:
  "exact_pod P \<Longrightarrow> (\<And>x. f (g x) = x) \<Longrightarrow> (\<And>y. g (f y) = y) \<Longrightarrow> exact_pod (map_pod f g P)"
  unfolding exact_pod_def exact_pod_axioms_def using map_pod [of P f g] by (simp add: map_pod_def)

text \<open>The layout of each struct is one.\<close>

interpretation slot_toggle_bytes: exact_pod slot_toggle_pod
  unfolding slot_toggle_pod_def by (intro map_exact_pod pair_exact_pod base_pods) auto

interpretation delegation_state_bytes: exact_pod delegation_state_pod
  unfolding delegation_state_pod_def by (intro map_exact_pod pair_exact_pod base_pods) auto

interpretation vault_config_bytes: exact_pod vault_config_pod
  unfolding vault_config_pod_def by (intro map_exact_pod pair_exact_pod base_pods) auto

interpretation vault_bytes: pod vault_pod
  unfolding vault_pod_def
  by (intro map_pod pair_pod base_pods(8) base_pods(1-7) [THEN exact_pod.axioms(1)] delegation_state_bytes.pod_axioms) simp

interpretation vault_ncn_ticket_bytes: exact_pod vault_ncn_ticket_pod
  unfolding vault_ncn_ticket_pod_def by (intro map_exact_pod pair_exact_pod base_pods slot_toggle_bytes.exact_pod_axioms) auto

interpretation vault_operator_delegation_bytes: exact_pod vault_operator_delegation_pod
  unfolding vault_operator_delegation_pod_def by (intro map_exact_pod pair_exact_pod base_pods delegation_state_bytes.exact_pod_axioms) auto

interpretation vault_ncn_slasher_ticket_bytes: exact_pod vault_ncn_slasher_ticket_pod
  unfolding vault_ncn_slasher_ticket_pod_def by (intro map_exact_pod pair_exact_pod base_pods slot_toggle_bytes.exact_pod_axioms) auto

interpretation vault_ncn_slasher_operator_ticket_bytes: exact_pod vault_ncn_slasher_operator_ticket_pod
  unfolding vault_ncn_slasher_operator_ticket_pod_def by (intro map_exact_pod pair_exact_pod base_pods) auto

interpretation vault_staker_withdrawal_ticket_bytes: exact_pod vault_staker_withdrawal_ticket_pod
  unfolding vault_staker_withdrawal_ticket_pod_def by (intro map_exact_pod pair_exact_pod base_pods) auto

interpretation vault_update_state_tracker_bytes: exact_pod vault_update_state_tracker_pod
  unfolding vault_update_state_tracker_pod_def by (intro map_exact_pod pair_exact_pod base_pods delegation_state_bytes.exact_pod_axioms) auto

interpretation restaking_config_bytes: exact_pod restaking_config_pod
  unfolding restaking_config_pod_def by (intro map_exact_pod pair_exact_pod base_pods) auto

interpretation ncn_bytes: exact_pod ncn_pod
  unfolding ncn_pod_def by (intro map_exact_pod pair_exact_pod base_pods) auto

interpretation operator_bytes: exact_pod operator_pod
  unfolding operator_pod_def by (intro map_exact_pod pair_exact_pod base_pods) auto

interpretation ncn_operator_state_bytes: exact_pod ncn_operator_state_pod
  unfolding ncn_operator_state_pod_def by (intro map_exact_pod pair_exact_pod base_pods slot_toggle_bytes.exact_pod_axioms) auto

interpretation operator_vault_ticket_bytes: exact_pod operator_vault_ticket_pod
  unfolding operator_vault_ticket_pod_def by (intro map_exact_pod pair_exact_pod base_pods slot_toggle_bytes.exact_pod_axioms) auto

interpretation ncn_vault_ticket_bytes: exact_pod ncn_vault_ticket_pod
  unfolding ncn_vault_ticket_pod_def by (intro map_exact_pod pair_exact_pod base_pods slot_toggle_bytes.exact_pod_axioms) auto

interpretation ncn_vault_slasher_ticket_bytes: exact_pod ncn_vault_slasher_ticket_pod
  unfolding ncn_vault_slasher_ticket_pod_def by (intro map_exact_pod pair_exact_pod base_pods slot_toggle_bytes.exact_pod_axioms) auto

section \<open>Reading and writing an account\<close>

lemma try_from_struct:
  "is_struct d \<Longrightarrow> discriminator d = Some disc \<Longrightarrow> try_from_slice_unchecked disc prj d = ok_or (prj d) InvalidAccountData"
  by (cases d) (simp_all add: try_from_slice_unchecked_def)

text \<open>
  The accounts of a program through \<open>view\<close>: the type with discriminator \<open>disc\<close> and layout \<open>P\<close> is
  the only one with that first byte, and its structs are \<open>con x\<close>.
\<close>

locale account_type = pod P for P :: "'a pod" +
  fixes disc :: u8 and con :: "'a \<Rightarrow> account_data" and prj :: "account_data \<Rightarrow> 'a option"
    and view :: "u8 list \<Rightarrow> account_data"
  assumes prj_con: "prj (con x) = Some x"
    and con_struct: "is_struct (con x)"
    and view_disc: "discriminator (view data) = first data"
    and view_this: "first data = Some disc \<Longrightarrow>
      view data = (if length data = 8 + pod_size P then con (pod_get P (drop 8 data)) else Bytes data)"
begin

lemma con_not_Bytes: "con x \<noteq> Bytes bs"
  using con_struct [of x] by auto

lemma read_view: "try_from_slice_unchecked disc prj (view data) = bytes_try_from_slice_unchecked disc P data"
proof (cases "first data = Some disc")
  case True
  have "view data = con x \<Longrightarrow> try_from_slice_unchecked disc prj (view data) = Inr x" for x
    using True view_disc [of data] prj_con [of x] con_struct [of x] by (simp add: try_from_struct ok_or_def)
  moreover have "view data = Bytes data \<Longrightarrow>
      try_from_slice_unchecked disc prj (view data) = Inl (if length data < 8 then Panic else InvalidAccountData)"
    using True view_disc [of data] by (simp add: try_from_slice_unchecked_def)
  ultimately show ?thesis
    using True view_this [OF True] by (auto simp: bytes_try_from_slice_unchecked_def)
next
  case False
  then show ?thesis
    by (auto simp: try_from_slice_unchecked_def bytes_try_from_slice_unchecked_def view_disc split: option.splits)
qed

lemma write_view:
  assumes "first data = Some disc" and "length data = 8 + pod_size P"
  shows "view (bytes_write P x data) = con x" and "length (bytes_write P x data) = length data"
proof -
  have d: "first data = Some disc" "length data = 8 + pod_size P" "length (drop 8 data) = pod_size P"
    using assms by simp_all
  then have "first (bytes_write P x data) = Some disc" "length (bytes_write P x data) = 8 + pod_size P"
    "drop 8 (bytes_write P x data) = pod_put P x (drop 8 data)"
    using length_put [OF d(3), of x] by (auto simp: bytes_write_def first_def split: list.splits)
  then show "view (bytes_write P x data) = con x" "length (bytes_write P x data) = length data"
    using view_this get_put [OF d(3)] d(2) by simp_all
qed

lemma init_zeroed:
  "bytes_init disc P x (replicate n 0) =
     (if n < 8 then Inl Panic else if n \<noteq> 8 + pod_size P then Inl InvalidAccountData
      else Inr (disc # replicate 7 0 @ pod_put P x (replicate (pod_size P) 0)))"
  by (cases n) (auto simp: bytes_init_def bytes_try_from_slice_unchecked_def first_def and_then_def numeral_eq_Suc)

lemma init_view:
  assumes "bytes_init disc P x data = Inr data'"
  shows "view data' = con x" and "length data' = length data"
proof -
  from assms obtain a rest where data: "data = a # rest"
    and y: "length (disc # rest) = 8 + pod_size P" and data': "data' = take 8 (disc # rest) @ pod_put P x (replicate (pod_size P) 0)"
    by (auto simp: bytes_init_def bytes_try_from_slice_unchecked_def and_then_Inr_iff split: list.splits if_splits option.splits)
  have "length (replicate (pod_size P) (0 :: u8)) = pod_size P" by simp
  note p = length_put [OF this, of x] get_put [OF this, of x]
  have "first data' = Some disc" "length data' = 8 + pod_size P" "drop 8 data' = pod_put P x (replicate (pod_size P) 0)"
    using y p(1) unfolding data' by (auto simp: first_def)
  then show "view data' = con x" "length data' = length data"
    using view_this p(2) y data by simp_all
qed

end

lemma view_disc:
  "discriminator (vault_view data) = first data" "discriminator (restaking_view data) = first data"
  by (auto simp: vault_view_def restaking_view_def view_as_def)

interpretation vault_config_account: account_type vault_config_pod 1 VaultConfigD "\<lambda>d. case d of VaultConfigD x \<Rightarrow> Some x | _ \<Rightarrow> None" vault_view
  by unfold_locales (simp_all add: view_disc, simp add: vault_view_def view_as_def)

interpretation vault_account: account_type vault_pod 2 VaultD "\<lambda>d. case d of VaultD x \<Rightarrow> Some x | _ \<Rightarrow> None" vault_view
  by unfold_locales (simp_all add: view_disc, simp add: vault_view_def view_as_def)

interpretation vault_ncn_ticket_account: account_type vault_ncn_ticket_pod 3 VaultNcnTicketD "\<lambda>d. case d of VaultNcnTicketD x \<Rightarrow> Some x | _ \<Rightarrow> None" vault_view
  by unfold_locales (simp_all add: view_disc, simp add: vault_view_def view_as_def)

interpretation vault_operator_delegation_account: account_type vault_operator_delegation_pod 4 VaultOperatorDelegationD "\<lambda>d. case d of VaultOperatorDelegationD x \<Rightarrow> Some x | _ \<Rightarrow> None" vault_view
  by unfold_locales (simp_all add: view_disc, simp add: vault_view_def view_as_def)

interpretation vault_ncn_slasher_ticket_account: account_type vault_ncn_slasher_ticket_pod 5 VaultNcnSlasherTicketD "\<lambda>d. case d of VaultNcnSlasherTicketD x \<Rightarrow> Some x | _ \<Rightarrow> None" vault_view
  by unfold_locales (simp_all add: view_disc, simp add: vault_view_def view_as_def)

interpretation vault_ncn_slasher_operator_ticket_account: account_type vault_ncn_slasher_operator_ticket_pod 6 VaultNcnSlasherOperatorTicketD "\<lambda>d. case d of VaultNcnSlasherOperatorTicketD x \<Rightarrow> Some x | _ \<Rightarrow> None" vault_view
  by unfold_locales (simp_all add: view_disc, simp add: vault_view_def view_as_def)

interpretation vault_staker_withdrawal_ticket_account: account_type vault_staker_withdrawal_ticket_pod 7 VaultStakerWithdrawalTicketD "\<lambda>d. case d of VaultStakerWithdrawalTicketD x \<Rightarrow> Some x | _ \<Rightarrow> None" vault_view
  by unfold_locales (simp_all add: view_disc, simp add: vault_view_def view_as_def)

interpretation vault_update_state_tracker_account: account_type vault_update_state_tracker_pod 8 VaultUpdateStateTrackerD "\<lambda>d. case d of VaultUpdateStateTrackerD x \<Rightarrow> Some x | _ \<Rightarrow> None" vault_view
  by unfold_locales (simp_all add: view_disc, simp add: vault_view_def view_as_def)

interpretation restaking_config_account: account_type restaking_config_pod 1 RestakingConfigD "\<lambda>d. case d of RestakingConfigD x \<Rightarrow> Some x | _ \<Rightarrow> None" restaking_view
  by unfold_locales (simp_all add: view_disc, simp add: restaking_view_def view_as_def)

interpretation ncn_account: account_type ncn_pod 2 NcnD "\<lambda>d. case d of NcnD x \<Rightarrow> Some x | _ \<Rightarrow> None" restaking_view
  by unfold_locales (simp_all add: view_disc, simp add: restaking_view_def view_as_def)

interpretation operator_account: account_type operator_pod 3 OperatorD "\<lambda>d. case d of OperatorD x \<Rightarrow> Some x | _ \<Rightarrow> None" restaking_view
  by unfold_locales (simp_all add: view_disc, simp add: restaking_view_def view_as_def)

interpretation ncn_operator_state_account: account_type ncn_operator_state_pod 4 NcnOperatorStateD "\<lambda>d. case d of NcnOperatorStateD x \<Rightarrow> Some x | _ \<Rightarrow> None" restaking_view
  by unfold_locales (simp_all add: view_disc, simp add: restaking_view_def view_as_def)

interpretation operator_vault_ticket_account: account_type operator_vault_ticket_pod 5 OperatorVaultTicketD "\<lambda>d. case d of OperatorVaultTicketD x \<Rightarrow> Some x | _ \<Rightarrow> None" restaking_view
  by unfold_locales (simp_all add: view_disc, simp add: restaking_view_def view_as_def)

interpretation ncn_vault_ticket_account: account_type ncn_vault_ticket_pod 6 NcnVaultTicketD "\<lambda>d. case d of NcnVaultTicketD x \<Rightarrow> Some x | _ \<Rightarrow> None" restaking_view
  by unfold_locales (simp_all add: view_disc, simp add: restaking_view_def view_as_def)

interpretation ncn_vault_slasher_ticket_account: account_type ncn_vault_slasher_ticket_pod 7 NcnVaultSlasherTicketD "\<lambda>d. case d of NcnVaultSlasherTicketD x \<Rightarrow> Some x | _ \<Rightarrow> None" restaking_view
  by unfold_locales (simp_all add: view_disc, simp add: restaking_view_def view_as_def)

section \<open>The bytes implement the bank\<close>

lemma view_zeroed [simp]:
  "vault_view (replicate n 0) = Bytes (replicate n 0)" "restaking_view (replicate n 0) = Bytes (replicate n 0)"
  by (cases n; simp add: vault_view_def restaking_view_def view_as_def first_def)+

lemma owner_view_write:
  assumes "vp \<noteq> rp" and "is_struct d" and "length data = 8 + data_size d" and "first data = discriminator d"
  shows "owner_view vp rp (program_of vp rp d) (data_write d data) = d \<and> length (data_write d data) = length data"
  using assms
  by (cases d) (simp_all add: owner_view_def program_of_def data_write_def data_size_def vault_discriminator_def
      vault_config_account.write_view vault_account.write_view vault_ncn_ticket_account.write_view
      vault_operator_delegation_account.write_view vault_ncn_slasher_ticket_account.write_view vault_ncn_slasher_operator_ticket_account.write_view
      vault_staker_withdrawal_ticket_account.write_view vault_update_state_tracker_account.write_view restaking_config_account.write_view
      ncn_account.write_view operator_account.write_view ncn_operator_state_account.write_view
      operator_vault_ticket_account.write_view ncn_vault_ticket_account.write_view ncn_vault_slasher_ticket_account.write_view)

lemma owner_view_init:
  assumes "vp \<noteq> rp" and "is_struct d" and "data_init d data = Inr data'"
  shows "owner_view vp rp (program_of vp rp d) data' = d \<and> length data' = length data"
  using assms
  by (cases d) (simp_all add: owner_view_def program_of_def data_init_def vault_discriminator_def
      vault_config_account.init_view vault_account.init_view vault_ncn_ticket_account.init_view
      vault_operator_delegation_account.init_view vault_ncn_slasher_ticket_account.init_view vault_ncn_slasher_operator_ticket_account.init_view
      vault_staker_withdrawal_ticket_account.init_view vault_update_state_tracker_account.init_view restaking_config_account.init_view
      ncn_account.init_view operator_account.init_view ncn_operator_state_account.init_view
      operator_vault_ticket_account.init_view ncn_vault_ticket_account.init_view ncn_vault_slasher_ticket_account.init_view)

lemma data_init_zeroed:
  assumes "is_struct d"
  shows "data_init d (replicate n 0) =
     (if n < 8 then Inl Panic else if n \<noteq> 8 + data_size d then Inl InvalidAccountData
      else data_init d (replicate (8 + data_size d) 0)) \<and> is_ok (data_init d (replicate (8 + data_size d) 0))"
  using assms
  by (cases d) (simp_all add: data_init_def data_size_def is_ok_def
      vault_config_account.init_zeroed vault_account.init_zeroed vault_ncn_ticket_account.init_zeroed
      vault_operator_delegation_account.init_zeroed vault_ncn_slasher_ticket_account.init_zeroed vault_ncn_slasher_operator_ticket_account.init_zeroed
      vault_staker_withdrawal_ticket_account.init_zeroed vault_update_state_tracker_account.init_zeroed restaking_config_account.init_zeroed
      ncn_account.init_zeroed operator_account.init_zeroed ncn_operator_state_account.init_zeroed
      operator_vault_ticket_account.init_zeroed ncn_vault_ticket_account.init_zeroed ncn_vault_slasher_ticket_account.init_zeroed)

lemma bank_view_set:
  "owner_view vp rp (r_owner (rb k)) data = d \<Longrightarrow> bank_view vp rp (raw_set rb k data) = set_data (bank_view vp rp rb) k d"
  by (auto simp: bank_view_def raw_set_def set_data_def fun_eq_iff)

lemma first_view_size:
  assumes "\<And>f d. f \<in> set fs \<Longrightarrow> f data = Some d \<Longrightarrow> length data = 8 + data_size d" and "is_struct (first_view fs data)"
  shows "length data = 8 + data_size (first_view fs data)"
  using assms by (induction fs) (auto split: option.splits)

lemma view_size:
  assumes "is_struct (owner_view vp rp k data)"
  shows "length data = 8 + data_size (owner_view vp rp k data)"
proof -
  have "is_struct (vault_view data) \<Longrightarrow> length data = 8 + data_size (vault_view data)"
    unfolding vault_view_def by (erule first_view_size [rotated]) (auto simp: view_as_def data_size_def split: if_splits)
  moreover have "is_struct (restaking_view data) \<Longrightarrow> length data = 8 + data_size (restaking_view data)"
    unfolding restaking_view_def by (erule first_view_size [rotated]) (auto simp: view_as_def data_size_def split: if_splits)
  ultimately show ?thesis using assms by (simp add: owner_view_def split: if_splits)
qed

lemma same_size:
  assumes "vp \<noteq> rp" and "is_struct d" and "is_struct d'" and "program_of vp rp d = program_of vp rp d'"
    and "discriminator d = discriminator d'"
  shows "data_size d = data_size d'"
  using assms by (cases d; cases d') (simp_all add: program_of_def vault_discriminator_def data_size_def)

section \<open>Properties\<close>

text \<open>A chain on which every account belongs to one program and holds the same data.\<close>

definition sample_raw :: "pubkey \<Rightarrow> u8 list \<Rightarrow> raw_bank" where
  "sample_raw holder data k = \<lparr>r_lamports = 0, r_owner = holder, r_data = data\<rparr>"

lemmas layout_simps = slot_toggle_pod_def map_pod_def pair_pod_def reserved_pod_def pubkey_pod_def u8_pod_def
  u16_pod_def u64_pod_def

text \<open>
  Claim C27. The integer and boolean types of accounts are faithful: converting a number to its
  bytes and back gives the number for all four widths, and every array of bytes of the right length
  is the encoding of the number it is read as. A boolean is read as true from every byte but zero.
\<close>

theorem pod_integers_roundtrip:
  "pod_get u16_pod (pod_put u16_pod a xs) = a \<and> (length xs = 2 \<longrightarrow> pod_put u16_pod (pod_get u16_pod xs) xs = xs) \<and>
   pod_get u32_pod (pod_put u32_pod b xs) = b \<and> (length xs = 4 \<longrightarrow> pod_put u32_pod (pod_get u32_pod xs) xs = xs) \<and>
   pod_get u64_pod (pod_put u64_pod c xs) = c \<and> (length xs = 8 \<longrightarrow> pod_put u64_pod (pod_get u64_pod xs) xs = xs) \<and>
   pod_get u128_pod (pod_put u128_pod d xs) = d \<and> (length xs = 16 \<longrightarrow> pod_put u128_pod (pod_get u128_pod xs) xs = xs) \<and>
   pod_get bool_pod (pod_put bool_pod t xs) = t \<and> (pod_get bool_pod [x] \<longleftrightarrow> x \<noteq> 0)"
  using base_pods(2-5) [THEN exact_pod.put_get, of xs]
  by (simp add: u16_pod_def u32_pod_def u64_pod_def u128_pod_def bool_pod_def from_to_le_bytes)

theorem pod_integers_roundtrip_witness:
  "pod_put u16_pod (pod_get u16_pod [0x34, 0x12]) [0x34, 0x12] = [0x34, 0x12] \<and> pod_get u16_pod [0x34, 0x12] = 0x1234"
  using pod_integers_roundtrip [where xs = "[0x34, 0x12]"] by (simp add: u16_pod_def)


text \<open>
  Claim C23. Reading an account refines to its bytes. For an account of the vault program each of
  the eight readers, and for one of the restaking program each of the seven, returns on the bank
  exactly what the deserialisation returns on the bytes on chain: the struct, the same error when
  the discriminator or the size is wrong, and a panic on data that is empty or ends in the header.
\<close>

theorem account_reads_refined:
  assumes "vp \<noteq> rp" and "b = bank_view vp rp rb" and "data = r_data (rb (ai_key info))"
  shows "(r_owner (rb (ai_key info)) = vp \<longrightarrow>
     get_vault_config b info = bytes_try_from_slice_unchecked 1 vault_config_pod data \<and>
     get_vault b info = bytes_try_from_slice_unchecked 2 vault_pod data \<and>
     get_vault_ncn_ticket b info = bytes_try_from_slice_unchecked 3 vault_ncn_ticket_pod data \<and>
     get_vault_operator_delegation b info = bytes_try_from_slice_unchecked 4 vault_operator_delegation_pod data \<and>
     get_vault_ncn_slasher_ticket b info = bytes_try_from_slice_unchecked 5 vault_ncn_slasher_ticket_pod data \<and>
     get_vault_ncn_slasher_operator_ticket b info = bytes_try_from_slice_unchecked 6 vault_ncn_slasher_operator_ticket_pod data \<and>
     get_vault_staker_withdrawal_ticket b info = bytes_try_from_slice_unchecked 7 vault_staker_withdrawal_ticket_pod data \<and>
     get_vault_update_state_tracker b info = bytes_try_from_slice_unchecked 8 vault_update_state_tracker_pod data) \<and>
    (r_owner (rb (ai_key info)) = rp \<longrightarrow>
     get_restaking_config b info = bytes_try_from_slice_unchecked 1 restaking_config_pod data \<and>
     get_ncn b info = bytes_try_from_slice_unchecked 2 ncn_pod data \<and>
     get_operator b info = bytes_try_from_slice_unchecked 3 operator_pod data \<and>
     get_ncn_operator_state b info = bytes_try_from_slice_unchecked 4 ncn_operator_state_pod data \<and>
     get_operator_vault_ticket b info = bytes_try_from_slice_unchecked 5 operator_vault_ticket_pod data \<and>
     get_ncn_vault_ticket b info = bytes_try_from_slice_unchecked 6 ncn_vault_ticket_pod data \<and>
     get_ncn_vault_slasher_ticket b info = bytes_try_from_slice_unchecked 7 ncn_vault_slasher_ticket_pod data)"
  using assms(1) unfolding assms(2,3)
  by (simp add: get_vault_config_def get_vault_def get_vault_ncn_ticket_def get_vault_operator_delegation_def
      get_vault_ncn_slasher_ticket_def get_vault_ncn_slasher_operator_ticket_def
      get_vault_staker_withdrawal_ticket_def get_vault_update_state_tracker_def get_restaking_config_def
      get_ncn_def get_operator_def get_ncn_operator_state_def get_operator_vault_ticket_def
      get_ncn_vault_ticket_def get_ncn_vault_slasher_ticket_def
      bank_view_def owner_view_def
      vault_config_account.read_view vault_account.read_view vault_ncn_ticket_account.read_view
      vault_operator_delegation_account.read_view vault_ncn_slasher_ticket_account.read_view
      vault_ncn_slasher_operator_ticket_account.read_view vault_staker_withdrawal_ticket_account.read_view
      vault_update_state_tracker_account.read_view restaking_config_account.read_view
      ncn_account.read_view operator_account.read_view ncn_operator_state_account.read_view
      operator_vault_ticket_account.read_view ncn_vault_ticket_account.read_view
      ncn_vault_slasher_ticket_account.read_view)

theorem account_reads_refined_witness:
  "get_vault_config (bank_view 1000 2000 (sample_raw 1000 (1 # replicate 389 0))) \<lparr>ai_key = 6, ai_is_signer = False, ai_is_writable = False\<rparr>
     = bytes_try_from_slice_unchecked 1 vault_config_pod (1 # replicate 389 0)"
  using account_reads_refined [of 1000 2000 _ "sample_raw 1000 (1 # replicate 389 0)", OF _ refl refl,
      of "\<lparr>ai_key = 6, ai_is_signer = False, ai_is_writable = False\<rparr>"]
  by (simp add: sample_raw_def)

text \<open>
  Claim C24. Changing an account in place refines to its bytes. When the bank holds a struct of one
  of the two programs, replacing it by another value of the same type is what assigning the fields
  in the bytes does; the account keeps its length, and whatever the reserved bytes hold.
\<close>

theorem account_writes_refined:
  assumes "vp \<noteq> rp" and "a_data (bank_view vp rp rb k) = d" and "is_struct d" and "is_struct d'"
    and "r_owner (rb k) = program_of vp rp d" and "program_of vp rp d' = program_of vp rp d"
    and "discriminator d' = discriminator d"
  shows "bank_view vp rp (raw_set rb k (data_write d' (r_data (rb k)))) = set_data (bank_view vp rp rb) k d' \<and>
    length (data_write d' (r_data (rb k))) = length (r_data (rb k))"
proof -
  have v: "owner_view vp rp (r_owner (rb k)) (r_data (rb k)) = d"
    using assms(2) by (simp add: bank_view_def)
  have "length (r_data (rb k)) = 8 + data_size d'"
    using view_size [of vp rp "r_owner (rb k)" "r_data (rb k)"] same_size [OF assms(1,4,3,6,7)] assms(3) v by simp
  moreover have "first (r_data (rb k)) = discriminator d'"
    using v assms(7) view_disc by (auto simp: owner_view_def split: if_splits)
  ultimately have "owner_view vp rp (r_owner (rb k)) (data_write d' (r_data (rb k))) = d' \<and>
      length (data_write d' (r_data (rb k))) = length (r_data (rb k))"
    using owner_view_write [OF assms(1,4)] assms(5,6) by simp
  then show ?thesis using bank_view_set by blast
qed

theorem account_writes_refined_witness:
  "bank_view 1000 2000 (raw_set (sample_raw 2000 (2 # replicate 591 0)) 35
       (data_write (NcnD (ncn_new 4 3 0 255)) (2 # replicate 591 0)))
     = set_data (bank_view 1000 2000 (sample_raw 2000 (2 # replicate 591 0))) 35 (NcnD (ncn_new 4 3 0 255))"
proof -
  let ?d = "NcnD (pod_get ncn_pod (replicate 584 0))"
  have "a_data (bank_view 1000 2000 (sample_raw 2000 (2 # replicate 591 0)) 35) = ?d"
    by (simp add: bank_view_def owner_view_def sample_raw_def restaking_view_def view_as_def first_def ncn_pod_def layout_simps
        drop_Cons')
  from account_writes_refined [OF _ this, of "NcnD (ncn_new 4 3 0 255)"] show ?thesis
    by (simp add: sample_raw_def program_of_def vault_discriminator_def)
qed

text \<open>
  Claim C25. Creating an account refines to its bytes. On freshly allocated, zeroed data of any
  length the first use of an account on the bank does what writing the discriminator and assigning
  the new struct does to the bytes, including the error for a wrong size and the panic for data
  shorter than the header.
\<close>

theorem account_creation_refined:
  assumes "vp \<noteq> rp" and "is_struct d" and "r_owner (rb (ai_key info)) = program_of vp rp d"
    and "r_data (rb (ai_key info)) = replicate n 0"
  shows "init_account (bank_view vp rp rb) info (data_size d) d =
     (case data_init d (r_data (rb (ai_key info))) of
        Inl err \<Rightarrow> Inl err
      | Inr data \<Rightarrow> Inr (bank_view vp rp (raw_set rb (ai_key info) data)))"
proof -
  have raw: "a_data (bank_view vp rp rb (ai_key info)) = Bytes (replicate n 0)"
    using assms(3,4) by (auto simp: bank_view_def owner_view_def)
  show ?thesis
  proof (cases "n = 8 + data_size d")
    case True
    obtain data where "data_init d (r_data (rb (ai_key info))) = Inr data"
      using data_init_zeroed [OF assms(2), of n] assms(4) True by (auto simp: is_ok_def split: sum.splits)
    moreover from this have "bank_view vp rp (raw_set rb (ai_key info) data) = set_data (bank_view vp rp rb) (ai_key info) d"
      using owner_view_init [OF assms(1,2)] assms(3) bank_view_set by metis
    ultimately show ?thesis using raw True by (simp add: init_account_def check_new_account_def and_then_def)
  next
    case False
    then show ?thesis
      using raw data_init_zeroed [OF assms(2), of n] assms(4) by (auto simp: init_account_def check_new_account_def and_then_def)
  qed
qed

theorem account_creation_refined_witness:
  "\<exists>data. data_init (NcnD (ncn_new 4 3 0 255)) (replicate 592 0) = Inr data \<and>
     init_account (bank_view 1000 2000 (sample_raw 2000 (replicate 592 0)))
       \<lparr>ai_key = 35, ai_is_signer = False, ai_is_writable = True\<rparr> 584 (NcnD (ncn_new 4 3 0 255))
     = Inr (bank_view 1000 2000 (raw_set (sample_raw 2000 (replicate 592 0)) 35 data))"
proof -
  have [simp]: "data_size (NcnD n) = 584" for n by (simp add: data_size_def ncn_pod_def layout_simps)
  have "is_ok (data_init (NcnD (ncn_new 4 3 0 255)) (replicate 592 0))"
    using conjunct2 [OF data_init_zeroed [of "NcnD (ncn_new 4 3 0 255)" 592]] by simp
  then obtain data where data: "data_init (NcnD (ncn_new 4 3 0 255)) (replicate 592 0) = Inr data"
    unfolding is_ok_def by (cases "data_init (NcnD (ncn_new 4 3 0 255)) (replicate 592 0)") simp_all
  show ?thesis
    using account_creation_refined [of 1000 2000 "NcnD (ncn_new 4 3 0 255)" "sample_raw 2000 (replicate 592 0)"
        "\<lparr>ai_key = 35, ai_is_signer = False, ai_is_writable = True\<rparr>" 592] data
    by (simp add: sample_raw_def program_of_def vault_discriminator_def)
qed

end
