(* ===== verification/Transaction_Context.thy ===== *)
theory Transaction_Context
  imports Prelude
begin

text \<open>
  The state of a transaction while the runtime of the validator executes it
  (\<open>gorchain/transaction-context/src/lib.rs\<close>): the loaded accounts, the stack and the trace of
  instructions, and the operations through which every program, built in or deployed, changes an
  account. Their checks are what the ownership rules of the chain rest on.

  An error aborts the transaction and its state is dropped, so an operation returns the new state
  or an error. A \<open>RefCell\<close> is the account and a flag saying that it is borrowed; the sharing and
  the capacity of buffers have no effect and are left out. An \<open>InstructionContext\<close> is the
  transaction together with one frame of its trace, a \<open>BorrowedAccount\<close> the entry of the
  instruction it was borrowed through and the index of the running program. Taken from outside
  (record \<open>runtime\<close>) are the rent table, the addresses of two sysvars and the function that stores
  the index of the current instruction in one of them. The handler for memory faults of the
  virtual machine is not modelled.
\<close>

section \<open>Errors and constants\<close>

datatype (plugins only: size) instruction_error =
    IeGenericError
  | IeInvalidArgument
  | IeInvalidInstructionData
  | IeInvalidAccountData
  | IeAccountDataTooSmall
  | IeInsufficientFunds
  | IeMissingRequiredSignature
  | IeUnbalancedInstruction
  | IeModifiedProgramId
  | IeExternalAccountLamportSpend
  | IeExternalAccountDataModified
  | IeReadonlyLamportChange
  | IeReadonlyDataModified
  | IeExecutableModified
  | IeNotEnoughAccountKeys
  | IeAccountDataSizeChanged
  | IeAccountBorrowFailed
  | IeAccountBorrowOutstanding
  | IeCustom u64
  | IeExecutableAccountNotRentExempt
  | IeUnsupportedProgramId
  | IeCallDepth
  | IeMissingAccount
  | IeReentrancyNotAllowed
  | IeInvalidRealloc
  | IePrivilegeEscalation
  | IeInvalidAccountOwner
  | IeArithmeticOverflow
  | IeMaxAccountsDataAllocationsExceeded
  | IeMaxInstructionTraceLengthExceeded
  | IeBuiltinProgramsMustConsumeComputeUnits
  | IePanic

definition MAX_ACCOUNTS_PER_TRANSACTION :: nat where
  "MAX_ACCOUNTS_PER_TRANSACTION = 256"

definition MAX_ACCOUNT_DATA_LEN :: nat where
  "MAX_ACCOUNT_DATA_LEN = 10 * 1024 * 1024"

definition MAX_ACCOUNT_DATA_GROWTH_PER_TRANSACTION :: int where
  "MAX_ACCOUNT_DATA_GROWTH_PER_TRANSACTION = int MAX_ACCOUNT_DATA_LEN * 2"

text \<open>\<open>slice::get\<close>, and the signed arithmetic of the two counters.\<close>

definition get_at :: "'a list \<Rightarrow> nat \<Rightarrow> 'a option" where
  "get_at xs i = (if i < length xs then Some (xs ! i) else None)"

definition as_i64 :: "nat \<Rightarrow> int" where
  "as_i64 n = (let r = n mod 2 ^ 64 in if r < 2 ^ 63 then int r else int r - 2 ^ 64)"

definition saturate_i64 :: "int \<Rightarrow> int" where
  "saturate_i64 x = max (- (2 ^ 63)) (min (2 ^ 63 - 1) x)"

definition checked_i128 :: "int \<Rightarrow> int option" where
  "checked_i128 x = (if - (2 ^ 127) \<le> x \<and> x < 2 ^ 127 then Some x else None)"

section \<open>Data\<close>

record shared_account =
  sa_lamports :: u64
  sa_data :: "u8 list"
  sa_owner :: pubkey
  sa_executable :: bool
  sa_rent_epoch :: u64

record instruction_account =
  index_in_transaction :: u16
  is_signer :: bool
  is_writable :: bool

record transaction_accounts =
  tas_accounts :: "shared_account list"
  tas_borrowed :: "bool list"
  tas_touched_flags :: "bool list"
  tas_resize_delta :: int
  tas_lamports_delta :: int

record instruction_frame =
  nesting_level :: nat
  program_account_index_in_tx :: u16
  instruction_accounts :: "instruction_account list"
  dedup_map :: "u8 list"
  instruction_data :: "u8 list"

definition default_frame :: instruction_frame where
  "default_frame = \<lparr>nesting_level = 0, program_account_index_in_tx = 0, instruction_accounts = [], dedup_map = [], instruction_data = []\<rparr>"

record transaction_context =
  account_keys :: "pubkey list"
  accounts :: transaction_accounts
  instruction_stack_capacity :: nat
  instruction_trace_capacity :: nat
  instruction_stack :: "nat list"
  instruction_trace :: "instruction_frame list"
  top_level_instruction_index :: nat
  return_data :: "pubkey \<times> u8 list"

record borrowed_account =
  instruction_account :: instruction_account
  index_in_transaction_of_instruction_program :: u16

record runtime =
  rt_instructions_id :: pubkey
  rt_sysvar_id :: pubkey
  rt_store_current_index :: "u8 list \<Rightarrow> u16 \<Rightarrow> instruction_error + u8 list"
  rt_is_exempt :: "u64 \<Rightarrow> nat \<Rightarrow> bool"

section \<open>TransactionAccounts\<close>

definition transaction_accounts_new :: "shared_account list \<Rightarrow> transaction_accounts" where
  "transaction_accounts_new xs =
     \<lparr>tas_accounts = xs, tas_borrowed = replicate (length xs) False, tas_touched_flags = replicate (length xs) False,
      tas_resize_delta = 0, tas_lamports_delta = 0\<rparr>"

definition tas_touch :: "transaction_accounts \<Rightarrow> u16 \<Rightarrow> instruction_error + transaction_accounts" where
  "tas_touch tas index =
     (if unat index < length (tas_touched_flags tas)
      then Inr (tas\<lparr>tas_touched_flags := (tas_touched_flags tas)[unat index := True]\<rparr>)
      else Inl IeNotEnoughAccountKeys)"

definition tas_update_accounts_resize_delta :: "transaction_accounts \<Rightarrow> nat \<Rightarrow> nat \<Rightarrow> transaction_accounts" where
  "tas_update_accounts_resize_delta tas old_len new_len =
     tas\<lparr>tas_resize_delta := saturate_i64 (tas_resize_delta tas + saturate_i64 (as_i64 new_len - as_i64 old_len))\<rparr>"

definition tas_can_data_be_resized :: "transaction_accounts \<Rightarrow> nat \<Rightarrow> nat \<Rightarrow> instruction_error + unit" where
  "tas_can_data_be_resized tas old_len new_len =
     and_then (err_if (MAX_ACCOUNT_DATA_LEN < new_len) IeInvalidRealloc) (\<lambda>_.
     let length_delta = saturate_i64 (as_i64 new_len - as_i64 old_len) in
     err_if (MAX_ACCOUNT_DATA_GROWTH_PER_TRANSACTION < saturate_i64 (tas_resize_delta tas + length_delta))
       IeMaxAccountsDataAllocationsExceeded)"

text \<open>A mutable borrow marks the account until it is dropped; a shared one is over within the call.\<close>

definition tas_try_borrow_mut :: "transaction_accounts \<Rightarrow> u16 \<Rightarrow> instruction_error + transaction_accounts" where
  "tas_try_borrow_mut tas index =
     and_then (ok_or (get_at (tas_accounts tas) (unat index)) IeMissingAccount) (\<lambda>_.
     and_then (err_if (tas_borrowed tas ! unat index) IeAccountBorrowFailed) (\<lambda>_.
     Inr (tas\<lparr>tas_borrowed := (tas_borrowed tas)[unat index := True]\<rparr>)))"

definition tas_try_borrow :: "transaction_accounts \<Rightarrow> u16 \<Rightarrow> instruction_error + shared_account" where
  "tas_try_borrow tas index =
     and_then (ok_or (get_at (tas_accounts tas) (unat index)) IeMissingAccount) (\<lambda>account.
     and_then (err_if (tas_borrowed tas ! unat index) IeAccountBorrowFailed) (\<lambda>_.
     Inr account))"

definition tas_drop :: "transaction_accounts \<Rightarrow> u16 \<Rightarrow> transaction_accounts" where
  "tas_drop tas index = tas\<lparr>tas_borrowed := (tas_borrowed tas)[unat index := False]\<rparr>"

definition tas_add_lamports_delta :: "transaction_accounts \<Rightarrow> int \<Rightarrow> instruction_error + transaction_accounts" where
  "tas_add_lamports_delta tas balance =
     and_then (ok_or (checked_i128 (tas_lamports_delta tas + balance)) IeArithmeticOverflow) (\<lambda>delta.
     Inr (tas\<lparr>tas_lamports_delta := delta\<rparr>))"

definition tas_set_account :: "transaction_accounts \<Rightarrow> u16 \<Rightarrow> shared_account \<Rightarrow> transaction_accounts" where
  "tas_set_account tas index account = tas\<lparr>tas_accounts := (tas_accounts tas)[unat index := account]\<rparr>"

section \<open>TransactionContext\<close>

definition transaction_context_new :: "(pubkey \<times> shared_account) list \<Rightarrow> nat \<Rightarrow> nat \<Rightarrow> transaction_context" where
  "transaction_context_new transaction_accounts stack_capacity trace_capacity =
     \<lparr>account_keys = map fst transaction_accounts,
      accounts = transaction_accounts_new (map snd transaction_accounts),
      instruction_stack_capacity = stack_capacity,
      instruction_trace_capacity = trace_capacity,
      instruction_stack = [],
      instruction_trace = [default_frame],
      top_level_instruction_index = 0,
      return_data = (0, [])\<rparr>"

definition get_number_of_accounts :: "transaction_context \<Rightarrow> u16" where
  "get_number_of_accounts tc = of_nat (length (tas_accounts (accounts tc)))"

definition get_key_of_account_at_index :: "transaction_context \<Rightarrow> u16 \<Rightarrow> instruction_error + pubkey" where
  "get_key_of_account_at_index tc index = ok_or (get_at (account_keys tc) (unat index)) IeNotEnoughAccountKeys"

fun position :: "('a \<Rightarrow> bool) \<Rightarrow> 'a list \<Rightarrow> nat option" where
  "position P [] = None"
| "position P (x # xs) = (if P x then Some 0 else map_option Suc (position P xs))"

definition find_index_of_account :: "transaction_context \<Rightarrow> pubkey \<Rightarrow> u16 option" where
  "find_index_of_account tc key = map_option of_nat (position (\<lambda>k. k = key) (account_keys tc))"

definition get_instruction_trace_length :: "transaction_context \<Rightarrow> nat" where
  "get_instruction_trace_length tc = length (instruction_trace tc) - 1"

definition get_instruction_context_at_index_in_trace :: "transaction_context \<Rightarrow> nat \<Rightarrow> instruction_error + instruction_frame" where
  "get_instruction_context_at_index_in_trace tc index_in_trace = ok_or (get_at (instruction_trace tc) index_in_trace) IeCallDepth"

definition get_instruction_context_at_nesting_level :: "transaction_context \<Rightarrow> nat \<Rightarrow> instruction_error + instruction_frame" where
  "get_instruction_context_at_nesting_level tc level =
     and_then (ok_or (get_at (instruction_stack tc) level) IeCallDepth) (\<lambda>index_in_trace.
     get_instruction_context_at_index_in_trace tc index_in_trace)"

definition get_instruction_stack_height :: "transaction_context \<Rightarrow> nat" where
  "get_instruction_stack_height tc = length (instruction_stack tc)"

definition get_current_instruction_context :: "transaction_context \<Rightarrow> instruction_error + instruction_frame" where
  "get_current_instruction_context tc =
     and_then (err_if (get_instruction_stack_height tc = 0) IeCallDepth) (\<lambda>_.
     get_instruction_context_at_nesting_level tc (get_instruction_stack_height tc - 1))"

definition get_next_instruction_context :: "transaction_context \<Rightarrow> instruction_error + instruction_frame" where
  "get_next_instruction_context tc =
     and_then (err_if (instruction_trace tc = []) IeCallDepth) (\<lambda>_.
     get_instruction_context_at_index_in_trace tc (length (instruction_trace tc) - 1))"

definition set_last_frame :: "transaction_context \<Rightarrow> instruction_frame \<Rightarrow> transaction_context" where
  "set_last_frame tc frame = tc\<lparr>instruction_trace := butlast (instruction_trace tc) @ [frame]\<rparr>"

definition configure_next_instruction ::
    "transaction_context \<Rightarrow> u16 \<Rightarrow> instruction_account list \<Rightarrow> u8 list \<Rightarrow> u8 list \<Rightarrow> instruction_error + transaction_context" where
  "configure_next_instruction tc program_index ias deduplication_map data =
     and_then (err_if (instruction_trace tc = []) IeCallDepth) (\<lambda>_.
     Inr (set_last_frame tc ((last (instruction_trace tc))
       \<lparr>program_account_index_in_tx := program_index, instruction_accounts := ias, instruction_data := data,
        dedup_map := deduplication_map\<rparr>)))"

text \<open>The index of the running instruction, stored in the instructions sysvar when it is loaded.\<close>

definition store_instruction_index :: "runtime \<Rightarrow> transaction_context \<Rightarrow> instruction_error + transaction_context" where
  "store_instruction_index rt tc =
     (case find_index_of_account tc (rt_instructions_id rt) of
        None \<Rightarrow> Inr tc
      | Some index \<Rightarrow>
          and_then (tas_try_borrow_mut (accounts tc) index) (\<lambda>tas.
          let account = tas_accounts tas ! unat index in
          and_then (err_if (sa_owner account \<noteq> rt_sysvar_id rt) IeInvalidAccountOwner) (\<lambda>_.
          and_then (rt_store_current_index rt (sa_data account) (of_nat (top_level_instruction_index tc))) (\<lambda>data.
          Inr (tc\<lparr>accounts := tas_drop (tas_set_account tas index (account\<lparr>sa_data := data\<rparr>)) index\<rparr>)))))"

definition tc_push :: "runtime \<Rightarrow> transaction_context \<Rightarrow> instruction_error + transaction_context" where
  "tc_push rt tc =
     (let level = get_instruction_stack_height tc in
     and_then (err_if (instruction_stack tc \<noteq> [] \<and> tas_lamports_delta (accounts tc) \<noteq> 0) IeUnbalancedInstruction) (\<lambda>_.
     and_then (err_if (instruction_trace tc = []) IeCallDepth) (\<lambda>_.
     let tc = set_last_frame tc ((last (instruction_trace tc))\<lparr>nesting_level := level\<rparr>);
         index_in_trace = get_instruction_trace_length tc in
     and_then (err_if (instruction_trace_capacity tc \<le> index_in_trace) IeMaxInstructionTraceLengthExceeded) (\<lambda>_.
     let tc = tc\<lparr>instruction_trace := instruction_trace tc @ [default_frame]\<rparr> in
     and_then (err_if (instruction_stack_capacity tc \<le> level) IeCallDepth) (\<lambda>_.
     store_instruction_index rt (tc\<lparr>instruction_stack := instruction_stack tc @ [index_in_trace]\<rparr>))))))"

section \<open>InstructionContext\<close>

definition get_stack_height :: "instruction_frame \<Rightarrow> nat" where
  "get_stack_height frame = nesting_level frame + 1"

definition get_number_of_instruction_accounts :: "instruction_frame \<Rightarrow> u16" where
  "get_number_of_instruction_accounts frame = of_nat (length (instruction_accounts frame))"

definition check_number_of_instruction_accounts :: "instruction_frame \<Rightarrow> u16 \<Rightarrow> instruction_error + unit" where
  "check_number_of_instruction_accounts frame expected_at_least =
     err_if (get_number_of_instruction_accounts frame < expected_at_least) IeNotEnoughAccountKeys"

definition find_index_of_instruction_account :: "transaction_context \<Rightarrow> instruction_frame \<Rightarrow> pubkey \<Rightarrow> u16 option" where
  "find_index_of_instruction_account tc frame key =
     map_option of_nat
       (position (\<lambda>ia. get_at (account_keys tc) (unat (index_in_transaction ia)) = Some key) (instruction_accounts frame))"

definition get_index_of_program_account_in_transaction :: "instruction_frame \<Rightarrow> instruction_error + u16" where
  "get_index_of_program_account_in_transaction frame =
     (if program_account_index_in_tx frame = - 1 then Inl IeNotEnoughAccountKeys else Inr (program_account_index_in_tx frame))"

definition get_index_of_instruction_account_in_transaction :: "instruction_frame \<Rightarrow> u16 \<Rightarrow> instruction_error + u16" where
  "get_index_of_instruction_account_in_transaction frame instruction_account_index =
     and_then (ok_or (get_at (instruction_accounts frame) (unat instruction_account_index)) IeNotEnoughAccountKeys) (\<lambda>ia.
     Inr (index_in_transaction ia))"

definition get_index_of_account_in_instruction :: "instruction_frame \<Rightarrow> u16 \<Rightarrow> instruction_error + u16" where
  "get_index_of_account_in_instruction frame index =
     ok_or (Option.bind (get_at (dedup_map frame) (unat index))
              (\<lambda>idx. if length (instruction_accounts frame) \<le> unat idx then None else Some (ucast idx))) IeMissingAccount"

definition is_instruction_account_duplicate :: "instruction_frame \<Rightarrow> u16 \<Rightarrow> instruction_error + u16 option" where
  "is_instruction_account_duplicate frame instruction_account_index =
     and_then (get_index_of_instruction_account_in_transaction frame instruction_account_index) (\<lambda>index.
     and_then (get_index_of_account_in_instruction frame index) (\<lambda>first_instruction_account_index.
     Inr (if first_instruction_account_index = instruction_account_index then None else Some first_instruction_account_index)))"

definition get_program_key :: "transaction_context \<Rightarrow> instruction_frame \<Rightarrow> instruction_error + pubkey" where
  "get_program_key tc frame =
     and_then (get_index_of_program_account_in_transaction frame) (\<lambda>index. get_key_of_account_at_index tc index)"

definition get_program_owner :: "transaction_context \<Rightarrow> instruction_frame \<Rightarrow> instruction_error + pubkey" where
  "get_program_owner tc frame =
     and_then (get_index_of_program_account_in_transaction frame) (\<lambda>index.
     and_then (tas_try_borrow (accounts tc) index) (\<lambda>account. Inr (sa_owner account)))"

definition try_borrow_instruction_account ::
    "transaction_context \<Rightarrow> instruction_frame \<Rightarrow> u16 \<Rightarrow> instruction_error + borrowed_account \<times> transaction_context" where
  "try_borrow_instruction_account tc frame index_in_instruction =
     and_then (ok_or (get_at (instruction_accounts frame) (unat index_in_instruction)) IeNotEnoughAccountKeys) (\<lambda>ia.
     and_then (tas_try_borrow_mut (accounts tc) (index_in_transaction ia)) (\<lambda>tas.
     Inr (\<lparr>instruction_account = ia, index_in_transaction_of_instruction_program = program_account_index_in_tx frame\<rparr>,
          tc\<lparr>accounts := tas\<rparr>)))"

definition drop_account :: "transaction_context \<Rightarrow> borrowed_account \<Rightarrow> transaction_context" where
  "drop_account tc ba = tc\<lparr>accounts := tas_drop (accounts tc) (index_in_transaction (instruction_account ba))\<rparr>"

definition is_instruction_account_signer :: "instruction_frame \<Rightarrow> u16 \<Rightarrow> instruction_error + bool" where
  "is_instruction_account_signer frame instruction_account_index =
     and_then (ok_or (get_at (instruction_accounts frame) (unat instruction_account_index)) IeMissingAccount) (\<lambda>ia.
     Inr (is_signer ia))"

definition is_instruction_account_writable :: "instruction_frame \<Rightarrow> u16 \<Rightarrow> instruction_error + bool" where
  "is_instruction_account_writable frame instruction_account_index =
     and_then (ok_or (get_at (instruction_accounts frame) (unat instruction_account_index)) IeMissingAccount) (\<lambda>ia.
     Inr (is_writable ia))"

text \<open>The set of signers, collected entry by entry.\<close>

fun get_signers_loop :: "transaction_context \<Rightarrow> instruction_account list \<Rightarrow> pubkey set \<Rightarrow> instruction_error + pubkey set" where
  "get_signers_loop tc [] result = Inr result"
| "get_signers_loop tc (ia # ias) result =
     (if is_signer ia
      then and_then (get_key_of_account_at_index tc (index_in_transaction ia)) (\<lambda>key.
           get_signers_loop tc ias (insert key result))
      else get_signers_loop tc ias result)"

definition get_signers :: "transaction_context \<Rightarrow> instruction_frame \<Rightarrow> instruction_error + pubkey set" where
  "get_signers tc frame = get_signers_loop tc (instruction_accounts frame) {}"

definition get_key_of_instruction_account :: "transaction_context \<Rightarrow> instruction_frame \<Rightarrow> u16 \<Rightarrow> instruction_error + pubkey" where
  "get_key_of_instruction_account tc frame index_in_instruction =
     and_then (get_index_of_instruction_account_in_transaction frame index_in_instruction) (\<lambda>index.
     get_key_of_account_at_index tc index)"

text \<open>Popping the current instruction, which must have left the sum of all lamports as it was.\<close>

definition tc_pop :: "transaction_context \<Rightarrow> instruction_error + transaction_context" where
  "tc_pop tc =
     and_then (err_if (instruction_stack tc = []) IeCallDepth) (\<lambda>_.
     let detected_an_unbalanced_instruction =
           and_then (get_current_instruction_context tc) (\<lambda>frame.
           and_then (get_index_of_program_account_in_transaction frame) (\<lambda>index.
           and_then (map_err (\<lambda>err. if err = IeAccountBorrowFailed then IeAccountBorrowOutstanding else err)
                       (tas_try_borrow_mut (accounts tc) index)) (\<lambda>_.
           Inr (tas_lamports_delta (accounts tc) \<noteq> 0))));
         stack = butlast (instruction_stack tc);
         tc = tc\<lparr>instruction_stack := stack,
                 top_level_instruction_index :=
                   (if stack = [] then min (2 ^ 64 - 1) (top_level_instruction_index tc + 1) else top_level_instruction_index tc)\<rparr> in
     and_then detected_an_unbalanced_instruction (\<lambda>unbalanced.
     and_then (err_if unbalanced IeUnbalancedInstruction) (\<lambda>_. Inr tc)))"

definition set_return_data :: "transaction_context \<Rightarrow> pubkey \<Rightarrow> u8 list \<Rightarrow> transaction_context" where
  "set_return_data tc program_id data = tc\<lparr>return_data := (program_id, data)\<rparr>"

section \<open>BorrowedAccount\<close>

definition get_index_in_transaction :: "borrowed_account \<Rightarrow> u16" where
  "get_index_in_transaction ba = index_in_transaction (instruction_account ba)"

definition ba_account :: "transaction_context \<Rightarrow> borrowed_account \<Rightarrow> shared_account" where
  "ba_account tc ba = tas_accounts (accounts tc) ! unat (get_index_in_transaction ba)"

definition ba_set :: "transaction_context \<Rightarrow> borrowed_account \<Rightarrow> shared_account \<Rightarrow> transaction_context" where
  "ba_set tc ba account = tc\<lparr>accounts := tas_set_account (accounts tc) (get_index_in_transaction ba) account\<rparr>"

definition get_key :: "transaction_context \<Rightarrow> borrowed_account \<Rightarrow> instruction_error + pubkey" where
  "get_key tc ba = ok_or (get_at (account_keys tc) (unat (get_index_in_transaction ba))) IePanic"

definition get_owner :: "transaction_context \<Rightarrow> borrowed_account \<Rightarrow> pubkey" where
  "get_owner tc ba = sa_owner (ba_account tc ba)"

definition get_lamports :: "transaction_context \<Rightarrow> borrowed_account \<Rightarrow> u64" where
  "get_lamports tc ba = sa_lamports (ba_account tc ba)"

definition get_data :: "transaction_context \<Rightarrow> borrowed_account \<Rightarrow> u8 list" where
  "get_data tc ba = sa_data (ba_account tc ba)"

definition ba_is_signer :: "borrowed_account \<Rightarrow> bool" where
  "ba_is_signer ba = is_signer (instruction_account ba)"

definition ba_is_writable :: "borrowed_account \<Rightarrow> bool" where
  "ba_is_writable ba = is_writable (instruction_account ba)"

definition is_owned_by_current_program :: "transaction_context \<Rightarrow> borrowed_account \<Rightarrow> bool" where
  "is_owned_by_current_program tc ba =
     (case get_key_of_account_at_index tc (index_in_transaction_of_instruction_program ba) of
        Inr program_key \<Rightarrow> program_key = get_owner tc ba
      | Inl err \<Rightarrow> False)"

definition ba_touch :: "transaction_context \<Rightarrow> borrowed_account \<Rightarrow> instruction_error + transaction_context" where
  "ba_touch tc ba =
     and_then (tas_touch (accounts tc) (get_index_in_transaction ba)) (\<lambda>tas. Inr (tc\<lparr>accounts := tas\<rparr>))"

definition ba_update_accounts_resize_delta :: "transaction_context \<Rightarrow> borrowed_account \<Rightarrow> nat \<Rightarrow> transaction_context" where
  "ba_update_accounts_resize_delta tc ba new_len =
     tc\<lparr>accounts := tas_update_accounts_resize_delta (accounts tc) (length (get_data tc ba)) new_len\<rparr>"

definition can_data_be_changed :: "transaction_context \<Rightarrow> borrowed_account \<Rightarrow> instruction_error + unit" where
  "can_data_be_changed tc ba =
     and_then (err_if (\<not> ba_is_writable ba) IeReadonlyDataModified) (\<lambda>_.
     err_if (\<not> is_owned_by_current_program tc ba) IeExternalAccountDataModified)"

definition can_data_be_resized :: "transaction_context \<Rightarrow> borrowed_account \<Rightarrow> nat \<Rightarrow> instruction_error + unit" where
  "can_data_be_resized tc ba new_len =
     (let old_len = length (get_data tc ba) in
     and_then (err_if (new_len \<noteq> old_len \<and> \<not> is_owned_by_current_program tc ba) IeAccountDataSizeChanged) (\<lambda>_.
     and_then (tas_can_data_be_resized (accounts tc) old_len new_len) (\<lambda>_.
     can_data_be_changed tc ba)))"

text \<open>\<open>is_zeroed\<close> compares chunks of 1024 bytes with a block of zeroes, then the remainder.\<close>

definition ZEROS_LEN :: nat where
  "ZEROS_LEN = 1024"

function chunks_exact :: "nat \<Rightarrow> 'a list \<Rightarrow> 'a list list" where
  "chunks_exact n xs = (if n = 0 \<or> length xs < n then [] else take n xs # chunks_exact n (drop n xs))"
  by pat_completeness auto
termination
  by (relation "measure (\<lambda>(n, xs). length xs)") auto

declare chunks_exact.simps [simp del]

definition chunks_remainder :: "nat \<Rightarrow> 'a list \<Rightarrow> 'a list" where
  "chunks_remainder n xs = drop (n * length (chunks_exact n xs)) xs"

definition is_zeroed :: "u8 list \<Rightarrow> bool" where
  "is_zeroed buf =
     (list_all (\<lambda>chunk. chunk = replicate ZEROS_LEN 0) (chunks_exact ZEROS_LEN buf) \<and>
      (let rest = chunks_remainder ZEROS_LEN buf in rest = take (length rest) (replicate ZEROS_LEN 0)))"

definition set_owner :: "transaction_context \<Rightarrow> borrowed_account \<Rightarrow> pubkey \<Rightarrow> instruction_error + transaction_context" where
  "set_owner tc ba key =
     and_then (err_if (\<not> is_owned_by_current_program tc ba) IeModifiedProgramId) (\<lambda>_.
     and_then (err_if (\<not> ba_is_writable ba) IeModifiedProgramId) (\<lambda>_.
     and_then (err_if (\<not> is_zeroed (get_data tc ba)) IeModifiedProgramId) (\<lambda>_.
     if get_owner tc ba = key then Inr tc
     else and_then (ba_touch tc ba) (\<lambda>tc. Inr (ba_set tc ba ((ba_account tc ba)\<lparr>sa_owner := key\<rparr>))))))"

definition set_lamports :: "transaction_context \<Rightarrow> borrowed_account \<Rightarrow> u64 \<Rightarrow> instruction_error + transaction_context" where
  "set_lamports tc ba lamports =
     and_then (err_if (\<not> is_owned_by_current_program tc ba \<and> lamports < get_lamports tc ba) IeExternalAccountLamportSpend) (\<lambda>_.
     and_then (err_if (\<not> ba_is_writable ba) IeReadonlyLamportChange) (\<lambda>_.
     let old_lamports = get_lamports tc ba in
     if old_lamports = lamports then Inr tc
     else
       let lamports_balance = int (unat lamports) - int (unat old_lamports) in
       and_then (tas_add_lamports_delta (accounts tc) lamports_balance) (\<lambda>tas.
       and_then (ba_touch (tc\<lparr>accounts := tas\<rparr>) ba) (\<lambda>tc.
       Inr (ba_set tc ba ((ba_account tc ba)\<lparr>sa_lamports := lamports\<rparr>))))))"

definition checked_add_lamports :: "transaction_context \<Rightarrow> borrowed_account \<Rightarrow> u64 \<Rightarrow> instruction_error + transaction_context" where
  "checked_add_lamports tc ba lamports =
     and_then (ok_or (checked_add (get_lamports tc ba) lamports) IeArithmeticOverflow) (\<lambda>sum. set_lamports tc ba sum)"

definition checked_sub_lamports :: "transaction_context \<Rightarrow> borrowed_account \<Rightarrow> u64 \<Rightarrow> instruction_error + transaction_context" where
  "checked_sub_lamports tc ba lamports =
     and_then (ok_or (checked_sub (get_lamports tc ba) lamports) IeArithmeticOverflow) (\<lambda>rest. set_lamports tc ba rest)"

text \<open>
  \<open>get_data_mut\<close> hands out the bytes for writing; what the program writes there, of the same length,
  is stored by \<open>write_slice\<close>.
\<close>

definition get_data_mut :: "transaction_context \<Rightarrow> borrowed_account \<Rightarrow> instruction_error + transaction_context" where
  "get_data_mut tc ba = and_then (can_data_be_changed tc ba) (\<lambda>_. ba_touch tc ba)"

definition write_slice :: "transaction_context \<Rightarrow> borrowed_account \<Rightarrow> u8 list \<Rightarrow> transaction_context" where
  "write_slice tc ba data = ba_set tc ba ((ba_account tc ba)\<lparr>sa_data := data\<rparr>)"

definition set_data_from_slice :: "transaction_context \<Rightarrow> borrowed_account \<Rightarrow> u8 list \<Rightarrow> instruction_error + transaction_context" where
  "set_data_from_slice tc ba data =
     and_then (can_data_be_resized tc ba (length data)) (\<lambda>_.
     and_then (ba_touch tc ba) (\<lambda>tc.
     let tc = ba_update_accounts_resize_delta tc ba (length data) in
     Inr (ba_set tc ba ((ba_account tc ba)\<lparr>sa_data := data\<rparr>))))"

definition resize :: "u8 list \<Rightarrow> nat \<Rightarrow> u8 list" where
  "resize data new_len = take new_len data @ replicate (new_len - length data) 0"

definition set_data_length :: "transaction_context \<Rightarrow> borrowed_account \<Rightarrow> nat \<Rightarrow> instruction_error + transaction_context" where
  "set_data_length tc ba new_length =
     and_then (can_data_be_resized tc ba new_length) (\<lambda>_.
     if length (get_data tc ba) = new_length then Inr tc
     else
       and_then (ba_touch tc ba) (\<lambda>tc.
       let tc = ba_update_accounts_resize_delta tc ba new_length in
       Inr (ba_set tc ba ((ba_account tc ba)\<lparr>sa_data := resize (get_data tc ba) new_length\<rparr>))))"

definition extend_from_slice :: "transaction_context \<Rightarrow> borrowed_account \<Rightarrow> u8 list \<Rightarrow> instruction_error + transaction_context" where
  "extend_from_slice tc ba data =
     (let new_len = min (2 ^ 64 - 1) (length (get_data tc ba) + length data) in
     and_then (can_data_be_resized tc ba new_len) (\<lambda>_.
     if data = [] then Inr tc
     else
       and_then (ba_touch tc ba) (\<lambda>tc.
       let tc = ba_update_accounts_resize_delta tc ba new_len in
       Inr (ba_set tc ba ((ba_account tc ba)\<lparr>sa_data := get_data tc ba @ data\<rparr>)))))"

text \<open>Storing a state whose serialisation is given: none when it cannot be serialised.\<close>

definition set_state :: "transaction_context \<Rightarrow> borrowed_account \<Rightarrow> u8 list option \<Rightarrow> instruction_error + transaction_context" where
  "set_state tc ba serialized =
     and_then (get_data_mut tc ba) (\<lambda>tc.
     and_then (ok_or serialized IeGenericError) (\<lambda>bytes.
     and_then (err_if (length (get_data tc ba) < length bytes) IeAccountDataTooSmall) (\<lambda>_.
     Inr (write_slice tc ba (bytes @ drop (length bytes) (get_data tc ba))))))"

definition is_rent_exempt_at_data_length :: "runtime \<Rightarrow> transaction_context \<Rightarrow> borrowed_account \<Rightarrow> nat \<Rightarrow> bool" where
  "is_rent_exempt_at_data_length rt tc ba data_length = rt_is_exempt rt (get_lamports tc ba) data_length"

definition set_executable :: "runtime \<Rightarrow> transaction_context \<Rightarrow> borrowed_account \<Rightarrow> bool \<Rightarrow> instruction_error + transaction_context" where
  "set_executable rt tc ba executable =
     and_then (err_if (\<not> rt_is_exempt rt (get_lamports tc ba) (length (get_data tc ba))) IeExecutableAccountNotRentExempt) (\<lambda>_.
     and_then (err_if (\<not> is_owned_by_current_program tc ba) IeExecutableModified) (\<lambda>_.
     and_then (err_if (\<not> ba_is_writable ba) IeExecutableModified) (\<lambda>_.
     if sa_executable (ba_account tc ba) = executable then Inr tc
     else and_then (ba_touch tc ba) (\<lambda>tc. Inr (ba_set tc ba ((ba_account tc ba)\<lparr>sa_executable := executable\<rparr>))))))"

section \<open>ExecutionRecord\<close>

record execution_record =
  er_accounts :: "(pubkey \<times> shared_account) list"
  er_return_data :: "pubkey \<times> u8 list"
  er_touched_account_count :: nat
  er_accounts_resize_delta :: int

definition execution_record_from :: "transaction_context \<Rightarrow> execution_record" where
  "execution_record_from tc =
     \<lparr>er_accounts = zip (account_keys tc) (tas_accounts (accounts tc)),
      er_return_data = return_data tc,
      er_touched_account_count = length (filter id (tas_touched_flags (accounts tc))),
      er_accounts_resize_delta = tas_resize_delta (accounts tc)\<rparr>"

section \<open>is_zeroed\<close>

lemma chunks_exact_Nil: "length xs < n \<Longrightarrow> chunks_exact n xs = []"
  by (simp add: chunks_exact.simps)

lemma chunks_exact_Cons: "0 < n \<Longrightarrow> n \<le> length xs \<Longrightarrow> chunks_exact n xs = take n xs # chunks_exact n (drop n xs)"
  by (simp add: chunks_exact.simps)

lemma is_zeroed_iff: "is_zeroed buf \<longleftrightarrow> (\<forall>x\<in>set buf. x = 0)"
proof (induction "length buf" arbitrary: buf rule: less_induct)
  case less
  show ?case
  proof (cases "length buf < ZEROS_LEN")
    case True
    then have "is_zeroed buf \<longleftrightarrow> buf = replicate (length buf) 0"
      by (simp add: is_zeroed_def chunks_remainder_def chunks_exact_Nil take_replicate min_absorb1)
    also have "\<dots> \<longleftrightarrow> (\<forall>x\<in>set buf. x = 0)" by (metis in_set_replicate replicate_eqI)
    finally show ?thesis .
  next
    case False
    then have len: "0 < ZEROS_LEN" "ZEROS_LEN \<le> length buf" by (simp_all add: ZEROS_LEN_def)
    then have "is_zeroed buf \<longleftrightarrow> take ZEROS_LEN buf = replicate ZEROS_LEN 0 \<and> is_zeroed (drop ZEROS_LEN buf)"
      by (simp add: is_zeroed_def chunks_remainder_def chunks_exact_Cons add.commute)
    also have "\<dots> \<longleftrightarrow> (\<forall>x\<in>set (take ZEROS_LEN buf). x = 0) \<and> (\<forall>x\<in>set (drop ZEROS_LEN buf). x = 0)"
      using less [of "drop ZEROS_LEN buf"] len
      by (metis (no_types, lifting) diff_less in_set_replicate length_drop length_take less_le_trans min.absorb2 replicate_eqI)
    also have "\<dots> \<longleftrightarrow> (\<forall>x\<in>set buf. x = 0)"
      by (metis Un_iff append_take_drop_id set_append)
    finally show ?thesis .
  qed
qed

lemma is_zeroed_replicate: "is_zeroed buf \<longleftrightarrow> buf = replicate (length buf) 0"
  unfolding is_zeroed_iff by (metis in_set_replicate replicate_eqI)

end
