(* ===== verification/Invoke_Context.thy ===== *)
theory Invoke_Context
  imports Transaction_Context
begin

text \<open>
  How one program runs another (\<open>gorchain/program-runtime/src/invoke_context.rs\<close>): an instruction is
  prepared, with the privileges of its accounts checked against those of the caller, pushed on
  the stack, executed and popped. The logs, the compute meter, the measurements and the trace of
  the virtual machine are left out; the entry points of the programs are a parameter.
\<close>

section \<open>Preparing an instruction\<close>

record account_meta =
  am_pubkey :: pubkey
  am_is_signer :: bool
  am_is_writable :: bool

record instruction =
  ix_program_id :: pubkey
  ix_accounts :: "account_meta list"
  ix_data :: "u8 list"

text \<open>
  The first loop of \<open>prepare_next_instruction\<close>: an account that occurs again takes the flags of all
  its occurrences so far together. \<open>m\<close> is the map from accounts of the transaction to their first
  position among the accounts of the instruction.
\<close>

fun collect_accounts ::
    "transaction_context \<Rightarrow> account_meta list \<Rightarrow> u8 list \<Rightarrow> instruction_account list
     \<Rightarrow> instruction_error + u8 list \<times> instruction_account list" where
  "collect_accounts tc [] m ias = Inr (m, ias)"
| "collect_accounts tc (meta # metas) m ias =
     and_then (ok_or (find_index_of_account tc (am_pubkey meta)) IeMissingAccount) (\<lambda>index.
     and_then (ok_or (get_at m (unat index)) IePanic) (\<lambda>index_in_callee.
     if unat index_in_callee < length ias then
       let ia = ias ! unat index_in_callee;
           ia = ia\<lparr>is_signer := is_signer ia \<or> am_is_signer meta, is_writable := is_writable ia \<or> am_is_writable meta\<rparr> in
       collect_accounts tc metas m (ias[unat index_in_callee := ia] @ [ia])
     else
       collect_accounts tc metas (m[unat index := of_nat (length ias)])
         (ias @ [\<lparr>index_in_transaction = index, is_signer = am_is_signer meta, is_writable = am_is_writable meta\<rparr>])))"

text \<open>
  The second loop: a later occurrence takes the flags of the first one, and the first one is checked
  against the account of the caller.
\<close>

fun check_privileges ::
    "instruction_frame \<Rightarrow> account_meta list \<Rightarrow> pubkey list \<Rightarrow> u8 list \<Rightarrow> nat list \<Rightarrow> instruction_account list
     \<Rightarrow> instruction_error + instruction_account list" where
  "check_privileges caller metas signers m [] ias = Inr ias"
| "check_privileges caller metas signers m (current_index # indexes) ias =
     (let ia = ias ! current_index in
     and_then (ok_or (get_at m (unat (index_in_transaction ia))) IePanic) (\<lambda>index_in_callee.
     if current_index \<noteq> unat index_in_callee then
       and_then (ok_or (get_at ias (unat index_in_callee)) IeNotEnoughAccountKeys) (\<lambda>reference_account.
       check_privileges caller metas signers m indexes
         (ias[current_index :=
            ia\<lparr>is_signer := is_signer ia \<or> is_signer reference_account,
               is_writable := is_writable ia \<or> is_writable reference_account\<rparr>]))
     else
       and_then (get_index_of_account_in_instruction caller (index_in_transaction ia)) (\<lambda>index_in_caller.
       and_then (ok_or (get_at metas current_index) IePanic) (\<lambda>meta.
       and_then (ok_or (get_at (instruction_accounts caller) (unat index_in_caller)) IePanic) (\<lambda>caller_account.
       and_then (err_if (is_writable ia \<and> \<not> is_writable caller_account) IePrivilegeEscalation) (\<lambda>_.
       and_then (err_if (is_signer ia \<and> \<not> (is_signer caller_account \<or> am_pubkey meta \<in> set signers)) IePrivilegeEscalation) (\<lambda>_.
       check_privileges caller metas signers m indexes ias)))))))"

definition prepare_next_instruction ::
    "transaction_context \<Rightarrow> instruction \<Rightarrow> pubkey list \<Rightarrow> instruction_error + transaction_context" where
  "prepare_next_instruction tc ix signers =
     and_then (get_current_instruction_context tc) (\<lambda>caller.
     and_then (collect_accounts tc (ix_accounts ix) (replicate MAX_ACCOUNTS_PER_TRANSACTION (- 1)) []) (\<lambda>(m, ias).
     and_then (check_privileges caller (ix_accounts ix) signers m [0..<length ias] ias) (\<lambda>ias.
     and_then (ok_or (find_index_of_instruction_account tc caller (ix_program_id ix)) IeMissingAccount) (\<lambda>program_account_index.
     and_then (get_index_of_instruction_account_in_transaction caller program_account_index) (\<lambda>program_account_index.
     configure_next_instruction tc program_account_index ias m (ix_data ix))))))"

text \<open>An instruction of the transaction itself; the message says which accounts sign and are writable.\<close>

fun collect_top_level ::
    "(nat \<Rightarrow> bool) \<Rightarrow> (nat \<Rightarrow> bool) \<Rightarrow> u8 list \<Rightarrow> u8 list \<Rightarrow> instruction_account list
     \<Rightarrow> instruction_error + u8 list \<times> instruction_account list" where
  "collect_top_level signs writes [] m ias = Inr (m, ias)"
| "collect_top_level signs writes (index # indexes) m ias =
     and_then (ok_or (get_at m (unat index)) IePanic) (\<lambda>index_in_callee.
     collect_top_level signs writes indexes
       (if length ias < unat index_in_callee then m[unat index := of_nat (length ias)] else m)
       (ias @ [\<lparr>index_in_transaction = ucast index, is_signer = signs (unat index), is_writable = writes (unat index)\<rparr>]))"

definition prepare_next_top_level_instruction ::
    "transaction_context \<Rightarrow> (nat \<Rightarrow> bool) \<Rightarrow> (nat \<Rightarrow> bool) \<Rightarrow> u8 list \<Rightarrow> u8 list \<Rightarrow> u16 \<Rightarrow> instruction_error + transaction_context" where
  "prepare_next_top_level_instruction tc signs writes indexes data program_account_index =
     and_then (collect_top_level signs writes indexes (replicate MAX_ACCOUNTS_PER_TRANSACTION (- 1)) []) (\<lambda>(m, ias).
     configure_next_instruction tc program_account_index ias m data)"

text \<open>The limits on an invocation by a deployed program (\<open>syscalls/src/cpi.rs\<close>).\<close>

definition MAX_ACCOUNTS_PER_INSTRUCTION :: nat where
  "MAX_ACCOUNTS_PER_INSTRUCTION = 255"

definition MAX_INSTRUCTION_DATA_LEN :: nat where
  "MAX_INSTRUCTION_DATA_LEN = 10 * 1024"

definition check_instruction_size :: "nat \<Rightarrow> nat \<Rightarrow> bool" where
  "check_instruction_size num_accounts data_len \<longleftrightarrow>
     num_accounts \<le> MAX_ACCOUNTS_PER_INSTRUCTION \<and> data_len \<le> MAX_INSTRUCTION_DATA_LEN"

section \<open>Running an instruction\<close>

text \<open>A program may call itself, but none that is below it on the stack.\<close>

definition ic_push :: "runtime \<Rightarrow> transaction_context \<Rightarrow> instruction_error + transaction_context" where
  "ic_push rt tc =
     and_then (get_instruction_context_at_index_in_trace tc (get_instruction_trace_length tc)) (\<lambda>frame.
     and_then (map_err (\<lambda>_. IeUnsupportedProgramId) (get_program_key tc frame)) (\<lambda>program_id.
     let runs = (\<lambda>r. and_then r (\<lambda>frame. get_program_key tc frame) = Inr program_id);
         contains = list_ex (\<lambda>level. runs (get_instruction_context_at_nesting_level tc level))
                      [0..<get_instruction_stack_height tc];
         is_last = runs (get_current_instruction_context tc) in
     and_then (err_if (get_instruction_stack_height tc \<noteq> 0 \<and> contains \<and> \<not> is_last) IeReentrancyNotAllowed) (\<lambda>_.
     tc_push rt tc)))"

text \<open>
  \<open>process_executable_chain\<close> finds the entry point of the program or of its loader, \<open>entry\<close> being the
  program cache; the entry point returns the new state and the compute units it used.
\<close>

record programs =
  pr_native_loader :: pubkey
  pr_loaders :: "pubkey list"
  pr_entry :: "pubkey \<Rightarrow> (transaction_context \<Rightarrow> (instruction_error + transaction_context) \<times> u64) option"

definition process_executable_chain :: "programs \<Rightarrow> transaction_context \<Rightarrow> instruction_error + transaction_context" where
  "process_executable_chain pr tc =
     and_then (get_current_instruction_context tc) (\<lambda>frame.
     and_then (get_program_owner tc frame) (\<lambda>owner_id.
     and_then (if owner_id = pr_native_loader pr then get_program_key tc frame
               else if owner_id \<in> set (pr_loaders pr) then Inr owner_id
               else Inl IeUnsupportedProgramId) (\<lambda>builtin_id.
     and_then (ok_or (pr_entry pr builtin_id) IeUnsupportedProgramId) (\<lambda>function.
     and_then (get_program_key tc frame) (\<lambda>program_id.
     let (result, compute_units_consumed) = function (set_return_data tc program_id []) in
     and_then result (\<lambda>tc.
     and_then (err_if (builtin_id = program_id \<and> compute_units_consumed = 0) IeBuiltinProgramsMustConsumeComputeUnits) (\<lambda>_.
     Inr tc)))))))"

definition process_instruction :: "runtime \<Rightarrow> programs \<Rightarrow> transaction_context \<Rightarrow> instruction_error + transaction_context" where
  "process_instruction rt pr tc =
     and_then (ic_push rt tc) (\<lambda>tc.
     and_then (process_executable_chain pr tc) (\<lambda>tc. tc_pop tc))"

definition native_invoke ::
    "runtime \<Rightarrow> programs \<Rightarrow> transaction_context \<Rightarrow> instruction \<Rightarrow> pubkey list \<Rightarrow> instruction_error + transaction_context" where
  "native_invoke rt pr tc ix signers =
     and_then (prepare_next_instruction tc ix signers) (\<lambda>tc. process_instruction rt pr tc)"

section \<open>What a program can do\<close>

text \<open>
  Whatever a program computes, it changes the transaction through the operations on its borrowed
  accounts, the return data and the invocation of other programs. \<open>account_op\<close> lists the first,
  \<open>body\<close> the sequences of all of them, with the same freedom for the programs invoked.
\<close>

definition borrowed_here :: "transaction_context \<Rightarrow> borrowed_account \<Rightarrow> bool" where
  "borrowed_here tc ba \<longleftrightarrow>
     (\<exists>frame. get_current_instruction_context tc = Inr frame \<and> instruction_account ba \<in> set (instruction_accounts frame) \<and>
        index_in_transaction_of_instruction_program ba = program_account_index_in_tx frame) \<and>
     unat (get_index_in_transaction ba) < length (tas_accounts (accounts tc))"

inductive account_op :: "runtime \<Rightarrow> transaction_context \<Rightarrow> transaction_context \<Rightarrow> bool"
  for rt :: runtime and tc :: transaction_context where
  borrow: "get_current_instruction_context tc = Inr frame \<Longrightarrow> try_borrow_instruction_account tc frame i = Inr (ba, tc') \<Longrightarrow>
    account_op rt tc tc'"
| drop: "account_op rt tc (drop_account tc ba)"
| set_owner: "borrowed_here tc ba \<Longrightarrow> set_owner tc ba key = Inr tc' \<Longrightarrow> account_op rt tc tc'"
| set_lamports: "borrowed_here tc ba \<Longrightarrow> set_lamports tc ba n = Inr tc' \<Longrightarrow> account_op rt tc tc'"
| store: "borrowed_here tc ba \<Longrightarrow> get_data_mut tc ba = Inr tc' \<Longrightarrow> length data = length (get_data tc ba) \<Longrightarrow>
    account_op rt tc (write_slice tc' ba data)"
| set_data_from_slice: "borrowed_here tc ba \<Longrightarrow> set_data_from_slice tc ba data = Inr tc' \<Longrightarrow> account_op rt tc tc'"
| set_data_length: "borrowed_here tc ba \<Longrightarrow> set_data_length tc ba n = Inr tc' \<Longrightarrow> account_op rt tc tc'"
| extend: "borrowed_here tc ba \<Longrightarrow> extend_from_slice tc ba data = Inr tc' \<Longrightarrow> account_op rt tc tc'"
| set_executable: "borrowed_here tc ba \<Longrightarrow> set_executable rt tc ba x = Inr tc' \<Longrightarrow> account_op rt tc tc'"
| return_data: "account_op rt tc (set_return_data tc key data)"

inductive body :: "runtime \<Rightarrow> transaction_context \<Rightarrow> transaction_context \<Rightarrow> bool" for rt :: runtime where
  stop: "body rt tc tc"
| operation: "body rt tc tc1 \<Longrightarrow> account_op rt tc1 tc2 \<Longrightarrow> body rt tc tc2"
| call: "body rt tc tc1 \<Longrightarrow> check_instruction_size (length (ix_accounts ix)) (length (ix_data ix)) \<Longrightarrow>
    prepare_next_instruction tc1 ix signers = Inr tc2 \<Longrightarrow> ic_push rt tc2 = Inr tc3 \<Longrightarrow>
    body rt tc3 tc4 \<Longrightarrow> tc_pop tc4 = Inr tc5 \<Longrightarrow> body rt tc tc5"

end
