(* ===== verification/Runtime_Rules.thy ===== *)
theory Runtime_Rules
  imports Invoke_Context
begin

text \<open>
  The rules of the runtime as theorems about theory \<open>Invoke_Context\<close>, for whatever the programs of a
  transaction do: the frames of running instructions stay as they are, lamports are neither created
  nor destroyed, an invoked program cannot touch the accounts of its caller, and read-only accounts
  stay as they are.
\<close>

section \<open>Small steps\<close>

abbreviation tx_accounts :: "transaction_context \<Rightarrow> shared_account list" where
  "tx_accounts tc \<equiv> tas_accounts (accounts tc)"

lemma get_at_iff: "get_at xs i = Some x \<longleftrightarrow> i < length xs \<and> xs ! i = x"
  by (auto simp: get_at_def)

text \<open>What an operation on an account leaves alone, and what it may do to the account.\<close>

definition same_frames :: "transaction_context \<Rightarrow> transaction_context \<Rightarrow> bool" where
  "same_frames tc tc' \<longleftrightarrow>
     account_keys tc' = account_keys tc \<and> instruction_stack tc' = instruction_stack tc \<and>
     instruction_trace tc' = instruction_trace tc \<and> length (tx_accounts tc') = length (tx_accounts tc)"

lemmas op_defs = set_owner_def set_lamports_def get_data_mut_def write_slice_def set_data_from_slice_def set_data_length_def
  extend_from_slice_def set_executable_def can_data_be_changed_def can_data_be_resized_def ba_touch_def tas_touch_def ba_set_def
  tas_set_account_def tas_add_lamports_delta_def ba_update_accounts_resize_delta_def tas_update_accounts_resize_delta_def

lemma account_op_frames: "account_op rt tc tc' \<Longrightarrow> same_frames tc tc'"
  by (induction rule: account_op.induct)
    (auto simp: same_frames_def op_defs try_borrow_instruction_account_def tas_try_borrow_mut_def drop_account_def tas_drop_def
      set_return_data_def Let_def and_then_Inr_iff split: if_splits)

text \<open>The program that owns the account it changes.\<close>

definition running :: "transaction_context \<Rightarrow> instruction_error + pubkey" where
  "running tc = and_then (get_current_instruction_context tc) (\<lambda>frame. get_program_key tc frame)"

lemma owned_by_running:
  assumes "borrowed_here tc ba" and "is_owned_by_current_program tc ba" and "running tc = Inr q"
  shows "sa_owner (ba_account tc ba) = q"
  using assms
  by (auto simp: borrowed_here_def is_owned_by_current_program_def running_def get_program_key_def get_owner_def
      get_index_of_program_account_in_transaction_def and_then_Inr_iff split: sum.splits if_splits)

text \<open>
  One account before and after an operation of the program \<open>q\<close>, through an entry that is writable or
  not.
\<close>

definition account_change :: "pubkey \<Rightarrow> shared_account \<Rightarrow> shared_account \<Rightarrow> bool" where
  "account_change q x y \<longleftrightarrow>
     (if sa_owner x = q
      then sa_owner y = q \<or> (is_zeroed (sa_data x) \<and> sa_data y = sa_data x)
      else sa_owner y = sa_owner x \<and> sa_data y = sa_data x \<and> sa_executable y = sa_executable x \<and> sa_lamports x \<le> sa_lamports y)"

lemma ba_set_simps [simp]:
  "tx_accounts (ba_set tc ba y) = (tx_accounts tc)[unat (get_index_in_transaction ba) := y]"
  "tas_lamports_delta (accounts (ba_set tc ba y)) = tas_lamports_delta (accounts tc)"
  by (simp_all add: ba_set_def tas_set_account_def)

lemma ba_touch_same:
  assumes "ba_touch tc ba = Inr tc'"
  shows "tx_accounts tc' = tx_accounts tc" and "tas_lamports_delta (accounts tc') = tas_lamports_delta (accounts tc)"
    and "ba_account tc' ba' = ba_account tc ba'" and "get_data tc' ba' = get_data tc ba'"
  using assms by (auto simp: ba_touch_def tas_touch_def ba_account_def get_data_def and_then_Inr_iff split: if_splits)

lemma resize_delta_same [simp]:
  "tx_accounts (ba_update_accounts_resize_delta tc ba n) = tx_accounts tc"
  "tas_lamports_delta (accounts (ba_update_accounts_resize_delta tc ba n)) = tas_lamports_delta (accounts tc)"
  "ba_account (ba_update_accounts_resize_delta tc ba n) ba' = ba_account tc ba'"
  by (simp_all add: ba_update_accounts_resize_delta_def tas_update_accounts_resize_delta_def ba_account_def)

text \<open>
  The outcome of an operation: nothing, or one account that the program owns and may write has
  another owner, other data or another flag, or another balance.
\<close>

definition op_outcome :: "transaction_context \<Rightarrow> borrowed_account \<Rightarrow> transaction_context \<Rightarrow> shared_account \<Rightarrow> bool" where
  "op_outcome tc ba tc' y \<longleftrightarrow>
     ba_is_writable ba \<and> tx_accounts tc' = (tx_accounts tc)[unat (get_index_in_transaction ba) := y] \<and>
     tas_lamports_delta (accounts tc') = tas_lamports_delta (accounts tc) + int (unat (sa_lamports y)) - int (unat (sa_lamports (ba_account tc ba)))"

lemma op_outcome_same: "ba_is_writable ba \<Longrightarrow> y = ba_account tc ba \<Longrightarrow> op_outcome tc ba tc y"
  by (simp add: op_outcome_def ba_account_def)

lemma op_outcome_set:
  assumes "ba_is_writable ba" and "ba_touch tc ba = Inr tc'" and "sa_lamports y = sa_lamports (ba_account tc ba)"
  shows "op_outcome tc ba (ba_set tc' ba y) y"
    and "op_outcome tc ba (ba_set (ba_update_accounts_resize_delta tc' ba n) ba y) y"
  using assms(1,3) by (simp_all add: op_outcome_def ba_touch_same [OF assms(2)])

lemma set_owner_outcome:
  assumes "set_owner tc ba key = Inr tc'"
  shows "op_outcome tc ba tc' ((ba_account tc ba)\<lparr>sa_owner := key\<rparr>) \<and> is_owned_by_current_program tc ba \<and>
    is_zeroed (sa_data (ba_account tc ba))"
  using assms
  by (auto simp: set_owner_def get_data_def get_owner_def and_then_Inr_iff err_if_Inr_iff ba_touch_same split: if_splits
      intro!: op_outcome_same op_outcome_set)

lemma set_lamports_outcome:
  assumes "set_lamports tc ba n = Inr tc'"
  shows "op_outcome tc ba tc' ((ba_account tc ba)\<lparr>sa_lamports := n\<rparr>) \<and>
    (is_owned_by_current_program tc ba \<or> sa_lamports (ba_account tc ba) \<le> n)"
proof (cases "get_lamports tc ba = n")
  case True
  with assms have "tc' = tc" "ba_is_writable ba" by (auto simp: set_lamports_def and_then_Inr_iff err_if_Inr_iff)
  then show ?thesis using True by (auto simp: get_lamports_def intro!: op_outcome_same)
next
  case False
  with assms obtain tas tc1 where *: "tas_add_lamports_delta (accounts tc) (int (unat n) - int (unat (get_lamports tc ba))) = Inr tas"
    "ba_touch (tc\<lparr>accounts := tas\<rparr>) ba = Inr tc1" "tc' = ba_set tc1 ba ((ba_account tc1 ba)\<lparr>sa_lamports := n\<rparr>)"
    "ba_is_writable ba" "is_owned_by_current_program tc ba \<or> get_lamports tc ba \<le> n"
    by (auto simp: set_lamports_def Let_def and_then_Inr_iff err_if_Inr_iff not_less)
  from *(1) have "tas_accounts tas = tx_accounts tc"
    "tas_lamports_delta tas = tas_lamports_delta (accounts tc) + (int (unat n) - int (unat (get_lamports tc ba)))"
    by (auto simp: tas_add_lamports_delta_def checked_i128_def and_then_Inr_iff ok_or_Inr_iff split: if_splits)
  with *(2-) show ?thesis
    by (simp add: op_outcome_def ba_touch_same [OF *(2)] get_lamports_def ba_account_def)
qed

lemma data_op_outcome:
  shows "get_data_mut tc ba = Inr tc' \<Longrightarrow>
      op_outcome tc ba (write_slice tc' ba data) ((ba_account tc ba)\<lparr>sa_data := data\<rparr>) \<and> is_owned_by_current_program tc ba"
    and "set_data_from_slice tc ba data = Inr tc' \<Longrightarrow>
      op_outcome tc ba tc' ((ba_account tc ba)\<lparr>sa_data := data\<rparr>) \<and> is_owned_by_current_program tc ba"
    and "set_data_length tc ba n = Inr tc' \<Longrightarrow>
      op_outcome tc ba tc' ((ba_account tc ba)\<lparr>sa_data := resize (get_data tc ba) n\<rparr>) \<and> is_owned_by_current_program tc ba"
    and "extend_from_slice tc ba data = Inr tc' \<Longrightarrow>
      op_outcome tc ba tc' ((ba_account tc ba)\<lparr>sa_data := get_data tc ba @ data\<rparr>) \<and> is_owned_by_current_program tc ba"
    and "set_executable rt tc ba x = Inr tc' \<Longrightarrow>
      op_outcome tc ba tc' ((ba_account tc ba)\<lparr>sa_executable := x\<rparr>) \<and> is_owned_by_current_program tc ba"
  by (auto simp: get_data_mut_def write_slice_def set_data_from_slice_def set_data_length_def extend_from_slice_def set_executable_def
      can_data_be_resized_def can_data_be_changed_def Let_def and_then_Inr_iff err_if_Inr_iff ba_touch_same resize_def get_data_def
      split: if_splits intro!: op_outcome_same op_outcome_set)

lemma account_op_change:
  assumes "account_op rt tc tc'" and "running tc = Inr q"
  obtains "tx_accounts tc' = tx_accounts tc" "tas_lamports_delta (accounts tc') = tas_lamports_delta (accounts tc)"
  | ba y where "borrowed_here tc ba" "op_outcome tc ba tc' y" "account_change q (ba_account tc ba) y"
  using assms(1)
proof cases
  case (set_owner ba key)
  then show ?thesis
    using that(2) [of ba] set_owner_outcome owned_by_running [OF _ _ assms(2)] by (fastforce simp: account_change_def)
next
  case (set_lamports ba n)
  then show ?thesis
    using that(2) [of ba] set_lamports_outcome owned_by_running [OF _ _ assms(2)] by (fastforce simp: account_change_def)
qed (use that data_op_outcome owned_by_running [OF _ _ assms(2)] in
  \<open>fastforce simp: account_change_def try_borrow_instruction_account_def tas_try_borrow_mut_def
      drop_account_def tas_drop_def set_return_data_def and_then_Inr_iff\<close>)+

section \<open>The frames of running instructions\<close>

text \<open>The stack refers to frames of the trace, of which the last one is reserved for the next instruction.\<close>

definition frames_ok :: "transaction_context \<Rightarrow> bool" where
  "frames_ok tc \<longleftrightarrow> instruction_trace tc \<noteq> [] \<and> (\<forall>i\<in>set (instruction_stack tc). i < length (instruction_trace tc) - 1)"

definition frames_kept :: "transaction_context \<Rightarrow> transaction_context \<Rightarrow> bool" where
  "frames_kept tc tc' \<longleftrightarrow>
     account_keys tc' = account_keys tc \<and> length (tx_accounts tc') = length (tx_accounts tc) \<and>
     length (instruction_trace tc) \<le> length (instruction_trace tc') \<and>
     (\<forall>i < length (instruction_trace tc) - 1. instruction_trace tc' ! i = instruction_trace tc ! i)"

lemma frames_kept_refl [simp]: "frames_kept tc tc"
  by (simp add: frames_kept_def)

lemma frames_kept_trans: "frames_kept tc1 tc2 \<Longrightarrow> frames_kept tc2 tc3 \<Longrightarrow> frames_kept tc1 tc3"
  by (auto simp: frames_kept_def)

lemma same_frames_kept: "same_frames tc tc' \<Longrightarrow> frames_kept tc tc'"
  by (simp add: same_frames_def frames_kept_def)

lemma same_frames_ok: "same_frames tc tc' \<Longrightarrow> frames_ok tc \<Longrightarrow> frames_ok tc'"
  by (simp add: same_frames_def frames_ok_def)

lemma set_last_frame_simps [simp]:
  "account_keys (set_last_frame tc frame) = account_keys tc" "accounts (set_last_frame tc frame) = accounts tc"
  "instruction_stack (set_last_frame tc frame) = instruction_stack tc"
  "instruction_trace (set_last_frame tc frame) = butlast (instruction_trace tc) @ [frame]"
  by (simp_all add: set_last_frame_def)

lemma prepare_next_instruction_Inr:
  assumes "prepare_next_instruction tc ix signers = Inr tc'"
  obtains caller m ias0 ias i j where "get_current_instruction_context tc = Inr caller"
    "collect_accounts tc (ix_accounts ix) (replicate MAX_ACCOUNTS_PER_TRANSACTION (- 1)) [] = Inr (m, ias0)"
    "check_privileges caller (ix_accounts ix) signers m [0..<length ias0] ias0 = Inr ias"
    "find_index_of_instruction_account tc caller (ix_program_id ix) = Some i"
    "get_index_of_instruction_account_in_transaction caller i = Inr j" "instruction_trace tc \<noteq> []"
    "tc' = set_last_frame tc ((last (instruction_trace tc))
       \<lparr>program_account_index_in_tx := j, instruction_accounts := ias, instruction_data := ix_data ix, dedup_map := m\<rparr>)"
  using assms
  by (auto simp: prepare_next_instruction_def configure_next_instruction_def and_then_Inr_iff ok_or_Inr_iff err_if_Inr_iff)

lemma store_instruction_index_Inr:
  assumes "store_instruction_index rt tc = Inr tc'"
  obtains tas where "tc' = tc\<lparr>accounts := tas\<rparr>" "length (tas_accounts tas) = length (tx_accounts tc)"
    "tas_lamports_delta tas = tas_lamports_delta (accounts tc)"
    "\<And>i. i < length (tx_accounts tc) \<Longrightarrow> tas_accounts tas ! i \<noteq> tx_accounts tc ! i \<Longrightarrow>
       sa_owner (tx_accounts tc ! i) = rt_sysvar_id rt \<and> find_index_of_account tc (rt_instructions_id rt) = Some (of_nat i) \<and>
       (\<exists>data. tas_accounts tas ! i = (tx_accounts tc ! i)\<lparr>sa_data := data\<rparr>)"
proof (cases "find_index_of_account tc (rt_instructions_id rt)")
  case None
  then show ?thesis using assms that [of "accounts tc"] by (simp add: store_instruction_index_def)
next
  case (Some index)
  let ?a = "tx_accounts tc ! unat index"
  from Some assms obtain data where "unat index < length (tx_accounts tc)" "sa_owner ?a = rt_sysvar_id rt"
    and tc': "tc' = tc\<lparr>accounts := tas_drop (tas_set_account ((accounts tc)\<lparr>tas_borrowed := (tas_borrowed (accounts tc))[unat index := True]\<rparr>)
       index (?a\<lparr>sa_data := data\<rparr>)) index\<rparr>"
    by (auto simp: store_instruction_index_def tas_try_borrow_mut_def get_at_def Let_def and_then_Inr_iff err_if_Inr_iff ok_or_Inr_iff
        split: if_splits)
  then show ?thesis
    using Some by (intro that [OF tc']) (auto simp: tas_drop_def tas_set_account_def nth_list_update split: if_splits)
qed

lemma tc_push_Inr:
  assumes "tc_push rt tc = Inr tc'"
  shows "length (tx_accounts tc') = length (tx_accounts tc)"
    and "tas_lamports_delta (accounts tc') = tas_lamports_delta (accounts tc)"
    and "instruction_stack tc = [] \<or> tas_lamports_delta (accounts tc) = 0" and "instruction_trace tc \<noteq> []"
    and "account_keys tc' = account_keys tc"
    and "instruction_trace tc' = butlast (instruction_trace tc) @
           [(last (instruction_trace tc))\<lparr>nesting_level := length (instruction_stack tc)\<rparr>, default_frame]"
    and "instruction_stack tc' = instruction_stack tc @ [length (instruction_trace tc) - 1]"
    and "i < length (tx_accounts tc) \<Longrightarrow> tx_accounts tc' ! i \<noteq> tx_accounts tc ! i \<Longrightarrow>
       sa_owner (tx_accounts tc ! i) = rt_sysvar_id rt \<and> find_index_of_account tc (rt_instructions_id rt) = Some (of_nat i) \<and>
       (\<exists>data. tx_accounts tc' ! i = (tx_accounts tc ! i)\<lparr>sa_data := data\<rparr>)"
proof -
  let ?f = "(last (instruction_trace tc))\<lparr>nesting_level := length (instruction_stack tc)\<rparr>"
  let ?tc = "tc\<lparr>instruction_trace := butlast (instruction_trace tc) @ [?f, default_frame],
       instruction_stack := instruction_stack tc @ [length (instruction_trace tc) - 1]\<rparr>"
  have push: "instruction_stack tc = [] \<or> tas_lamports_delta (accounts tc) = 0" "instruction_trace tc \<noteq> []"
    and *: "store_instruction_index rt ?tc = Inr tc'"
    using assms by (auto simp: tc_push_def get_instruction_stack_height_def get_instruction_trace_length_def set_last_frame_def Let_def
        and_then_Inr_iff err_if_Inr_iff)
  from push show "instruction_stack tc = [] \<or> tas_lamports_delta (accounts tc) = 0" "instruction_trace tc \<noteq> []" by simp_all
  show "length (tx_accounts tc') = length (tx_accounts tc)"
    "tas_lamports_delta (accounts tc') = tas_lamports_delta (accounts tc)" "account_keys tc' = account_keys tc"
    "instruction_trace tc' = butlast (instruction_trace tc) @ [?f, default_frame]"
    "instruction_stack tc' = instruction_stack tc @ [length (instruction_trace tc) - 1]"
    by (rule store_instruction_index_Inr [OF *], simp)+
  show "sa_owner (tx_accounts tc ! i) = rt_sysvar_id rt \<and> find_index_of_account tc (rt_instructions_id rt) = Some (of_nat i) \<and>
       (\<exists>data. tx_accounts tc' ! i = (tx_accounts tc ! i)\<lparr>sa_data := data\<rparr>)"
    if "i < length (tx_accounts tc)" "tx_accounts tc' ! i \<noteq> tx_accounts tc ! i"
    by (rule store_instruction_index_Inr [OF *]) (use that in \<open>simp add: find_index_of_account_def\<close>)
qed

lemma tc_pop_Inr:
  assumes "tc_pop tc = Inr tc'"
  shows "tas_lamports_delta (accounts tc) = 0" and "accounts tc' = accounts tc" and "account_keys tc' = account_keys tc"
    and "instruction_stack tc' = butlast (instruction_stack tc)" and "instruction_trace tc' = instruction_trace tc"
  using assms by (auto simp: tc_pop_def Let_def and_then_Inr_iff err_if_Inr_iff)

lemma ic_push_Inr:
  assumes "ic_push rt tc = Inr tc'"
  obtains frame q where "instruction_trace tc \<noteq> []" "frame = last (instruction_trace tc)" "get_program_key tc frame = Inr q"
    "instruction_stack tc = [] \<or> running tc = Inr q \<or>
       (\<forall>level<length (instruction_stack tc).
          and_then (get_instruction_context_at_nesting_level tc level) (\<lambda>frame. get_program_key tc frame) \<noteq> Inr q)"
    "tc_push rt tc = Inr tc'"
proof -
  have "tc_push rt tc = Inr tc'" using assms by (auto simp: ic_push_def Let_def and_then_Inr_iff)
  moreover from this have "instruction_trace tc \<noteq> []" by (rule tc_push_Inr(4))
  ultimately show ?thesis
    using assms that [of "last (instruction_trace tc)"]
    by (auto simp: ic_push_def get_instruction_context_at_index_in_trace_def get_at_def get_instruction_trace_length_def running_def
        get_instruction_stack_height_def list_ex_iff last_conv_nth Let_def and_then_Inr_iff ok_or_Inr_iff map_err_Inr_iff err_if_Inr_iff)
qed

end
