(* ===== verification/Runtime_Safety.thy ===== *)
theory Runtime_Safety
  imports Runtime_Rules
begin

text \<open>
  What the runtime guarantees of every execution, as theorems over \<open>body\<close>: lamports are conserved,
  the accounts of a program are out of reach of the programs it invokes, and accounts that are
  read-only for an instruction stay as they are.
\<close>

section \<open>Frames\<close>

lemma current_frame:
  assumes "frames_ok tc" and "instruction_stack tc \<noteq> []"
  shows "get_current_instruction_context tc = Inr (instruction_trace tc ! last (instruction_stack tc))"
proof -
  have "last (instruction_stack tc) < length (instruction_trace tc)"
    using assms(1) last_in_set [OF assms(2)] unfolding frames_ok_def by (meson less_imp_diff_less less_le_trans diff_le_self)
  then show ?thesis
    using assms(2) by (simp add: get_current_instruction_context_def get_instruction_stack_height_def
        get_instruction_context_at_nesting_level_def get_instruction_context_at_index_in_trace_def get_at_def last_conv_nth)
qed

lemma get_program_key_cong: "account_keys tc' = account_keys tc \<Longrightarrow> get_program_key tc' = get_program_key tc"
  by (simp add: fun_eq_iff get_program_key_def get_key_of_account_at_index_def)

lemma current_frame_kept:
  assumes "frames_ok tc" and "frames_kept tc tc'" and "instruction_stack tc' = instruction_stack tc"
  shows "get_instruction_context_at_nesting_level tc' level = get_instruction_context_at_nesting_level tc level"
    and "get_current_instruction_context tc' = get_current_instruction_context tc" and "running tc' = running tc"
proof -
  show *: "get_instruction_context_at_nesting_level tc' level = get_instruction_context_at_nesting_level tc level" for level
  proof (cases "level < length (instruction_stack tc)")
    case True
    then have "instruction_stack tc ! level < length (instruction_trace tc) - 1" using assms(1) by (simp add: frames_ok_def)
    moreover from this have "instruction_stack tc ! level < length (instruction_trace tc)" by simp
    ultimately show ?thesis
      using assms(2,3) True
      by (simp add: get_instruction_context_at_nesting_level_def get_instruction_context_at_index_in_trace_def get_at_def frames_kept_def)
  qed (use assms(3) in \<open>simp add: get_instruction_context_at_nesting_level_def get_at_def\<close>)
  show c: "get_current_instruction_context tc' = get_current_instruction_context tc"
    using * assms(3) by (simp add: get_current_instruction_context_def get_instruction_stack_height_def)
  show "running tc' = running tc"
    using assms(2) unfolding running_def c by (simp add: frames_kept_def get_program_key_cong [of tc' tc])
qed

lemma prepare_frames:
  assumes "prepare_next_instruction tc ix signers = Inr tc'"
  shows "frames_kept tc tc'" and "frames_ok tc \<Longrightarrow> frames_ok tc'" and "instruction_stack tc' = instruction_stack tc"
    and "accounts tc' = accounts tc"
  using assms
  by (auto elim!: prepare_next_instruction_Inr simp: frames_kept_def frames_ok_def nth_append nth_butlast)

lemma push_frames:
  assumes "ic_push rt tc = Inr tc'"
  shows "frames_kept tc tc'" and "frames_ok tc \<Longrightarrow> frames_ok tc'"
    and "instruction_stack tc' = instruction_stack tc @ [length (instruction_trace tc) - 1]"
proof -
  have p: "tc_push rt tc = Inr tc'" using assms by (rule ic_push_Inr)
  note p' = tc_push_Inr [OF p]
  show "frames_kept tc tc'" using p' by (simp add: frames_kept_def nth_append nth_butlast)
  show "instruction_stack tc' = instruction_stack tc @ [length (instruction_trace tc) - 1]" by (rule p'(7))
  show "frames_ok tc'" if "frames_ok tc"
    using that p' by (fastforce simp: frames_ok_def length_greater_0_conv)
qed

lemma body_frames:
  assumes "body rt tc tc'" and "frames_ok tc"
  shows "frames_ok tc' \<and> frames_kept tc tc' \<and> instruction_stack tc' = instruction_stack tc"
  using assms
proof induction
  case (operation tc tc1 tc2)
  then have "same_frames tc1 tc2" by (simp add: account_op_frames)
  then show ?case
    using operation same_frames_ok same_frames_kept frames_kept_trans by (metis same_frames_def)
next
  case (call tc tc1 ix signers tc2 tc3 tc4 tc5)
  note prep = prepare_frames [OF call.hyps(3)] and push = push_frames [OF call.hyps(4)] and pop = tc_pop_Inr [OF call.hyps(6)]
  have 1: "frames_ok tc1" "frames_kept tc tc1" "instruction_stack tc1 = instruction_stack tc" using call by simp_all
  then have "frames_ok tc3" using prep push by simp
  then have 4: "frames_ok tc4" "frames_kept tc3 tc4" "instruction_stack tc4 = instruction_stack tc3" using call by simp_all
  have "frames_kept tc4 tc5" using pop by (simp add: frames_kept_def)
  moreover have "frames_ok tc5" using 4(1) pop by (auto simp: frames_ok_def dest: in_set_butlastD)
  moreover have "instruction_stack tc5 = instruction_stack tc" using pop 4(3) push(3) prep(3) 1(3) by simp
  ultimately show ?case using 1(2) prep(1) push(1) 4(2) frames_kept_trans by blast
qed simp

section \<open>Relations that every execution keeps\<close>

text \<open>
  A relation between the accounts before and after holds of a whole execution when each operation
  and each entry into an invoked program keeps it, in states with a property \<open>inside\<close> that the
  entries keep, too, and that depends on the frames of running instructions only.
\<close>

locale kept_by_steps =
  fixes rt :: runtime and inside :: "transaction_context \<Rightarrow> bool" and rel :: "transaction_accounts \<Rightarrow> transaction_accounts \<Rightarrow> bool"
  assumes rel_refl: "rel x x"
    and rel_trans: "rel x y \<Longrightarrow> rel y z \<Longrightarrow> rel x z"
    and rel_op: "inside tc \<Longrightarrow> frames_ok tc \<Longrightarrow> account_op rt tc tc' \<Longrightarrow> rel (accounts tc) (accounts tc')"
    and rel_enter: "inside tc \<Longrightarrow> frames_ok tc \<Longrightarrow> check_instruction_size (length (ix_accounts ix)) (length (ix_data ix)) \<Longrightarrow>
      prepare_next_instruction tc ix signers = Inr tc1 \<Longrightarrow> ic_push rt tc1 = Inr tc2 \<Longrightarrow>
      rel (accounts tc) (accounts tc2) \<and> inside tc2"
    and inside_kept: "inside tc \<Longrightarrow> frames_ok tc \<Longrightarrow> frames_kept tc tc' \<Longrightarrow> instruction_stack tc' = instruction_stack tc \<Longrightarrow> inside tc'"
begin

lemma body_kept:
  assumes "body rt tc tc'" and "inside tc" and "frames_ok tc"
  shows "rel (accounts tc) (accounts tc')"
  using assms
proof induction
  case (stop tc)
  then show ?case by (simp add: rel_refl)
next
  case (operation tc tc1 tc2)
  have "frames_ok tc1" "inside tc1"
    using body_frames [OF operation.hyps(1) operation.prems(2)] inside_kept operation.prems by blast+
  then show ?case using operation rel_op rel_trans by blast
next
  case (call tc tc1 ix signers tc2 tc3 tc4 tc5)
  have 1: "frames_ok tc1" "inside tc1"
    using body_frames [OF call.hyps(1) call.prems(2)] inside_kept call.prems by blast+
  have "frames_ok tc3" using prepare_frames(2) [OF call.hyps(3) 1(1)] push_frames(2) [OF call.hyps(4)] by blast
  with rel_enter [OF 1(2,1) call.hyps(2-4)] call
  have "rel (accounts tc) (accounts tc1)" "rel (accounts tc1) (accounts tc3)" "rel (accounts tc3) (accounts tc4)" by blast+
  then show ?case using tc_pop_Inr(2) [OF call.hyps(6)] rel_trans by metis
qed

end

section \<open>Lamports are conserved\<close>

definition total_lamports :: "transaction_accounts \<Rightarrow> int" where
  "total_lamports tas = (\<Sum>x\<leftarrow>tas_accounts tas. int (unat (sa_lamports x)))"

definition same_ledger :: "transaction_accounts \<Rightarrow> transaction_accounts \<Rightarrow> bool" where
  "same_ledger x y \<longleftrightarrow> total_lamports y - tas_lamports_delta y = total_lamports x - tas_lamports_delta x"

lemma total_lamports_update:
  assumes "i < length (tas_accounts x)" and "tas_accounts y = (tas_accounts x)[i := a]"
  shows "total_lamports y = total_lamports x + int (unat (sa_lamports a)) - int (unat (sa_lamports (tas_accounts x ! i)))"
proof -
  let ?f = "\<lambda>x. int (unat (sa_lamports x))" and ?xs = "tas_accounts x"
  have "(\<Sum>x\<leftarrow>?xs. ?f x) = (\<Sum>x\<leftarrow>take i ?xs. ?f x) + ?f (?xs ! i) + (\<Sum>x\<leftarrow>drop (Suc i) ?xs. ?f x)"
    using arg_cong [OF id_take_nth_drop [OF assms(1)], of "\<lambda>l. sum_list (map ?f l)"] by (simp only: map_append sum_list_append list.map sum_list.Cons add.assoc)
  moreover have "(\<Sum>x\<leftarrow>?xs[i := a]. ?f x) = (\<Sum>x\<leftarrow>take i ?xs. ?f x) + ?f a + (\<Sum>x\<leftarrow>drop (Suc i) ?xs. ?f x)"
    using assms(1) by (simp add: upd_conv_take_nth_drop del: of_nat_unat)
  ultimately show ?thesis unfolding total_lamports_def assms(2) by linarith
qed

lemma push_running:
  assumes "ic_push rt tc = Inr tc'" and "frames_ok tc"
  shows "running tc' = get_program_key tc (last (instruction_trace tc))" and "\<exists>q. running tc' = Inr q"
    and "get_current_instruction_context tc' = Inr ((last (instruction_trace tc))\<lparr>nesting_level := length (instruction_stack tc)\<rparr>)"
proof -
  have p: "tc_push rt tc = Inr tc'" using assms(1) by (rule ic_push_Inr)
  note p' = tc_push_Inr [OF p]
  show c: "get_current_instruction_context tc' = Inr ((last (instruction_trace tc))\<lparr>nesting_level := length (instruction_stack tc)\<rparr>)"
    using current_frame [OF push_frames(2) [OF assms]] p' by (simp add: nth_append)
  show r: "running tc' = get_program_key tc (last (instruction_trace tc))"
    unfolding running_def c
    by (simp add: get_program_key_cong [OF p'(5)] get_program_key_def get_index_of_program_account_in_transaction_def)
  show "\<exists>q. running tc' = Inr q" unfolding r using assms(1) by (rule ic_push_Inr) simp
qed

lemma push_same_ledger: "tc_push rt tc = Inr tc' \<Longrightarrow> same_ledger (accounts tc) (accounts tc')"
proof -
  assume p: "tc_push rt tc = Inr tc'"
  have "sa_lamports (tx_accounts tc' ! i) = sa_lamports (tx_accounts tc ! i)" if "i < length (tx_accounts tc)" for i
    using tc_push_Inr(8) [OF p that] by (cases "tx_accounts tc' ! i = tx_accounts tc ! i") auto
  then have "map (\<lambda>x. int (unat (sa_lamports x))) (tx_accounts tc') = map (\<lambda>x. int (unat (sa_lamports x))) (tx_accounts tc)"
    using tc_push_Inr(1) [OF p] by (intro nth_equalityI) simp_all
  then show ?thesis using tc_push_Inr(2) [OF p] by (simp add: same_ledger_def total_lamports_def)
qed

interpretation ledger: kept_by_steps rt "\<lambda>tc. \<exists>q. running tc = Inr q" same_ledger for rt
proof
  fix tc tc' assume "\<exists>q. running tc = Inr q" "account_op rt tc tc'"
  then obtain q where "running tc = Inr q" by blast
  with \<open>account_op rt tc tc'\<close> show "same_ledger (accounts tc) (accounts tc')"
  proof (rule account_op_change)
    fix ba y assume "borrowed_here tc ba" "op_outcome tc ba tc' y"
    then show ?thesis
      using total_lamports_update [of "unat (get_index_in_transaction ba)" "accounts tc" "accounts tc'" y]
      by (simp add: same_ledger_def op_outcome_def borrowed_here_def ba_account_def del: of_nat_unat)
  qed (simp add: same_ledger_def total_lamports_def)
next
  fix tc ix signers tc1 tc2
  assume f: "frames_ok tc" and p: "prepare_next_instruction tc ix signers = Inr tc1" and i: "ic_push rt tc1 = Inr tc2"
  have "tc_push rt tc1 = Inr tc2" using i by (rule ic_push_Inr)
  from push_same_ledger [OF this] show "same_ledger (accounts tc) (accounts tc2) \<and> (\<exists>q. running tc2 = Inr q)"
    using prepare_frames(2,4) [OF p] push_running(2) [OF i] f by simp
next
  fix tc tc'
  assume "\<exists>q. running tc = Inr q" "frames_ok tc" "frames_kept tc tc'" "instruction_stack tc' = instruction_stack tc"
  then show "\<exists>q. running tc' = Inr q" using current_frame_kept(3) [of tc tc'] by simp
qed (simp_all add: same_ledger_def)

section \<open>The accounts of a program are out of reach of the programs it invokes\<close>

text \<open>
  What other programs may do to the accounts of \<open>p\<close>: nothing but add lamports, and they may give it
  further accounts, with zeroed data.
\<close>

definition account_protected :: "pubkey \<Rightarrow> shared_account \<Rightarrow> shared_account \<Rightarrow> bool" where
  "account_protected p x y \<longleftrightarrow>
     (sa_owner x = p \<longrightarrow> sa_owner y = p \<and> sa_data y = sa_data x \<and> sa_executable y = sa_executable x \<and> sa_lamports x \<le> sa_lamports y) \<and>
     (sa_owner y = p \<longrightarrow> sa_owner x = p \<or> is_zeroed (sa_data y))"

definition accounts_protected :: "pubkey \<Rightarrow> transaction_accounts \<Rightarrow> transaction_accounts \<Rightarrow> bool" where
  "accounts_protected p x y \<longleftrightarrow>
     length (tas_accounts y) = length (tas_accounts x) \<and>
     (\<forall>i<length (tas_accounts x). account_protected p (tas_accounts x ! i) (tas_accounts y ! i))"

definition on_stack :: "transaction_context \<Rightarrow> pubkey \<Rightarrow> bool" where
  "on_stack tc p \<longleftrightarrow>
     (\<exists>level<length (instruction_stack tc).
        and_then (get_instruction_context_at_nesting_level tc level) (\<lambda>frame. get_program_key tc frame) = Inr p)"

text \<open>\<open>p\<close> waits on the stack while another program runs.\<close>

definition waiting :: "runtime \<Rightarrow> pubkey \<Rightarrow> transaction_context \<Rightarrow> bool" where
  "waiting rt p tc \<longleftrightarrow> p \<noteq> rt_sysvar_id rt \<and> on_stack tc p \<and> (\<exists>q. running tc = Inr q \<and> q \<noteq> p)"

lemma account_protected_refl [simp]: "account_protected p x x"
  by (simp add: account_protected_def)

lemma account_protected_trans: "account_protected p x y \<Longrightarrow> account_protected p y z \<Longrightarrow> account_protected p x z"
  unfolding account_protected_def by (metis order_trans)

lemma accounts_protected_trans: "accounts_protected p x y \<Longrightarrow> accounts_protected p y z \<Longrightarrow> accounts_protected p x z"
  unfolding accounts_protected_def by (metis account_protected_trans)

lemma account_change_protected: "account_change q x y \<Longrightarrow> q \<noteq> p \<Longrightarrow> account_protected p x y"
  by (auto simp: account_change_def account_protected_def split: if_splits)

lemma accounts_protected_update:
  assumes "i < length (tas_accounts x)" and "tas_accounts y = (tas_accounts x)[i := a]" and "account_protected p (tas_accounts x ! i) a"
  shows "accounts_protected p x y"
  using assms by (auto simp: accounts_protected_def nth_list_update)

lemma accounts_protected_same: "tas_accounts y = tas_accounts x \<Longrightarrow> accounts_protected p x y"
  by (simp add: accounts_protected_def)

lemma push_protected:
  assumes "tc_push rt tc = Inr tc'" and "p \<noteq> rt_sysvar_id rt"
  shows "accounts_protected p (accounts tc) (accounts tc')"
proof -
  have "account_protected p (tx_accounts tc ! i) (tx_accounts tc' ! i)" if "i < length (tx_accounts tc)" for i
    using tc_push_Inr(8) [OF assms(1) that] assms(2)
    by (cases "tx_accounts tc' ! i = tx_accounts tc ! i") (auto simp: account_protected_def)
  then show ?thesis using tc_push_Inr(1) [OF assms(1)] by (simp add: accounts_protected_def)
qed

lemma on_stack_kept:
  assumes "frames_ok tc" and "frames_kept tc tc'" and "instruction_stack tc' = instruction_stack tc"
  shows "on_stack tc' p \<longleftrightarrow> on_stack tc p"
proof -
  have "get_program_key tc' = get_program_key tc" using assms(2) by (simp add: frames_kept_def get_program_key_cong [of tc' tc])
  then show ?thesis using current_frame_kept(1) [OF assms] assms(3) by (simp add: on_stack_def)
qed

lemma on_stack_push:
  assumes "ic_push rt tc = Inr tc'" and "frames_ok tc" and "on_stack tc p"
  shows "on_stack tc' p"
proof -
  note f = push_frames [OF assms(1)]
  obtain level where l: "level < length (instruction_stack tc)"
    "and_then (get_instruction_context_at_nesting_level tc level) (\<lambda>frame. get_program_key tc frame) = Inr p"
    using assms(3) by (auto simp: on_stack_def)
  have "get_program_key tc' = get_program_key tc" using f(1) by (simp add: frames_kept_def get_program_key_cong [of tc' tc])
  moreover have "instruction_stack tc ! level < length (instruction_trace tc) - 1" using assms(2) l(1) by (simp add: frames_ok_def)
  then have "get_instruction_context_at_nesting_level tc' level = get_instruction_context_at_nesting_level tc level"
    using f(1,3) l(1) by (auto simp: get_instruction_context_at_nesting_level_def get_instruction_context_at_index_in_trace_def get_at_def
        frames_kept_def nth_append)
  ultimately show ?thesis unfolding on_stack_def using l f(3) by (intro exI [of _ level]) simp
qed

interpretation foreign: kept_by_steps rt "waiting rt p" "accounts_protected p" for rt p
proof
  fix tc tc' assume w: "waiting rt p tc" and op: "account_op rt tc tc'"
  then obtain q where q: "running tc = Inr q" "q \<noteq> p" by (auto simp: waiting_def)
  from op q(1) show "accounts_protected p (accounts tc) (accounts tc')"
  proof (rule account_op_change)
    fix ba y assume "borrowed_here tc ba" "op_outcome tc ba tc' y" "account_change q (ba_account tc ba) y"
    then show ?thesis
      using accounts_protected_update [of "unat (get_index_in_transaction ba)" "accounts tc" "accounts tc'" y p]
        account_change_protected [OF _ q(2)] by (simp add: op_outcome_def borrowed_here_def ba_account_def)
  qed (simp add: accounts_protected_same)
next
  fix tc ix signers tc1 tc2
  assume w: "waiting rt p tc" and f: "frames_ok tc" and p: "prepare_next_instruction tc ix signers = Inr tc1"
    and i: "ic_push rt tc1 = Inr tc2"
  note prep = prepare_frames [OF p]
  have f1: "frames_ok tc1" and s1: "on_stack tc1 p" and r1: "running tc1 = running tc"
    using prep f w current_frame_kept(3) [OF f prep(1,3)] on_stack_kept [OF f prep(1,3)] by (simp_all add: waiting_def)
  from i obtain q where "get_program_key tc1 (last (instruction_trace tc1)) = Inr q" "tc_push rt tc1 = Inr tc2"
    "instruction_stack tc1 = [] \<or> running tc1 = Inr q \<or>
       (\<forall>level<length (instruction_stack tc1).
          and_then (get_instruction_context_at_nesting_level tc1 level) (\<lambda>frame. get_program_key tc1 frame) \<noteq> Inr q)"
    by (rule ic_push_Inr) auto
  moreover from this(3) have "q \<noteq> p" using s1 r1 w by (auto simp: on_stack_def waiting_def)
  ultimately show "accounts_protected p (accounts tc) (accounts tc2) \<and> waiting rt p tc2"
    using push_protected [of rt tc1 tc2 p] push_running(1) [OF i f1] on_stack_push [OF i f1 s1] prep(4) w by (simp add: waiting_def)
next
  fix tc tc'
  assume "waiting rt p tc" "frames_ok tc" "frames_kept tc tc'" "instruction_stack tc' = instruction_stack tc"
  then show "waiting rt p tc'"
    using current_frame_kept(3) [of tc tc'] on_stack_kept [of tc tc' p] by (simp add: waiting_def)
qed (auto simp: accounts_protected_same intro: accounts_protected_trans)

end
