(* ===== verification/Runtime_Privileges.thy ===== *)
theory Runtime_Privileges
  imports Runtime_Safety
begin

text \<open>
  Privileges of invoked instructions. The two loops of \<open>prepare_next_instruction\<close> merge repeated
  accounts and compare them with the accounts of the caller; the theory shows that the accounts of
  the new instruction have the privileges asked for and none that the caller does not have, and
  that accounts that are read-only for an instruction are therefore left alone by everything that
  runs below it.
\<close>

section \<open>Merging repeated accounts\<close>

text \<open>The position of the first entry for the account of the entry \<open>ia\<close>.\<close>

abbreviation first_of :: "u8 list \<Rightarrow> instruction_account \<Rightarrow> nat" where
  "first_of m ia \<equiv> unat (m ! unat (index_in_transaction ia))"

definition below :: "instruction_account \<Rightarrow> instruction_account \<Rightarrow> bool" where
  "below x y \<longleftrightarrow>
     index_in_transaction x = index_in_transaction y \<and> (is_signer x \<longrightarrow> is_signer y) \<and> (is_writable x \<longrightarrow> is_writable y)"

definition asked :: "pubkey list \<Rightarrow> account_meta \<Rightarrow> instruction_account \<Rightarrow> bool" where
  "asked keys meta ia \<longleftrightarrow>
     get_at keys (unat (index_in_transaction ia)) = Some (am_pubkey meta) \<and>
     (am_is_signer meta \<longrightarrow> is_signer ia) \<and> (am_is_writable meta \<longrightarrow> is_writable ia)"

text \<open>
  The map leads to entries for the account they are looked up by, every entry has a first one, at
  most as late as itself, with all its privileges, and an entry has what was asked for.
\<close>

definition map_ok :: "u8 list \<Rightarrow> instruction_account list \<Rightarrow> bool" where
  "map_ok m ias \<longleftrightarrow>
     (\<forall>k<length m. if unat (m ! k) < length ias then unat (index_in_transaction (ias ! unat (m ! k))) = k else unat (m ! k) = 255)"

definition entry_ok :: "pubkey list \<Rightarrow> account_meta list \<Rightarrow> u8 list \<Rightarrow> instruction_account list \<Rightarrow> nat \<Rightarrow> bool" where
  "entry_ok keys metas m ias n \<longleftrightarrow>
     unat (index_in_transaction (ias ! n)) < length m \<and> first_of m (ias ! n) \<le> n \<and>
     below (ias ! n) (ias ! first_of m (ias ! n)) \<and> asked keys (metas ! n) (ias ! n)"

definition collected :: "pubkey list \<Rightarrow> account_meta list \<Rightarrow> u8 list \<Rightarrow> instruction_account list \<Rightarrow> bool" where
  "collected keys metas m ias \<longleftrightarrow>
     length m = MAX_ACCOUNTS_PER_TRANSACTION \<and> length ias = length metas \<and> map_ok m ias \<and>
     (\<forall>n<length ias. entry_ok keys metas m ias n)"

lemma below_refl [simp]: "below x x"
  by (simp add: below_def)

lemma below_trans: "below x y \<Longrightarrow> below y z \<Longrightarrow> below x z"
  by (auto simp: below_def)

lemma asked_below: "asked keys meta x \<Longrightarrow> below x y \<Longrightarrow> asked keys meta y"
  by (auto simp: asked_def below_def)

lemma position_Some: "position P xs = Some i \<Longrightarrow> i < length xs \<and> P (xs ! i)"
  by (induction xs arbitrary: i) (auto split: if_splits)

lemma find_index_of_account_Some:
  assumes "find_index_of_account tc key = Some index" and "length (account_keys tc) \<le> 65536"
  shows "get_at (account_keys tc) (unat index) = Some key"
proof -
  obtain i where i: "index = of_nat i" "i < length (account_keys tc)" "account_keys tc ! i = key"
    using assms(1) by (auto simp: find_index_of_account_def dest: position_Some)
  then have "unat index = i" using assms(2) by (simp add: unsigned_of_nat take_bit_nat_eq_self)
  then show ?thesis using i by (simp add: get_at_def)
qed

lemma collected_again:
  assumes c: "collected keys ps m ias" and k: "k < length m" "unat (m ! k) < length ias" "get_at keys k = Some (am_pubkey meta)"
    and ia: "ia = ias ! unat (m ! k)"
      "ia' = ia\<lparr>is_signer := is_signer ia \<or> am_is_signer meta, is_writable := is_writable ia \<or> am_is_writable meta\<rparr>"
    and len: "length ias < 255"
  shows "collected keys (ps @ [meta]) m (ias[unat (m ! k) := ia'] @ [ia'])"
proof -
  let ?ias = "ias[unat (m ! k) := ia']"
  have idx: "unat (index_in_transaction ia') = k" using c k ia by (simp add: collected_def map_ok_def)
  have b: "below (ias ! n) (?ias ! n)" if "n < length ias" for n
    using that ia by (cases "n = unat (m ! k)") (auto simp: below_def)
  then have i: "index_in_transaction (?ias ! n) = index_in_transaction (ias ! n)" if "n < length ias" for n
    using that by (simp add: below_def)
  have old: "entry_ok keys ps m ias n" if "n < length ias" for n using c that by (simp add: collected_def)
  have l: "length ias = length ps" using c by (simp add: collected_def)
  have top: "below (?ias ! n) (?ias ! first_of m (ias ! n))" if n: "n < length ias" for n
  proof (cases "first_of m (ias ! n) = unat (m ! k)")
    case True
    with old [OF n] k(2) n ia show ?thesis by (cases "n = unat (m ! k)") (auto simp: below_def entry_ok_def)
  next
    case False
    then have "n \<noteq> unat (m ! k)" using c k ia by (auto simp: collected_def map_ok_def)
    with False old [OF n] show ?thesis by (simp add: entry_ok_def)
  qed
  have "entry_ok keys (ps @ [meta]) m (?ias @ [ia']) n" if n: "n < length ias" for n
  proof -
    have "first_of m (ias ! n) < length ias" using old [OF n] n by (simp add: entry_ok_def)
    then show ?thesis
      using old [OF n] top [OF n] i [OF n] asked_below [OF _ b [OF n]] n l
      by (simp add: entry_ok_def nth_append)
  qed
  moreover have "entry_ok keys (ps @ [meta]) m (?ias @ [ia']) (length ias)"
    using k c idx by (auto simp: entry_ok_def nth_append collected_def asked_def ia(2))
  moreover have "map_ok m (?ias @ [ia'])"
    unfolding map_ok_def
  proof (intro allI impI)
    fix j assume j: "j < length m"
    have "if unat (m ! j) < length ias then unat (index_in_transaction (ias ! unat (m ! j))) = j else unat (m ! j) = 255"
      using c j by (simp add: collected_def map_ok_def)
    then show "if unat (m ! j) < length (?ias @ [ia']) then unat (index_in_transaction ((?ias @ [ia']) ! unat (m ! j))) = j else unat (m ! j) = 255"
      using len i by (simp add: nth_append split: if_splits)
  qed
  ultimately show ?thesis using c by (simp add: collected_def less_Suc_eq)
qed

lemma collected_new:
  assumes c: "collected keys ps m ias" and k: "unat k < length m" "\<not> unat (m ! unat k) < length ias"
    and meta: "get_at keys (unat k) = Some (am_pubkey meta)" and len: "length ias < 255"
  shows "collected keys (ps @ [meta]) (m[unat k := of_nat (length ias)])
    (ias @ [\<lparr>index_in_transaction = k, is_signer = am_is_signer meta, is_writable = am_is_writable meta\<rparr>])"
proof -
  let ?m = "m[unat k := of_nat (length ias)]"
  let ?ia = "\<lparr>index_in_transaction = k, is_signer = am_is_signer meta, is_writable = am_is_writable meta\<rparr>"
  have u: "unat (word_of_nat (length ias) :: u8) = length ias" using len by (simp add: unsigned_of_nat take_bit_nat_eq_self)
  have old: "entry_ok keys ps m ias n" if "n < length ias" for n using c that by (simp add: collected_def)
  have l: "length ias = length ps" using c by (simp add: collected_def)
  have other: "unat (index_in_transaction (ias ! n)) \<noteq> unat k" if "n < length ias" for n
    using old [OF that] that k(2) by (auto simp: entry_ok_def)
  have "entry_ok keys (ps @ [meta]) ?m (ias @ [?ia]) n" if n: "n < length ias" for n
  proof -
    have "first_of m (ias ! n) < length ias" using old [OF n] n by (simp add: entry_ok_def)
    then show ?thesis using old [OF n] other [OF n] n l by (simp add: entry_ok_def nth_append)
  qed
  moreover have "entry_ok keys (ps @ [meta]) ?m (ias @ [?ia]) (length ias)"
    using k(1) c meta u by (simp add: entry_ok_def nth_append collected_def asked_def)
  moreover have "map_ok ?m (ias @ [?ia])"
    unfolding map_ok_def
  proof (intro allI impI)
    fix j assume j: "j < length ?m"
    have "if unat (m ! j) < length ias then unat (index_in_transaction (ias ! unat (m ! j))) = j else unat (m ! j) = 255"
      using c j by (simp add: collected_def map_ok_def)
    then show "if unat (?m ! j) < length (ias @ [?ia]) then unat (index_in_transaction ((ias @ [?ia]) ! unat (?m ! j))) = j else unat (?m ! j) = 255"
      using len u j k(1) by (cases "j = unat k") (simp_all add: nth_append split: if_splits)
  qed
  ultimately show ?thesis using c by (simp add: collected_def less_Suc_eq)
qed

lemma collect_accounts_collected:
  assumes "collect_accounts tc metas m ias = Inr (m', ias')" and "collected (account_keys tc) ps m ias"
    and "length ps + length metas \<le> 255" and "length (account_keys tc) \<le> 65536"
  shows "collected (account_keys tc) (ps @ metas) m' ias'"
  using assms(1-3)
proof (induction metas arbitrary: ps m ias)
  case (Cons meta metas)
  from Cons.prems(1) obtain k where k: "find_index_of_account tc (am_pubkey meta) = Some k" "unat k < length m"
    by (auto simp: and_then_Inr_iff ok_or_Inr_iff get_at_iff)
  note key = find_index_of_account_Some [OF k(1) assms(4)]
  have "length ias = length ps" using Cons.prems(2) by (simp add: collected_def)
  then have l: "length ias < 255" using Cons.prems(3) by simp
  show ?case
  proof (cases "unat (m ! unat k) < length ias")
    case True
    have "collected (account_keys tc) ((ps @ [meta]) @ metas) m' ias'"
      using Cons.prems(1,3) k True by (intro Cons.IH [OF _ collected_again [OF Cons.prems(2) k(2) True key refl refl l]])
        (simp_all add: get_at_def Let_def)
    then show ?thesis by simp
  next
    case False
    have "collected (account_keys tc) ((ps @ [meta]) @ metas) m' ias'"
      using Cons.prems(1,3) k False by (intro Cons.IH [OF _ collected_new [OF Cons.prems(2) k(2) False key l]])
        (simp_all add: get_at_def Let_def)
    then show ?thesis by simp
  qed
qed simp

lemma collected_start: "collected keys [] (replicate MAX_ACCOUNTS_PER_TRANSACTION (- 1)) []"
  by (simp add: collected_def map_ok_def unsigned_minus_1_eq_mask mask_eq_exp_minus_1)

lemma collected_first:
  assumes "collected keys metas m ias" and "n < length ias"
  shows "first_of m (ias ! n) < length ias" and "first_of m (ias ! first_of m (ias ! n)) = first_of m (ias ! n)"
    and "am_pubkey (metas ! first_of m (ias ! n)) = am_pubkey (metas ! n)"
proof -
  have e: "entry_ok keys metas m ias n" using assms by (simp add: collected_def)
  then show f: "first_of m (ias ! n) < length ias" using assms(2) by (simp add: entry_ok_def)
  have i: "index_in_transaction (ias ! first_of m (ias ! n)) = index_in_transaction (ias ! n)" using e by (simp add: entry_ok_def below_def)
  then show "first_of m (ias ! first_of m (ias ! n)) = first_of m (ias ! n)" by simp
  have "entry_ok keys metas m ias (first_of m (ias ! n))" using assms(1) f by (simp add: collected_def)
  with e i show "am_pubkey (metas ! first_of m (ias ! n)) = am_pubkey (metas ! n)" by (simp add: entry_ok_def asked_def)
qed

section \<open>Comparing with the caller\<close>

definition granted :: "instruction_frame \<Rightarrow> pubkey list \<Rightarrow> pubkey \<Rightarrow> instruction_account \<Rightarrow> bool" where
  "granted caller signers key ia \<longleftrightarrow>
     (\<exists>c\<in>set (instruction_accounts caller). index_in_transaction c = index_in_transaction ia \<and>
        (is_writable ia \<longrightarrow> is_writable c) \<and> (is_signer ia \<longrightarrow> is_signer c \<or> key \<in> set signers))"

lemma granted_below: "granted caller signers key y \<Longrightarrow> below x y \<Longrightarrow> granted caller signers key x"
  unfolding granted_def below_def by metis

lemma caller_entry:
  assumes "map_ok (dedup_map caller) (instruction_accounts caller)" and "get_index_of_account_in_instruction caller index = Inr j"
    and "get_at (instruction_accounts caller) (unat j) = Some c"
  shows "c \<in> set (instruction_accounts caller) \<and> index_in_transaction c = index"
proof -
  obtain d where d: "unat index < length (dedup_map caller)" "d = dedup_map caller ! unat index"
    "unat d < length (instruction_accounts caller)" "j = ucast d"
    using assms(2) by (auto simp: get_index_of_account_in_instruction_def ok_or_Inr_iff get_at_iff bind_Some_iff split: if_splits)
  have "unat j = unat d" using d(4) unat_bound [of d] by (simp add: unsigned_ucast_eq take_bit_nat_eq_self)
  moreover have "unat (index_in_transaction (instruction_accounts caller ! unat d)) = unat index"
    using assms(1) d by (simp add: map_ok_def)
  ultimately show ?thesis using assms(3) by (auto simp: get_at_iff word_unat_eq_iff)
qed

definition between :: "u8 list \<Rightarrow> instruction_account list \<Rightarrow> instruction_account list \<Rightarrow> bool" where
  "between m ias0 ias \<longleftrightarrow> length ias = length ias0 \<and>
     (\<forall>n<length ias0. below (ias0 ! n) (ias ! n) \<and> below (ias ! n) (ias0 ! first_of m (ias0 ! n)))"

lemma below_merge:
  assumes "below x y" and "below y z" and "below r z"
  shows "below x (y\<lparr>is_signer := is_signer y \<or> is_signer r, is_writable := is_writable y \<or> is_writable r\<rparr>) \<and>
    below (y\<lparr>is_signer := is_signer y \<or> is_signer r, is_writable := is_writable y \<or> is_writable r\<rparr>) z"
  using assms by (auto simp: below_def)

lemma between_merge:
  assumes c: "collected keys metas m ias0" and b: "between m ias0 ias" and n: "n < length ias0"
    and ia: "ia = (ias ! n)\<lparr>is_signer := is_signer (ias ! n) \<or> is_signer (ias ! first_of m (ias0 ! n)),
      is_writable := is_writable (ias ! n) \<or> is_writable (ias ! first_of m (ias0 ! n))\<rparr>"
  shows "between m ias0 (ias[n := ia])"
proof -
  have b': "below (ias0 ! j) (ias ! j)" "below (ias ! j) (ias0 ! first_of m (ias0 ! j))" if "j < length ias0" for j
    using b that by (simp_all add: between_def)
  have "below (ias ! first_of m (ias0 ! n)) (ias0 ! first_of m (ias0 ! n))"
    using b'(2) [of "first_of m (ias0 ! n)"] collected_first(1,2) [OF c n] by simp
  then have "below (ias0 ! n) ia" "below ia (ias0 ! first_of m (ias0 ! n))"
    using below_merge [OF b' [OF n]] unfolding ia by blast+
  then show ?thesis using b b' n by (simp add: between_def nth_list_update)
qed

lemma check_privileges_granted:
  assumes "check_privileges caller metas signers m ns ias = Inr ias'" and "between m ias0 ias" and "\<forall>n\<in>set ns. n < length ias0"
    and c: "collected keys metas m ias0" and ok: "map_ok (dedup_map caller) (instruction_accounts caller)"
  shows "between m ias0 ias' \<and>
    (\<forall>n\<in>set ns. first_of m (ias0 ! n) = n \<longrightarrow> granted caller signers (am_pubkey (metas ! n)) (ias0 ! n))"
  using assms(1-3)
proof (induction ns arbitrary: ias)
  case (Cons n ns)
  have n: "n < length ias0" and b: "below (ias0 ! n) (ias ! n)" using Cons.prems by (simp_all add: between_def)
  then have i: "index_in_transaction (ias ! n) = index_in_transaction (ias0 ! n)" by (simp add: below_def)
  show ?case
  proof (cases "first_of m (ias0 ! n) = n")
    case True
    with Cons.prems(1) i obtain j cl where g: "get_index_of_account_in_instruction caller (index_in_transaction (ias ! n)) = Inr j"
      "get_at (instruction_accounts caller) (unat j) = Some cl" "is_writable (ias ! n) \<longrightarrow> is_writable cl"
      "is_signer (ias ! n) \<longrightarrow> is_signer cl \<or> am_pubkey (metas ! n) \<in> set signers"
      "check_privileges caller metas signers m ns ias = Inr ias'"
      by (auto simp: Let_def and_then_Inr_iff ok_or_Inr_iff err_if_Inr_iff get_at_iff split: if_splits)
    have "granted caller signers (am_pubkey (metas ! n)) (ias ! n)"
      using caller_entry [OF ok g(1,2)] g(3,4) unfolding granted_def by blast
    then have "granted caller signers (am_pubkey (metas ! n)) (ias0 ! n)" using b by (rule granted_below)
    then show ?thesis using Cons.IH [OF g(5)] Cons.prems by simp
  next
    case False
    with Cons.prems(1) i have "check_privileges caller metas signers m ns
        (ias[n := (ias ! n)\<lparr>is_signer := is_signer (ias ! n) \<or> is_signer (ias ! first_of m (ias0 ! n)),
           is_writable := is_writable (ias ! n) \<or> is_writable (ias ! first_of m (ias0 ! n))\<rparr>]) = Inr ias'"
      by (auto simp: Let_def and_then_Inr_iff ok_or_Inr_iff get_at_iff split: if_splits)
    from Cons.IH [OF this between_merge [OF c Cons.prems(2) n refl]] False Cons.prems(3) show ?thesis by simp
  qed
qed simp

lemma prepare_privileges:
  assumes p: "prepare_next_instruction tc ix signers = Inr tc'" and cur: "get_current_instruction_context tc = Inr caller"
    and ok: "map_ok (dedup_map caller) (instruction_accounts caller)"
    and len: "length (ix_accounts ix) \<le> 255" "length (account_keys tc) \<le> 65536"
  shows "map_ok (dedup_map (last (instruction_trace tc'))) (instruction_accounts (last (instruction_trace tc')))"
    and "list_all2 (\<lambda>meta ia. asked (account_keys tc) meta ia \<and> granted caller signers (am_pubkey meta) ia)
           (ix_accounts ix) (instruction_accounts (last (instruction_trace tc')))"
proof -
  from p obtain caller' m ias0 ias i j where cur': "get_current_instruction_context tc = Inr caller'"
    and *: "collect_accounts tc (ix_accounts ix) (replicate MAX_ACCOUNTS_PER_TRANSACTION (- 1)) [] = Inr (m, ias0)"
      "check_privileges caller' (ix_accounts ix) signers m [0..<length ias0] ias0 = Inr ias"
    and tc': "tc' = set_last_frame tc ((last (instruction_trace tc))
       \<lparr>program_account_index_in_tx := j, instruction_accounts := ias, instruction_data := ix_data ix, dedup_map := m\<rparr>)"
    by (rule prepare_next_instruction_Inr)
  have c': "caller' = caller" using cur cur' by simp
  have last: "instruction_accounts (last (instruction_trace tc')) = ias" "dedup_map (last (instruction_trace tc')) = m"
    using tc' by simp_all
  have c: "collected (account_keys tc) (ix_accounts ix) m ias0"
    using collect_accounts_collected [OF *(1) collected_start] len by simp
  have "between m ias0 ias0" using c by (simp add: between_def collected_def entry_ok_def)
  then have bg: "between m ias0 ias \<and>
      (\<forall>n\<in>set [0..<length ias0]. first_of m (ias0 ! n) = n \<longrightarrow> granted caller signers (am_pubkey (ix_accounts ix ! n)) (ias0 ! n))"
    by (rule check_privileges_granted [OF *(2) [unfolded c'] _ _ c ok]) auto
  then have b: "between m ias0 ias" by blast
  have g: "granted caller signers (am_pubkey (ix_accounts ix ! n)) (ias0 ! n)" if "n < length ias0" "first_of m (ias0 ! n) = n" for n
    using bg that by (metis atLeastLessThan_iff le0 set_upt)
  have "index_in_transaction (ias ! n) = index_in_transaction (ias0 ! n)" if "n < length ias0" for n
    using b that unfolding between_def below_def by metis
  then show "map_ok (dedup_map (last (instruction_trace tc'))) (instruction_accounts (last (instruction_trace tc')))"
    using c b unfolding last by (simp add: collected_def map_ok_def between_def)
  have "asked (account_keys tc) (ix_accounts ix ! n) (ias ! n) \<and> granted caller signers (am_pubkey (ix_accounts ix ! n)) (ias ! n)"
    if n: "n < length ias0" for n
  proof
    have e: "entry_ok (account_keys tc) (ix_accounts ix) m ias0 n" using c n by (simp add: collected_def)
    then show "asked (account_keys tc) (ix_accounts ix ! n) (ias ! n)"
      using b n asked_below by (auto simp: between_def entry_ok_def)
    have "granted caller signers (am_pubkey (ix_accounts ix ! n)) (ias0 ! first_of m (ias0 ! n))"
      using g [of "first_of m (ias0 ! n)"] collected_first [OF c n] by simp
    then show "granted caller signers (am_pubkey (ix_accounts ix ! n)) (ias ! n)"
      using b n by (auto simp: between_def intro: granted_below)
  qed
  then show "list_all2 (\<lambda>meta ia. asked (account_keys tc) meta ia \<and> granted caller signers (am_pubkey meta) ia)
           (ix_accounts ix) (instruction_accounts (last (instruction_trace tc')))"
    using c b unfolding last by (simp add: list_all2_conv_all_nth collected_def between_def)
qed

section \<open>Read-only accounts\<close>

text \<open>
  The account at \<open>j\<close> is writable for no entry of the running instruction; \<open>sysvar\<close> says that it may be
  the sysvar in which the runtime itself keeps the index of the instruction.
\<close>

definition read_only :: "runtime \<Rightarrow> bool \<Rightarrow> u16 \<Rightarrow> transaction_context \<Rightarrow> bool" where
  "read_only rt sysvar j tc \<longleftrightarrow>
     length (account_keys tc) \<le> 65536 \<and> (find_index_of_account tc (rt_instructions_id rt) = Some j \<longrightarrow> sysvar) \<and> (\<exists>q. running tc = Inr q) \<and>
     (\<exists>frame. get_current_instruction_context tc = Inr frame \<and> map_ok (dedup_map frame) (instruction_accounts frame) \<and>
        (\<forall>ia\<in>set (instruction_accounts frame). index_in_transaction ia = j \<longrightarrow> \<not> is_writable ia))"

text \<open>The account is the same, up to its data if it is that sysvar.\<close>

definition same_account :: "bool \<Rightarrow> shared_account \<Rightarrow> shared_account \<Rightarrow> bool" where
  "same_account sysvar x y \<longleftrightarrow>
     (if sysvar then sa_lamports y = sa_lamports x \<and> sa_owner y = sa_owner x \<and> sa_executable y = sa_executable x \<and>
        sa_rent_epoch y = sa_rent_epoch x else y = x)"

definition same_at :: "bool \<Rightarrow> nat \<Rightarrow> transaction_accounts \<Rightarrow> transaction_accounts \<Rightarrow> bool" where
  "same_at sysvar i x y \<longleftrightarrow> length (tas_accounts y) = length (tas_accounts x) \<and>
     (i < length (tas_accounts x) \<longrightarrow> same_account sysvar (tas_accounts x ! i) (tas_accounts y ! i))"

lemma same_account_refl [simp]: "same_account sysvar x x" and same_account_data: "same_account True x (x\<lparr>sa_data := data\<rparr>)"
  by (simp_all add: same_account_def)

lemma same_at_refl: "same_at sysvar i x x"
  by (simp add: same_at_def)

lemma same_at_trans: "same_at sysvar i x y \<Longrightarrow> same_at sysvar i y z \<Longrightarrow> same_at sysvar i x z"
  by (auto simp: same_at_def same_account_def split: if_splits)

lemma find_index_of_account_cong: "account_keys tc' = account_keys tc \<Longrightarrow> find_index_of_account tc' key = find_index_of_account tc key"
  by (simp add: find_index_of_account_def)

lemma op_same_at:
  assumes "read_only rt sysvar j tc" and "account_op rt tc tc'"
  shows "same_at sysvar (unat j) (accounts tc) (accounts tc')"
proof -
  obtain q frame where q: "running tc = Inr q" "get_current_instruction_context tc = Inr frame"
    "\<forall>ia\<in>set (instruction_accounts frame). index_in_transaction ia = j \<longrightarrow> \<not> is_writable ia"
    using assms(1) by (auto simp: read_only_def)
  from assms(2) q(1) show ?thesis
  proof (rule account_op_change)
    fix ba y assume *: "borrowed_here tc ba" "op_outcome tc ba tc' y"
    then have "get_index_in_transaction ba \<noteq> j"
      using q(2,3) by (auto simp: borrowed_here_def op_outcome_def ba_is_writable_def get_index_in_transaction_def)
    then show ?thesis using * by (simp add: same_at_def op_outcome_def word_unat_eq_iff)
  qed (simp add: same_at_def)
qed

lemma push_read_only:
  assumes i: "ic_push rt tc = Inr tc'" and f: "frames_ok tc" and keys: "length (account_keys tc) \<le> 65536"
    and m: "map_ok (dedup_map (last (instruction_trace tc))) (instruction_accounts (last (instruction_trace tc)))"
    and ro: "\<forall>ia\<in>set (instruction_accounts (last (instruction_trace tc))). index_in_transaction ia = j \<longrightarrow> \<not> is_writable ia"
    and j: "find_index_of_account tc (rt_instructions_id rt) = Some j \<longrightarrow> sysvar"
  shows "same_at sysvar (unat j) (accounts tc) (accounts tc') \<and> read_only rt sysvar j tc'"
proof -
  have push: "tc_push rt tc = Inr tc'" using i by (rule ic_push_Inr)
  note run = push_running [OF i f] and k = tc_push_Inr(5) [OF push]
  have "same_at sysvar (unat j) (accounts tc) (accounts tc')"
    using tc_push_Inr(1) [OF push] tc_push_Inr(8) [OF push, of "unat j"] j
    by (cases "tx_accounts tc' ! unat j = tx_accounts tc ! unat j") (auto simp: same_at_def same_account_data)
  moreover have "read_only rt sysvar j tc'"
    using run(2,3) ro m j keys k find_index_of_account_cong [OF k] by (simp add: read_only_def)
  ultimately show ?thesis ..
qed

lemma enter_read_only:
  assumes r: "read_only rt sysvar j tc" and f: "frames_ok tc" and size: "check_instruction_size (length (ix_accounts ix)) (length (ix_data ix))"
    and p: "prepare_next_instruction tc ix signers = Inr tc1" and i: "ic_push rt tc1 = Inr tc2"
  shows "same_at sysvar (unat j) (accounts tc) (accounts tc2) \<and> read_only rt sysvar j tc2"
proof -
  obtain caller where c: "get_current_instruction_context tc = Inr caller" "map_ok (dedup_map caller) (instruction_accounts caller)"
    "\<forall>ia\<in>set (instruction_accounts caller). index_in_transaction ia = j \<longrightarrow> \<not> is_writable ia"
    using r by (auto simp: read_only_def)
  have len: "length (ix_accounts ix) \<le> 255" "length (account_keys tc) \<le> 65536"
    using size r by (simp_all add: check_instruction_size_def MAX_ACCOUNTS_PER_INSTRUCTION_def read_only_def)
  note priv = prepare_privileges [OF p c(1,2) len] and prep = prepare_frames [OF p]
  let ?last = "last (instruction_trace tc1)"
  have ro: "\<forall>ia\<in>set (instruction_accounts ?last). index_in_transaction ia = j \<longrightarrow> \<not> is_writable ia"
  proof (intro ballI impI notI)
    fix ia assume "ia \<in> set (instruction_accounts ?last)" "index_in_transaction ia = j" "is_writable ia"
    moreover from this(1) priv(2) obtain key where "granted caller signers key ia" by (auto simp: list_all2_conv_all_nth in_set_conv_nth)
    ultimately show False using c(3) by (auto simp: granted_def)
  qed
  have keys: "account_keys tc1 = account_keys tc" using prep(1) by (simp add: frames_kept_def)
  then have "find_index_of_account tc1 (rt_instructions_id rt) = Some j \<longrightarrow> sysvar"
    using r find_index_of_account_cong [OF keys] by (simp add: read_only_def)
  with push_read_only [OF i _ _ priv(1) ro] show ?thesis using prep(2,4) f len(2) keys by simp
qed

interpretation readonly: kept_by_steps rt "read_only rt sysvar j" "same_at sysvar (unat j)" for rt sysvar j
proof
  fix tc tc'
  assume "read_only rt sysvar j tc" "frames_ok tc" "frames_kept tc tc'" "instruction_stack tc' = instruction_stack tc"
  then show "read_only rt sysvar j tc'"
    using current_frame_kept(2,3) [of tc tc'] find_index_of_account_cong [of tc' tc]
    by (simp add: read_only_def frames_kept_def)
qed (rule same_at_refl | erule (1) same_at_trans | erule (1) op_same_at | erule (4) enter_read_only)+

end
