(* ===== verification/System_Program.thy ===== *)
theory System_Program
  imports Runtime_Privileges
begin

text \<open>
  The system program (\<open>gorchain/programs/system/src/system_processor.rs\<close> and
  \<open>system_instruction.rs\<close>): creating, assigning and allocating accounts, transfers, and the durable
  nonces. Log messages are left out. From outside (record \<open>system_env\<close>) come the derivation of
  addresses with seeds, the codec and the version upgrades of the nonce state, the hash of the
  blockhash, the error codes, the sysvar cache and the rent table.

  A handler borrows an account, works on it and lets it go at the end of its scope, also where it
  returns early with an error, which aborts the transaction.
\<close>

section \<open>Data\<close>

datatype (plugins only: size) system_error =
    AccountAlreadyInUse
  | ResultWithNegativeLamports
  | InvalidAccountDataLength
  | AddressWithSeedMismatch
  | NonceNoRecentBlockhashes
  | NonceBlockhashNotExpired

record nonce_data =
  nd_authority :: pubkey
  nd_durable_nonce :: pubkey
  nd_lamports_per_signature :: u64

datatype (plugins only: size) nonce_state = NonceUninitialized | NonceInitialized nonce_data

datatype (plugins only: size) authorize_nonce_error = NonceNotInitialized | NonceMissingRequiredSignature pubkey

record 'v system_env =
  sy_system_program :: pubkey
  sy_error :: "system_error \<Rightarrow> instruction_error"
  sy_create_with_seed :: "pubkey \<Rightarrow> string \<Rightarrow> pubkey \<Rightarrow> instruction_error + pubkey"
  sy_max_permitted_data_length :: u64
  sy_nonce_decode :: "u8 list \<Rightarrow> 'v option"
  sy_nonce_encode :: "'v \<Rightarrow> u8 list option"
  sy_nonce_state :: "'v \<Rightarrow> nonce_state"
  sy_nonce_new :: "nonce_state \<Rightarrow> 'v"
  sy_nonce_authorize :: "'v \<Rightarrow> pubkey set \<Rightarrow> pubkey \<Rightarrow> authorize_nonce_error + 'v"
  sy_nonce_upgrade :: "'v \<Rightarrow> 'v option"
  sy_durable_nonce :: pubkey
  sy_lamports_per_signature :: u64
  sy_recent_blockhashes_id :: pubkey
  sy_recent_blockhashes :: "instruction_error + pubkey list"
  sy_rent_id :: pubkey
  sy_rent :: "instruction_error + (nat \<Rightarrow> u64)"

datatype (plugins only: size) system_instruction =
    CreateAccount u64 u64 pubkey
  | Assign pubkey
  | Transfer u64
  | CreateAccountWithSeed pubkey string u64 u64 pubkey
  | AdvanceNonceAccount
  | WithdrawNonceAccount u64
  | InitializeNonceAccount pubkey
  | AuthorizeNonceAccount pubkey
  | Allocate u64
  | AllocateWithSeed pubkey string u64 pubkey
  | AssignWithSeed pubkey string pubkey
  | TransferWithSeed u64 string pubkey
  | UpgradeNonceAccount

section \<open>Accounts and transfers\<close>

record address =
  ad_address :: pubkey
  ad_base :: "pubkey option"

definition address_is_signer :: "address \<Rightarrow> pubkey set \<Rightarrow> bool" where
  "address_is_signer ad signers = (case ad_base ad of Some base \<Rightarrow> base \<in> signers | None \<Rightarrow> ad_address ad \<in> signers)"

definition address_create ::
    "'v system_env \<Rightarrow> pubkey \<Rightarrow> (pubkey \<times> string \<times> pubkey) option \<Rightarrow> instruction_error + address" where
  "address_create sy key with_seed =
     (case with_seed of
        Some (base, seed, holder) \<Rightarrow>
          and_then (sy_create_with_seed sy base seed holder) (\<lambda>address_with_seed.
          and_then (err_if (key \<noteq> address_with_seed) (sy_error sy AddressWithSeedMismatch)) (\<lambda>_.
          Inr \<lparr>ad_address = key, ad_base = Some base\<rparr>))
      | None \<Rightarrow> Inr \<lparr>ad_address = key, ad_base = None\<rparr>)"

definition allocate ::
    "'v system_env \<Rightarrow> transaction_context \<Rightarrow> borrowed_account \<Rightarrow> address \<Rightarrow> u64 \<Rightarrow> pubkey set \<Rightarrow> instruction_error + transaction_context" where
  "allocate sy tc account ad space signers =
     and_then (err_if (\<not> address_is_signer ad signers) IeMissingRequiredSignature) (\<lambda>_.
     and_then (err_if (get_data tc account \<noteq> [] \<or> get_owner tc account \<noteq> sy_system_program sy) (sy_error sy AccountAlreadyInUse)) (\<lambda>_.
     and_then (err_if (sy_max_permitted_data_length sy < space) (sy_error sy InvalidAccountDataLength)) (\<lambda>_.
     set_data_length tc account (unat space))))"

definition assign ::
    "transaction_context \<Rightarrow> borrowed_account \<Rightarrow> address \<Rightarrow> pubkey \<Rightarrow> pubkey set \<Rightarrow> instruction_error + transaction_context" where
  "assign tc account ad holder signers =
     (if get_owner tc account = holder then Inr tc
      else
        and_then (err_if (\<not> address_is_signer ad signers) IeMissingRequiredSignature) (\<lambda>_.
        set_owner tc account holder))"

definition allocate_and_assign ::
    "'v system_env \<Rightarrow> transaction_context \<Rightarrow> borrowed_account \<Rightarrow> address \<Rightarrow> u64 \<Rightarrow> pubkey \<Rightarrow> pubkey set \<Rightarrow> instruction_error + transaction_context" where
  "allocate_and_assign sy tc to to_address space holder signers =
     and_then (allocate sy tc to to_address space signers) (\<lambda>tc.
     assign tc to to_address holder signers)"

definition transfer_verified ::
    "'v system_env \<Rightarrow> transaction_context \<Rightarrow> instruction_frame \<Rightarrow> u16 \<Rightarrow> u16 \<Rightarrow> u64 \<Rightarrow> instruction_error + transaction_context" where
  "transfer_verified sy tc frame from_account_index to_account_index lamports =
     and_then (try_borrow_instruction_account tc frame from_account_index) (\<lambda>(payer, tc).
     and_then (err_if (get_data tc payer \<noteq> []) IeInvalidArgument) (\<lambda>_.
     and_then (err_if (get_lamports tc payer < lamports) (sy_error sy ResultWithNegativeLamports)) (\<lambda>_.
     and_then (checked_sub_lamports tc payer lamports) (\<lambda>tc.
     let tc = drop_account tc payer in
     and_then (try_borrow_instruction_account tc frame to_account_index) (\<lambda>(to, tc).
     and_then (checked_add_lamports tc to lamports) (\<lambda>tc.
     Inr (drop_account tc to)))))))"

definition transfer ::
    "'v system_env \<Rightarrow> transaction_context \<Rightarrow> instruction_frame \<Rightarrow> u16 \<Rightarrow> u16 \<Rightarrow> u64 \<Rightarrow> instruction_error + transaction_context" where
  "transfer sy tc frame from_account_index to_account_index lamports =
     and_then (is_instruction_account_signer frame from_account_index) (\<lambda>signs.
     and_then (err_if (\<not> signs) IeMissingRequiredSignature) (\<lambda>_.
     transfer_verified sy tc frame from_account_index to_account_index lamports))"

definition transfer_with_seed ::
    "'v system_env \<Rightarrow> transaction_context \<Rightarrow> instruction_frame \<Rightarrow> u16 \<Rightarrow> u16 \<Rightarrow> string \<Rightarrow> pubkey \<Rightarrow> u16 \<Rightarrow> u64
     \<Rightarrow> instruction_error + transaction_context" where
  "transfer_with_seed sy tc frame from_account_index from_base_account_index from_seed from_owner to_account_index lamports =
     and_then (is_instruction_account_signer frame from_base_account_index) (\<lambda>signs.
     and_then (err_if (\<not> signs) IeMissingRequiredSignature) (\<lambda>_.
     and_then (get_key_of_instruction_account tc frame from_base_account_index) (\<lambda>base.
     and_then (sy_create_with_seed sy base from_seed from_owner) (\<lambda>address_from_seed.
     and_then (get_key_of_instruction_account tc frame from_account_index) (\<lambda>from_key.
     and_then (err_if (from_key \<noteq> address_from_seed) (sy_error sy AddressWithSeedMismatch)) (\<lambda>_.
     transfer_verified sy tc frame from_account_index to_account_index lamports))))))"

definition system_create_account ::
    "'v system_env \<Rightarrow> transaction_context \<Rightarrow> instruction_frame \<Rightarrow> u16 \<Rightarrow> u16 \<Rightarrow> address \<Rightarrow> u64 \<Rightarrow> u64 \<Rightarrow> pubkey \<Rightarrow> pubkey set
     \<Rightarrow> instruction_error + transaction_context" where
  "system_create_account sy tc frame from_account_index to_account_index to_address lamports space holder signers =
     and_then (try_borrow_instruction_account tc frame to_account_index) (\<lambda>(to, tc).
     and_then (err_if (0 < get_lamports tc to) (sy_error sy AccountAlreadyInUse)) (\<lambda>_.
     and_then (allocate_and_assign sy tc to to_address space holder signers) (\<lambda>tc.
     transfer sy (drop_account tc to) frame from_account_index to_account_index lamports)))"

section \<open>Nonces\<close>

definition nonce_get_state :: "'v system_env \<Rightarrow> transaction_context \<Rightarrow> borrowed_account \<Rightarrow> instruction_error + 'v" where
  "nonce_get_state sy tc account = ok_or (sy_nonce_decode sy (get_data tc account)) IeInvalidAccountData"

definition nonce_set_state :: "'v system_env \<Rightarrow> transaction_context \<Rightarrow> borrowed_account \<Rightarrow> 'v \<Rightarrow> instruction_error + transaction_context" where
  "nonce_set_state sy tc account state = set_state tc account (sy_nonce_encode sy state)"

definition advance_nonce_account ::
    "'v system_env \<Rightarrow> transaction_context \<Rightarrow> borrowed_account \<Rightarrow> pubkey set \<Rightarrow> instruction_error + transaction_context" where
  "advance_nonce_account sy tc account signers =
     and_then (err_if (\<not> ba_is_writable account) IeInvalidArgument) (\<lambda>_.
     and_then (nonce_get_state sy tc account) (\<lambda>state.
     case sy_nonce_state sy state of
       NonceInitialized data \<Rightarrow>
         and_then (err_if (nd_authority data \<notin> signers) IeMissingRequiredSignature) (\<lambda>_.
         let next_durable_nonce = sy_durable_nonce sy in
         and_then (err_if (nd_durable_nonce data = next_durable_nonce) (sy_error sy NonceBlockhashNotExpired)) (\<lambda>_.
         nonce_set_state sy tc account (sy_nonce_new sy (NonceInitialized
           \<lparr>nd_authority = nd_authority data, nd_durable_nonce = next_durable_nonce,
            nd_lamports_per_signature = sy_lamports_per_signature sy\<rparr>))))
     | NonceUninitialized \<Rightarrow> Inl IeInvalidAccountData))"

definition withdraw_nonce_account ::
    "'v system_env \<Rightarrow> transaction_context \<Rightarrow> instruction_frame \<Rightarrow> u16 \<Rightarrow> u64 \<Rightarrow> u16 \<Rightarrow> (nat \<Rightarrow> u64) \<Rightarrow> pubkey set
     \<Rightarrow> instruction_error + transaction_context" where
  "withdraw_nonce_account sy tc frame from_account_index lamports to_account_index minimum_balance signers =
     and_then (try_borrow_instruction_account tc frame from_account_index) (\<lambda>(payer, tc).
     and_then (err_if (\<not> ba_is_writable payer) IeInvalidArgument) (\<lambda>_.
     and_then (nonce_get_state sy tc payer) (\<lambda>state.
     and_then
       (case sy_nonce_state sy state of
          NonceUninitialized \<Rightarrow>
            and_then (err_if (get_lamports tc payer < lamports) IeInsufficientFunds) (\<lambda>_.
            and_then (get_key tc payer) (\<lambda>key. Inr (key, tc)))
        | NonceInitialized data \<Rightarrow>
            and_then
              (if lamports = get_lamports tc payer then
                 and_then (err_if (nd_durable_nonce data = sy_durable_nonce sy) (sy_error sy NonceBlockhashNotExpired)) (\<lambda>_.
                 nonce_set_state sy tc payer (sy_nonce_new sy NonceUninitialized))
               else
                 and_then (ok_or (checked_add lamports (minimum_balance (length (get_data tc payer)))) IeInsufficientFunds) (\<lambda>amount.
                 and_then (err_if (get_lamports tc payer < amount) IeInsufficientFunds) (\<lambda>_. Inr tc)))
              (\<lambda>tc. Inr (nd_authority data, tc)))
       (\<lambda>(signer, tc).
     and_then (err_if (signer \<notin> signers) IeMissingRequiredSignature) (\<lambda>_.
     and_then (checked_sub_lamports tc payer lamports) (\<lambda>tc.
     let tc = drop_account tc payer in
     and_then (try_borrow_instruction_account tc frame to_account_index) (\<lambda>(to, tc).
     and_then (checked_add_lamports tc to lamports) (\<lambda>tc.
     Inr (drop_account tc to)))))))))"

definition initialize_nonce_account ::
    "'v system_env \<Rightarrow> transaction_context \<Rightarrow> borrowed_account \<Rightarrow> pubkey \<Rightarrow> (nat \<Rightarrow> u64) \<Rightarrow> instruction_error + transaction_context" where
  "initialize_nonce_account sy tc account nonce_authority minimum_balance =
     and_then (err_if (\<not> ba_is_writable account) IeInvalidArgument) (\<lambda>_.
     and_then (nonce_get_state sy tc account) (\<lambda>state.
     case sy_nonce_state sy state of
       NonceUninitialized \<Rightarrow>
         and_then (err_if (get_lamports tc account < minimum_balance (length (get_data tc account))) IeInsufficientFunds) (\<lambda>_.
         nonce_set_state sy tc account (sy_nonce_new sy (NonceInitialized
           \<lparr>nd_authority = nonce_authority, nd_durable_nonce = sy_durable_nonce sy,
            nd_lamports_per_signature = sy_lamports_per_signature sy\<rparr>)))
     | NonceInitialized data \<Rightarrow> Inl IeInvalidAccountData))"

definition authorize_nonce_account ::
    "'v system_env \<Rightarrow> transaction_context \<Rightarrow> borrowed_account \<Rightarrow> pubkey \<Rightarrow> pubkey set \<Rightarrow> instruction_error + transaction_context" where
  "authorize_nonce_account sy tc account nonce_authority signers =
     and_then (err_if (\<not> ba_is_writable account) IeInvalidArgument) (\<lambda>_.
     and_then (nonce_get_state sy tc account) (\<lambda>state.
     case sy_nonce_authorize sy state signers nonce_authority of
       Inr versions \<Rightarrow> nonce_set_state sy tc account versions
     | Inl NonceNotInitialized \<Rightarrow> Inl IeInvalidAccountData
     | Inl (NonceMissingRequiredSignature account_authority) \<Rightarrow> Inl IeMissingRequiredSignature))"

definition upgrade_nonce_account ::
    "'v system_env \<Rightarrow> transaction_context \<Rightarrow> borrowed_account \<Rightarrow> instruction_error + transaction_context" where
  "upgrade_nonce_account sy tc account =
     and_then (err_if (get_owner tc account \<noteq> sy_system_program sy) IeInvalidAccountOwner) (\<lambda>_.
     and_then (err_if (\<not> ba_is_writable account) IeInvalidArgument) (\<lambda>_.
     and_then (nonce_get_state sy tc account) (\<lambda>nonce_versions.
     case sy_nonce_upgrade sy nonce_versions of
       None \<Rightarrow> Inl IeInvalidArgument
     | Some nonce_versions \<Rightarrow> nonce_set_state sy tc account nonce_versions)))"

section \<open>The entry point\<close>

text \<open>A sysvar is read from the cache, after a check that the instruction names its account.\<close>

definition check_sysvar_account :: "transaction_context \<Rightarrow> instruction_frame \<Rightarrow> pubkey \<Rightarrow> u16 \<Rightarrow> instruction_error + unit" where
  "check_sysvar_account tc frame sysvar_id instruction_account_index =
     and_then (get_key_of_instruction_account tc frame instruction_account_index) (\<lambda>key.
     err_if (key \<noteq> sysvar_id) IeInvalidArgument)"

definition sysvar_recent_blockhashes :: "'v system_env \<Rightarrow> transaction_context \<Rightarrow> instruction_frame \<Rightarrow> u16 \<Rightarrow> instruction_error + pubkey list" where
  "sysvar_recent_blockhashes sy tc frame index =
     and_then (check_sysvar_account tc frame (sy_recent_blockhashes_id sy) index) (\<lambda>_. sy_recent_blockhashes sy)"

definition sysvar_rent :: "'v system_env \<Rightarrow> transaction_context \<Rightarrow> instruction_frame \<Rightarrow> u16 \<Rightarrow> instruction_error + (nat \<Rightarrow> u64)" where
  "sysvar_rent sy tc frame index =
     and_then (check_sysvar_account tc frame (sy_rent_id sy) index) (\<lambda>_. sy_rent sy)"

text \<open>Borrowing the first account for an operation that ends the handler.\<close>

definition with_first_account ::
    "transaction_context \<Rightarrow> instruction_frame \<Rightarrow> (borrowed_account \<Rightarrow> transaction_context \<Rightarrow> instruction_error + transaction_context)
     \<Rightarrow> instruction_error + transaction_context" where
  "with_first_account tc frame f =
     and_then (check_number_of_instruction_accounts frame 1) (\<lambda>_.
     and_then (try_borrow_instruction_account tc frame 0) (\<lambda>(account, tc).
     and_then (f account tc) (\<lambda>tc. Inr (drop_account tc account))))"

definition first_address ::
    "'v system_env \<Rightarrow> transaction_context \<Rightarrow> instruction_frame \<Rightarrow> (pubkey \<times> string \<times> pubkey) option \<Rightarrow> instruction_error + address" where
  "first_address sy tc frame with_seed =
     and_then (get_key_of_instruction_account tc frame 0) (\<lambda>key. address_create sy key with_seed)"

definition system_create ::
    "'v system_env \<Rightarrow> transaction_context \<Rightarrow> instruction_frame \<Rightarrow> (pubkey \<times> string \<times> pubkey) option \<Rightarrow> u64 \<Rightarrow> u64 \<Rightarrow> pubkey \<Rightarrow> pubkey set
     \<Rightarrow> instruction_error + transaction_context" where
  "system_create sy tc frame with_seed lamports space holder signers =
     and_then (check_number_of_instruction_accounts frame 2) (\<lambda>_.
     and_then (get_key_of_instruction_account tc frame 1) (\<lambda>key.
     and_then (address_create sy key with_seed) (\<lambda>to_address.
     system_create_account sy tc frame 0 1 to_address lamports space holder signers)))"

definition system_process ::
    "'v system_env \<Rightarrow> transaction_context \<Rightarrow> instruction_frame \<Rightarrow> pubkey set \<Rightarrow> system_instruction \<Rightarrow> instruction_error + transaction_context" where
  "system_process sy tc frame signers ix =
     (case ix of
        CreateAccount lamports space holder \<Rightarrow> system_create sy tc frame None lamports space holder signers
      | CreateAccountWithSeed base seed lamports space holder \<Rightarrow>
          system_create sy tc frame (Some (base, seed, holder)) lamports space holder signers
      | Assign holder \<Rightarrow>
          with_first_account tc frame (\<lambda>account tc.
          and_then (first_address sy tc frame None) (\<lambda>ad. assign tc account ad holder signers))
      | Transfer lamports \<Rightarrow>
          and_then (check_number_of_instruction_accounts frame 2) (\<lambda>_. transfer sy tc frame 0 1 lamports)
      | TransferWithSeed lamports from_seed from_owner \<Rightarrow>
          and_then (check_number_of_instruction_accounts frame 3) (\<lambda>_.
          transfer_with_seed sy tc frame 0 1 from_seed from_owner 2 lamports)
      | AdvanceNonceAccount \<Rightarrow>
          with_first_account tc frame (\<lambda>me tc.
          and_then (sysvar_recent_blockhashes sy tc frame 1) (\<lambda>recent_blockhashes.
          and_then (err_if (recent_blockhashes = []) (sy_error sy NonceNoRecentBlockhashes)) (\<lambda>_.
          advance_nonce_account sy tc me signers)))
      | WithdrawNonceAccount lamports \<Rightarrow>
          and_then (check_number_of_instruction_accounts frame 2) (\<lambda>_.
          and_then (sysvar_recent_blockhashes sy tc frame 2) (\<lambda>_.
          and_then (sysvar_rent sy tc frame 3) (\<lambda>minimum_balance.
          withdraw_nonce_account sy tc frame 0 lamports 1 minimum_balance signers)))
      | InitializeNonceAccount authorized \<Rightarrow>
          with_first_account tc frame (\<lambda>me tc.
          and_then (sysvar_recent_blockhashes sy tc frame 1) (\<lambda>recent_blockhashes.
          and_then (err_if (recent_blockhashes = []) (sy_error sy NonceNoRecentBlockhashes)) (\<lambda>_.
          and_then (sysvar_rent sy tc frame 2) (\<lambda>minimum_balance.
          initialize_nonce_account sy tc me authorized minimum_balance))))
      | AuthorizeNonceAccount nonce_authority \<Rightarrow>
          with_first_account tc frame (\<lambda>me tc. authorize_nonce_account sy tc me nonce_authority signers)
      | UpgradeNonceAccount \<Rightarrow> with_first_account tc frame (\<lambda>account tc. upgrade_nonce_account sy tc account)
      | Allocate space \<Rightarrow>
          with_first_account tc frame (\<lambda>account tc.
          and_then (first_address sy tc frame None) (\<lambda>ad. allocate sy tc account ad space signers))
      | AllocateWithSeed base seed space holder \<Rightarrow>
          with_first_account tc frame (\<lambda>account tc.
          and_then (first_address sy tc frame (Some (base, seed, holder))) (\<lambda>ad.
          allocate_and_assign sy tc account ad space holder signers))
      | AssignWithSeed base seed holder \<Rightarrow>
          with_first_account tc frame (\<lambda>account tc.
          and_then (first_address sy tc frame (Some (base, seed, holder))) (\<lambda>ad. assign tc account ad holder signers)))"

text \<open>The entry point; \<open>decode\<close> reads the instruction from its bytes.\<close>

definition system_entrypoint ::
    "'v system_env \<Rightarrow> (u8 list \<Rightarrow> instruction_error + system_instruction) \<Rightarrow> transaction_context \<Rightarrow> instruction_error + transaction_context" where
  "system_entrypoint sy decode tc =
     and_then (get_current_instruction_context tc) (\<lambda>frame.
     and_then (decode (instruction_data frame)) (\<lambda>ix.
     and_then (get_signers tc frame) (\<lambda>signers.
     system_process sy tc frame signers ix)))"

section \<open>The system program works through the operations of the runtime\<close>

definition op_run :: "runtime \<Rightarrow> transaction_context \<Rightarrow> transaction_context \<Rightarrow> bool" where
  "op_run rt tc tc' \<longleftrightarrow> body rt tc tc' \<and> same_frames tc tc'"

lemma body_trans: "body rt tc2 tc3 \<Longrightarrow> body rt tc1 tc2 \<Longrightarrow> body rt tc1 tc3"
  by (induction rule: body.induct) (blast intro: body.intros)+

lemma op_run_refl [simp]: "op_run rt tc tc"
  by (simp add: op_run_def same_frames_def body.stop)

lemma op_run_trans: "op_run rt tc1 tc2 \<Longrightarrow> op_run rt tc2 tc3 \<Longrightarrow> op_run rt tc1 tc3"
  by (auto simp: op_run_def same_frames_def intro: body_trans)

lemma op_run_op: "account_op rt tc tc' \<Longrightarrow> op_run rt tc tc'"
  by (auto simp: op_run_def account_op_frames intro: body.intros)

lemma op_run_current: "op_run rt tc tc' \<Longrightarrow> get_current_instruction_context tc' = get_current_instruction_context tc"
  by (simp add: op_run_def same_frames_def get_current_instruction_context_def get_instruction_stack_height_def
      get_instruction_context_at_nesting_level_def get_instruction_context_at_index_in_trace_def)

lemma op_run_borrowed: "op_run rt tc tc' \<Longrightarrow> borrowed_here tc ba \<Longrightarrow> borrowed_here tc' ba"
  by (frule op_run_current) (auto simp: borrowed_here_def op_run_def same_frames_def)

lemma borrow_run:
  assumes "get_current_instruction_context tc = Inr frame" and "try_borrow_instruction_account tc frame i = Inr (ba, tc')"
  shows "op_run rt tc tc'" and "borrowed_here tc' ba" and "get_current_instruction_context tc' = Inr frame"
proof -
  show r: "op_run rt tc tc'" using assms by (blast intro: op_run_op account_op.borrow)
  show c: "get_current_instruction_context tc' = Inr frame" using op_run_current [OF r] assms(1) by simp
  show "borrowed_here tc' ba"
    using assms(2) c unfolding borrowed_here_def
    by (auto simp: try_borrow_instruction_account_def tas_try_borrow_mut_def get_index_in_transaction_def and_then_Inr_iff ok_or_Inr_iff
        get_at_iff)
qed

lemma drop_run: "op_run rt tc (drop_account tc ba)"
  by (blast intro: op_run_op account_op.drop)

lemma account_runs:
  assumes "borrowed_here tc ba"
  shows "set_owner tc ba key = Inr tc' \<Longrightarrow> op_run rt tc tc'"
    and "set_data_length tc ba n = Inr tc' \<Longrightarrow> op_run rt tc tc'"
    and "checked_add_lamports tc ba l = Inr tc' \<Longrightarrow> op_run rt tc tc'"
    and "checked_sub_lamports tc ba l = Inr tc' \<Longrightarrow> op_run rt tc tc'"
    and "set_state tc ba bytes = Inr tc' \<Longrightarrow> op_run rt tc tc'"
  using assms
  by (auto simp: checked_add_lamports_def checked_sub_lamports_def set_state_def get_data_mut_def ba_touch_same and_then_Inr_iff
      ok_or_Inr_iff err_if_Inr_iff intro!: op_run_op intro: account_op.intros)

lemma allocate_run: "allocate sy tc ba ad space signers = Inr tc' \<Longrightarrow> borrowed_here tc ba \<Longrightarrow> op_run rt tc tc'"
  by (auto simp: allocate_def and_then_Inr_iff dest: account_runs(2))

lemma assign_run: "assign tc ba ad holder signers = Inr tc' \<Longrightarrow> borrowed_here tc ba \<Longrightarrow> op_run rt tc tc'"
  by (auto simp: assign_def and_then_Inr_iff split: if_splits dest: account_runs(1))

lemma allocate_and_assign_run:
  "allocate_and_assign sy tc ba ad space holder signers = Inr tc' \<Longrightarrow> borrowed_here tc ba \<Longrightarrow> op_run rt tc tc'"
  unfolding allocate_and_assign_def and_then_Inr_iff by (meson allocate_run assign_run op_run_borrowed op_run_trans)

text \<open>The second half of a transfer: the payee is borrowed and credited.\<close>

lemma credit_run:
  assumes "get_current_instruction_context tc = Inr frame"
    and "and_then (try_borrow_instruction_account tc frame i) (\<lambda>(to, tc).
      and_then (checked_add_lamports tc to lamports) (\<lambda>tc. Inr (drop_account tc to))) = Inr tc'"
  shows "op_run rt tc tc'"
  using assms(2)
  by (auto simp: and_then_Inr_iff)
    (meson account_runs(3) assms(1) borrow_run(1,2) drop_run op_run_trans)

lemma debit_run:
  assumes "get_current_instruction_context tc = Inr frame" and "borrowed_here tc payer"
    and "and_then (checked_sub_lamports tc payer lamports) (\<lambda>tc. let tc = drop_account tc payer in
      and_then (try_borrow_instruction_account tc frame i) (\<lambda>(to, tc).
      and_then (checked_add_lamports tc to lamports) (\<lambda>tc. Inr (drop_account tc to)))) = Inr tc'"
  shows "op_run rt tc tc'"
proof -
  from assms(3) obtain tc1 where 1: "checked_sub_lamports tc payer lamports = Inr tc1"
    "and_then (try_borrow_instruction_account (drop_account tc1 payer) frame i) (\<lambda>(to, tc).
      and_then (checked_add_lamports tc to lamports) (\<lambda>tc. Inr (drop_account tc to))) = Inr tc'"
    by (auto simp: and_then_Inr_iff [of "checked_sub_lamports tc payer lamports"] Let_def)
  have r: "op_run rt tc (drop_account tc1 payer)"
    using account_runs(4) [OF assms(2) 1(1)] drop_run by (rule op_run_trans)
  then have "get_current_instruction_context (drop_account tc1 payer) = Inr frame" using assms(1) by (simp add: op_run_current [OF r])
  from credit_run [OF this 1(2)] r show ?thesis by (blast intro: op_run_trans)
qed

lemma transfer_verified_run:
  assumes "transfer_verified sy tc frame i j lamports = Inr tc'" and "get_current_instruction_context tc = Inr frame"
  shows "op_run rt tc tc'"
proof -
  from assms(1) obtain payer tc1 where b: "try_borrow_instruction_account tc frame i = Inr (payer, tc1)"
    and d: "and_then (checked_sub_lamports tc1 payer lamports) (\<lambda>tc. let tc = drop_account tc payer in
      and_then (try_borrow_instruction_account tc frame j) (\<lambda>(to, tc).
      and_then (checked_add_lamports tc to lamports) (\<lambda>tc. Inr (drop_account tc to)))) = Inr tc'"
    unfolding transfer_verified_def by (auto simp: and_then_Inr_iff [of "try_borrow_instruction_account tc frame i"] err_if_def split: if_splits)
  note b' = borrow_run [OF assms(2) b]
  from debit_run [OF b'(3,2) d] b'(1) show ?thesis by (blast intro: op_run_trans)
qed

lemma transfer_run:
  assumes "get_current_instruction_context tc = Inr frame"
  shows "transfer sy tc frame i j lamports = Inr tc' \<Longrightarrow> op_run rt tc tc'"
    and "transfer_with_seed sy tc frame i base seed holder j lamports = Inr tc' \<Longrightarrow> op_run rt tc tc'"
  using transfer_verified_run [OF _ assms] by (auto simp: transfer_def transfer_with_seed_def and_then_Inr_iff)

lemma create_run:
  assumes "get_current_instruction_context tc = Inr frame"
    and "system_create_account sy tc frame i j ad lamports space holder signers = Inr tc'"
  shows "op_run rt tc tc'"
proof -
  from assms(2) obtain to tc1 tc2 where 1: "try_borrow_instruction_account tc frame j = Inr (to, tc1)"
    "allocate_and_assign sy tc1 to ad space holder signers = Inr tc2" "transfer sy (drop_account tc2 to) frame i j lamports = Inr tc'"
    by (auto simp: system_create_account_def and_then_Inr_iff)
  note b = borrow_run [OF assms(1) 1(1)]
  have r: "op_run rt tc (drop_account tc2 to)"
    using op_run_trans [OF op_run_trans [OF b(1) allocate_and_assign_run [OF 1(2) b(2)]] drop_run] .
  from transfer_run(1) [OF _ 1(3)] op_run_current [OF r] assms(1) r show ?thesis by (auto intro: op_run_trans)
qed

lemma nonce_set_run: "nonce_set_state sy tc ba v = Inr tc' \<Longrightarrow> borrowed_here tc ba \<Longrightarrow> op_run rt tc tc'"
  by (auto simp: nonce_set_state_def dest: account_runs(5))

lemma case_Inr_iff:
  "(case s of NonceUninitialized \<Rightarrow> A | NonceInitialized d \<Rightarrow> B d) = Inr y \<longleftrightarrow>
     s = NonceUninitialized \<and> A = Inr y \<or> (\<exists>d. s = NonceInitialized d \<and> B d = Inr y)"
  "(case r of Inl f \<Rightarrow> F f | Inr x \<Rightarrow> G x) = Inr y \<longleftrightarrow> (\<exists>f. r = Inl f \<and> F f = Inr y) \<or> (\<exists>x. r = Inr x \<and> G x = Inr y)"
  "(case h of NonceNotInitialized \<Rightarrow> C | NonceMissingRequiredSignature k \<Rightarrow> D k) = Inr y \<longleftrightarrow>
     h = NonceNotInitialized \<and> C = Inr y \<or> (\<exists>k. h = NonceMissingRequiredSignature k \<and> D k = Inr y)"
  "(case t of None \<Rightarrow> K | Some z \<Rightarrow> L z) = Inr y \<longleftrightarrow> t = None \<and> K = Inr y \<or> (\<exists>z. t = Some z \<and> L z = Inr y)"
  by (simp_all split: nonce_state.split sum.split authorize_nonce_error.split option.split)

lemma nonce_runs:
  assumes "borrowed_here tc ba"
  shows "advance_nonce_account sy tc ba signers = Inr tc' \<Longrightarrow> op_run rt tc tc'"
    and "initialize_nonce_account sy tc ba authority minimum = Inr tc' \<Longrightarrow> op_run rt tc tc'"
    and "authorize_nonce_account sy tc ba authority signers = Inr tc' \<Longrightarrow> op_run rt tc tc'"
    and "upgrade_nonce_account sy tc ba = Inr tc' \<Longrightarrow> op_run rt tc tc'"
  using nonce_set_run [OF _ assms]
  by (auto simp: advance_nonce_account_def initialize_nonce_account_def authorize_nonce_account_def upgrade_nonce_account_def Let_def
      and_then_Inr_iff case_Inr_iff)

lemma withdraw_nonce_Inr:
  assumes "withdraw_nonce_account sy tc frame i lamports j minimum signers = Inr tc'"
  obtains payer tc1 tc2 where "try_borrow_instruction_account tc frame i = Inr (payer, tc1)"
    "tc2 = tc1 \<or> nonce_set_state sy tc1 payer (sy_nonce_new sy NonceUninitialized) = Inr tc2"
    "and_then (checked_sub_lamports tc2 payer lamports) (\<lambda>tc. let tc = drop_account tc payer in
      and_then (try_borrow_instruction_account tc frame j) (\<lambda>(to, tc).
      and_then (checked_add_lamports tc to lamports) (\<lambda>tc. Inr (drop_account tc to)))) = Inr tc'"
  using assms unfolding withdraw_nonce_account_def
  by (auto simp: and_then_Inr_iff [of "try_borrow_instruction_account tc frame i"] and_then_Inr_iff [of "nonce_get_state sy _ _"]
      and_then_Inr_iff [of "case_nonce_state _ _ _"] and_then_Inr_iff [of "nonce_set_state sy _ _ _"] and_then_Inr_iff [of "get_key _ _"]
      and_then_Inr_iff [of "err_if _ _"] and_then_Inr_iff [of "ok_or _ _"] and_then_Inr_iff [of "if _ then _ else _"]
      and_then_Inr_iff [of "and_then _ _" "\<lambda>tc. Inr (_, tc)"] case_Inr_iff split: if_splits)

lemma withdraw_nonce_run:
  assumes "withdraw_nonce_account sy tc frame i lamports j minimum signers = Inr tc'" and "get_current_instruction_context tc = Inr frame"
  shows "op_run rt tc tc'"
proof -
  from assms(1) obtain payer tc1 tc2 where b: "try_borrow_instruction_account tc frame i = Inr (payer, tc1)"
    and m: "tc2 = tc1 \<or> nonce_set_state sy tc1 payer (sy_nonce_new sy NonceUninitialized) = Inr tc2"
    and d: "and_then (checked_sub_lamports tc2 payer lamports) (\<lambda>tc. let tc = drop_account tc payer in
      and_then (try_borrow_instruction_account tc frame j) (\<lambda>(to, tc).
      and_then (checked_add_lamports tc to lamports) (\<lambda>tc. Inr (drop_account tc to)))) = Inr tc'"
    by (rule withdraw_nonce_Inr)
  note b' = borrow_run [OF assms(2) b]
  have r: "op_run rt tc1 tc2" for rt using m nonce_set_run b'(2) by fastforce
  have "get_current_instruction_context tc2 = Inr frame" "borrowed_here tc2 payer"
    using op_run_current [OF r] op_run_borrowed [OF r b'(2)] b'(3) by simp_all
  from debit_run [OF this d] r b'(1) show ?thesis by (blast intro: op_run_trans)
qed

lemma first_account_run:
  assumes "with_first_account tc frame f = Inr tc'" and "get_current_instruction_context tc = Inr frame"
    and "\<And>account tc1 tc2. f account tc1 = Inr tc2 \<Longrightarrow> borrowed_here tc1 account \<Longrightarrow> op_run rt tc1 tc2"
  shows "op_run rt tc tc'"
proof -
  from assms(1) obtain account tc1 tc2 where 1: "try_borrow_instruction_account tc frame 0 = Inr (account, tc1)"
    "f account tc1 = Inr tc2" "tc' = drop_account tc2 account"
    by (auto simp: with_first_account_def and_then_Inr_iff)
  note b = borrow_run [OF assms(2) 1(1)]
  show ?thesis unfolding 1(3) by (rule op_run_trans [OF op_run_trans [OF b(1) assms(3) [OF 1(2) b(2)]] drop_run])
qed

lemma system_process_run:
  assumes "system_process sy tc frame signers ix = Inr tc'" and cur: "get_current_instruction_context tc = Inr frame"
  shows "op_run rt tc tc'"
proof (cases ix)
  case (WithdrawNonceAccount n)
  with assms(1) show ?thesis using withdraw_nonce_run [OF _ cur] by (auto simp: system_process_def and_then_Inr_iff)
qed (use assms(1) create_run [OF cur] transfer_run [OF cur] in
  \<open>auto simp: system_process_def system_create_def and_then_Inr_iff elim!: first_account_run [OF _ cur]
     dest: nonce_runs allocate_run assign_run allocate_and_assign_run\<close>)

lemma system_entrypoint_body: "system_entrypoint sy decode tc = Inr tc' \<Longrightarrow> body rt tc tc'"
  by (auto simp: system_entrypoint_def and_then_Inr_iff op_run_def dest!: system_process_run [of sy _ _ _ _ _ rt])

end
