(* ===== verification/Transaction_Processor.thy ===== *)
theory Transaction_Processor
  imports System_Program
begin

text \<open>
  The execution of one loaded transaction (\<open>gorchain/svm/src\<close>): \<open>process_message\<close> runs the instructions
  of a message one after the other (\<open>message_processor.rs\<close>), the rent states of the accounts before
  and after are compared (\<open>rent_calculator.rs\<close>, \<open>transaction_account_state_info.rs\<close>), and
  \<open>execute_loaded_transaction\<close> puts the two together and checks that no lamports were created or lost
  (\<open>transaction_processor.rs\<close>).

  Metrics, timings, logs and the recording of inner instructions are left out. The accounts of an
  execution that failed are not returned: the loader stores the rollback accounts instead. The
  message is a record of the values the trait \<open>SVMMessage\<close> gives.
\<close>

section \<open>Messages\<close>

datatype (plugins only: size) transaction_error =
    TeAccountNotFound
  | TeProgramAccountNotFound
  | TeInsufficientFundsForFee
  | TeInvalidAccountForFee
  | TeBlockhashNotFound
  | TeInvalidProgramForExecution
  | TeMaxLoadedAccountsDataSizeExceeded
  | TeInstructionError u8 instruction_error
  | TeInsufficientFundsForRent u8
  | TeUnbalancedTransaction
  | TeProgramCacheHitMaxLimit
  | TeOther u64
  | TePanic

record svm_instruction =
  si_program_id_index :: u8
  si_accounts :: "u8 list"
  si_data :: "u8 list"

record svm_message =
  sm_account_keys :: "pubkey list"
  sm_instructions :: "(pubkey \<times> svm_instruction) list"
  sm_fee_payer :: pubkey
  sm_is_signer :: "nat \<Rightarrow> bool"
  sm_is_writable :: "nat \<Rightarrow> bool"
  sm_is_invoked :: "nat \<Rightarrow> bool"
  sm_num_lookup_tables :: nat

definition is_instruction_account :: "svm_message \<Rightarrow> nat \<Rightarrow> bool" where
  "is_instruction_account message key_index =
     (key_index < 256 \<and> list_ex (\<lambda>(program_id, ix). of_nat key_index \<in> set (si_accounts ix)) (sm_instructions message))"

text \<open>What the processor of a batch is configured with; the precompiles are code of other packages.\<close>

record svm_env =
  se_runtime :: runtime
  se_programs :: programs
  se_incinerator :: pubkey
  se_is_precompile :: "pubkey \<Rightarrow> bool"
  se_precompile :: "pubkey \<Rightarrow> u8 list \<Rightarrow> u8 list list \<Rightarrow> instruction_error + unit"
  se_max_instruction_stack_depth :: nat
  se_max_instruction_trace_length :: nat

section \<open>Running the instructions of a message\<close>

definition process_precompile ::
    "svm_env \<Rightarrow> pubkey \<Rightarrow> u8 list \<Rightarrow> u8 list list \<Rightarrow> transaction_context \<Rightarrow> instruction_error + transaction_context" where
  "process_precompile se program_id data instruction_datas tc =
     and_then (ic_push (se_runtime se) tc) (\<lambda>tc.
     and_then (se_precompile se program_id data instruction_datas) (\<lambda>_. tc_pop tc))"

fun process_message_loop ::
    "svm_env \<Rightarrow> svm_message \<Rightarrow> nat \<Rightarrow> ((pubkey \<times> svm_instruction) \<times> u16) list \<Rightarrow> transaction_context
     \<Rightarrow> transaction_error + transaction_context" where
  "process_message_loop se message n [] tc = Inr tc"
| "process_message_loop se message n (((program_id, ix), program_account_index) # rest) tc =
     and_then (map_err (TeInstructionError (of_nat n))
       (prepare_next_top_level_instruction tc (sm_is_signer message) (sm_is_writable message) (si_accounts ix) (si_data ix)
          program_account_index)) (\<lambda>tc.
     and_then (map_err (TeInstructionError (of_nat n))
       (if se_is_precompile se program_id
        then process_precompile se program_id (si_data ix) (map (\<lambda>(_, ix). si_data ix) (sm_instructions message)) tc
        else process_instruction (se_runtime se) (se_programs se) tc)) (\<lambda>tc.
     process_message_loop se message (n + 1) rest tc))"

definition process_message ::
    "svm_env \<Rightarrow> svm_message \<Rightarrow> u16 list \<Rightarrow> transaction_context \<Rightarrow> transaction_error + transaction_context" where
  "process_message se message program_indices tc =
     process_message_loop se message 0 (zip (sm_instructions message) program_indices) tc"

section \<open>Rent states\<close>

datatype (plugins only: size) rent_state = RentUninitialized | RentPaying u64 nat | RentExempt

definition get_account_rent_state :: "runtime \<Rightarrow> shared_account \<Rightarrow> rent_state" where
  "get_account_rent_state rt account =
     (if sa_lamports account = 0 then RentUninitialized
      else if rt_is_exempt rt (sa_lamports account) (length (sa_data account)) then RentExempt
      else RentPaying (sa_lamports account) (length (sa_data account)))"

fun transition_allowed :: "rent_state \<Rightarrow> rent_state \<Rightarrow> bool" where
  "transition_allowed pre RentUninitialized = True"
| "transition_allowed pre RentExempt = True"
| "transition_allowed RentUninitialized (RentPaying post_lamports post_data_size) = False"
| "transition_allowed RentExempt (RentPaying post_lamports post_data_size) = False"
| "transition_allowed (RentPaying pre_lamports pre_data_size) (RentPaying post_lamports post_data_size) =
     (post_data_size = pre_data_size \<and> post_lamports \<le> pre_lamports)"

definition check_rent_state_with_account ::
    "svm_env \<Rightarrow> rent_state \<Rightarrow> rent_state \<Rightarrow> pubkey \<Rightarrow> u16 \<Rightarrow> transaction_error + unit" where
  "check_rent_state_with_account se pre_rent_state post_rent_state address account_index =
     err_if (address \<noteq> se_incinerator se \<and> \<not> transition_allowed pre_rent_state post_rent_state)
       (TeInsufficientFundsForRent (ucast account_index))"

definition check_rent_state ::
    "svm_env \<Rightarrow> rent_state option \<Rightarrow> rent_state option \<Rightarrow> transaction_context \<Rightarrow> u16 \<Rightarrow> transaction_error + unit" where
  "check_rent_state se pre_rent_state post_rent_state tc index =
     (case (pre_rent_state, post_rent_state) of
        (Some pre, Some post) \<Rightarrow>
          and_then (map_err (\<lambda>_. TePanic) (get_key_of_account_at_index tc index)) (\<lambda>address.
          check_rent_state_with_account se pre post address index)
      | _ \<Rightarrow> Inr ())"

definition account_state_info :: "svm_env \<Rightarrow> svm_message \<Rightarrow> transaction_context \<Rightarrow> rent_state option list" where
  "account_state_info se message tc =
     map (\<lambda>i. if sm_is_writable message i
              then case tas_try_borrow (accounts tc) (of_nat i) of
                     Inr account \<Rightarrow> Some (get_account_rent_state (se_runtime se) account)
                   | Inl _ \<Rightarrow> None
              else None) [0..<length (sm_account_keys message)]"

fun verify_changes_loop ::
    "svm_env \<Rightarrow> transaction_context \<Rightarrow> nat \<Rightarrow> (rent_state option \<times> rent_state option) list \<Rightarrow> transaction_error + unit" where
  "verify_changes_loop se tc i [] = Inr ()"
| "verify_changes_loop se tc i ((pre, post) # rest) =
     and_then (check_rent_state se pre post tc (of_nat i)) (\<lambda>_. verify_changes_loop se tc (i + 1) rest)"

definition verify_changes ::
    "svm_env \<Rightarrow> rent_state option list \<Rightarrow> rent_state option list \<Rightarrow> transaction_context \<Rightarrow> transaction_error + unit" where
  "verify_changes se pre_state_infos post_state_infos tc = verify_changes_loop se tc 0 (zip pre_state_infos post_state_infos)"

section \<open>Executing a loaded transaction\<close>

fun lamports_sum_loop :: "u128 \<Rightarrow> (pubkey \<times> shared_account) list \<Rightarrow> u128 option" where
  "lamports_sum_loop lamports [] = Some lamports"
| "lamports_sum_loop lamports ((key, account) # rest) =
     Option.bind (checked_add lamports (as_u128 (sa_lamports account))) (\<lambda>lamports. lamports_sum_loop lamports rest)"

definition transaction_accounts_lamports_sum :: "(pubkey \<times> shared_account) list \<Rightarrow> u128 option" where
  "transaction_accounts_lamports_sum xs = lamports_sum_loop 0 xs"

definition execute_loaded_transaction ::
    "svm_env \<Rightarrow> svm_message \<Rightarrow> (pubkey \<times> shared_account) list \<Rightarrow> u16 list \<Rightarrow> transaction_error + execution_record" where
  "execute_loaded_transaction se message loaded_accounts program_indices =
     (let lamports_before_tx =
            (case transaction_accounts_lamports_sum loaded_accounts of Some lamports \<Rightarrow> lamports | None \<Rightarrow> 0);
          tc = transaction_context_new loaded_accounts (se_max_instruction_stack_depth se) (se_max_instruction_trace_length se);
          pre_account_state_info = account_state_info se message tc in
     and_then (process_message se message program_indices tc) (\<lambda>tc.
     and_then (verify_changes se pre_account_state_info (account_state_info se message tc) tc) (\<lambda>_.
     let rec = execution_record_from tc in
     and_then (err_if (transaction_accounts_lamports_sum (er_accounts rec) \<noteq> Some lamports_before_tx) TeUnbalancedTransaction) (\<lambda>_.
     Inr rec))))"

end
