(* ===== verification/Sample_Transaction.thy ===== *)
theory Sample_Transaction
  imports Transaction_Processor
begin

text \<open>
  A concrete transaction, at which the theorems on executed transactions are applied: a runtime that
  runs the system program, and a message that transfers lamports from its payer to a second account.
\<close>

section \<open>The runtime\<close>

definition tx_runtime :: runtime where
  "tx_runtime = \<lparr>rt_instructions_id = 77, rt_sysvar_id = 78, rt_store_current_index = (\<lambda>data index. Inr data),
     rt_is_exempt = (\<lambda>lamports n. n < unat lamports)\<rparr>"

definition tx_system :: "nonce_state system_env" where
  "tx_system = \<lparr>sy_system_program = 0,
     sy_error = (\<lambda>err. case err of AccountAlreadyInUse \<Rightarrow> IeCustom 0 | ResultWithNegativeLamports \<Rightarrow> IeCustom 1
        | InvalidAccountDataLength \<Rightarrow> IeCustom 3 | AddressWithSeedMismatch \<Rightarrow> IeCustom 5
        | NonceNoRecentBlockhashes \<Rightarrow> IeCustom 6 | NonceBlockhashNotExpired \<Rightarrow> IeCustom 7),
     sy_create_with_seed = (\<lambda>base seed holder. if 32 < length seed then Inl (IeCustom 0) else Inr (base + of_nat (length seed) + holder)),
     sy_max_permitted_data_length = 10485760,
     sy_nonce_decode = (\<lambda>data. if data = [0] then Some NonceUninitialized else None),
     sy_nonce_encode = (\<lambda>v. case v of NonceUninitialized \<Rightarrow> Some [0] | NonceInitialized _ \<Rightarrow> None),
     sy_nonce_state = (\<lambda>v. v), sy_nonce_new = (\<lambda>v. v), sy_nonce_authorize = (\<lambda>v signers key. Inl NonceNotInitialized),
     sy_nonce_upgrade = (\<lambda>v. None), sy_durable_nonce = 5, sy_lamports_per_signature = 5000,
     sy_recent_blockhashes_id = 79, sy_recent_blockhashes = Inr [5], sy_rent_id = 80, sy_rent = Inr (\<lambda>n. of_nat n + 1)\<rparr>"

definition tx_decode :: "u8 list \<Rightarrow> instruction_error + system_instruction" where
  "tx_decode data =
     (case data of
        [code, lamports] \<Rightarrow> if code = 2 then Inr (Transfer (ucast lamports)) else Inl IeInvalidInstructionData
      | [code, lamports, space] \<Rightarrow>
          if code = 0 then Inr (CreateAccount (ucast lamports) (ucast space) 7) else Inl IeInvalidInstructionData
      | _ \<Rightarrow> Inl IeInvalidInstructionData)"

definition tx_programs :: programs where
  "tx_programs = \<lparr>pr_native_loader = 9, pr_loaders = [],
     pr_entry = (\<lambda>id. if id = 0 then Some (\<lambda>tc. (system_entrypoint tx_system tx_decode tc, 150)) else None)\<rparr>"

definition tx_env :: svm_env where
  "tx_env = \<lparr>se_runtime = tx_runtime, se_programs = tx_programs, se_incinerator = 99, se_is_precompile = (\<lambda>id. False),
     se_precompile = (\<lambda>id data datas. Inr ()), se_max_instruction_stack_depth = 5, se_max_instruction_trace_length = 64\<rparr>"

section \<open>The transaction\<close>

definition plain_account :: "u64 \<Rightarrow> shared_account" where
  "plain_account lamports = \<lparr>sa_lamports = lamports, sa_data = [], sa_owner = 0, sa_executable = False, sa_rent_epoch = - 1\<rparr>"

definition program_account :: shared_account where
  "program_account = \<lparr>sa_lamports = 1, sa_data = [], sa_owner = 9, sa_executable = True, sa_rent_epoch = - 1\<rparr>"

definition tx_accounts_loaded :: "(pubkey \<times> shared_account) list" where
  "tx_accounts_loaded = [(1, plain_account 100), (2, plain_account 5), (0, program_account)]"

definition tx_message :: svm_message where
  "tx_message = \<lparr>sm_account_keys = [1, 2, 0], sm_instructions = [(0, \<lparr>si_program_id_index = 2, si_accounts = [0, 1], si_data = [2, 30]\<rparr>)],
     sm_fee_payer = 1, sm_is_signer = (\<lambda>i. i = 0), sm_is_writable = (\<lambda>i. i < 2), sm_is_invoked = (\<lambda>i. i = 2), sm_num_lookup_tables = 0\<rparr>"

definition tx_accounts_after :: "(pubkey \<times> shared_account) list" where
  "tx_accounts_after = [(1, plain_account 70), (2, plain_account 35), (0, program_account)]"

lemmas tx_defs = tx_runtime_def tx_system_def tx_decode_def tx_programs_def tx_env_def plain_account_def program_account_def
  tx_accounts_loaded_def tx_message_def tx_accounts_after_def

lemmas result_defs = ok_or_def and_then_def map_err_def err_if_def

lemmas context_defs = get_at_def transaction_context_new_def transaction_accounts_new_def default_frame_def set_last_frame_def
  configure_next_instruction_def get_instruction_context_at_index_in_trace_def get_instruction_context_at_nesting_level_def
  get_current_instruction_context_def get_instruction_trace_length_def get_instruction_stack_height_def get_program_key_def
  get_program_owner_def get_index_of_program_account_in_transaction_def get_key_of_account_at_index_def store_instruction_index_def
  find_index_of_account_def tc_push_def tc_pop_def set_return_data_def get_signers_def check_number_of_instruction_accounts_def
  get_number_of_instruction_accounts_def is_instruction_account_signer_def try_borrow_instruction_account_def drop_account_def

lemmas account_defs = tas_try_borrow_def tas_try_borrow_mut_def tas_drop_def tas_touch_def tas_add_lamports_delta_def tas_set_account_def
  checked_i128_def get_index_in_transaction_def ba_account_def ba_set_def get_data_def get_lamports_def get_owner_def ba_is_writable_def
  is_owned_by_current_program_def ba_touch_def set_lamports_def checked_add_lamports_def checked_sub_lamports_def checked_add_def checked_sub_def

lemmas run_defs = prepare_next_top_level_instruction_def ic_push_def process_executable_chain_def process_instruction_def
  process_message_def

lemma unat_none [simp]: "unat (- 1 :: u8) = 255"
  by (simp add: unsigned_minus_1_eq_mask mask_eq_exp_minus_1)

lemma tx_message_runs:
  "\<exists>tc. process_message tx_env tx_message [2] (transaction_context_new tx_accounts_loaded 5 64) = Inr tc \<and>
     account_keys tc = map fst tx_accounts_loaded \<and> tas_accounts (accounts tc) = map snd tx_accounts_after \<and>
     tas_borrowed (accounts tc) = [False, False, False]"
  apply (simp add: run_defs context_defs result_defs tx_env_def tx_message_def tx_accounts_loaded_def tx_runtime_def MAX_ACCOUNTS_PER_TRANSACTION_def)
  apply (simp add: tx_programs_def account_defs result_defs context_defs program_account_def)
  apply (simp add: system_entrypoint_def context_defs result_defs tx_decode_def system_process_def transfer_def transfer_verified_def)
  apply (simp add: account_defs context_defs result_defs plain_account_def tx_accounts_after_def Let_def program_account_def)
  done

lemma tx_executes: "\<exists>rec. execute_loaded_transaction tx_env tx_message tx_accounts_loaded [2] = Inr rec \<and> er_accounts rec = tx_accounts_after"
proof -
  obtain tc where p: "process_message tx_env tx_message [2] (transaction_context_new tx_accounts_loaded 5 64) = Inr tc"
    and tc: "account_keys tc = map fst tx_accounts_loaded" "tas_accounts (accounts tc) = map snd tx_accounts_after"
      "tas_borrowed (accounts tc) = [False, False, False]"
    using tx_message_runs by blast
  have "verify_changes tx_env (account_state_info tx_env tx_message (transaction_context_new tx_accounts_loaded 5 64))
      (account_state_info tx_env tx_message tc) tc = Inr ()"
    by (simp add: verify_changes_def account_state_info_def upt_rec tx_defs transaction_context_new_def transaction_accounts_new_def
        tas_try_borrow_def get_at_def result_defs tc get_account_rent_state_def check_rent_state_def get_key_of_account_at_index_def
        check_rent_state_with_account_def)
  moreover have "transaction_accounts_lamports_sum tx_accounts_after = Some 106"
    "transaction_accounts_lamports_sum tx_accounts_loaded = Some 106"
    by (simp_all add: transaction_accounts_lamports_sum_def tx_defs checked_add_def as_u128_def)
  moreover have "er_accounts (execution_record_from tc) = tx_accounts_after"
    by (simp add: execution_record_from_def tc tx_defs)
  moreover have "se_max_instruction_stack_depth tx_env = 5" "se_max_instruction_trace_length tx_env = 64" by (simp_all add: tx_env_def)
  ultimately show ?thesis using p by (simp add: execute_loaded_transaction_def and_then_def err_if_def Let_def)
qed

end
