(* ===== verification/Execution_Safety.thy ===== *)
theory Execution_Safety
  imports Sample_Transaction
begin

text \<open>
  What holds of every executed transaction, whatever its programs compute: the sum of the lamports
  is unchanged, so that the check at the end never fails, accounts that the message does not list
  as writable stay as they are, and no account falls below the rent exemption. The programs may be
  any that work through the operations of the runtime; the system program is shown to be one.
\<close>

section \<open>Programs that work through the runtime\<close>

text \<open>
  Every successful run of an entry point is a sequence of runtime operations, and the guards of the
  accounts it borrowed are gone when it returns.
\<close>

definition well_behaved :: "runtime \<Rightarrow> (transaction_context \<Rightarrow> (instruction_error + transaction_context) \<times> u64) \<Rightarrow> bool" where
  "well_behaved rt f \<longleftrightarrow>
     (\<forall>tc tc' units. f tc = (Inr tc', units) \<longrightarrow> body rt tc tc' \<and> tas_borrowed (accounts tc') = tas_borrowed (accounts tc))"

definition well_behaved_programs :: "runtime \<Rightarrow> programs \<Rightarrow> bool" where
  "well_behaved_programs rt pr \<longleftrightarrow> (\<forall>id f. pr_entry pr id = Some f \<longrightarrow> well_behaved rt f)"

text \<open>One instruction: it is pushed, runs and is popped.\<close>

definition ran :: "runtime \<Rightarrow> transaction_context \<Rightarrow> transaction_context \<Rightarrow> bool" where
  "ran rt tc tc' \<longleftrightarrow>
     (\<exists>tc1 tc2. ic_push rt tc = Inr tc1 \<and> body rt tc1 tc2 \<and> tas_borrowed (accounts tc2) = tas_borrowed (accounts tc1) \<and>
        tc_pop tc2 = Inr tc')"

lemma accounts_return_data [simp]: "accounts (set_return_data tc key data) = accounts tc"
  by (simp add: set_return_data_def)

lemma process_instruction_ran:
  assumes "well_behaved_programs rt pr" and "process_instruction rt pr tc = Inr tc'"
  shows "ran rt tc tc'"
proof -
  from assms(2) obtain tc1 tc2 where 1: "ic_push rt tc = Inr tc1" "process_executable_chain pr tc1 = Inr tc2" "tc_pop tc2 = Inr tc'"
    by (auto simp: process_instruction_def and_then_Inr_iff)
  from 1(2) obtain id f program_id where "pr_entry pr id = Some f" "fst (f (set_return_data tc1 program_id [])) = Inr tc2"
    unfolding process_executable_chain_def and_then_Inr_iff ok_or_Inr_iff Let_def by (auto simp: and_then_Inr_iff case_prod_beta)
  then have "body rt (set_return_data tc1 program_id []) tc2" "tas_borrowed (accounts tc2) = tas_borrowed (accounts tc1)"
    using assms(1) unfolding well_behaved_programs_def well_behaved_def
    by (metis prod.collapse, metis accounts_return_data prod.collapse)
  moreover have "body rt tc1 (set_return_data tc1 program_id [])"
    by (rule body.operation [OF body.stop account_op.return_data])
  ultimately show ?thesis unfolding ran_def using 1 body_trans by blast
qed

lemma process_precompile_ran: "process_precompile se program_id data datas tc = Inr tc' \<Longrightarrow> ran (se_runtime se) tc tc'"
  unfolding process_precompile_def ran_def by (auto simp: and_then_Inr_iff intro: body.stop)

lemma ran_frames:
  assumes "ran rt tc tc'" and "frames_ok tc"
  shows "frames_ok tc'" and "frames_kept tc tc'" and "instruction_stack tc' = instruction_stack tc"
proof -
  from assms(1) obtain tc1 tc2 where *: "ic_push rt tc = Inr tc1" "body rt tc1 tc2" "tc_pop tc2 = Inr tc'"
    by (auto simp: ran_def)
  note push = push_frames [OF *(1)] and pop = tc_pop_Inr [OF *(3)]
  have b: "frames_ok tc2" "frames_kept tc1 tc2" "instruction_stack tc2 = instruction_stack tc1"
    using body_frames [OF *(2)] push(2) assms(2) by simp_all
  show "frames_ok tc'" using b(1) pop by (auto simp: frames_ok_def dest: in_set_butlastD)
  have "frames_kept tc2 tc'" using pop by (simp add: frames_kept_def)
  then show "frames_kept tc tc'" using push(1) b(2) frames_kept_trans by blast
  show "instruction_stack tc' = instruction_stack tc" using pop b(3) push(3) by simp
qed

lemma release_flag: "\<not> xs ! i \<Longrightarrow> xs[i := False] = xs"
  by (cases "i < length xs") (auto simp: list_update_same_conv list_update_beyond)

lemma store_index_borrowed: "store_instruction_index rt tc = Inr tc' \<Longrightarrow> tas_borrowed (accounts tc') = tas_borrowed (accounts tc)"
  by (auto simp: store_instruction_index_def tas_try_borrow_mut_def tas_drop_def tas_set_account_def Let_def and_then_Inr_iff
      err_if_Inr_iff release_flag split: option.splits)

lemma ran_borrowed:
  assumes "ran rt tc tc'"
  shows "tas_borrowed (accounts tc') = tas_borrowed (accounts tc)"
proof -
  from assms obtain tc1 tc2 where *: "ic_push rt tc = Inr tc1" "tas_borrowed (accounts tc2) = tas_borrowed (accounts tc1)"
    "tc_pop tc2 = Inr tc'" by (auto simp: ran_def)
  have "tc_push rt tc = Inr tc1" using *(1) by (rule ic_push_Inr)
  then have "tas_borrowed (accounts tc1) = tas_borrowed (accounts tc)"
    by (auto simp: tc_push_def Let_def and_then_Inr_iff dest!: store_index_borrowed)
  then show ?thesis using * tc_pop_Inr(2) [OF *(3)] by simp
qed

lemma ran_ledger:
  assumes "ran rt tc tc'" and "frames_ok tc"
  shows "same_ledger (accounts tc) (accounts tc')" and "tas_lamports_delta (accounts tc') = 0"
proof -
  from assms(1) obtain tc1 tc2 where *: "ic_push rt tc = Inr tc1" "body rt tc1 tc2" "tc_pop tc2 = Inr tc'"
    by (auto simp: ran_def)
  have "tc_push rt tc = Inr tc1" using *(1) by (rule ic_push_Inr)
  note push_same_ledger [OF this]
  moreover have "same_ledger (accounts tc1) (accounts tc2)"
    using ledger.body_kept [OF *(2)] push_running(2) [OF *(1) assms(2)] push_frames(2) [OF *(1) assms(2)] by simp
  ultimately show "same_ledger (accounts tc) (accounts tc')" "tas_lamports_delta (accounts tc') = 0"
    using tc_pop_Inr(1,2) [OF *(3)] by (simp_all add: same_ledger_def)
qed

lemma ran_same_at:
  assumes "ran rt tc tc'" and f: "frames_ok tc" and "length (account_keys tc) \<le> 65536"
    and "map_ok (dedup_map (last (instruction_trace tc))) (instruction_accounts (last (instruction_trace tc)))"
    and "\<forall>ia\<in>set (instruction_accounts (last (instruction_trace tc))). index_in_transaction ia = j \<longrightarrow> \<not> is_writable ia"
    and "find_index_of_account tc (rt_instructions_id rt) = Some j \<longrightarrow> sysvar"
  shows "same_at sysvar (unat j) (accounts tc) (accounts tc')"
proof -
  from assms(1) obtain tc1 tc2 where *: "ic_push rt tc = Inr tc1" "body rt tc1 tc2" "tc_pop tc2 = Inr tc'"
    by (auto simp: ran_def)
  note p = push_read_only [OF *(1) assms(2-6)]
  have "same_at sysvar (unat j) (accounts tc1) (accounts tc2)"
    using readonly.body_kept [OF *(2)] p push_frames(2) [OF *(1) f] by simp
  with p show ?thesis using tc_pop_Inr(2) [OF *(3)] same_at_trans by metis
qed

section \<open>Instructions of the transaction itself\<close>

text \<open>
  The map from accounts to their first entry is right as long as the instruction has at most 255
  entries; 255 stands for an account without one.
\<close>

definition message_entry :: "(nat \<Rightarrow> bool) \<Rightarrow> u8 list \<Rightarrow> instruction_account \<Rightarrow> bool" where
  "message_entry writes indexes ia \<longleftrightarrow>
     is_writable ia = writes (unat (index_in_transaction ia)) \<and> (\<exists>i\<in>set indexes. index_in_transaction ia = ucast i)"

lemma collect_top_level_ok:
  assumes "collect_top_level signs writes indexes m ias = Inr (m', ias')" and "map_ok m ias"
    and "length ias + length indexes \<le> 255" and "\<forall>ia\<in>set ias. message_entry writes all ia" and "set indexes \<subseteq> set all"
  shows "map_ok m' ias' \<and> (\<forall>ia\<in>set ias'. message_entry writes all ia)"
  using assms
proof (induction indexes arbitrary: m ias)
  case (Cons i indexes)
  let ?k = "unat i" and ?n = "length ias"
  let ?m = "if ?n < unat (m ! ?k) then m[?k := of_nat ?n] else m"
    and ?ia = "\<lparr>index_in_transaction = ucast i, is_signer = signs ?k, is_writable = writes ?k\<rparr>"
  have k: "?k < length m" and step: "collect_top_level signs writes indexes ?m (ias @ [?ia]) = Inr (m', ias')"
    using Cons.prems(1) by (auto simp: and_then_Inr_iff ok_or_Inr_iff get_at_iff)
  have u: "unat (ucast i :: u16) = ?k" "unat (word_of_nat ?n :: u8) = ?n"
    using Cons.prems(3) unat_bound [of i] by (simp_all add: unsigned_ucast_eq unsigned_of_nat take_bit_nat_eq_self)
  have "map_ok ?m (ias @ [?ia])"
    unfolding map_ok_def
  proof (intro allI impI)
    fix j assume j: "j < length ?m"
    then have "if unat (m ! j) < ?n then unat (index_in_transaction (ias ! unat (m ! j))) = j else unat (m ! j) = 255"
      using Cons.prems(2) by (simp add: map_ok_def split: if_splits)
    then show "if unat (?m ! j) < length (ias @ [?ia]) then unat (index_in_transaction ((ias @ [?ia]) ! unat (?m ! j))) = j
      else unat (?m ! j) = 255"
      using Cons.prems(3) u k by (cases "j = ?k") (auto simp: nth_append split: if_splits)
  qed
  moreover have "message_entry writes all ?ia" using Cons.prems(5) u by (auto simp: message_entry_def)
  ultimately show ?case using Cons.IH [OF step] Cons.prems by simp
qed simp

lemma prepare_top_level:
  assumes "prepare_next_top_level_instruction tc signs writes indexes data p = Inr tc'"
  shows "frames_kept tc tc'" and "frames_ok tc \<Longrightarrow> frames_ok tc'" and "instruction_stack tc' = instruction_stack tc"
    and "accounts tc' = accounts tc"
    and "length indexes \<le> 255 \<Longrightarrow> map_ok (dedup_map (last (instruction_trace tc'))) (instruction_accounts (last (instruction_trace tc'))) \<and>
      (\<forall>ia\<in>set (instruction_accounts (last (instruction_trace tc'))). message_entry writes indexes ia)"
proof -
  from assms obtain m ias where *: "collect_top_level signs writes indexes (replicate MAX_ACCOUNTS_PER_TRANSACTION (- 1)) [] = Inr (m, ias)"
    "instruction_trace tc \<noteq> []" "tc' = set_last_frame tc ((last (instruction_trace tc))
       \<lparr>program_account_index_in_tx := p, instruction_accounts := ias, instruction_data := data, dedup_map := m\<rparr>)"
    by (auto simp: prepare_next_top_level_instruction_def configure_next_instruction_def and_then_Inr_iff err_if_Inr_iff)
  show "frames_kept tc tc'" "frames_ok tc \<Longrightarrow> frames_ok tc'" "instruction_stack tc' = instruction_stack tc" "accounts tc' = accounts tc"
    using *(2,3) by (auto simp: frames_kept_def frames_ok_def nth_append nth_butlast)
  have "map_ok (replicate MAX_ACCOUNTS_PER_TRANSACTION (- 1)) []" using collected_start by (simp add: collected_def)
  then show "map_ok (dedup_map (last (instruction_trace tc'))) (instruction_accounts (last (instruction_trace tc'))) \<and>
      (\<forall>ia\<in>set (instruction_accounts (last (instruction_trace tc'))). message_entry writes indexes ia)" if "length indexes \<le> 255"
    using collect_top_level_ok [OF *(1), of indexes] that *(3) by simp
qed

text \<open>A relation that every instruction of the message keeps holds of the whole message.\<close>

lemma message_kept:
  assumes "process_message_loop se message n ixs tc = Inr tc'" and "well_behaved_programs (se_runtime se) (se_programs se)"
    and "frames_ok tc" and trans: "\<And>x y z. R x y \<Longrightarrow> R y z \<Longrightarrow> R x z" and refl: "\<And>x. R x x"
    and step: "\<And>program_id ix p tc tc1 tc2. ((program_id, ix), p) \<in> set ixs \<Longrightarrow> frames_ok tc \<Longrightarrow>
      prepare_next_top_level_instruction tc (sm_is_signer message) (sm_is_writable message) (si_accounts ix) (si_data ix) p = Inr tc1 \<Longrightarrow>
      ran (se_runtime se) tc1 tc2 \<Longrightarrow> R tc tc2"
  shows "R tc tc'"
  using assms(1,3) step
proof (induction ixs arbitrary: n tc)
  case (Cons x ixs)
  obtain program_id ix p where x: "x = ((program_id, ix), p)" by (metis surj_pair)
  from Cons.prems(1) obtain tc1 tc2 where
    1: "prepare_next_top_level_instruction tc (sm_is_signer message) (sm_is_writable message) (si_accounts ix) (si_data ix) p = Inr tc1"
    and 2: "(if se_is_precompile se program_id
       then process_precompile se program_id (si_data ix) (map (\<lambda>(_, ix). si_data ix) (sm_instructions message)) tc1
       else process_instruction (se_runtime se) (se_programs se) tc1) = Inr tc2"
    and 3: "process_message_loop se message (n + 1) ixs tc2 = Inr tc'"
    unfolding x by (auto simp: and_then_Inr_iff map_err_Inr_iff)
  from 2 have ran: "ran (se_runtime se) tc1 tc2"
    using process_instruction_ran [OF assms(2)] process_precompile_ran by (auto split: if_splits)
  then have "frames_ok tc2" using ran_frames(1) prepare_top_level(2) [OF 1] Cons.prems(2) by blast
  then have "R tc2 tc'" by (rule Cons.IH [OF 3]) (rule Cons.prems(3) [OF list.set_intros(2)])
  moreover have "R tc tc2" using Cons.prems(3) [OF _ Cons.prems(2) 1 ran, of program_id] x by simp
  ultimately show ?case using trans by blast
qed (simp add: refl)

section \<open>The system program is well behaved\<close>

lemma touch_flags: "ba_touch tc ba = Inr tc' \<Longrightarrow> tas_borrowed (accounts tc') = tas_borrowed (accounts tc)"
  by (auto simp: ba_touch_def tas_touch_def and_then_Inr_iff split: if_splits)

lemma set_flags [simp]:
  "tas_borrowed (accounts (ba_set tc ba y)) = tas_borrowed (accounts tc)"
  "tas_borrowed (accounts (write_slice tc ba data)) = tas_borrowed (accounts tc)"
  "tas_borrowed (accounts (ba_update_accounts_resize_delta tc ba n)) = tas_borrowed (accounts tc)"
  by (simp_all add: ba_set_def tas_set_account_def write_slice_def ba_update_accounts_resize_delta_def tas_update_accounts_resize_delta_def)

lemma op_flags:
  "set_owner tc ba key = Inr tc' \<Longrightarrow> tas_borrowed (accounts tc') = tas_borrowed (accounts tc)"
  "set_lamports tc ba n = Inr tc' \<Longrightarrow> tas_borrowed (accounts tc') = tas_borrowed (accounts tc)"
  "set_data_length tc ba m = Inr tc' \<Longrightarrow> tas_borrowed (accounts tc') = tas_borrowed (accounts tc)"
  "set_state tc ba bytes = Inr tc' \<Longrightarrow> tas_borrowed (accounts tc') = tas_borrowed (accounts tc)"
  by (auto simp: set_owner_def set_lamports_def set_data_length_def set_state_def get_data_mut_def tas_add_lamports_delta_def
      Let_def and_then_Inr_iff dest!: touch_flags split: if_splits)

lemma lamports_flags:
  "checked_add_lamports tc ba n = Inr tc' \<Longrightarrow> tas_borrowed (accounts tc') = tas_borrowed (accounts tc)"
  "checked_sub_lamports tc ba n = Inr tc' \<Longrightarrow> tas_borrowed (accounts tc') = tas_borrowed (accounts tc)"
  by (auto simp: checked_add_lamports_def checked_sub_lamports_def and_then_Inr_iff dest: op_flags)

text \<open>Borrowing an account, working on it and letting it go leaves the flags as they were.\<close>

lemma scope_flags:
  assumes "try_borrow_instruction_account tc frame i = Inr (ba, tc1)" and "tas_borrowed (accounts tc2) = tas_borrowed (accounts tc1)"
  shows "tas_borrowed (accounts (drop_account tc2 ba)) = tas_borrowed (accounts tc)"
  using assms
  by (auto simp: try_borrow_instruction_account_def tas_try_borrow_mut_def drop_account_def tas_drop_def and_then_Inr_iff err_if_Inr_iff
      release_flag)

lemma transfer_verified_flags: "transfer_verified sy tc frame i j n = Inr tc' \<Longrightarrow> tas_borrowed (accounts tc') = tas_borrowed (accounts tc)"
  unfolding transfer_verified_def
  by (auto simp: and_then_Inr_iff dest!: lamports_flags) (metis scope_flags)

lemma transfer_flags:
  "transfer sy tc frame i j n = Inr tc' \<Longrightarrow> tas_borrowed (accounts tc') = tas_borrowed (accounts tc)"
  "transfer_with_seed sy tc frame i b seed holder j n = Inr tc' \<Longrightarrow> tas_borrowed (accounts tc') = tas_borrowed (accounts tc)"
  by (auto simp: transfer_def transfer_with_seed_def and_then_Inr_iff dest: transfer_verified_flags)

lemma account_flags:
  "allocate sy tc ba ad space signers = Inr tc' \<Longrightarrow> tas_borrowed (accounts tc') = tas_borrowed (accounts tc)"
  "assign tc ba ad holder signers = Inr tc' \<Longrightarrow> tas_borrowed (accounts tc') = tas_borrowed (accounts tc)"
  by (auto simp: allocate_def assign_def and_then_Inr_iff dest: op_flags split: if_splits)

lemma allocate_and_assign_flags:
  "allocate_and_assign sy tc ba ad space holder signers = Inr tc' \<Longrightarrow> tas_borrowed (accounts tc') = tas_borrowed (accounts tc)"
  by (auto simp: allocate_and_assign_def and_then_Inr_iff dest!: account_flags)

lemma create_flags: "system_create sy tc frame s l n holder signers = Inr tc' \<Longrightarrow> tas_borrowed (accounts tc') = tas_borrowed (accounts tc)"
  unfolding system_create_def system_create_account_def
  by (auto simp: and_then_Inr_iff dest!: allocate_and_assign_flags transfer_flags dest: scope_flags)

lemma nonce_flags:
  "advance_nonce_account sy tc ba signers = Inr tc' \<Longrightarrow> tas_borrowed (accounts tc') = tas_borrowed (accounts tc)"
  "initialize_nonce_account sy tc ba authority minimum = Inr tc' \<Longrightarrow> tas_borrowed (accounts tc') = tas_borrowed (accounts tc)"
  "authorize_nonce_account sy tc ba authority signers = Inr tc' \<Longrightarrow> tas_borrowed (accounts tc') = tas_borrowed (accounts tc)"
  "upgrade_nonce_account sy tc ba = Inr tc' \<Longrightarrow> tas_borrowed (accounts tc') = tas_borrowed (accounts tc)"
  by (auto simp: advance_nonce_account_def initialize_nonce_account_def authorize_nonce_account_def upgrade_nonce_account_def
      nonce_set_state_def Let_def and_then_Inr_iff case_Inr_iff dest: op_flags)

lemma first_account_flags:
  assumes "with_first_account tc frame f = Inr tc'"
    and "\<And>account tc1 tc2. f account tc1 = Inr tc2 \<Longrightarrow> tas_borrowed (accounts tc2) = tas_borrowed (accounts tc1)"
  shows "tas_borrowed (accounts tc') = tas_borrowed (accounts tc)"
  using assms(1) scope_flags assms(2) by (fastforce simp: with_first_account_def and_then_Inr_iff)

lemma withdraw_nonce_flags:
  assumes "withdraw_nonce_account sy tc frame i lamports j minimum signers = Inr tc'"
  shows "tas_borrowed (accounts tc') = tas_borrowed (accounts tc)"
proof -
  from assms obtain payer tc1 tc2 where b: "try_borrow_instruction_account tc frame i = Inr (payer, tc1)"
    and m: "tc2 = tc1 \<or> nonce_set_state sy tc1 payer (sy_nonce_new sy NonceUninitialized) = Inr tc2"
    and "and_then (checked_sub_lamports tc2 payer lamports) (\<lambda>tc. let tc = drop_account tc payer in
      and_then (try_borrow_instruction_account tc frame j) (\<lambda>(to, tc).
      and_then (checked_add_lamports tc to lamports) (\<lambda>tc. Inr (drop_account tc to)))) = Inr tc'"
    by (rule withdraw_nonce_Inr)
  then obtain tc3 to tc4 tc5 where d: "checked_sub_lamports tc2 payer lamports = Inr tc3"
    and c: "try_borrow_instruction_account (drop_account tc3 payer) frame j = Inr (to, tc4)"
      "checked_add_lamports tc4 to lamports = Inr tc5" "tc' = drop_account tc5 to"
    by (auto simp: and_then_Inr_iff Let_def)
  have "tas_borrowed (accounts tc3) = tas_borrowed (accounts tc1)"
    using m lamports_flags(2) [OF d] by (auto simp: nonce_set_state_def dest: op_flags)
  from scope_flags [OF b this] show ?thesis using scope_flags [OF c(1) lamports_flags(1) [OF c(2)]] c(3) by simp
qed

lemma system_process_flags:
  assumes "system_process sy tc frame signers ix = Inr tc'"
  shows "tas_borrowed (accounts tc') = tas_borrowed (accounts tc)"
  using assms
  by (cases ix)
    (auto simp: system_process_def and_then_Inr_iff elim!: first_account_flags
      dest: create_flags transfer_flags withdraw_nonce_flags nonce_flags account_flags allocate_and_assign_flags)

lemma system_well_behaved: "well_behaved rt (\<lambda>tc. (system_entrypoint sy decode tc, units))"
  unfolding well_behaved_def
  by (auto simp: system_entrypoint_body) (auto simp: system_entrypoint_def and_then_Inr_iff dest: system_process_flags)

lemma tx_programs_well_behaved: "well_behaved_programs (se_runtime tx_env) (se_programs tx_env)"
  by (simp add: well_behaved_programs_def tx_env_def tx_programs_def system_well_behaved)

section \<open>The sum of the lamports\<close>

lemma lamports_sum_loop:
  assumes "unat n + (\<Sum>x\<leftarrow>xs. unat (sa_lamports (snd x))) < 2 ^ 128"
  shows "\<exists>s. lamports_sum_loop n xs = Some s \<and> unat s = unat n + (\<Sum>x\<leftarrow>xs. unat (sa_lamports (snd x)))"
  using assms
proof (induction xs arbitrary: n)
  case (Cons x xs)
  obtain k a where x: "x = (k, a)" by (cases x)
  have b: "unat n + unat (sa_lamports a) < 2 ^ 128" using Cons.prems x by simp
  then have c: "checked_add n (as_u128 (sa_lamports a)) = Some (n + as_u128 (sa_lamports a))"
    "unat (n + as_u128 (sa_lamports a)) = unat n + unat (sa_lamports a)"
    by (simp_all add: checked_add_def unat_add_lem [THEN iffD1])
  show ?case using Cons.IH [of "n + as_u128 (sa_lamports a)"] Cons.prems c x by (simp add: add.assoc)
qed simp

lemma sum_lamports_bound:
  assumes "length xs \<le> 65536"
  shows "(\<Sum>x\<leftarrow>xs. unat (sa_lamports (snd x))) < 2 ^ 128"
proof -
  have "(\<Sum>x\<leftarrow>xs. unat (sa_lamports (snd x))) \<le> (\<Sum>x\<leftarrow>xs. 2 ^ 64)"
    by (rule sum_list_mono) (simp add: less_imp_le unat_bound_u64)
  also have "\<dots> = length xs * 2 ^ 64" by (simp add: sum_list_triv)
  also have "\<dots> \<le> 65536 * 2 ^ 64" using assms by simp
  also have "\<dots> < 2 ^ 128" by simp
  finally show ?thesis .
qed

lemma lamports_sum:
  assumes "length xs \<le> 65536"
  shows "\<exists>s. transaction_accounts_lamports_sum xs = Some s \<and> unat s = (\<Sum>x\<leftarrow>xs. unat (sa_lamports (snd x)))"
  using lamports_sum_loop [of 0 xs] sum_lamports_bound [OF assms] by (simp add: transaction_accounts_lamports_sum_def)

section \<open>Whole messages\<close>

lemma message_ledger:
  assumes "process_message se message program_indices tc = Inr tc'" and "well_behaved_programs (se_runtime se) (se_programs se)"
    and "frames_ok tc" and "tas_lamports_delta (accounts tc) = 0"
  shows "total_lamports (accounts tc') = total_lamports (accounts tc)"
proof -
  let ?R = "\<lambda>x y. tas_lamports_delta (accounts x) = 0 \<longrightarrow>
    tas_lamports_delta (accounts y) = 0 \<and> total_lamports (accounts y) = total_lamports (accounts x)"
  have "?R tc tc'"
  proof (rule message_kept [OF assms(1) [unfolded process_message_def] assms(2,3), where R = ?R])
    fix tc signs writes indexes data p tc1 tc2
    assume f: "frames_ok tc" and p: "prepare_next_top_level_instruction tc signs writes indexes data p = Inr tc1"
      and r: "ran (se_runtime se) tc1 tc2"
    show "?R tc tc2"
      using ran_ledger [OF r prepare_top_level(2) [OF p f]] prepare_top_level(4) [OF p] by (simp add: same_ledger_def)
  qed simp_all
  then show ?thesis using assms(4) by simp
qed

lemma message_frame:
  assumes "process_message se message program_indices tc = Inr tc'" and "well_behaved_programs (se_runtime se) (se_programs se)"
    and "frames_ok tc"
  shows "account_keys tc' = account_keys tc" and "length (tx_accounts tc') = length (tx_accounts tc)"
    and "tas_borrowed (accounts tc') = tas_borrowed (accounts tc)"
proof -
  let ?R = "\<lambda>x y. frames_kept x y \<and> tas_borrowed (accounts y) = tas_borrowed (accounts x)"
  have "?R tc tc'"
  proof (rule message_kept [OF assms(1) [unfolded process_message_def] assms(2,3), where R = ?R])
    fix tc signs writes indexes data p tc1 tc2
    assume f: "frames_ok tc" and p: "prepare_next_top_level_instruction tc signs writes indexes data p = Inr tc1"
      and r: "ran (se_runtime se) tc1 tc2"
    show "?R tc tc2"
      using ran_frames(2) [OF r prepare_top_level(2) [OF p f]] ran_borrowed [OF r] prepare_top_level(1,4) [OF p] frames_kept_trans by auto
  qed (auto intro: frames_kept_trans)
  then show "account_keys tc' = account_keys tc" "length (tx_accounts tc') = length (tx_accounts tc)"
    "tas_borrowed (accounts tc') = tas_borrowed (accounts tc)" by (simp_all add: frames_kept_def)
qed

text \<open>
  An account that the message does not list as writable, or that it passes to no instruction, is
  writable for nothing that runs.
\<close>

definition locked :: "svm_message \<Rightarrow> nat \<Rightarrow> bool" where
  "locked message i \<longleftrightarrow> \<not> sm_is_writable message i \<or> \<not> is_instruction_account message i"

definition short_instructions :: "svm_message \<Rightarrow> bool" where
  "short_instructions message \<longleftrightarrow> list_all (\<lambda>(program_id, ix). length (si_accounts ix) \<le> 255) (sm_instructions message)"

lemma locked_entry:
  assumes "locked message (unat j)" and "(program_id, ix) \<in> set (sm_instructions message)"
    and "message_entry (sm_is_writable message) (si_accounts ix) ia" and "index_in_transaction ia = j"
  shows "\<not> is_writable ia"
proof
  assume "is_writable ia"
  with assms(3,4) obtain i where i: "i \<in> set (si_accounts ix)" "j = ucast i" "sm_is_writable message (unat j)"
    by (auto simp: message_entry_def)
  have "unat j = unat i" using i(2) unat_bound [of i] by (simp add: unsigned_ucast_eq take_bit_nat_eq_self)
  then have "is_instruction_account message (unat j)"
    using i(1) assms(2) unat_bound [of i] by (auto simp: is_instruction_account_def list_ex_iff intro!: bexI [of _ "(program_id, ix)"])
  then show False using i(3) assms(1) by (simp add: locked_def)
qed

lemma message_same_at:
  assumes "process_message se message program_indices tc = Inr tc'" and "well_behaved_programs (se_runtime se) (se_programs se)"
    and "frames_ok tc" and short: "short_instructions message" and lock: "locked message (unat j)" and "length (account_keys tc) \<le> 65536"
    and "find_index_of_account tc (rt_instructions_id (se_runtime se)) = Some j \<longrightarrow> sysvar"
  shows "same_at sysvar (unat j) (accounts tc) (accounts tc')"
proof -
  let ?c = "\<lambda>x. length (account_keys x) \<le> 65536 \<and> (find_index_of_account x (rt_instructions_id (se_runtime se)) = Some j \<longrightarrow> sysvar)"
  let ?R = "\<lambda>x y. account_keys y = account_keys x \<and> (?c x \<longrightarrow> same_at sysvar (unat j) (accounts x) (accounts y))"
  have "?R tc tc'"
  proof (rule message_kept [OF assms(1) [unfolded process_message_def] assms(2,3), where R = ?R])
    fix program_id ix p tc tc1 tc2
    assume ix: "((program_id, ix), p) \<in> set (zip (sm_instructions message) program_indices)" and f: "frames_ok tc"
      and p: "prepare_next_top_level_instruction tc (sm_is_signer message) (sm_is_writable message) (si_accounts ix) (si_data ix) p = Inr tc1"
      and r: "ran (se_runtime se) tc1 tc2"
    note prep = prepare_top_level [OF p]
    have f1: "frames_ok tc1" using prep(2) f .
    have k: "account_keys tc1 = account_keys tc" using prep(1) by (simp add: frames_kept_def)
    have m: "(program_id, ix) \<in> set (sm_instructions message)" using ix by (rule set_zip_leftD)
    then have "length (si_accounts ix) \<le> 255" using short by (auto simp: short_instructions_def list_all_iff)
    note e = prep(5) [OF this]
    have "same_at sysvar (unat j) (accounts tc) (accounts tc2)" if "?c tc"
      using ran_same_at [OF r f1] that e k find_index_of_account_cong [OF k] locked_entry [OF lock m] prep(4) by simp
    then show "?R tc tc2" using ran_frames(2) [OF r f1] k by (simp add: frames_kept_def)
  qed (auto simp: same_at_refl find_index_of_account_def intro: same_at_trans)
  then show ?thesis using assms(6,7) by simp
qed

section \<open>Executed transactions\<close>

lemma execute_Inr:
  assumes "execute_loaded_transaction se message xs program_indices = Inr rec"
  obtains tc where
    "process_message se message program_indices
       (transaction_context_new xs (se_max_instruction_stack_depth se) (se_max_instruction_trace_length se)) = Inr tc"
    "verify_changes se (account_state_info se message
       (transaction_context_new xs (se_max_instruction_stack_depth se) (se_max_instruction_trace_length se)))
       (account_state_info se message tc) tc = Inr ()"
    "rec = execution_record_from tc"
  using assms by (auto simp: execute_loaded_transaction_def Let_def and_then_Inr_iff)

lemma new_frames_ok [simp]: "frames_ok (transaction_context_new xs n m)"
  by (simp add: frames_ok_def transaction_context_new_def)

lemma new_simps [simp]:
  "account_keys (transaction_context_new xs n m) = map fst xs"
  "tx_accounts (transaction_context_new xs n m) = map snd xs"
  "tas_borrowed (accounts (transaction_context_new xs n m)) = replicate (length xs) False"
  "tas_lamports_delta (accounts (transaction_context_new xs n m)) = 0"
  by (simp_all add: transaction_context_new_def transaction_accounts_new_def)

lemma total_lamports_nat: "total_lamports tas = int (\<Sum>x\<leftarrow>tas_accounts tas. unat (sa_lamports x))"
proof -
  have "(\<Sum>x\<leftarrow>xs. int (unat (sa_lamports x))) = int (\<Sum>x\<leftarrow>xs. unat (sa_lamports x))" for xs
    by (induction xs) (simp_all del: of_nat_unat)
  then show ?thesis by (simp add: total_lamports_def del: of_nat_unat)
qed

lemma process_message_loop_error: "process_message_loop se message n ixs tc = Inl err \<Longrightarrow> err \<noteq> TeUnbalancedTransaction"
  by (induction se message n ixs tc rule: process_message_loop.induct) (auto simp: and_then_def map_err_def split: sum.splits)

lemma verify_changes_error: "verify_changes_loop se tc i xs = Inl err \<Longrightarrow> err \<noteq> TeUnbalancedTransaction"
  by (induction se tc i xs rule: verify_changes_loop.induct)
    (auto simp: check_rent_state_def check_rent_state_with_account_def and_then_def map_err_def err_if_def
      split: sum.splits option.splits if_splits)

lemma record_sum:
  assumes "account_keys tc = map fst xs" and "length (tx_accounts tc) = length xs"
  shows "(\<Sum>x\<leftarrow>er_accounts (execution_record_from tc). unat (sa_lamports (snd x))) = (\<Sum>x\<leftarrow>tx_accounts tc. unat (sa_lamports x))"
proof -
  have "map (\<lambda>x. unat (sa_lamports (snd x))) (zip (account_keys tc) (tx_accounts tc)) = map (\<lambda>x. unat (sa_lamports x)) (tx_accounts tc)"
    using assms by (intro nth_equalityI) simp_all
  then show ?thesis by (simp add: execution_record_from_def)
qed

text \<open>The two sums that \<open>execute_loaded_transaction\<close> compares are the same whatever the programs did.\<close>

lemma executed_sum:
  assumes wb: "well_behaved_programs (se_runtime se) (se_programs se)" and len: "length xs \<le> 65536"
    and p: "process_message se message program_indices (transaction_context_new xs n m) = Inr tc"
  shows "(\<Sum>x\<leftarrow>er_accounts (execution_record_from tc). unat (sa_lamports (snd x))) = (\<Sum>x\<leftarrow>xs. unat (sa_lamports (snd x)))"
    and "transaction_accounts_lamports_sum (er_accounts (execution_record_from tc)) = transaction_accounts_lamports_sum xs"
    and "map fst (er_accounts (execution_record_from tc)) = map fst xs"
proof -
  note fr = message_frame [OF p wb new_frames_ok, simplified]
  have "total_lamports (accounts tc) = total_lamports (accounts (transaction_context_new xs n m))"
    by (rule message_ledger [OF p wb]) simp_all
  then have eq: "(\<Sum>x\<leftarrow>tx_accounts tc. unat (sa_lamports x)) = (\<Sum>x\<leftarrow>xs. unat (sa_lamports (snd x)))"
    by (simp only: total_lamports_nat of_nat_eq_iff new_simps map_map comp_def)
  then show s: "(\<Sum>x\<leftarrow>er_accounts (execution_record_from tc). unat (sa_lamports (snd x))) = (\<Sum>x\<leftarrow>xs. unat (sa_lamports (snd x)))"
    using record_sum [OF fr(1,2)] by simp
  have "length (er_accounts (execution_record_from tc)) \<le> 65536" using fr len by (simp add: execution_record_from_def)
  from lamports_sum [OF this] lamports_sum [OF len] s
  show "transaction_accounts_lamports_sum (er_accounts (execution_record_from tc)) = transaction_accounts_lamports_sum xs"
    by (auto simp: word_unat_eq_iff)
  show "map fst (er_accounts (execution_record_from tc)) = map fst xs"
    using fr by (simp add: execution_record_from_def)
qed

text \<open>
  Claim C31. No executed transaction creates or destroys lamports, whatever the programs it runs
  compute, as long as they work through the operations of the runtime: the sum over its accounts is
  the same before and after. The check at the end of \<open>execute_loaded_transaction\<close> is therefore
  redundant: its error is never returned.
\<close>

theorem transaction_conserves_lamports:
  assumes "well_behaved_programs (se_runtime se) (se_programs se)" and "length loaded \<le> 65536"
  shows "case execute_loaded_transaction se message loaded program_indices of
      Inl err \<Rightarrow> err \<noteq> TeUnbalancedTransaction
    | Inr rec \<Rightarrow> map fst (er_accounts rec) = map fst loaded \<and>
        (\<Sum>x\<leftarrow>er_accounts rec. unat (sa_lamports (snd x))) = (\<Sum>x\<leftarrow>loaded. unat (sa_lamports (snd x)))"
proof (cases "execute_loaded_transaction se message loaded program_indices")
  case (Inl err)
  moreover obtain n where "transaction_accounts_lamports_sum loaded = Some n" using lamports_sum [OF assms(2)] by blast
  ultimately have "err \<noteq> TeUnbalancedTransaction"
    using process_message_loop_error verify_changes_error executed_sum(2) [OF assms]
    by (auto simp: execute_loaded_transaction_def Let_def and_then_def err_if_def process_message_def verify_changes_def split: sum.splits if_splits)
  then show ?thesis using Inl by simp
next
  case (Inr rec)
  then show ?thesis using executed_sum(1,3) [OF assms] by (auto elim!: execute_Inr)
qed

theorem transaction_conserves_lamports_witness:
  "\<exists>rec. execute_loaded_transaction tx_env tx_message tx_accounts_loaded [2] = Inr rec \<and> er_accounts rec = tx_accounts_after \<and>
     (\<Sum>x\<leftarrow>er_accounts rec. unat (sa_lamports (snd x))) = 106"
proof -
  obtain rec where "execute_loaded_transaction tx_env tx_message tx_accounts_loaded [2] = Inr rec" "er_accounts rec = tx_accounts_after"
    using tx_executes by blast
  with transaction_conserves_lamports [OF tx_programs_well_behaved, of tx_accounts_loaded tx_message "[2]"]
  show ?thesis by (simp add: tx_accounts_loaded_def plain_account_def program_account_def)
qed

lemma executed_same_at:
  assumes "well_behaved_programs (se_runtime se) (se_programs se)" and "short_instructions message" and len: "length xs \<le> 65536"
    and p: "process_message se message program_indices (transaction_context_new xs n m) = Inr tc"
    and i: "i < length xs" and lock: "locked message i"
  shows "same_account (fst (xs ! i) = rt_instructions_id (se_runtime se)) (snd (xs ! i)) (tx_accounts tc ! i)"
proof -
  let ?tc = "transaction_context_new xs n m" and ?id = "rt_instructions_id (se_runtime se)"
  have u: "unat (word_of_nat i :: u16) = i" using i len by (simp add: unsigned_of_nat take_bit_nat_eq_self)
  have "find_index_of_account ?tc ?id = Some (word_of_nat i) \<longrightarrow> fst (xs ! i) = ?id"
    using find_index_of_account_Some [of ?tc ?id "word_of_nat i"] len i u by (auto simp: get_at_def)
  with message_same_at [OF p assms(1) new_frames_ok assms(2), of "word_of_nat i" "fst (xs ! i) = ?id"] len lock u i
  show ?thesis by (simp add: same_at_def)
qed

lemma executed_accounts:
  assumes "well_behaved_programs (se_runtime se) (se_programs se)" and "short_instructions message" and "length xs \<le> 65536"
    and "execute_loaded_transaction se message xs program_indices = Inr rec"
  shows "map fst (er_accounts rec) = map fst xs"
    and "(\<Sum>x\<leftarrow>er_accounts rec. unat (sa_lamports (snd x))) = (\<Sum>x\<leftarrow>xs. unat (sa_lamports (snd x)))"
    and "i < length xs \<Longrightarrow> locked message i \<Longrightarrow>
      same_account (fst (xs ! i) = rt_instructions_id (se_runtime se)) (snd (xs ! i)) (snd (er_accounts rec ! i))"
proof -
  from assms(4) obtain tc where p: "process_message se message program_indices
      (transaction_context_new xs (se_max_instruction_stack_depth se) (se_max_instruction_trace_length se)) = Inr tc"
    and r: "rec = execution_record_from tc" by (rule execute_Inr)
  show "map fst (er_accounts rec) = map fst xs"
    "(\<Sum>x\<leftarrow>er_accounts rec. unat (sa_lamports (snd x))) = (\<Sum>x\<leftarrow>xs. unat (sa_lamports (snd x)))"
    using executed_sum(1,3) [OF assms(1,3) p] r by simp_all
  note fr = message_frame [OF p assms(1) new_frames_ok, simplified]
  show "same_account (fst (xs ! i) = rt_instructions_id (se_runtime se)) (snd (xs ! i)) (snd (er_accounts rec ! i))"
    if "i < length xs" "locked message i"
    using executed_same_at [OF assms(1-3) p that] that(1) fr r by (simp add: execution_record_from_def)
qed

text \<open>
  Claim C32. An executed transaction changes only accounts that its message lists as writable and
  passes to an instruction; every other account comes out as it was loaded, whatever the programs
  do. Of the sysvar in which the runtime keeps the index of the running instruction only the data
  change. That accounts passed to no instruction are unchanged is what allows the account loader to
  skip accounts that are only invoked. Instructions of the message have at most 255 accounts.
\<close>

theorem transaction_respects_message:
  assumes "well_behaved_programs (se_runtime se) (se_programs se)" and "short_instructions message" and "length loaded \<le> 65536"
    and "execute_loaded_transaction se message loaded program_indices = Inr rec"
    and "i < length loaded" and "\<not> sm_is_writable message i \<or> \<not> is_instruction_account message i"
  shows "fst (er_accounts rec ! i) = fst (loaded ! i) \<and>
    same_account (fst (loaded ! i) = rt_instructions_id (se_runtime se)) (snd (loaded ! i)) (snd (er_accounts rec ! i))"
proof -
  have "fst (er_accounts rec ! i) = fst (loaded ! i)"
    using arg_cong [OF executed_accounts(1) [OF assms(1-4)], of "\<lambda>ks. ks ! i"] assms(5) executed_accounts(1) [OF assms(1-4)]
    by (metis length_map nth_map)
  then show ?thesis using executed_accounts(3) [OF assms(1-5)] assms(6) by (simp add: locked_def)
qed

theorem transaction_respects_message_witness:
  "\<exists>rec. execute_loaded_transaction tx_env tx_message tx_accounts_loaded [2] = Inr rec \<and> er_accounts rec ! 2 = (0, program_account) \<and>
     \<not> sm_is_writable tx_message 2"
proof -
  obtain rec where "execute_loaded_transaction tx_env tx_message tx_accounts_loaded [2] = Inr rec"
    using tx_executes by blast
  with transaction_respects_message [OF tx_programs_well_behaved, of tx_message tx_accounts_loaded "[2]" rec 2]
  show ?thesis
    by (cases "er_accounts rec ! 2")
      (simp add: tx_accounts_loaded_def tx_message_def short_instructions_def tx_env_def tx_runtime_def same_account_def)
qed

section \<open>Rent\<close>

lemma transition_allowed_refl [simp]: "transition_allowed s s"
  by (cases s) simp_all

lemma verify_changes_loop_nth:
  assumes "verify_changes_loop se tc n ps = Inr ()" and "k < length ps" and "ps ! k = (Some pre, Some post)"
    and "get_key_of_account_at_index tc (of_nat (n + k)) = Inr address" and "address \<noteq> se_incinerator se"
  shows "transition_allowed pre post"
  using assms
proof (induction ps arbitrary: n k)
  case (Cons p ps)
  obtain a b where p: "p = (a, b)" by (cases p)
  have 1: "check_rent_state se a b tc (of_nat n) = Inr ()" "verify_changes_loop se tc (n + 1) ps = Inr ()"
    using Cons.prems(1) p by (auto simp: and_then_Inr_iff)
  show ?case
  proof (cases k)
    case 0
    then show ?thesis
      using 1(1) Cons.prems(3-5) p by (auto simp: check_rent_state_def check_rent_state_with_account_def and_then_Inr_iff err_if_Inr_iff)
  next
    case (Suc l)
    then show ?thesis using Cons.IH [OF 1(2), of l] Cons.prems by simp
  qed
qed simp

lemma account_state_info_nth:
  assumes "i < length (sm_account_keys message)" and "i < length (tx_accounts tc)" and "i < 65536" and "sm_is_writable message i"
    and "\<not> tas_borrowed (accounts tc) ! i"
  shows "account_state_info se message tc ! i = Some (get_account_rent_state (se_runtime se) (tx_accounts tc ! i))"
proof -
  have "unat (word_of_nat i :: u16) = i" using assms(3) by (simp add: unsigned_of_nat take_bit_nat_eq_self)
  then show ?thesis
    using assms by (simp add: account_state_info_def tas_try_borrow_def get_at_def ok_or_def err_if_def and_then_def)
qed

text \<open>
  Claim C33. No executed transaction leaves an account below the rent exemption that was not below
  it before: for every account but the incinerator, the transition from its rent state as loaded to
  its rent state at the end is an allowed one. For the accounts that the message lists as writable
  this is the comparison of the state infos, which never misses an account because no borrow
  outlives an instruction; the others are unchanged.
\<close>

theorem transaction_keeps_rent_exemption:
  assumes "well_behaved_programs (se_runtime se) (se_programs se)" and "short_instructions message" and "length loaded \<le> 65536"
    and "sm_account_keys message = map fst loaded" and "execute_loaded_transaction se message loaded program_indices = Inr rec"
    and "i < length loaded" and "fst (loaded ! i) \<noteq> se_incinerator se" and "fst (loaded ! i) \<noteq> rt_instructions_id (se_runtime se)"
  shows "transition_allowed (get_account_rent_state (se_runtime se) (snd (loaded ! i)))
      (get_account_rent_state (se_runtime se) (snd (er_accounts rec ! i)))"
  using assms(5)
proof (rule execute_Inr)
  let ?tc = "transaction_context_new loaded (se_max_instruction_stack_depth se) (se_max_instruction_trace_length se)"
  fix tc assume p: "process_message se message program_indices ?tc = Inr tc"
    and v: "verify_changes se (account_state_info se message ?tc) (account_state_info se message tc) tc = Inr ()"
    and r: "rec = execution_record_from tc"
  note fr = message_frame [OF p assms(1) new_frames_ok, simplified]
  have i: "er_accounts rec ! i = (fst (loaded ! i), tx_accounts tc ! i)" using fr assms(6) by (simp add: r execution_record_from_def)
  show ?thesis
  proof (cases "sm_is_writable message i")
    case True
    have "unat (word_of_nat i :: u16) = i" using assms(3,6) by (simp add: unsigned_of_nat take_bit_nat_eq_self)
    then have k: "get_key_of_account_at_index tc (of_nat (0 + i)) = Inr (fst (loaded ! i))"
      using fr(1) assms(6) by (simp add: get_key_of_account_at_index_def get_at_def ok_or_def)
    show ?thesis
      using verify_changes_loop_nth [OF v [unfolded verify_changes_def] _ _ k assms(7)] assms(3,4,6) True fr(2,3) i
      by (simp add: account_state_info_nth) (simp add: account_state_info_def)
  next
    case False
    then have "tx_accounts tc ! i = snd (loaded ! i)"
      using executed_same_at [OF assms(1-3) p assms(6)] assms(8) by (simp add: locked_def same_account_def)
    then show ?thesis using i by simp
  qed
qed

theorem transaction_keeps_rent_exemption_witness:
  "\<exists>rec. execute_loaded_transaction tx_env tx_message tx_accounts_loaded [2] = Inr rec \<and>
     transition_allowed RentExempt (get_account_rent_state (se_runtime tx_env) (snd (er_accounts rec ! 0)))"
proof -
  obtain rec where "execute_loaded_transaction tx_env tx_message tx_accounts_loaded [2] = Inr rec"
    using tx_executes by blast
  with transaction_keeps_rent_exemption [OF tx_programs_well_behaved, of tx_message tx_accounts_loaded "[2]" rec 0]
  show ?thesis
    by (simp add: tx_accounts_loaded_def tx_message_def short_instructions_def tx_env_def tx_runtime_def plain_account_def
        get_account_rent_state_def)
qed

end
