(* ===== verification/Invocation_Safety.thy ===== *)
theory Invocation_Safety
  imports Execution_Safety
begin

text \<open>
  What a program may rely on when it invokes another one: the instruction gets the privileges asked
  for and none that the caller does not have, and whatever the invoked program and the programs it
  invokes in turn do, the accounts of the caller come back with their data.
\<close>

section \<open>A sample invocation\<close>

text \<open>A program with address 50 runs, holding a signature and two writable accounts, one of them its own.\<close>

definition own_account :: shared_account where
  "own_account = \<lparr>sa_lamports = 8, sa_data = [1, 2], sa_owner = 50, sa_executable = False, sa_rent_epoch = - 1\<rparr>"

definition caller_frame :: instruction_frame where
  "caller_frame = \<lparr>nesting_level = 0, program_account_index_in_tx = 3,
     instruction_accounts =
       [\<lparr>index_in_transaction = 0, is_signer = True, is_writable = True\<rparr>,
        \<lparr>index_in_transaction = 1, is_signer = False, is_writable = True\<rparr>,
        \<lparr>index_in_transaction = 2, is_signer = False, is_writable = False\<rparr>],
     dedup_map = (replicate 256 (- 1))[0 := 0, 1 := 1, 2 := 2], instruction_data = []\<rparr>"

definition caller_context :: transaction_context where
  "caller_context = (transaction_context_new
     [(1, plain_account 100), (2, own_account), (0, program_account), (50, program_account)] 5 64)
     \<lparr>instruction_stack := [0], instruction_trace := [caller_frame, default_frame]\<rparr>"

definition invoked_instruction :: instruction where
  "invoked_instruction = \<lparr>ix_program_id = 0,
     ix_accounts = [\<lparr>am_pubkey = 1, am_is_signer = True, am_is_writable = True\<rparr>, \<lparr>am_pubkey = 2, am_is_signer = False, am_is_writable = True\<rparr>],
     ix_data = [2, 30]\<rparr>"

lemma caller_context_simps:
  "account_keys caller_context = [1, 2, 0, 50]" "instruction_stack caller_context = [0]"
  "tx_accounts caller_context = [plain_account 100, own_account, program_account, program_account]"
  "instruction_trace caller_context = [caller_frame, default_frame]"
  by (simp_all add: caller_context_def transaction_context_new_def transaction_accounts_new_def)

lemma caller_context_ok:
  "frames_ok caller_context" "get_current_instruction_context caller_context = Inr caller_frame" "running caller_context = Inr 50"
  by (simp_all add: frames_ok_def caller_context_simps running_def context_defs result_defs caller_frame_def)

lemma caller_map_ok: "map_ok (dedup_map caller_frame) (instruction_accounts caller_frame)"
  by (auto simp: map_ok_def caller_frame_def nth_list_update)

lemma invoked_runs:
  "\<exists>tc. native_invoke tx_runtime tx_programs caller_context invoked_instruction [] = Inr tc \<and>
     tas_accounts (accounts tc) = [plain_account 70, own_account\<lparr>sa_lamports := 38\<rparr>, program_account, program_account]"
  apply (simp add: native_invoke_def prepare_next_instruction_def caller_context_ok invoked_instruction_def find_index_of_account_def
      caller_context_simps get_at_def result_defs MAX_ACCOUNTS_PER_TRANSACTION_def)
  apply (simp add: caller_frame_def get_index_of_account_in_instruction_def find_index_of_instruction_account_def
      get_index_of_instruction_account_in_transaction_def get_at_def result_defs caller_context_simps)
  apply (simp add: run_defs caller_context_def context_defs result_defs tx_runtime_def tx_programs_def account_defs program_account_def)
  apply (simp add: system_entrypoint_def context_defs result_defs tx_decode_def system_process_def transfer_def transfer_verified_def)
  apply (simp add: account_defs context_defs result_defs plain_account_def own_account_def Let_def program_account_def)
  done

section \<open>Invocations\<close>

lemma prepare_program:
  assumes p: "prepare_next_instruction tc ix signers = Inr tc'" and cur: "get_current_instruction_context tc = Inr caller"
    and len: "length (instruction_accounts caller) \<le> 65536" and q: "get_program_key tc' (last (instruction_trace tc')) = Inr q"
  shows "q = ix_program_id ix"
  using p
proof (rule prepare_next_instruction_Inr)
  fix caller' m ias i j
  assume cur': "get_current_instruction_context tc = Inr caller'" and i: "find_index_of_instruction_account tc caller' (ix_program_id ix) = Some i"
    and j: "get_index_of_instruction_account_in_transaction caller' i = Inr j"
    and tc': "tc' = set_last_frame tc ((last (instruction_trace tc))
       \<lparr>program_account_index_in_tx := j, instruction_accounts := ias, instruction_data := ix_data ix, dedup_map := m\<rparr>)"
  have c: "caller' = caller" using cur cur' by simp
  from i obtain n where n: "i = of_nat n" "n < length (instruction_accounts caller)"
    "get_at (account_keys tc) (unat (index_in_transaction (instruction_accounts caller ! n))) = Some (ix_program_id ix)"
    unfolding c find_index_of_instruction_account_def by (auto dest: position_Some)
  have "unat i = n" using n(1,2) len by (simp add: unsigned_of_nat take_bit_nat_eq_self)
  then have "j = index_in_transaction (instruction_accounts caller ! n)"
    using j n(2) unfolding c by (auto simp: get_index_of_instruction_account_in_transaction_def get_at_def ok_or_def and_then_def)
  then show ?thesis
    using q n(3) tc' by (auto simp: get_program_key_def get_index_of_program_account_in_transaction_def get_key_of_account_at_index_def
        ok_or_def and_then_def split: if_splits)
qed

lemma ran_protected:
  assumes "ran rt tc tc'" and f: "frames_ok tc" and "on_stack tc p" and "p \<noteq> rt_sysvar_id rt"
    and "\<And>q. get_program_key tc (last (instruction_trace tc)) = Inr q \<Longrightarrow> q \<noteq> p"
  shows "accounts_protected p (accounts tc) (accounts tc')"
proof -
  from assms(1) obtain tc1 tc2 where *: "ic_push rt tc = Inr tc1" "body rt tc1 tc2" "tc_pop tc2 = Inr tc'"
    by (auto simp: ran_def)
  have push: "tc_push rt tc = Inr tc1" using *(1) by (rule ic_push_Inr)
  have "waiting rt p tc1"
    using assms(3-5) on_stack_push [OF *(1) f] push_running(1,2) [OF *(1) f] by (auto simp: waiting_def)
  then have "accounts_protected p (accounts tc1) (accounts tc2)"
    using foreign.body_kept [OF *(2)] push_frames(2) [OF *(1) f] by blast
  then show ?thesis using push_protected [OF push assms(4)] tc_pop_Inr(2) [OF *(3)] accounts_protected_trans by metis
qed

lemma running_on_stack:
  assumes "running tc = Inr p"
  shows "on_stack tc p"
proof -
  have "instruction_stack tc \<noteq> []" using assms by (auto simp: running_def get_current_instruction_context_def get_instruction_stack_height_def
      and_then_Inr_iff err_if_Inr_iff)
  then show ?thesis
    using assms unfolding on_stack_def running_def get_current_instruction_context_def get_instruction_stack_height_def
    by (intro exI [of _ "length (instruction_stack tc) - 1"]) (auto simp: and_then_Inr_iff)
qed

lemma invocation_kept:
  assumes "well_behaved_programs rt pr" and "frames_ok tc" and "get_current_instruction_context tc = Inr caller"
    and "running tc = Inr p" and "length (instruction_accounts caller) \<le> 65536" and "p \<noteq> rt_sysvar_id rt" and "ix_program_id ix \<noteq> p"
    and "native_invoke rt pr tc ix signers = Inr tc'"
  shows "accounts_protected p (accounts tc) (accounts tc')" and "frames_kept tc tc'" and "running tc' = Inr p"
    and "same_ledger (accounts tc) (accounts tc')"
proof -
  from assms(8) obtain tc1 where p: "prepare_next_instruction tc ix signers = Inr tc1" and r: "ran rt tc1 tc'"
    using process_instruction_ran [OF assms(1)] by (auto simp: native_invoke_def and_then_Inr_iff)
  note prep = prepare_frames [OF p]
  have f1: "frames_ok tc1" using prep(2) assms(2) .
  have "on_stack tc1 p" using on_stack_kept [OF assms(2) prep(1,3)] running_on_stack [OF assms(4)] by simp
  moreover have "q \<noteq> p" if "get_program_key tc1 (last (instruction_trace tc1)) = Inr q" for q
    using prepare_program [OF p assms(3,5) that] assms(7) by simp
  ultimately show "accounts_protected p (accounts tc) (accounts tc')"
    using ran_protected [OF r f1 _ assms(6)] prep(4) by metis
  show k: "frames_kept tc tc'" using frames_kept_trans [OF prep(1) ran_frames(2) [OF r f1]] .
  show "running tc' = Inr p" using current_frame_kept(3) [OF assms(2) k] ran_frames(3) [OF r f1] prep(3) assms(4) by simp
  show "same_ledger (accounts tc) (accounts tc')" using ran_ledger(1) [OF r f1] prep(4) by simp
qed

text \<open>
  Claim C34. Invoking another program is safe for the accounts of the caller. Whatever the invoked
  program does, and whatever the programs do that it invokes in turn, when the invocation returns
  every account that belonged to the caller still belongs to it, holds the same data and executable
  flag and at least the same lamports; accounts that the caller gained have zeroed data. The caller is
  running again, and no lamports appeared or vanished. This is the assumption under which the
  handlers of the vault and restaking programs call the token and system programs.
\<close>

theorem invocation_protects_caller:
  assumes "well_behaved_programs rt pr" and "frames_ok tc" and "get_current_instruction_context tc = Inr caller"
    and "running tc = Inr p" and "length (instruction_accounts caller) \<le> 65536" and "p \<noteq> rt_sysvar_id rt" and "ix_program_id ix \<noteq> p"
    and "native_invoke rt pr tc ix signers = Inr tc'"
  shows "length (tx_accounts tc') = length (tx_accounts tc) \<and> running tc' = Inr p \<and>
    total_lamports (accounts tc') - tas_lamports_delta (accounts tc') = total_lamports (accounts tc) - tas_lamports_delta (accounts tc) \<and>
    (\<forall>i<length (tx_accounts tc).
       (sa_owner (tx_accounts tc ! i) = p \<longrightarrow> sa_owner (tx_accounts tc' ! i) = p \<and> sa_data (tx_accounts tc' ! i) = sa_data (tx_accounts tc ! i) \<and>
          sa_executable (tx_accounts tc' ! i) = sa_executable (tx_accounts tc ! i) \<and> sa_lamports (tx_accounts tc ! i) \<le> sa_lamports (tx_accounts tc' ! i)) \<and>
       (sa_owner (tx_accounts tc' ! i) = p \<longrightarrow> sa_owner (tx_accounts tc ! i) = p \<or> is_zeroed (sa_data (tx_accounts tc' ! i))))"
  using invocation_kept [OF assms]
  by (auto simp: accounts_protected_def account_protected_def same_ledger_def)

theorem invocation_protects_caller_witness:
  "\<exists>tc. native_invoke tx_runtime tx_programs caller_context invoked_instruction [] = Inr tc \<and> running tc = Inr 50 \<and>
     sa_owner (tx_accounts tc ! 1) = 50 \<and> sa_data (tx_accounts tc ! 1) = [1, 2] \<and> 8 \<le> sa_lamports (tx_accounts tc ! 1)"
proof -
  obtain tc where "native_invoke tx_runtime tx_programs caller_context invoked_instruction [] = Inr tc" using invoked_runs by blast
  with invocation_protects_caller [OF _ caller_context_ok, of tx_runtime tx_programs invoked_instruction "[]" tc]
    tx_programs_well_behaved
  show ?thesis
    by (simp add: tx_env_def caller_context_simps caller_frame_def tx_runtime_def invoked_instruction_def own_account_def All_less_Suc2)
qed

section \<open>Privileges\<close>

text \<open>
  Claim C35. \<open>prepare_next_instruction\<close> gives every account of the new instruction the privileges
  asked for it, also where an account is listed several times, and grants none that the caller does
  not have itself: a writable account is writable for the caller, a signer signs for the caller or is
  among the addresses the caller may sign for. The map from accounts to first entries, through which
  the check finds the account of the caller, is right again for the new instruction.
\<close>

theorem invocation_grants_no_privileges:
  assumes "prepare_next_instruction tc ix signers = Inr tc'" and "get_current_instruction_context tc = Inr caller"
    and "map_ok (dedup_map caller) (instruction_accounts caller)"
    and "check_instruction_size (length (ix_accounts ix)) (length (ix_data ix))" and "length (account_keys tc) \<le> 65536"
  shows "list_all2 (\<lambda>meta ia.
      get_at (account_keys tc) (unat (index_in_transaction ia)) = Some (am_pubkey meta) \<and>
      (am_is_signer meta \<longrightarrow> is_signer ia) \<and> (am_is_writable meta \<longrightarrow> is_writable ia) \<and>
      (\<exists>c\<in>set (instruction_accounts caller). index_in_transaction c = index_in_transaction ia \<and>
         (is_writable ia \<longrightarrow> is_writable c) \<and> (is_signer ia \<longrightarrow> is_signer c \<or> am_pubkey meta \<in> set signers)))
      (ix_accounts ix) (instruction_accounts (last (instruction_trace tc'))) \<and>
    map_ok (dedup_map (last (instruction_trace tc'))) (instruction_accounts (last (instruction_trace tc')))"
  using prepare_privileges [OF assms(1-3) _ assms(5)] assms(4)
  by (simp add: check_instruction_size_def MAX_ACCOUNTS_PER_INSTRUCTION_def asked_def granted_def conj_assoc)

theorem invocation_grants_no_privileges_witness:
  "\<exists>tc. prepare_next_instruction caller_context invoked_instruction [] = Inr tc \<and>
     list_all2 (\<lambda>meta ia. get_at (account_keys caller_context) (unat (index_in_transaction ia)) = Some (am_pubkey meta) \<and>
       (\<exists>c\<in>set (instruction_accounts caller_frame). index_in_transaction c = index_in_transaction ia \<and> (is_signer ia \<longrightarrow> is_signer c)))
       (ix_accounts invoked_instruction) (instruction_accounts (last (instruction_trace tc)))"
proof -
  obtain tc where "prepare_next_instruction caller_context invoked_instruction [] = Inr tc"
    using invoked_runs by (auto simp: native_invoke_def and_then_Inr_iff)
  with invocation_grants_no_privileges [OF this caller_context_ok(2) caller_map_ok] show ?thesis
    by (auto simp: check_instruction_size_def MAX_ACCOUNTS_PER_INSTRUCTION_def MAX_INSTRUCTION_DATA_LEN_def invoked_instruction_def
        caller_context_simps elim!: list_all2_mono)
qed

end
