(* ===== verification/Runtime_Contract.thy ===== *)
theory Runtime_Contract
  imports Account_Bytes Invocation_Safety
begin

text \<open>
  The runtime keeps the contract under which the handlers of the vault and restaking programs are
  verified. Theory \<open>Account_Registry\<close> assumes of an invocation that it is a step of other programs
  and that the system program hands over the accounts it creates; here both are theorems about
  \<open>native_invoke\<close>, on the chain that the accounts of a transaction are part of.
\<close>

section \<open>The chain during a transaction\<close>

definition raw_of :: "shared_account \<Rightarrow> raw_account" where
  "raw_of a = \<lparr>r_lamports = sa_lamports a, r_owner = sa_owner a, r_data = sa_data a\<rparr>"

lemma raw_of_simps [simp]:
  "r_lamports (raw_of a) = sa_lamports a" "r_owner (raw_of a) = sa_owner a" "r_data (raw_of a) = sa_data a"
  by (simp_all add: raw_of_def)

text \<open>The accounts of the transaction in front of the rest of the chain.\<close>

definition chain_of :: "raw_bank \<Rightarrow> transaction_context \<Rightarrow> raw_bank" where
  "chain_of rest tc key =
     (case position (\<lambda>k. k = key) (account_keys tc) of Some i \<Rightarrow> raw_of (tx_accounts tc ! i) | None \<Rightarrow> rest key)"

lemma position_None: "position P xs = None \<longleftrightarrow> (\<forall>x\<in>set xs. \<not> P x)"
  by (induction xs) auto

lemma chain_of_nth:
  assumes "i < length (account_keys tc)" and "distinct (account_keys tc)" and "account_keys tc ! i = key"
  shows "chain_of rest tc key = raw_of (tx_accounts tc ! i)"
proof -
  obtain j where j: "position (\<lambda>k. k = key) (account_keys tc) = Some j"
    using assms(1,3) by (cases "position (\<lambda>k. k = key) (account_keys tc)") (auto simp: position_None dest: nth_mem)
  then have "j = i" using position_Some [OF j] assms by (auto simp: nth_eq_iff_index_eq)
  with j show ?thesis by (simp add: chain_of_def)
qed

lemma chain_of_unchanged:
  assumes "account_keys tc' = account_keys tc" and "key \<notin> S"
    and "\<And>i. i < length (account_keys tc) \<Longrightarrow> account_keys tc ! i \<notin> S \<Longrightarrow> tx_accounts tc' ! i = tx_accounts tc ! i"
  shows "chain_of rest tc' key = chain_of rest tc key"
  using assms by (auto simp: chain_of_def split: option.splits dest!: position_Some)

lemma zeroed_view: "is_zeroed data \<Longrightarrow> owner_view vp rp holder data = Bytes (replicate (length data) 0)"
  by (metis is_zeroed_replicate owner_view_def view_zeroed)

section \<open>Invocations are steps of other programs\<close>

text \<open>
  Claim C39. What a program sees of an invocation of another one is a step of other programs: on the
  bank of structs that the bytes of the accounts stand for, the accounts of the caller keep their
  owner and their structs, and every account that it is given holds zeroed bytes. This is the rule
  under which the invariants of the restaking and vault programs are proved.
\<close>

theorem invocation_is_outside_step:
  assumes "well_behaved_programs rt pr" and "frames_ok tc" and "get_current_instruction_context tc = Inr caller"
    and "running tc = Inr p" and "length (instruction_accounts caller) \<le> 65536" and "p \<noteq> rt_sysvar_id rt" and "ix_program_id ix \<noteq> p"
    and "length (account_keys tc) = length (tx_accounts tc)" and "native_invoke rt pr tc ix signers = Inr tc'"
  shows "outside_step p (bank_view vp rp (chain_of rest tc)) (bank_view vp rp (chain_of rest tc'))"
proof -
  note kept = invocation_kept [OF assms(1-7,9)]
  have "account_protected p (tx_accounts tc ! i) (tx_accounts tc' ! i)" if "position (\<lambda>k. k = key) (account_keys tc) = Some i" for i key
    using kept(1) position_Some [OF that] assms(8) by (simp add: accounts_protected_def)
  moreover have "account_keys tc' = account_keys tc" using kept(2) by (simp add: frames_kept_def)
  ultimately show ?thesis
    by (fastforce simp: outside_step_def keeps_owned_def gives_zeroed_def bank_view_def chain_of_def account_protected_def zeroed_view
        split: option.splits)
qed

theorem invocation_is_outside_step_witness:
  "\<exists>tc. native_invoke tx_runtime tx_programs caller_context invoked_instruction [] = Inr tc \<and>
     outside_step 50 (bank_view 50 60 (chain_of (\<lambda>_. raw_of (plain_account 0)) caller_context))
       (bank_view 50 60 (chain_of (\<lambda>_. raw_of (plain_account 0)) tc))"
proof -
  obtain tc where "native_invoke tx_runtime tx_programs caller_context invoked_instruction [] = Inr tc" using invoked_runs by blast
  with invocation_is_outside_step [OF _ caller_context_ok, of tx_runtime tx_programs invoked_instruction "[]" tc] tx_programs_well_behaved
  show ?thesis by (simp add: tx_env_def caller_context_simps caller_frame_def tx_runtime_def invoked_instruction_def)
qed

section \<open>The system program\<close>

lemma borrow_Inr:
  assumes "try_borrow_instruction_account tc frame i = Inr (ba, tc')"
  shows "tx_accounts tc' = tx_accounts tc" and "unat i < length (instruction_accounts frame)"
    and "unat (index_in_transaction (instruction_accounts frame ! unat i)) < length (tx_accounts tc)"
    and "get_index_in_transaction ba = index_in_transaction (instruction_accounts frame ! unat i)"
    and "ba_account tc' ba = tx_accounts tc ! unat (index_in_transaction (instruction_accounts frame ! unat i))"
  using assms
  by (auto simp: try_borrow_instruction_account_def tas_try_borrow_mut_def get_index_in_transaction_def ba_account_def get_at_iff
      and_then_Inr_iff ok_or_Inr_iff err_if_Inr_iff)

lemma drop_accounts [simp]: "tx_accounts (drop_account tc ba) = tx_accounts tc"
  by (simp add: drop_account_def tas_drop_def)

text \<open>The accounts after moving lamports from index \<open>a\<close> to index \<open>b\<close>.\<close>

definition paid :: "nat \<Rightarrow> nat \<Rightarrow> u64 \<Rightarrow> shared_account list \<Rightarrow> shared_account list" where
  "paid a b lamports xs =
     (let xs = xs[a := (xs ! a)\<lparr>sa_lamports := sa_lamports (xs ! a) - lamports\<rparr>] in
      xs[b := (xs ! b)\<lparr>sa_lamports := sa_lamports (xs ! b) + lamports\<rparr>])"

lemma lamports_Inr:
  shows "checked_sub_lamports tc ba n = Inr tc' \<Longrightarrow> tx_accounts tc' = (tx_accounts tc)
      [unat (get_index_in_transaction ba) := (ba_account tc ba)\<lparr>sa_lamports := sa_lamports (ba_account tc ba) - n\<rparr>]"
    and "checked_add_lamports tc ba n = Inr tc' \<Longrightarrow> tx_accounts tc' = (tx_accounts tc)
      [unat (get_index_in_transaction ba) := (ba_account tc ba)\<lparr>sa_lamports := sa_lamports (ba_account tc ba) + n\<rparr>]"
  by (auto simp: checked_sub_lamports_def checked_add_lamports_def checked_add_def checked_sub_def get_lamports_def and_then_Inr_iff
      ok_or_Inr_iff op_outcome_def split: if_splits dest!: set_lamports_outcome)

lemma transfer_Inr:
  assumes "transfer sy tc frame i j lamports = Inr tc'"
  defines "a \<equiv> unat (index_in_transaction (instruction_accounts frame ! unat i))"
    and "b \<equiv> unat (index_in_transaction (instruction_accounts frame ! unat j))"
  shows "is_signer (instruction_accounts frame ! unat i)" and "sa_data (tx_accounts tc ! a) = []"
    and "lamports \<le> sa_lamports (tx_accounts tc ! a)" and "tx_accounts tc' = paid a b lamports (tx_accounts tc)"
proof -
  from assms(1) obtain payer tc1 tc2 to tc3 tc4 where *:
    "unat i < length (instruction_accounts frame)" "is_signer (instruction_accounts frame ! unat i)"
    "try_borrow_instruction_account tc frame i = Inr (payer, tc1)" "get_data tc1 payer = []" "lamports \<le> get_lamports tc1 payer"
    "checked_sub_lamports tc1 payer lamports = Inr tc2"
    "try_borrow_instruction_account (drop_account tc2 payer) frame j = Inr (to, tc3)"
    "checked_add_lamports tc3 to lamports = Inr tc4" "tc' = drop_account tc4 to"
    by (auto simp: transfer_def transfer_verified_def is_instruction_account_signer_def Let_def get_at_iff and_then_Inr_iff ok_or_Inr_iff
        err_if_Inr_iff not_less)
  note 1 = borrow_Inr [OF *(3)] and 2 = borrow_Inr [OF *(7)]
  show "is_signer (instruction_accounts frame ! unat i)" "sa_data (tx_accounts tc ! a) = []" "lamports \<le> sa_lamports (tx_accounts tc ! a)"
    using *(2,4,5) 1(5) by (simp_all add: get_data_def get_lamports_def a_def)
  have "tx_accounts tc2 = (tx_accounts tc)[a := (tx_accounts tc ! a)\<lparr>sa_lamports := sa_lamports (tx_accounts tc ! a) - lamports\<rparr>]"
    using lamports_Inr(1) [OF *(6)] 1 by (simp add: a_def)
  with lamports_Inr(2) [OF *(8)] 2 show "tx_accounts tc' = paid a b lamports (tx_accounts tc)"
    by (simp add: *(9) paid_def b_def Let_def)
qed

lemma allocate_and_assign_Inr:
  assumes "allocate_and_assign sy tc ba ad space holder signers = Inr tc'" and "unat (get_index_in_transaction ba) < length (tx_accounts tc)"
  shows "address_is_signer ad signers" and "sa_data (ba_account tc ba) = []" and "sa_owner (ba_account tc ba) = sy_system_program sy"
    and "tx_accounts tc' = (tx_accounts tc)
      [unat (get_index_in_transaction ba) := (ba_account tc ba)\<lparr>sa_data := replicate (unat space) 0, sa_owner := holder\<rparr>]"
proof -
  from assms(1) obtain tc1 where 1: "allocate sy tc ba ad space signers = Inr tc1" "assign tc1 ba ad holder signers = Inr tc'"
    by (auto simp: allocate_and_assign_def and_then_Inr_iff)
  from 1(1) show s: "address_is_signer ad signers" "sa_data (ba_account tc ba) = []" "sa_owner (ba_account tc ba) = sy_system_program sy"
    by (auto simp: allocate_def get_data_def get_owner_def and_then_Inr_iff err_if_Inr_iff)
  have "tx_accounts tc1 = (tx_accounts tc)[unat (get_index_in_transaction ba) := (ba_account tc ba)\<lparr>sa_data := replicate (unat space) 0\<rparr>]"
    using 1(1) s(2) by (auto simp: allocate_def get_data_def resize_def op_outcome_def and_then_Inr_iff dest!: data_op_outcome(3))
  moreover have "tx_accounts tc' = (tx_accounts tc1)[unat (get_index_in_transaction ba) := (ba_account tc1 ba)\<lparr>sa_owner := holder\<rparr>]"
    using 1(2) by (auto simp: assign_def get_owner_def ba_account_def op_outcome_def and_then_Inr_iff split: if_splits dest!: set_owner_outcome)
  ultimately show "tx_accounts tc' = (tx_accounts tc)
      [unat (get_index_in_transaction ba) := (ba_account tc ba)\<lparr>sa_data := replicate (unat space) 0, sa_owner := holder\<rparr>]"
    using assms(2) by (simp add: ba_account_def)
qed

lemma system_create_account_Inr:
  assumes "system_create_account sy tc frame i j ad lamports space holder signers = Inr tc'"
  defines "a \<equiv> unat (index_in_transaction (instruction_accounts frame ! unat i))"
    and "b \<equiv> unat (index_in_transaction (instruction_accounts frame ! unat j))"
  defines "xs \<equiv> (tx_accounts tc)[b := (tx_accounts tc ! b)\<lparr>sa_data := replicate (unat space) 0, sa_owner := holder\<rparr>]"
  shows "address_is_signer ad signers" and "is_signer (instruction_accounts frame ! unat i)" and "b < length (tx_accounts tc)"
    and "sa_lamports (tx_accounts tc ! b) = 0" and "sa_data (tx_accounts tc ! b) = []" and "sa_owner (tx_accounts tc ! b) = sy_system_program sy"
    and "sa_data (xs ! a) = []" and "lamports \<le> sa_lamports (xs ! a)" and "tx_accounts tc' = paid a b lamports xs"
proof -
  from assms(1) obtain to tc1 tc2 where *: "try_borrow_instruction_account tc frame j = Inr (to, tc1)" "get_lamports tc1 to = 0"
    "allocate_and_assign sy tc1 to ad space holder signers = Inr tc2"
    and t: "transfer sy (drop_account tc2 to) frame i j lamports = Inr tc'"
    by (auto simp: system_create_account_def and_then_Inr_iff err_if_Inr_iff word_gt_0)
  note 1 = borrow_Inr [OF *(1), folded b_def]
  have b: "unat (get_index_in_transaction to) < length (tx_accounts tc1)" using 1(1,3,4) by (simp add: b_def)
  note 2 = allocate_and_assign_Inr [OF *(3) b]
  have xs: "tx_accounts (drop_account tc2 to) = xs" using 2(4) 1 by (simp add: xs_def b_def)
  show "address_is_signer ad signers" "b < length (tx_accounts tc)" "sa_lamports (tx_accounts tc ! b) = 0" "sa_data (tx_accounts tc ! b) = []"
    "sa_owner (tx_accounts tc ! b) = sy_system_program sy"
    using 1 2 *(2) by (simp_all add: get_lamports_def)
  show "is_signer (instruction_accounts frame ! unat i)" "sa_data (xs ! a) = []" "lamports \<le> sa_lamports (xs ! a)"
    "tx_accounts tc' = paid a b lamports xs"
    using transfer_Inr [OF t] unfolding xs a_def b_def by simp_all
qed

section \<open>Invoking a builtin program\<close>

text \<open>What the caller gives an invocation: an address signs if it signs for the caller or the caller may sign for it.\<close>

definition may_sign :: "transaction_context \<Rightarrow> instruction_frame \<Rightarrow> pubkey list \<Rightarrow> pubkey \<Rightarrow> bool" where
  "may_sign tc caller signers key \<longleftrightarrow>
     key \<in> set signers \<or>
     (\<exists>c\<in>set (instruction_accounts caller). is_signer c \<and> get_at (account_keys tc) (unat (index_in_transaction c)) = Some key)"

definition invokable :: "transaction_context \<Rightarrow> instruction_frame \<Rightarrow> instruction \<Rightarrow> bool" where
  "invokable tc caller ix \<longleftrightarrow>
     frames_ok tc \<and> get_current_instruction_context tc = Inr caller \<and> map_ok (dedup_map caller) (instruction_accounts caller) \<and>
     length (instruction_accounts caller) \<le> 65536 \<and> length (ix_accounts ix) \<le> 255 \<and> distinct (account_keys tc) \<and>
     length (account_keys tc) = length (tx_accounts tc) \<and> length (account_keys tc) \<le> 65536"

lemma builtin_invoked:
  assumes inv: "native_invoke rt pr tc ix signers = Inr tc'" and ok: "invokable tc caller ix"
    and entry: "pr_entry pr (ix_program_id ix) = Some function" and native: "r_owner (chain_of rest tc (ix_program_id ix)) = pr_native_loader pr"
  obtains tc2 frame tc3 units where "get_current_instruction_context tc2 = Inr frame" "instruction_data frame = ix_data ix"
    "list_all2 (\<lambda>meta ia. asked (account_keys tc) meta ia \<and> granted caller signers (am_pubkey meta) ia) (ix_accounts ix) (instruction_accounts frame)"
    "account_keys tc2 = account_keys tc" "length (tx_accounts tc2) = length (tx_accounts tc)"
    "\<And>i. i < length (tx_accounts tc) \<Longrightarrow> account_keys tc ! i \<noteq> rt_instructions_id rt \<Longrightarrow> tx_accounts tc2 ! i = tx_accounts tc ! i"
    "function tc2 = (Inr tc3, units)" "tx_accounts tc' = tx_accounts tc3" "account_keys tc' = account_keys tc3"
proof -
  note ok = ok [unfolded invokable_def]
  from inv obtain tc1 tc2 tc3 where p: "prepare_next_instruction tc ix signers = Inr tc1" and push: "ic_push rt tc1 = Inr tc2"
    and run: "process_executable_chain pr tc2 = Inr tc3" and pop: "tc_pop tc3 = Inr tc'"
    by (auto simp: native_invoke_def process_instruction_def and_then_Inr_iff)
  have "tc_push rt tc1 = Inr tc2" using push by (rule ic_push_Inr)
  note prep = prepare_frames [OF p] and pushed = tc_push_Inr [OF this]
  let ?frame = "(last (instruction_trace tc1))\<lparr>nesting_level := length (instruction_stack tc1)\<rparr>"
  have cur: "get_current_instruction_context tc2 = Inr ?frame" using push_running(3) [OF push] prep(2) ok by blast
  have keys: "account_keys tc2 = account_keys tc" using prep(1) pushed(5) by (simp add: frames_kept_def)
  have same: "tx_accounts tc2 ! i = tx_accounts tc ! i \<or> account_keys tc ! i = rt_instructions_id rt \<and> sa_owner (tx_accounts tc2 ! i) = sa_owner (tx_accounts tc ! i)"
    if "i < length (tx_accounts tc)" for i
    using pushed(8) [of i] that prep(1,4) ok by (auto simp: frames_kept_def get_at_iff unsigned_of_nat take_bit_nat_eq_self dest!: find_index_of_account_Some)
  obtain q where q: "get_program_key tc2 ?frame = Inr q" using run cur by (auto simp: process_executable_chain_def and_then_Inr_iff)
  then have q1: "get_program_key tc1 (last (instruction_trace tc1)) = Inr q"
    using get_program_key_cong [of tc2 tc1] pushed(5)
    by (auto simp: get_program_key_def get_index_of_program_account_in_transaction_def split: if_splits)
  have q_id: "q = ix_program_id ix" using prepare_program [OF p _ _ q1] ok by blast
  obtain owner_id where holder: "get_program_owner tc2 ?frame = Inr owner_id"
    using run cur by (auto simp: process_executable_chain_def and_then_Inr_iff)
  let ?j = "unat (program_account_index_in_tx ?frame)"
  have j: "?j < length (account_keys tc)" "account_keys tc ! ?j = q" "owner_id = sa_owner (tx_accounts tc2 ! ?j)"
    using holder q keys
    by (auto simp: get_program_owner_def get_program_key_def get_index_of_program_account_in_transaction_def get_key_of_account_at_index_def
        tas_try_borrow_def get_at_iff and_then_Inr_iff ok_or_Inr_iff err_if_Inr_iff split: if_splits)
  then have "chain_of rest tc q = raw_of (tx_accounts tc ! ?j)" using chain_of_nth ok by blast
  then have "owner_id = pr_native_loader pr" using j same [of ?j] native q_id ok by auto
  with run cur q entry holder obtain units where "function (set_return_data tc2 q []) = (Inr tc3, units)"
    by (auto simp: process_executable_chain_def q_id and_then_Inr_iff ok_or_Inr_iff err_if_Inr_iff split: prod.splits)
  moreover have "instruction_data ?frame = ix_data ix" using p by (rule prepare_next_instruction_Inr) simp
  moreover have "list_all2 (\<lambda>meta ia. asked (account_keys tc) meta ia \<and> granted caller signers (am_pubkey meta) ia) (ix_accounts ix)
      (instruction_accounts ?frame)" using prepare_privileges(2) [OF p] ok by simp
  moreover have "get_current_instruction_context (set_return_data tc2 q []) = Inr ?frame"
    using cur by (simp add: set_return_data_def get_current_instruction_context_def get_instruction_stack_height_def
        get_instruction_context_at_nesting_level_def get_instruction_context_at_index_in_trace_def)
  ultimately show ?thesis
    using that [of "set_return_data tc2 q []" ?frame tc3 units] keys same tc_pop_Inr(2,3) [OF pop] pushed(1) prep(4)
    by (auto simp: set_return_data_def)
qed

section \<open>Creating accounts\<close>

lemma get_signers_Inr:
  assumes "get_signers tc frame = Inr S" and "key \<in> S"
  shows "\<exists>ia\<in>set (instruction_accounts frame). is_signer ia \<and> get_at (account_keys tc) (unat (index_in_transaction ia)) = Some key"
proof -
  have "\<exists>ia\<in>set ias. is_signer ia \<and> get_at (account_keys tc) (unat (index_in_transaction ia)) = Some key"
    if "get_signers_loop tc ias S0 = Inr S" "key \<notin> S0" for ias S0
    using that assms(2)
    by (induction ias arbitrary: S0) (fastforce simp: get_key_of_account_at_index_def and_then_Inr_iff ok_or_Inr_iff split: if_splits)+
  then show ?thesis using assms by (auto simp: get_signers_def)
qed

lemma granted_signed:
  assumes "list_all2 (\<lambda>meta ia. asked (account_keys tc) meta ia \<and> granted caller signers (am_pubkey meta) ia) metas ias"
    and "ia \<in> set ias" and "is_signer ia" and "get_at (account_keys tc) (unat (index_in_transaction ia)) = Some key"
  shows "may_sign tc caller signers key"
  using assms by (fastforce simp: list_all2_conv_all_nth in_set_conv_nth asked_def granted_def may_sign_def)

lemma paid_nth:
  assumes "a < length xs" and "b < length xs" and "lamports \<le> sa_lamports (xs ! a)"
  shows "i < length xs \<Longrightarrow> i \<noteq> a \<Longrightarrow> i \<noteq> b \<Longrightarrow> paid a b lamports xs ! i = xs ! i"
    and "a \<noteq> b \<Longrightarrow> paid a b lamports xs ! a = (xs ! a)\<lparr>sa_lamports := sa_lamports (xs ! a) - lamports\<rparr>"
    and "paid a b lamports xs ! b = (xs ! b)\<lparr>sa_lamports := sa_lamports (xs ! b) + (if a = b then 0 else lamports)\<rparr>"
  using assms by (auto simp: paid_def Let_def nth_list_update)

lemma paid_length [simp]: "length (paid a b lamports xs) = length xs"
  by (simp add: paid_def Let_def)

lemma create_entries:
  fixes n :: nat and holder :: pubkey
  assumes "a < length xs" and "b < length xs" and "sa_lamports (xs ! b) = 0"
  defines "ys \<equiv> xs[b := (xs ! b)\<lparr>sa_data := replicate n 0, sa_owner := holder\<rparr>]"
  assumes "lamports \<le> sa_lamports (ys ! a)"
  shows "lamports \<le> sa_lamports (xs ! a)"
    and "raw_of (paid a b lamports ys ! b) = \<lparr>r_lamports = lamports, r_owner = holder, r_data = replicate n 0\<rparr>"
    and "a \<noteq> b \<Longrightarrow> paid a b lamports ys ! a = (xs ! a)\<lparr>sa_lamports := sa_lamports (xs ! a) - lamports\<rparr>"
    and "i < length xs \<Longrightarrow> i \<noteq> a \<Longrightarrow> i \<noteq> b \<Longrightarrow> paid a b lamports ys ! i = xs ! i"
  using assms paid_nth [of a ys b lamports] by (auto simp: raw_of_def nth_list_update split: if_splits)

lemma create_invoked:
  assumes inv: "native_invoke rt pr tc ix signers = Inr tc'" and ok: "invokable tc caller ix"
    and entry: "pr_entry pr (ix_program_id ix) = Some (\<lambda>tc. (system_entrypoint sy decode tc, units))"
    and native: "r_owner (chain_of rest tc (ix_program_id ix)) = pr_native_loader pr"
    and decoded: "decode (ix_data ix) = Inr (CreateAccount lamports space holder)" and metas: "ix_accounts ix = payer # new # others"
  obtains tc2 frame ia0 ia1 iar S tc3 where "instruction_accounts frame = ia0 # ia1 # iar"
    "list_all2 (\<lambda>meta ia. asked (account_keys tc) meta ia \<and> granted caller signers (am_pubkey meta) ia) (ix_accounts ix) (instruction_accounts frame)"
    "account_keys tc2 = account_keys tc" "length (tx_accounts tc2) = length (tx_accounts tc)"
    "\<And>i. i < length (tx_accounts tc) \<Longrightarrow> account_keys tc ! i \<noteq> rt_instructions_id rt \<Longrightarrow> tx_accounts tc2 ! i = tx_accounts tc ! i"
    "get_signers tc2 frame = Inr S"
    "system_create_account sy tc2 frame 0 1 \<lparr>ad_address = am_pubkey new, ad_base = None\<rparr> lamports space holder S = Inr tc3"
    "tx_accounts tc' = tx_accounts tc3" "account_keys tc' = account_keys tc"
proof -
  obtain tc2 frame tc3 n where cur: "get_current_instruction_context tc2 = Inr frame"
    and data: "instruction_data frame = ix_data ix"
    and ias: "list_all2 (\<lambda>meta ia. asked (account_keys tc) meta ia \<and> granted caller signers (am_pubkey meta) ia) (ix_accounts ix)
      (instruction_accounts frame)"
    and keys: "account_keys tc2 = account_keys tc" and len: "length (tx_accounts tc2) = length (tx_accounts tc)"
    and same: "\<And>i. i < length (tx_accounts tc) \<Longrightarrow> account_keys tc ! i \<noteq> rt_instructions_id rt \<Longrightarrow> tx_accounts tc2 ! i = tx_accounts tc ! i"
    and run: "(\<lambda>tc. (system_entrypoint sy decode tc, units)) tc2 = (Inr tc3, n)" and tc': "tx_accounts tc' = tx_accounts tc3" "account_keys tc' = account_keys tc3"
    by (rule builtin_invoked [OF inv ok entry native]) (rule that)
  from ias metas obtain ia0 ia1 iar where ia: "instruction_accounts frame = ia0 # ia1 # iar" by (auto simp: list_all2_Cons1)
  from run obtain S where S: "get_signers tc2 frame = Inr S"
    and p: "system_process sy tc2 frame S (CreateAccount lamports space holder) = Inr tc3"
    using cur data decoded by (auto simp: system_entrypoint_def and_then_Inr_iff)
  have "get_at (account_keys tc2) (unat (index_in_transaction ia1)) = Some (am_pubkey new)" using ias keys by (simp add: metas ia asked_def)
  with p have "system_create_account sy tc2 frame 0 1 \<lparr>ad_address = am_pubkey new, ad_base = None\<rparr> lamports space holder S = Inr tc3"
    by (auto simp: system_process_def system_create_def address_create_def get_key_of_instruction_account_def ia
        get_index_of_instruction_account_in_transaction_def get_key_of_account_at_index_def get_at_iff and_then_Inr_iff ok_or_Inr_iff)
  moreover have "account_keys tc' = account_keys tc"
    using system_process_run [OF p cur] keys tc'(2) by (simp add: op_run_def same_frames_def)
  ultimately show ?thesis using that ia ias keys len same S tc'(1) by blast
qed

text \<open>
  Claim C40. A program that has the system program create an account gets it as asked, on the chain
  after the invocation: the account has the lamports and the owner named and the given number of zero
  bytes, the payer has paid the lamports, and no other account is changed but for the sysvar that the
  runtime keeps itself. It succeeds only for an address that was unused, with the signatures of the
  payer and of the new address, or the right of the caller to sign for them.
\<close>

theorem created_account_handed_over:
  assumes inv: "native_invoke rt pr tc ix signers = Inr tc'" and ok: "invokable tc caller ix"
    and entry: "pr_entry pr (ix_program_id ix) = Some (\<lambda>tc. (system_entrypoint sy decode tc, units))"
    and native: "r_owner (chain_of rest tc (ix_program_id ix)) = pr_native_loader pr"
    and decoded: "decode (ix_data ix) = Inr (CreateAccount lamports space holder)"
    and metas: "ix_accounts ix = payer # new # others" and sysvar: "rt_instructions_id rt \<notin> {am_pubkey payer, am_pubkey new}"
  shows "may_sign tc caller signers (am_pubkey payer) \<and> may_sign tc caller signers (am_pubkey new) \<and>
    chain_of rest tc (am_pubkey new) = \<lparr>r_lamports = 0, r_owner = sy_system_program sy, r_data = []\<rparr> \<and>
    lamports \<le> r_lamports (chain_of rest tc (am_pubkey payer)) \<and>
    chain_of rest tc' (am_pubkey new) = \<lparr>r_lamports = lamports, r_owner = holder, r_data = replicate (unat space) 0\<rparr> \<and>
    (am_pubkey payer \<noteq> am_pubkey new \<longrightarrow> chain_of rest tc' (am_pubkey payer) =
       (chain_of rest tc (am_pubkey payer))\<lparr>r_lamports := r_lamports (chain_of rest tc (am_pubkey payer)) - lamports\<rparr>) \<and>
    (\<forall>key. key \<notin> {am_pubkey payer, am_pubkey new, rt_instructions_id rt} \<longrightarrow> chain_of rest tc' key = chain_of rest tc key)"
proof -
  note o = ok [unfolded invokable_def]
  obtain tc2 frame ia0 ia1 iar S tc3 where ia: "instruction_accounts frame = ia0 # ia1 # iar"
    and ias: "list_all2 (\<lambda>meta ia. asked (account_keys tc) meta ia \<and> granted caller signers (am_pubkey meta) ia) (ix_accounts ix)
      (instruction_accounts frame)"
    and keys: "account_keys tc2 = account_keys tc" and len: "length (tx_accounts tc2) = length (tx_accounts tc)"
    and same: "\<And>i. i < length (tx_accounts tc) \<Longrightarrow> account_keys tc ! i \<noteq> rt_instructions_id rt \<Longrightarrow> tx_accounts tc2 ! i = tx_accounts tc ! i"
    and S: "get_signers tc2 frame = Inr S"
    and c: "system_create_account sy tc2 frame 0 1 \<lparr>ad_address = am_pubkey new, ad_base = None\<rparr> lamports space holder S = Inr tc3"
    and tc': "tx_accounts tc' = tx_accounts tc3" and k': "account_keys tc' = account_keys tc"
    by (rule create_invoked [OF inv ok entry native decoded metas]) (rule that)
  define a b where "a = unat (index_in_transaction ia0)" and "b = unat (index_in_transaction ia1)"
  have ab: "a < length (account_keys tc)" "account_keys tc ! a = am_pubkey payer" "b < length (account_keys tc)" "account_keys tc ! b = am_pubkey new"
    using ias by (auto simp: metas ia asked_def get_at_iff a_def b_def)
  note created = system_create_account_Inr [OF c, unfolded ia, simplified, folded a_def b_def]
  have a: "tx_accounts tc2 ! a = tx_accounts tc ! a" "tx_accounts tc2 ! b = tx_accounts tc ! b" "a < length (tx_accounts tc2)"
    using same ab sysvar o len by auto
  note entries = create_entries [OF a(3) created(3,4,8), folded created(9), folded tc']
  have chain: "chain_of rest tc (account_keys tc ! i) = raw_of (tx_accounts tc ! i)"
    "chain_of rest tc' (account_keys tc ! i) = raw_of (tx_accounts tc' ! i)" if "i < length (account_keys tc)" for i
    using chain_of_nth [of i tc] chain_of_nth [of i tc'] that o k' by auto
  have others: "chain_of rest tc' key = chain_of rest tc key" if "key \<notin> {am_pubkey payer, am_pubkey new, rt_instructions_id rt}" for key
    using k' that
  proof (rule chain_of_unchanged)
    fix i assume i: "i < length (account_keys tc)" "account_keys tc ! i \<notin> {am_pubkey payer, am_pubkey new, rt_instructions_id rt}"
    then have "i \<noteq> a" "i \<noteq> b" using ab by auto
    with i show "tx_accounts tc' ! i = tx_accounts tc ! i" using entries(4) [of i] same [of i] o len by auto
  qed
  have "may_sign tc caller signers (am_pubkey new)"
    using granted_signed [OF ias] get_signers_Inr [OF S] created(1) keys by (fastforce simp: address_is_signer_def)
  moreover have "may_sign tc caller signers (am_pubkey payer)"
    using granted_signed [OF ias, of ia0] created(2) ab(1,2) by (simp add: ia get_at_iff a_def)
  moreover have "am_pubkey payer \<noteq> am_pubkey new \<Longrightarrow> a \<noteq> b" using ab by auto
  ultimately show ?thesis
    using others chain [of a] chain [of b] entries(1-3) created(4-6) a ab by (auto simp: raw_of_def)
qed

text \<open>The sample caller creates an account at an address that it may sign for.\<close>

definition fresh_context :: transaction_context where
  "fresh_context = (transaction_context_new
     [(1, plain_account 100), (2, plain_account 0), (0, program_account), (50, program_account)] 5 64)
     \<lparr>instruction_stack := [0], instruction_trace := [caller_frame, default_frame]\<rparr>"

definition create_instruction :: instruction where
  "create_instruction = \<lparr>ix_program_id = 0,
     ix_accounts = [\<lparr>am_pubkey = 1, am_is_signer = True, am_is_writable = True\<rparr>, \<lparr>am_pubkey = 2, am_is_signer = True, am_is_writable = True\<rparr>],
     ix_data = [0, 30, 4]\<rparr>"

lemma fresh_context_simps:
  "account_keys fresh_context = [1, 2, 0, 50]" "instruction_stack fresh_context = [0]"
  "tx_accounts fresh_context = [plain_account 100, plain_account 0, program_account, program_account]"
  "instruction_trace fresh_context = [caller_frame, default_frame]"
  by (simp_all add: fresh_context_def transaction_context_new_def transaction_accounts_new_def)

lemma fresh_context_ok: "invokable fresh_context caller_frame create_instruction"
  "get_current_instruction_context fresh_context = Inr caller_frame"
  using caller_map_ok
  by (simp_all add: invokable_def frames_ok_def fresh_context_simps context_defs result_defs caller_frame_def create_instruction_def)

lemma sample_resize: "tas_resize_delta tas = 0 \<Longrightarrow> tas_can_data_be_resized tas 0 4 = Inr ()"
  by (simp add: tas_can_data_be_resized_def MAX_ACCOUNT_DATA_LEN_def MAX_ACCOUNT_DATA_GROWTH_PER_TRANSACTION_def saturate_i64_def as_i64_def
      result_defs)

lemma create_runs: "\<exists>tc. native_invoke tx_runtime tx_programs fresh_context create_instruction [2] = Inr tc"
  apply (simp add: native_invoke_def prepare_next_instruction_def fresh_context_ok create_instruction_def find_index_of_account_def
      fresh_context_simps get_at_def result_defs MAX_ACCOUNTS_PER_TRANSACTION_def)
  apply (simp add: caller_frame_def get_index_of_account_in_instruction_def find_index_of_instruction_account_def
      get_index_of_instruction_account_in_transaction_def get_at_def result_defs fresh_context_simps)
  apply (simp add: run_defs fresh_context_def context_defs result_defs tx_runtime_def tx_programs_def account_defs program_account_def)
  apply (simp add: system_entrypoint_def context_defs result_defs tx_decode_def system_process_def system_create_def address_create_def
      get_key_of_instruction_account_def get_index_of_instruction_account_in_transaction_def)
  apply (simp add: system_create_account_def allocate_and_assign_def allocate_def assign_def address_is_signer_def tx_system_def
      context_defs result_defs account_defs plain_account_def Let_def program_account_def)
  apply (simp add: set_data_length_def can_data_be_resized_def sample_resize can_data_be_changed_def resize_def
      ba_update_accounts_resize_delta_def tas_update_accounts_resize_delta_def account_defs context_defs result_defs)
  apply (simp add: set_owner_def is_zeroed_replicate address_is_signer_def account_defs context_defs result_defs)
  apply (simp add: transfer_def transfer_verified_def account_defs context_defs result_defs Let_def)
  done

theorem created_account_handed_over_witness:
  "\<exists>tc. native_invoke tx_runtime tx_programs fresh_context create_instruction [2] = Inr tc \<and>
     chain_of (\<lambda>_. raw_of (plain_account 0)) tc 2 = \<lparr>r_lamports = 30, r_owner = 7, r_data = replicate 4 0\<rparr> \<and>
     r_lamports (chain_of (\<lambda>_. raw_of (plain_account 0)) tc 1) = 70"
proof -
  obtain tc where run: "native_invoke tx_runtime tx_programs fresh_context create_instruction [2] = Inr tc" using create_runs by blast
  have entry: "pr_entry tx_programs (ix_program_id create_instruction) = Some (\<lambda>tc. (system_entrypoint tx_system tx_decode tc, 150))"
    by (simp add: tx_programs_def create_instruction_def)
  have native: "r_owner (chain_of (\<lambda>_. raw_of (plain_account 0)) fresh_context (ix_program_id create_instruction)) = pr_native_loader tx_programs"
    by (simp add: chain_of_def fresh_context_simps create_instruction_def tx_programs_def program_account_def)
  have decoded: "tx_decode (ix_data create_instruction) = Inr (CreateAccount 30 4 7)" by (simp add: tx_decode_def create_instruction_def)
  have "chain_of (\<lambda>_. raw_of (plain_account 0)) fresh_context 1 = raw_of (plain_account 100)" by (simp add: chain_of_def fresh_context_simps)
  with run created_account_handed_over [OF run fresh_context_ok(1) entry native decoded, of _ _ "[]"] show ?thesis
    by (simp add: create_instruction_def tx_runtime_def plain_account_def)
qed

end
