(* ===== verification/Account_Loader.thy ===== *)
theory Account_Loader
  imports Transaction_Processor
begin

text \<open>
  Loading accounts for a batch of transactions, collecting fees and storing results
  (\<open>gorchain/svm/src/account_loader.rs\<close>, \<open>rollback_accounts.rs\<close> and the batch loop of
  \<open>transaction_processor.rs\<close>).

  The loader keeps the accounts seen so far in a map in front of the accounts database, which is a
  parameter. Loading changes the map also where it fails, so the functions return the loader next to
  their result. Metrics, balance recording and the inspection callback are left out. The program
  cache is a parameter: for the n-th transaction of a batch it gives the programs that can run, or
  none when it hit its limit. A panic is the error \<open>TePanic\<close>; a sanitised message causes none. Sizes (\<open>usize\<close>, \<open>u32\<close>) are natural numbers with the saturation written
  out.
\<close>

section \<open>The loader\<close>

record account_loader =
  al_loaded_accounts :: "pubkey \<rightharpoonup> shared_account"
  al_callbacks :: "pubkey \<Rightarrow> shared_account option"

datatype (plugins only: size) system_account_kind = SystemKind | NonceKind

record loader_env =
  le_svm :: svm_env
  le_formalize_loaded_transaction_data_size :: bool
  le_slot_history :: pubkey
  le_system_program :: pubkey
  le_native_loader :: pubkey
  le_program_owners :: "pubkey list"
  le_upgradeable_loader :: pubkey
  le_programdata_address :: "shared_account \<Rightarrow> pubkey option"
  le_construct_instructions_data :: "(account_meta list \<times> u8 list \<times> pubkey) list \<Rightarrow> u8 list"
  le_system_account_kind :: "shared_account \<Rightarrow> system_account_kind option"
  le_nonce_minimum_balance :: u64
  le_nonce_state :: "shared_account \<Rightarrow> nonce_state option"
  le_next_durable_nonce :: pubkey

definition TRANSACTION_ACCOUNT_BASE_SIZE :: nat where
  "TRANSACTION_ACCOUNT_BASE_SIZE = 64"

definition ADDRESS_LOOKUP_TABLE_BASE_SIZE :: nat where
  "ADDRESS_LOOKUP_TABLE_BASE_SIZE = 8248"

definition RENT_EXEMPT_RENT_EPOCH :: u64 where
  "RENT_EXEMPT_RENT_EPOCH = - 1"

definition saturate_usize :: "nat \<Rightarrow> nat" where
  "saturate_usize n = min (2 ^ 64 - 1) n"

definition default_account :: shared_account where
  "default_account = \<lparr>sa_lamports = 0, sa_data = [], sa_owner = 0, sa_executable = False, sa_rent_epoch = 0\<rparr>"

definition insert_account :: "pubkey \<Rightarrow> shared_account \<Rightarrow> account_loader \<Rightarrow> account_loader" where
  "insert_account key account al = al\<lparr>al_loaded_accounts := (al_loaded_accounts al)(key \<mapsto> account)\<rparr>"

definition account_loader_new ::
    "loader_env \<Rightarrow> (pubkey \<rightharpoonup> shared_account) option \<Rightarrow> (pubkey \<Rightarrow> shared_account option) \<Rightarrow> account_loader" where
  "account_loader_new le account_overrides callbacks =
     (let al = \<lparr>al_loaded_accounts = Map.empty, al_callbacks = callbacks\<rparr> in
      case Option.bind account_overrides (\<lambda>overrides. overrides (le_slot_history le)) of
        Some slot_history \<Rightarrow> insert_account (le_slot_history le) slot_history al
      | None \<Rightarrow> al)"

definition do_load :: "account_loader \<Rightarrow> pubkey \<Rightarrow> shared_account option \<times> bool" where
  "do_load al key =
     (case al_loaded_accounts al key of
        Some account \<Rightarrow> (if sa_lamports account = 0 then None else Some account, False)
      | None \<Rightarrow> (al_callbacks al key, True))"

definition load_account :: "pubkey \<Rightarrow> account_loader \<Rightarrow> shared_account option \<times> account_loader" where
  "load_account key al =
     (case do_load al key of
        (account, False) \<Rightarrow> (account, al)
      | (Some account, True) \<Rightarrow> (Some account, insert_account key account al)
      | (None, True) \<Rightarrow> (None, insert_account key default_account al))"

definition get_account_shared_data :: "account_loader \<Rightarrow> pubkey \<Rightarrow> (shared_account \<times> u64) option" where
  "get_account_shared_data al key = map_option (\<lambda>account. (account, 0)) (fst (do_load al key))"

record loaded_account =
  la_account :: shared_account
  la_loaded_size :: nat

definition al_load_transaction_account :: "loader_env \<Rightarrow> pubkey \<Rightarrow> account_loader \<Rightarrow> loaded_account option \<times> account_loader" where
  "al_load_transaction_account le key al =
     (let base_account_size = (if le_formalize_loaded_transaction_data_size le then TRANSACTION_ACCOUNT_BASE_SIZE else 0);
          (account, al) = load_account key al in
      (map_option (\<lambda>account. \<lparr>la_account = account, la_loaded_size = saturate_usize (base_account_size + length (sa_data account))\<rparr>) account,
       al))"

section \<open>Rollback accounts\<close>

datatype (plugins only: size) rollback_accounts =
    FeePayerOnly "pubkey \<times> shared_account"
  | SameNonceAndFeePayer "pubkey \<times> shared_account"
  | SeparateNonceAndFeePayer "pubkey \<times> shared_account" "pubkey \<times> shared_account"

definition rollback_accounts_new ::
    "(pubkey \<times> shared_account) option \<Rightarrow> pubkey \<Rightarrow> shared_account \<Rightarrow> u64 \<Rightarrow> rollback_accounts" where
  "rollback_accounts_new nonce fee_payer_address fee_payer_account fee_payer_loaded_rent_epoch =
     (case nonce of
        Some (nonce_address, nonce_account) \<Rightarrow>
          if fee_payer_address = nonce_address
          then SameNonceAndFeePayer (fee_payer_address, fee_payer_account\<lparr>sa_data := sa_data nonce_account\<rparr>)
          else SeparateNonceAndFeePayer (nonce_address, nonce_account) (fee_payer_address, fee_payer_account)
      | None \<Rightarrow> FeePayerOnly (fee_payer_address, fee_payer_account\<lparr>sa_rent_epoch := fee_payer_loaded_rent_epoch\<rparr>))"

fun rollback_count :: "rollback_accounts \<Rightarrow> nat" where
  "rollback_count (FeePayerOnly fee_payer) = 1"
| "rollback_count (SameNonceAndFeePayer nonce) = 1"
| "rollback_count (SeparateNonceAndFeePayer nonce fee_payer) = 2"

fun rollback_iter :: "rollback_accounts \<Rightarrow> (pubkey \<times> shared_account) list" where
  "rollback_iter (FeePayerOnly fee_payer) = [fee_payer]"
| "rollback_iter (SameNonceAndFeePayer nonce) = [nonce]"
| "rollback_iter (SeparateNonceAndFeePayer nonce fee_payer) = [fee_payer, nonce]"

definition rollback_data_size :: "rollback_accounts \<Rightarrow> nat" where
  "rollback_data_size rollback = foldl (\<lambda>total_size (key, account). saturate_usize (total_size + length (sa_data account))) 0 (rollback_iter rollback)"

section \<open>Storing the results of a transaction\<close>

fun update_accounts_for_failed_loop :: "(pubkey \<times> shared_account) list \<Rightarrow> account_loader \<Rightarrow> account_loader" where
  "update_accounts_for_failed_loop [] al = al"
| "update_accounts_for_failed_loop ((address, account) # rest) al = update_accounts_for_failed_loop rest (insert_account address account al)"

definition update_accounts_for_failed_tx :: "rollback_accounts \<Rightarrow> account_loader \<Rightarrow> account_loader" where
  "update_accounts_for_failed_tx rollback al = update_accounts_for_failed_loop (rollback_iter rollback) al"

fun update_accounts_for_successful_loop :: "svm_message \<Rightarrow> nat \<Rightarrow> (pubkey \<times> shared_account) list \<Rightarrow> account_loader \<Rightarrow> account_loader" where
  "update_accounts_for_successful_loop message i [] al = al"
| "update_accounts_for_successful_loop message i ((address, account) # rest) al =
     update_accounts_for_successful_loop message (i + 1) rest
       (if \<not> sm_is_writable message i then al
        else if sm_is_invoked message i \<and> \<not> is_instruction_account message i then al
        else insert_account address account al)"

definition update_accounts_for_successful_tx :: "svm_message \<Rightarrow> (pubkey \<times> shared_account) list \<Rightarrow> account_loader \<Rightarrow> account_loader" where
  "update_accounts_for_successful_tx message transaction_accounts al =
     update_accounts_for_successful_loop message 0 (take (length (sm_account_keys message)) transaction_accounts) al"

definition update_accounts_for_executed_tx ::
    "svm_message \<Rightarrow> rollback_accounts \<Rightarrow> transaction_error + execution_record \<Rightarrow> account_loader \<Rightarrow> account_loader" where
  "update_accounts_for_executed_tx message rollback status al =
     (case status of
        Inr rec \<Rightarrow> update_accounts_for_successful_tx message (er_accounts rec) al
      | Inl err \<Rightarrow> update_accounts_for_failed_tx rollback al)"

section \<open>Nonce and fee payer\<close>

text \<open>What the getters of \<open>FeeDetails\<close> return.\<close>

record fee_details =
  fd_transaction_fee :: u64
  fd_prioritization_fee :: u64
  fd_total_fee :: u64

record budget_limits =
  bl_max_instruction_stack_depth :: nat
  bl_max_instruction_trace_length :: nat
  bl_loaded_accounts_data_size_limit :: nat
  bl_fee_details :: fee_details

abbreviation bl_total_fee :: "budget_limits \<Rightarrow> u64" where
  "bl_total_fee limits \<equiv> fd_total_fee (bl_fee_details limits)"

record checked_details =
  cd_nonce :: "(pubkey \<times> shared_account) option"
  cd_limits :: "transaction_error + budget_limits"

record validated_details =
  vd_rollback_accounts :: rollback_accounts
  vd_limits :: budget_limits
  vd_loaded_fee_payer :: loaded_account

text \<open>A step of loading returns its result and the loader; an error ends the steps that follow.\<close>

type_synonym 'a loading = "(transaction_error + 'a) \<times> account_loader"

definition then_load :: "'a loading \<Rightarrow> ('a \<Rightarrow> account_loader \<Rightarrow> 'b loading) \<Rightarrow> 'b loading" where
  "then_load r f = (case r of (Inl err, al) \<Rightarrow> (Inl err, al) | (Inr x, al) \<Rightarrow> f x al)"

definition update_rent_exempt_status_for_account :: "runtime \<Rightarrow> shared_account \<Rightarrow> shared_account" where
  "update_rent_exempt_status_for_account rt account =
     (if sa_rent_epoch account \<noteq> RENT_EXEMPT_RENT_EPOCH \<and> rt_is_exempt rt (sa_lamports account) (length (sa_data account))
      then account\<lparr>sa_rent_epoch := RENT_EXEMPT_RENT_EPOCH\<rparr> else account)"

definition validate_fee_payer :: "loader_env \<Rightarrow> pubkey \<Rightarrow> shared_account \<Rightarrow> u16 \<Rightarrow> u64 \<Rightarrow> transaction_error + shared_account" where
  "validate_fee_payer le payer_address payer_account payer_index fee =
     and_then (err_if (sa_lamports payer_account = 0) TeAccountNotFound) (\<lambda>_.
     and_then (ok_or (le_system_account_kind le payer_account) TeInvalidAccountForFee) (\<lambda>kind.
     let min_balance = (case kind of SystemKind \<Rightarrow> 0 | NonceKind \<Rightarrow> le_nonce_minimum_balance le) in
     and_then (ok_or (Option.bind (checked_sub (sa_lamports payer_account) min_balance) (\<lambda>v. checked_sub v fee))
                 TeInsufficientFundsForFee) (\<lambda>_.
     let pre = get_account_rent_state (se_runtime (le_svm le)) payer_account in
     and_then (ok_or (checked_sub (sa_lamports payer_account) fee) TeInsufficientFundsForFee) (\<lambda>lamports.
     let payer_account = payer_account\<lparr>sa_lamports := lamports\<rparr>;
         post = get_account_rent_state (se_runtime (le_svm le)) payer_account in
     and_then (check_rent_state_with_account (le_svm le) pre post payer_address payer_index) (\<lambda>_.
     Inr payer_account)))))"

definition validate_transaction_fee_payer ::
    "loader_env \<Rightarrow> svm_message \<Rightarrow> checked_details \<Rightarrow> account_loader \<Rightarrow> validated_details loading" where
  "validate_transaction_fee_payer le message details al =
     (case cd_limits details of
        Inl err \<Rightarrow> (Inl err, al)
      | Inr limits \<Rightarrow>
          (case al_load_transaction_account le (sm_fee_payer message) al of
             (None, al) \<Rightarrow> (Inl TeAccountNotFound, al)
           | (Some loaded, al) \<Rightarrow>
               (let account = update_rent_exempt_status_for_account (se_runtime (le_svm le)) (la_account loaded) in
                (and_then (validate_fee_payer le (sm_fee_payer message) account 0 (bl_total_fee limits)) (\<lambda>account.
                 Inr \<lparr>vd_rollback_accounts =
                        rollback_accounts_new (cd_nonce details) (sm_fee_payer message) account (sa_rent_epoch (la_account loaded)),
                      vd_limits = limits, vd_loaded_fee_payer = loaded\<lparr>la_account := account\<rparr>\<rparr>), al))))"

definition nonce_is_valid :: "loader_env \<Rightarrow> svm_message \<Rightarrow> loaded_account option \<Rightarrow> bool option" where
  "nonce_is_valid le message current_nonce =
     Option.bind current_nonce (\<lambda>current_nonce.
     Option.bind (if sa_owner (la_account current_nonce) = le_system_program le then le_nonce_state le (la_account current_nonce) else None) (\<lambda>state.
     case state of
       NonceInitialized data \<Rightarrow>
         if list_ex (\<lambda>(i, address). address = nd_authority data \<and> sm_is_signer message i)
              (zip [0..<length (sm_account_keys message)] (sm_account_keys message))
         then Some (nd_durable_nonce data \<noteq> le_next_durable_nonce le) else None
     | NonceUninitialized \<Rightarrow> None))"

definition validate_transaction_nonce :: "loader_env \<Rightarrow> svm_message \<Rightarrow> pubkey \<Rightarrow> account_loader \<Rightarrow> unit loading" where
  "validate_transaction_nonce le message nonce_address al =
     (let (current_nonce, al) = al_load_transaction_account le nonce_address al in
      (case nonce_is_valid le message current_nonce of
         None \<Rightarrow> Inl TeBlockhashNotFound
       | Some False \<Rightarrow> Inl TeAccountNotFound
       | Some True \<Rightarrow> Inr (), al))"

definition validate_transaction_nonce_and_fee_payer ::
    "loader_env \<Rightarrow> svm_message \<Rightarrow> checked_details \<Rightarrow> account_loader \<Rightarrow> validated_details loading" where
  "validate_transaction_nonce_and_fee_payer le message details al =
     then_load
       (case cd_nonce details of
          Some (nonce_address, nonce_account) \<Rightarrow> validate_transaction_nonce le message nonce_address al
        | None \<Rightarrow> (Inr (), al))
       (\<lambda>_ al. validate_transaction_fee_payer le message details al)"

section \<open>Loading the accounts of a transaction\<close>

text \<open>The account of the instructions sysvar, which is built from the message.\<close>

fun decompile_accounts :: "svm_message \<Rightarrow> u8 list \<Rightarrow> transaction_error + account_meta list" where
  "decompile_accounts message [] = Inr []"
| "decompile_accounts message (index # indexes) =
     and_then (ok_or (get_at (sm_account_keys message) (unat index)) TePanic) (\<lambda>key.
     and_then (decompile_accounts message indexes) (\<lambda>metas.
     Inr (\<lparr>am_pubkey = key, am_is_signer = sm_is_signer message (unat index), am_is_writable = sm_is_writable message (unat index)\<rparr> # metas)))"

fun decompile_instructions ::
    "svm_message \<Rightarrow> (pubkey \<times> svm_instruction) list \<Rightarrow> transaction_error + (account_meta list \<times> u8 list \<times> pubkey) list" where
  "decompile_instructions message [] = Inr []"
| "decompile_instructions message ((program_id, ix) # ixs) =
     and_then (decompile_accounts message (si_accounts ix)) (\<lambda>metas.
     and_then (decompile_instructions message ixs) (\<lambda>rest.
     Inr ((metas, si_data ix, program_id) # rest)))"

definition construct_instructions_account :: "loader_env \<Rightarrow> svm_message \<Rightarrow> transaction_error + shared_account" where
  "construct_instructions_account le message =
     and_then (decompile_instructions message (sm_instructions message)) (\<lambda>decompiled_instructions.
     Inr (default_account\<lparr>sa_data := le_construct_instructions_data le decompiled_instructions,
            sa_owner := rt_sysvar_id (se_runtime (le_svm le))\<rparr>))"

definition load_transaction_account :: "loader_env \<Rightarrow> svm_message \<Rightarrow> pubkey \<Rightarrow> nat \<Rightarrow> account_loader \<Rightarrow> loaded_account loading" where
  "load_transaction_account le message account_key account_index al =
     (if account_key = rt_instructions_id (se_runtime (le_svm le)) then
        (and_then (construct_instructions_account le message) (\<lambda>account. Inr \<lparr>la_account = account, la_loaded_size = 0\<rparr>), al)
      else
        (case al_load_transaction_account le account_key al of
           (Some loaded, al) \<Rightarrow>
             (Inr (if sm_is_writable message account_index
                   then loaded\<lparr>la_account := update_rent_exempt_status_for_account (se_runtime (le_svm le)) (la_account loaded)\<rparr>
                   else loaded), al)
         | (None, al) \<Rightarrow>
             (Inr \<lparr>la_account = default_account\<lparr>sa_rent_epoch := RENT_EXEMPT_RENT_EPOCH\<rparr>, la_loaded_size = 0\<rparr>, al)))"

definition increase_calculated_data_size :: "nat \<Rightarrow> nat \<Rightarrow> nat \<Rightarrow> transaction_error + nat" where
  "increase_calculated_data_size loaded_accounts_data_size data_size_delta limit =
     and_then (err_if (2 ^ 32 \<le> data_size_delta) TeMaxLoadedAccountsDataSizeExceeded) (\<lambda>_.
     let size = min (2 ^ 32 - 1) (loaded_accounts_data_size + data_size_delta) in
     and_then (err_if (limit < size) TeMaxLoadedAccountsDataSizeExceeded) (\<lambda>_. Inr size))"

definition accumulate_and_check_loaded_account_data_size :: "nat \<Rightarrow> nat \<Rightarrow> nat \<Rightarrow> transaction_error + nat" where
  "accumulate_and_check_loaded_account_data_size accumulated account_data_size limit =
     and_then (err_if (2 ^ 32 \<le> account_data_size) TeMaxLoadedAccountsDataSizeExceeded) (\<lambda>_.
     let accumulated = min (2 ^ 32 - 1) (accumulated + account_data_size) in
     if limit < accumulated then Inl TeMaxLoadedAccountsDataSizeExceeded else Inr accumulated)"

record load_state =
  lo_accounts :: "(pubkey \<times> shared_account) list"
  lo_additional :: "pubkey set"
  lo_size :: nat

record loaded_transaction_accounts =
  lt_accounts :: "(pubkey \<times> shared_account) list"
  lt_program_indices :: "u16 list"
  lt_loaded_accounts_data_size :: nat

text \<open>With SIMD-0186 the program data of a program count once, whether or not the transaction lists them.\<close>

definition count_programdata :: "loader_env \<Rightarrow> svm_message \<Rightarrow> nat \<Rightarrow> shared_account \<Rightarrow> load_state \<Rightarrow> account_loader \<Rightarrow> load_state loading" where
  "count_programdata le message limit account st al =
     (case (if sa_owner account = le_upgradeable_loader le then le_programdata_address le account else None) of
        None \<Rightarrow> (Inr st, al)
      | Some programdata_address \<Rightarrow>
          if programdata_address \<notin> set (sm_account_keys message) \<and> programdata_address \<notin> lo_additional st then
            (case load_account programdata_address al of
               (None, al) \<Rightarrow> (Inr st, al)
             | (Some programdata_account, al) \<Rightarrow>
                 (and_then (increase_calculated_data_size (lo_size st)
                              (saturate_usize (TRANSACTION_ACCOUNT_BASE_SIZE + length (sa_data programdata_account))) limit) (\<lambda>size.
                  Inr (st\<lparr>lo_size := size, lo_additional := insert programdata_address (lo_additional st)\<rparr>)), al))
          else (Inr st, al))"

definition collect_loaded_account_simd186 ::
    "loader_env \<Rightarrow> svm_message \<Rightarrow> nat \<Rightarrow> pubkey \<Rightarrow> loaded_account \<Rightarrow> load_state \<Rightarrow> account_loader \<Rightarrow> load_state loading" where
  "collect_loaded_account_simd186 le message limit key loaded st al =
     then_load (and_then (increase_calculated_data_size (lo_size st) (la_loaded_size loaded) limit) (\<lambda>size. Inr (st\<lparr>lo_size := size\<rparr>)), al) (\<lambda>st al.
     then_load (count_programdata le message limit (la_account loaded) st al) (\<lambda>st al.
     (Inr (st\<lparr>lo_accounts := lo_accounts st @ [(key, la_account loaded)]\<rparr>), al)))"

fun load_remaining_simd186 ::
    "loader_env \<Rightarrow> svm_message \<Rightarrow> nat \<Rightarrow> nat \<Rightarrow> pubkey list \<Rightarrow> load_state \<Rightarrow> account_loader \<Rightarrow> load_state loading" where
  "load_remaining_simd186 le message limit i [] st al = (Inr st, al)"
| "load_remaining_simd186 le message limit i (key # keys) st al =
     then_load (load_transaction_account le message key i al) (\<lambda>loaded al.
     then_load (collect_loaded_account_simd186 le message limit key loaded st al) (\<lambda>st al.
     load_remaining_simd186 le message limit (i + 1) keys st al))"

fun check_programs_simd186 :: "loader_env \<Rightarrow> (pubkey \<times> svm_instruction) list \<Rightarrow> u16 list \<Rightarrow> account_loader \<Rightarrow> u16 list loading" where
  "check_programs_simd186 le [] indices al = (Inr indices, al)"
| "check_programs_simd186 le ((program_id, ix) # ixs) indices al =
     (case load_account program_id al of
        (None, al) \<Rightarrow> (Inl TeProgramAccountNotFound, al)
      | (Some program_account, al) \<Rightarrow>
          if sa_owner program_account \<noteq> le_native_loader le \<and> sa_owner program_account \<notin> set (le_program_owners le)
          then (Inl TeInvalidProgramForExecution, al)
          else check_programs_simd186 le ixs (indices @ [ucast (si_program_id_index ix)]) al)"

definition load_transaction_accounts_simd186 ::
    "loader_env \<Rightarrow> svm_message \<Rightarrow> loaded_account \<Rightarrow> nat \<Rightarrow> account_loader \<Rightarrow> loaded_transaction_accounts loading" where
  "load_transaction_accounts_simd186 le message loaded_fee_payer limit al =
     then_load (and_then (increase_calculated_data_size 0 (saturate_usize (sm_num_lookup_tables message * ADDRESS_LOOKUP_TABLE_BASE_SIZE)) limit)
                  (\<lambda>size. Inr \<lparr>lo_accounts = [], lo_additional = {}, lo_size = size\<rparr>), al) (\<lambda>st al.
     then_load (collect_loaded_account_simd186 le message limit (sm_fee_payer message) loaded_fee_payer st al) (\<lambda>st al.
     then_load (load_remaining_simd186 le message limit 1 (tl (sm_account_keys message)) st al) (\<lambda>st al.
     then_load (check_programs_simd186 le (sm_instructions message) [] al) (\<lambda>indices al.
     (Inr \<lparr>lt_accounts = lo_accounts st, lt_program_indices = indices, lt_loaded_accounts_data_size = lo_size st\<rparr>, al)))))"

text \<open>Before it, the owners of programs count, each of them once.\<close>

definition collect_loaded_account_old :: "nat \<Rightarrow> pubkey \<Rightarrow> loaded_account \<Rightarrow> load_state \<Rightarrow> transaction_error + load_state" where
  "collect_loaded_account_old limit key loaded st =
     and_then (accumulate_and_check_loaded_account_data_size (lo_size st) (la_loaded_size loaded) limit) (\<lambda>size.
     Inr (st\<lparr>lo_size := size, lo_accounts := lo_accounts st @ [(key, la_account loaded)]\<rparr>))"

fun load_remaining_old ::
    "loader_env \<Rightarrow> svm_message \<Rightarrow> nat \<Rightarrow> nat \<Rightarrow> pubkey list \<Rightarrow> load_state \<Rightarrow> account_loader \<Rightarrow> load_state loading" where
  "load_remaining_old le message limit i [] st al = (Inr st, al)"
| "load_remaining_old le message limit i (key # keys) st al =
     then_load (load_transaction_account le message key i al) (\<lambda>loaded al.
     then_load (collect_loaded_account_old limit key loaded st, al) (\<lambda>st al.
     load_remaining_old le message limit (i + 1) keys st al))"

definition check_owner_old :: "loader_env \<Rightarrow> nat \<Rightarrow> pubkey \<Rightarrow> load_state \<Rightarrow> account_loader \<Rightarrow> load_state loading" where
  "check_owner_old le limit owner_id st al =
     (if owner_id \<in> lo_additional st then (Inr st, al)
      else case load_account owner_id al of
             (None, al) \<Rightarrow> (Inl TeProgramAccountNotFound, al)
           | (Some owner_account, al) \<Rightarrow>
               (and_then (err_if (sa_owner owner_account \<noteq> le_native_loader le) TeInvalidProgramForExecution) (\<lambda>_.
                and_then (accumulate_and_check_loaded_account_data_size (lo_size st) (length (sa_data owner_account)) limit) (\<lambda>size.
                Inr (st\<lparr>lo_size := size, lo_additional := insert owner_id (lo_additional st)\<rparr>))), al))"

fun check_programs_old ::
    "loader_env \<Rightarrow> nat \<Rightarrow> (pubkey \<times> svm_instruction) list \<Rightarrow> u16 list \<Rightarrow> load_state \<Rightarrow> account_loader \<Rightarrow> (u16 list \<times> load_state) loading" where
  "check_programs_old le limit [] indices st al = (Inr (indices, st), al)"
| "check_programs_old le limit ((program_id, ix) # ixs) indices st al =
     (if program_id = le_native_loader le then check_programs_old le limit ixs (indices @ [- 1]) st al
      else case load_account program_id al of
             (None, al) \<Rightarrow> (Inl TeProgramAccountNotFound, al)
           | (Some program_account, al) \<Rightarrow>
               then_load (if sa_owner program_account = le_native_loader le then (Inr st, al)
                          else check_owner_old le limit (sa_owner program_account) st al) (\<lambda>st al.
               check_programs_old le limit ixs (indices @ [ucast (si_program_id_index ix)]) st al))"

definition load_transaction_accounts_old ::
    "loader_env \<Rightarrow> svm_message \<Rightarrow> loaded_account \<Rightarrow> nat \<Rightarrow> account_loader \<Rightarrow> loaded_transaction_accounts loading" where
  "load_transaction_accounts_old le message loaded_fee_payer limit al =
     then_load (collect_loaded_account_old limit (sm_fee_payer message) loaded_fee_payer
                  \<lparr>lo_accounts = [], lo_additional = {}, lo_size = 0\<rparr>, al) (\<lambda>st al.
     then_load (load_remaining_old le message limit 1 (tl (sm_account_keys message)) st al) (\<lambda>st al.
     then_load (check_programs_old le limit (sm_instructions message) [] st al) (\<lambda>(indices, st) al.
     (Inr \<lparr>lt_accounts = lo_accounts st, lt_program_indices = indices, lt_loaded_accounts_data_size = lo_size st\<rparr>, al))))"

definition load_transaction_accounts ::
    "loader_env \<Rightarrow> svm_message \<Rightarrow> loaded_account \<Rightarrow> nat \<Rightarrow> account_loader \<Rightarrow> loaded_transaction_accounts loading" where
  "load_transaction_accounts le message loaded_fee_payer limit al =
     (if le_formalize_loaded_transaction_data_size le
      then load_transaction_accounts_simd186 le message loaded_fee_payer limit al
      else load_transaction_accounts_old le message loaded_fee_payer limit al)"

datatype (plugins only: size) transaction_load_result =
    Loaded loaded_transaction_accounts budget_limits rollback_accounts
  | FeesOnly transaction_error budget_limits rollback_accounts
  | NotLoaded transaction_error

definition load_transaction ::
    "loader_env \<Rightarrow> svm_message \<Rightarrow> transaction_error + validated_details \<Rightarrow> account_loader \<Rightarrow> transaction_load_result \<times> account_loader" where
  "load_transaction le message validation_result al =
     (case validation_result of
        Inl err \<Rightarrow> (NotLoaded err, al)
      | Inr details \<Rightarrow>
          (case load_transaction_accounts le message (vd_loaded_fee_payer details)
                  (bl_loaded_accounts_data_size_limit (vd_limits details)) al of
             (Inr loaded, al) \<Rightarrow> (Loaded loaded (vd_limits details) (vd_rollback_accounts details), al)
           | (Inl err, al) \<Rightarrow> (FeesOnly err (vd_limits details) (vd_rollback_accounts details), al)))"

section \<open>Batches\<close>

datatype (plugins only: size) processed_transaction =
    ProcessedFeesOnly transaction_error fee_details rollback_accounts
  | ProcessedExecuted "transaction_error + execution_record" fee_details rollback_accounts

text \<open>One transaction of a batch; none when the program cache hits its limit. The result keeps the fee and the rollback accounts.\<close>

definition process_transaction ::
    "loader_env \<Rightarrow> (account_loader \<Rightarrow> programs option) \<Rightarrow> svm_message \<Rightarrow> transaction_error + checked_details \<Rightarrow> account_loader
     \<Rightarrow> (processed_transaction loading) option" where
  "process_transaction le cache message check_result al =
     (let (validate_result, al) =
            (case check_result of
               Inl err \<Rightarrow> (Inl err, al)
             | Inr details \<Rightarrow> validate_transaction_nonce_and_fee_payer le message details al);
          (load_result, al) = load_transaction le message validate_result al in
      case load_result of
        NotLoaded err \<Rightarrow> Some (Inl err, al)
      | FeesOnly err limits rollback \<Rightarrow>
          Some (Inr (ProcessedFeesOnly err (bl_fee_details limits) rollback), update_accounts_for_failed_tx rollback al)
      | Loaded loaded limits rollback \<Rightarrow>
          (case cache al of
             None \<Rightarrow> None
           | Some programs \<Rightarrow>
               (let se = (le_svm le)\<lparr>se_programs := programs,
                      se_max_instruction_stack_depth := bl_max_instruction_stack_depth limits,
                      se_max_instruction_trace_length := bl_max_instruction_trace_length limits\<rparr>;
                    status = execute_loaded_transaction se message (lt_accounts loaded) (lt_program_indices loaded) in
                Some (Inr (ProcessedExecuted status (bl_fee_details limits) rollback), update_accounts_for_executed_tx message rollback status al))))"

fun process_batch ::
    "loader_env \<Rightarrow> (nat \<Rightarrow> account_loader \<Rightarrow> programs option) \<Rightarrow> nat \<Rightarrow> (svm_message \<times> (transaction_error + checked_details)) list
     \<Rightarrow> account_loader \<Rightarrow> ((transaction_error + processed_transaction) list \<times> account_loader) option" where
  "process_batch le cache n [] al = Some ([], al)"
| "process_batch le cache n ((message, check_result) # txs) al =
     Option.bind (process_transaction le (cache n) message check_result al) (\<lambda>(result, al).
     map_option (\<lambda>(results, al). (result # results, al)) (process_batch le cache (n + 1) txs al))"

definition load_and_execute_sanitized_transactions ::
    "loader_env \<Rightarrow> (nat \<Rightarrow> account_loader \<Rightarrow> programs option) \<Rightarrow> bool \<Rightarrow> (pubkey \<rightharpoonup> shared_account) option
     \<Rightarrow> (pubkey \<Rightarrow> shared_account option) \<Rightarrow> (svm_message \<times> (transaction_error + checked_details)) list
     \<Rightarrow> (transaction_error + processed_transaction) list" where
  "load_and_execute_sanitized_transactions le cache hit_max_limit account_overrides callbacks txs =
     (case (if hit_max_limit then None else process_batch le cache 0 txs (account_loader_new le account_overrides callbacks)) of
        None \<Rightarrow> replicate (length txs) (Inl TeProgramCacheHitMaxLimit)
      | Some (results, al) \<Rightarrow> results)"

end
