(* ===== verification/Bank_Slot.thy ===== *)
theory Bank_Slot
  imports Account_Loader
begin

text \<open>
  The bank of one slot: committing batches of transactions, collecting their fees, and paying the
  leader when the slot is frozen (\<open>gorchain/runtime/src/bank.rs\<close>, \<open>bank/fee_distribution.rs\<close>,
  \<open>account_saver.rs\<close>), with the fee of a transaction (\<open>gorchain/fee/src/lib.rs\<close>).

  The accounts database is a map, in which an account without lamports counts as absent when it is
  loaded. The set of the addresses stored in the slot is kept next to it. The capitalization is a
  word with wrapping addition and subtraction, as the atomic counter of the code. A failed assertion
  is the value none. Statistics, the stakes cache, the status cache, hashes and logs are left out.
  \<open>FeeDetails\<close>, the burn percentage and the contents of the slot history are parameters.
\<close>

section \<open>The fee of a transaction\<close>

definition saturating_add :: "u64 \<Rightarrow> u64 \<Rightarrow> u64" where
  "saturating_add a b = (if 2 ^ 64 \<le> unat a + unat b then - 1 else a + b)"

definition saturating_mul :: "u64 \<Rightarrow> u64 \<Rightarrow> u64" where
  "saturating_mul a b = (if 2 ^ 64 \<le> unat a * unat b then - 1 else a * b)"

record signature_counts =
  sc_num_transaction_signatures :: u64
  sc_num_ed25519_signatures :: u64
  sc_num_secp256k1_signatures :: u64
  sc_num_secp256r1_signatures :: u64

definition calculate_signature_fee :: "signature_counts \<Rightarrow> u64 \<Rightarrow> bool \<Rightarrow> u64" where
  "calculate_signature_fee counts lamports_per_signature enable_secp256r1_precompile =
     (let signature_count =
            saturating_add
              (saturating_add (saturating_add (sc_num_transaction_signatures counts) (sc_num_ed25519_signatures counts))
                 (sc_num_secp256k1_signatures counts))
              ((if enable_secp256r1_precompile then 1 else 0) * sc_num_secp256r1_signatures counts) in
      saturating_mul signature_count lamports_per_signature)"

text \<open>\<open>FeeDetails\<close> is not part of the repository: its constructor, default and \<open>accumulate\<close> are parameters.\<close>

record bank_env =
  be_loader :: loader_env
  be_fee_details_new :: "u64 \<Rightarrow> u64 \<Rightarrow> fee_details"
  be_fee_details_default :: fee_details
  be_fee_details_accumulate :: "fee_details \<Rightarrow> fee_details \<Rightarrow> fee_details"
  be_burn_percent :: u64
  be_minimum_balance :: "nat \<Rightarrow> u64"
  be_initial_rent_epoch :: u64
  be_slot_history :: "shared_account option \<Rightarrow> u64 \<Rightarrow> u64 \<Rightarrow> shared_account"

definition calculate_fee_details :: "bank_env \<Rightarrow> signature_counts \<Rightarrow> bool \<Rightarrow> u64 \<Rightarrow> u64 \<Rightarrow> bool \<Rightarrow> fee_details" where
  "calculate_fee_details be counts zero_fees_for_test lamports_per_signature prioritization_fee enable_secp256r1_precompile =
     (if zero_fees_for_test then be_fee_details_default be
      else be_fee_details_new be
             (calculate_signature_fee counts lamports_per_signature enable_secp256r1_precompile) prioritization_fee)"

definition calculate_fee :: "bank_env \<Rightarrow> signature_counts \<Rightarrow> bool \<Rightarrow> u64 \<Rightarrow> u64 \<Rightarrow> bool \<Rightarrow> u64" where
  "calculate_fee be counts zero_fees_for_test lamports_per_signature prioritization_fee enable_secp256r1_precompile =
     fd_total_fee (calculate_fee_details be counts zero_fees_for_test lamports_per_signature prioritization_fee enable_secp256r1_precompile)"

section \<open>The bank\<close>

record collector_fee_details =
  cf_transaction_fee :: u64
  cf_priority_fee :: u64

definition collector_accumulate :: "collector_fee_details \<Rightarrow> fee_details \<Rightarrow> collector_fee_details" where
  "collector_accumulate cf fd =
     cf\<lparr>cf_transaction_fee := saturating_add (cf_transaction_fee cf) (fd_transaction_fee fd),
        cf_priority_fee := saturating_add (cf_priority_fee cf) (fd_prioritization_fee fd)\<rparr>"

definition total_transaction_fee :: "collector_fee_details \<Rightarrow> u64" where
  "total_transaction_fee cf = saturating_add (cf_transaction_fee cf) (cf_priority_fee cf)"

definition collector_fee_details_from :: "fee_details \<Rightarrow> collector_fee_details" where
  "collector_fee_details_from fd = \<lparr>cf_transaction_fee = fd_transaction_fee fd, cf_priority_fee = fd_prioritization_fee fd\<rparr>"

record fee_reward =
  rw_lamports :: int
  rw_post_balance :: u64

record slot_bank =
  sb_accounts :: "pubkey \<rightharpoonup> shared_account"
  sb_modified :: "pubkey set"
  sb_capitalization :: u64
  sb_collector_fee_details :: collector_fee_details
  sb_collector_id :: pubkey
  sb_rewards :: "(pubkey \<times> fee_reward) list"
  sb_freeze_started :: bool

definition load_account_with :: "slot_bank \<Rightarrow> pubkey \<Rightarrow> shared_account option" where
  "load_account_with bk key =
     (case sb_accounts bk key of
        Some account \<Rightarrow> (if sa_lamports account = 0 then None else Some account)
      | None \<Rightarrow> None)"

fun store_accounts :: "(pubkey \<times> shared_account) list \<Rightarrow> slot_bank \<Rightarrow> slot_bank" where
  "store_accounts [] bk = bk"
| "store_accounts ((key, account) # rest) bk =
     store_accounts rest (bk\<lparr>sb_accounts := (sb_accounts bk)(key \<mapsto> account), sb_modified := insert key (sb_modified bk)\<rparr>)"

definition store_account :: "pubkey \<Rightarrow> shared_account \<Rightarrow> slot_bank \<Rightarrow> slot_bank" where
  "store_account key account bk = store_accounts [(key, account)] bk"

section \<open>Committing a batch\<close>

fun collect_successful_loop :: "svm_message \<Rightarrow> nat \<Rightarrow> (pubkey \<times> shared_account) list \<Rightarrow> (pubkey \<times> shared_account) list" where
  "collect_successful_loop message i [] = []"
| "collect_successful_loop message i ((address, account) # rest) =
     (if \<not> sm_is_writable message i then collect_successful_loop message (i + 1) rest
      else if sm_is_invoked message i \<and> \<not> is_instruction_account message i then collect_successful_loop message (i + 1) rest
      else (address, account) # collect_successful_loop message (i + 1) rest)"

definition collect_accounts_for_successful_tx :: "svm_message \<Rightarrow> (pubkey \<times> shared_account) list \<Rightarrow> (pubkey \<times> shared_account) list" where
  "collect_accounts_for_successful_tx message transaction_accounts =
     collect_successful_loop message 0 (take (length (sm_account_keys message)) transaction_accounts)"

definition collect_accounts_for_failed_tx :: "rollback_accounts \<Rightarrow> (pubkey \<times> shared_account) list" where
  "collect_accounts_for_failed_tx rollback = rollback_iter rollback"

fun collect_accounts_to_store ::
    "svm_message list \<Rightarrow> (transaction_error + processed_transaction) list \<Rightarrow> (pubkey \<times> shared_account) list" where
  "collect_accounts_to_store (message # txs) (result # results) =
     (case result of
        Inl err \<Rightarrow> []
      | Inr (ProcessedExecuted (Inr rec) fee rollback) \<Rightarrow> collect_accounts_for_successful_tx message (er_accounts rec)
      | Inr (ProcessedExecuted (Inl err) fee rollback) \<Rightarrow> collect_accounts_for_failed_tx rollback
      | Inr (ProcessedFeesOnly err fee rollback) \<Rightarrow> collect_accounts_for_failed_tx rollback)
     @ collect_accounts_to_store txs results"
| "collect_accounts_to_store txs results = []"

definition processed_fee_details :: "processed_transaction \<Rightarrow> fee_details" where
  "processed_fee_details p = (case p of ProcessedExecuted status fee rollback \<Rightarrow> fee | ProcessedFeesOnly err fee rollback \<Rightarrow> fee)"

fun accumulate_fee_details :: "bank_env \<Rightarrow> (transaction_error + processed_transaction) list \<Rightarrow> fee_details \<Rightarrow> fee_details" where
  "accumulate_fee_details be [] accumulated = accumulated"
| "accumulate_fee_details be (result # results) accumulated =
     accumulate_fee_details be results
       (case result of Inl err \<Rightarrow> accumulated | Inr p \<Rightarrow> be_fee_details_accumulate be accumulated (processed_fee_details p))"

definition filter_program_errors_and_collect_fee_details ::
    "bank_env \<Rightarrow> (transaction_error + processed_transaction) list \<Rightarrow> slot_bank \<Rightarrow> slot_bank" where
  "filter_program_errors_and_collect_fee_details be results bk =
     bk\<lparr>sb_collector_fee_details :=
          collector_accumulate (sb_collector_fee_details bk) (accumulate_fee_details be results (be_fee_details_default be))\<rparr>"

definition commit_transactions ::
    "bank_env \<Rightarrow> svm_message list \<Rightarrow> (transaction_error + processed_transaction) list \<Rightarrow> slot_bank \<Rightarrow> slot_bank option" where
  "commit_transactions be txs results bk =
     (if sb_freeze_started bk then None
      else Some (filter_program_errors_and_collect_fee_details be results (store_accounts (collect_accounts_to_store txs results) bk)))"

definition load_execute_and_commit_transactions ::
    "bank_env \<Rightarrow> (nat \<Rightarrow> account_loader \<Rightarrow> programs option) \<Rightarrow> bool \<Rightarrow> (svm_message \<times> (transaction_error + checked_details)) list
     \<Rightarrow> slot_bank \<Rightarrow> slot_bank option" where
  "load_execute_and_commit_transactions be cache hit_max_limit txs bk =
     (let results = load_and_execute_sanitized_transactions (be_loader be) cache hit_max_limit None (load_account_with bk) txs in
      commit_transactions be (map fst txs) results bk)"

section \<open>Paying the leader\<close>

datatype (plugins only: size) deposit_fee_error = InvalidRentPayingAccount | LamportOverflow | InvalidAccountOwner

definition deposit_fees :: "bank_env \<Rightarrow> pubkey \<Rightarrow> u64 \<Rightarrow> slot_bank \<Rightarrow> deposit_fee_error + u64 \<times> slot_bank" where
  "deposit_fees be key fees bk =
     (let rt = se_runtime (le_svm (be_loader be));
          account = (case load_account_with bk key of Some account \<Rightarrow> account | None \<Rightarrow> default_account) in
      and_then (err_if (sa_owner account \<noteq> le_system_program (be_loader be)) InvalidAccountOwner) (\<lambda>_.
      let recipient_pre_rent_state = get_account_rent_state rt account in
      and_then (ok_or (checked_add (sa_lamports account) fees) LamportOverflow) (\<lambda>lamports.
      let account = account\<lparr>sa_lamports := lamports\<rparr>;
          recipient_post_rent_state = get_account_rent_state rt account in
      and_then (err_if (\<not> transition_allowed recipient_pre_rent_state recipient_post_rent_state) InvalidRentPayingAccount) (\<lambda>_.
      Inr (sa_lamports account, store_account key account bk)))))"

definition deposit_or_burn_fee :: "bank_env \<Rightarrow> u64 \<Rightarrow> slot_bank \<Rightarrow> u64 \<times> slot_bank" where
  "deposit_or_burn_fee be deposit bk =
     (if deposit = 0 then (0, bk)
      else case deposit_fees be (sb_collector_id bk) deposit bk of
             Inr (post_balance, bk) \<Rightarrow>
               (0, bk\<lparr>sb_rewards := sb_rewards bk @ [(sb_collector_id bk, \<lparr>rw_lamports = sint deposit, rw_post_balance = post_balance\<rparr>)]\<rparr>)
           | Inl err \<Rightarrow> (deposit, bk))"

record fee_distribution =
  fr_deposit :: u64
  fr_burn :: u64

definition calculate_reward_and_burn_fee_details :: "bank_env \<Rightarrow> collector_fee_details \<Rightarrow> fee_distribution" where
  "calculate_reward_and_burn_fee_details be fee_details =
     (if cf_transaction_fee fee_details = 0 then \<lparr>fr_deposit = 0, fr_burn = 0\<rparr>
      else
        let burn = cf_transaction_fee fee_details * be_burn_percent be div 100;
            deposit = saturating_add (cf_priority_fee fee_details) (saturating_sub (cf_transaction_fee fee_details) burn) in
        \<lparr>fr_deposit = deposit, fr_burn = burn\<rparr>)"

definition calculate_reward_for_transaction :: "bank_env \<Rightarrow> signature_counts \<Rightarrow> u64 \<Rightarrow> u64 \<Rightarrow> u64 \<Rightarrow> bool \<Rightarrow> u64" where
  "calculate_reward_for_transaction be counts last_lamports_per_signature lamports_per_signature prioritization_fee enable_secp256r1_precompile =
     fr_deposit (calculate_reward_and_burn_fee_details be (collector_fee_details_from
       (calculate_fee_details be counts (last_lamports_per_signature = 0) lamports_per_signature prioritization_fee enable_secp256r1_precompile)))"

definition distribute_transaction_fee_details :: "bank_env \<Rightarrow> slot_bank \<Rightarrow> slot_bank" where
  "distribute_transaction_fee_details be bk =
     (let fee_details = sb_collector_fee_details bk in
      if total_transaction_fee fee_details = 0 then bk
      else
        let d = calculate_reward_and_burn_fee_details be fee_details;
            (burned, bk) = deposit_or_burn_fee be (fr_deposit d) bk;
            total_burn = saturating_add burned (fr_burn d) in
        bk\<lparr>sb_capitalization := sb_capitalization bk - total_burn\<rparr>)"

section \<open>Freezing the slot\<close>

definition store_account_and_update_capitalization :: "pubkey \<Rightarrow> shared_account \<Rightarrow> slot_bank \<Rightarrow> slot_bank" where
  "store_account_and_update_capitalization key new_account bk =
     (let bk =
        (case load_account_with bk key of
           Some old_account \<Rightarrow>
             if sa_lamports old_account < sa_lamports new_account then
               bk\<lparr>sb_capitalization := sb_capitalization bk + (sa_lamports new_account - sa_lamports old_account)\<rparr>
             else if sa_lamports new_account < sa_lamports old_account then
               bk\<lparr>sb_capitalization := sb_capitalization bk - (sa_lamports old_account - sa_lamports new_account)\<rparr>
             else bk
         | None \<Rightarrow> bk\<lparr>sb_capitalization := sb_capitalization bk + sa_lamports new_account\<rparr>) in
      store_account key new_account bk)"

definition adjust_sysvar_balance_for_rent :: "bank_env \<Rightarrow> shared_account \<Rightarrow> shared_account" where
  "adjust_sysvar_balance_for_rent be account =
     account\<lparr>sa_lamports := max (be_minimum_balance be (length (sa_data account))) (sa_lamports account)\<rparr>"

definition update_sysvar_account :: "bank_env \<Rightarrow> pubkey \<Rightarrow> (shared_account option \<Rightarrow> shared_account) \<Rightarrow> slot_bank \<Rightarrow> slot_bank" where
  "update_sysvar_account be key updater bk =
     (let old_account = load_account_with bk key;
          new_account = adjust_sysvar_balance_for_rent be (updater old_account) in
      store_account_and_update_capitalization key new_account bk)"

definition inherit_specially_retained_account_fields :: "bank_env \<Rightarrow> shared_account option \<Rightarrow> u64 \<times> u64" where
  "inherit_specially_retained_account_fields be old_account =
     (case old_account of Some a \<Rightarrow> (sa_lamports a, sa_rent_epoch a) | None \<Rightarrow> (1, be_initial_rent_epoch be))"

definition update_slot_history :: "bank_env \<Rightarrow> slot_bank \<Rightarrow> slot_bank" where
  "update_slot_history be bk =
     update_sysvar_account be (le_slot_history (be_loader be))
       (\<lambda>account. let (lamports, rent_epoch) = inherit_specially_retained_account_fields be account in be_slot_history be account lamports rent_epoch) bk"

definition get_account_modified_since_parent :: "slot_bank \<Rightarrow> pubkey \<Rightarrow> shared_account option" where
  "get_account_modified_since_parent bk key = (if key \<in> sb_modified bk then load_account_with bk key else None)"

definition run_incinerator :: "bank_env \<Rightarrow> slot_bank \<Rightarrow> slot_bank" where
  "run_incinerator be bk =
     (let incinerator = se_incinerator (le_svm (be_loader be)) in
      case get_account_modified_since_parent bk incinerator of
        Some account \<Rightarrow>
          store_account incinerator default_account (bk\<lparr>sb_capitalization := sb_capitalization bk - sa_lamports account\<rparr>)
      | None \<Rightarrow> bk)"

definition freeze :: "bank_env \<Rightarrow> slot_bank \<Rightarrow> slot_bank" where
  "freeze be bk =
     (if sb_freeze_started bk then bk
      else (run_incinerator be (update_slot_history be (distribute_transaction_fee_details be bk)))\<lparr>sb_freeze_started := True\<rparr>)"

end
