(* ===== verification/Batch_Accounting.thy ===== *)
theory Batch_Accounting
  imports Account_Loader Execution_Safety
begin

text \<open>
  The books of a batch of transactions. Loading accounts never changes what the loader shows of the
  chain; a transaction that fails costs its fee payer the fee and changes nothing else but the nonce
  it used; and over a whole batch the balances change by the fees and by what rolling back nonce
  accounts to their captured copies adds or takes, and by nothing else.
\<close>

section \<open>What the loader shows\<close>

definition seen :: "account_loader \<Rightarrow> pubkey \<Rightarrow> shared_account" where
  "seen al key =
     (case al_loaded_accounts al key of
        Some account \<Rightarrow> account
      | None \<Rightarrow> (case al_callbacks al key of Some account \<Rightarrow> account | None \<Rightarrow> default_account))"


lemma seen_insert [simp]: "seen (insert_account key account al) = (seen al)(key := account)"
  by (auto simp: seen_def insert_account_def fun_eq_iff split: option.splits)

text \<open>A step of loading keeps what is seen; \<open>P\<close> holds of its result if it succeeds.\<close>

definition loads :: "account_loader \<Rightarrow> 'a loading \<Rightarrow> ('a \<Rightarrow> bool) \<Rightarrow> bool" where
  "loads al r P \<longleftrightarrow> seen (snd r) = seen al \<and> (\<forall>x. fst r = Inr x \<longrightarrow> P x)"

lemma loads_pair: "loads al (r, al') P \<longleftrightarrow> seen al' = seen al \<and> (\<forall>x. r = Inr x \<longrightarrow> P x)"
  by (simp add: loads_def)

lemma loads_mono: "loads al r P \<Longrightarrow> (\<And>x. P x \<Longrightarrow> Q x) \<Longrightarrow> loads al r Q"
  by (simp add: loads_def)

lemma then_load_loads:
  assumes "loads al r P" and "\<And>x al'. P x \<Longrightarrow> seen al' = seen al \<Longrightarrow> loads al' (f x al') Q"
  shows "loads al (then_load r f) Q"
  using assms by (cases r) (auto simp: loads_def then_load_def split: sum.splits)

lemma load_account_seen:
  assumes "load_account key al = (account, al')"
  shows "seen al' = seen al" and "account = Some a \<Longrightarrow> a = seen al key" and "account = None \<Longrightarrow> sa_lamports (seen al key) = 0"
  using assms
  by (auto simp: load_account_def do_load_def seen_def insert_account_def default_account_def fun_eq_iff
      split: prod.splits option.splits bool.splits if_splits)

lemma al_load_seen:
  assumes "al_load_transaction_account le key al = (loaded, al')"
  shows "seen al' = seen al" and "loaded = Some l \<Longrightarrow> la_account l = seen al key" and "loaded = None \<Longrightarrow> sa_lamports (seen al key) = 0"
  using assms load_account_seen [of key al]
  by (auto simp: al_load_transaction_account_def Let_def split: prod.splits)

lemma update_rent_exempt_simps [simp]:
  "sa_lamports (update_rent_exempt_status_for_account rt account) = sa_lamports account"
  "sa_data (update_rent_exempt_status_for_account rt account) = sa_data account"
  "sa_owner (update_rent_exempt_status_for_account rt account) = sa_owner account"
  "sa_executable (update_rent_exempt_status_for_account rt account) = sa_executable account"
  by (simp_all add: update_rent_exempt_status_for_account_def)

section \<open>The fee payer\<close>

lemma validate_fee_payer_Inr:
  assumes "validate_fee_payer le address account i fee = Inr account'"
  shows "fee \<le> sa_lamports account \<and> account' = account\<lparr>sa_lamports := sa_lamports account - fee\<rparr>"
  using assms
  by (auto simp: validate_fee_payer_def Let_def and_then_Inr_iff ok_or_Inr_iff checked_sub_def split: if_splits)

text \<open>The fee is taken from the loaded payer, and the rollback accounts are ready for the failure.\<close>

definition charged :: "loader_env \<Rightarrow> account_loader \<Rightarrow> svm_message \<Rightarrow> checked_details \<Rightarrow> validated_details \<Rightarrow> bool" where
  "charged le al message details v \<longleftrightarrow> cd_limits details = Inr (vd_limits v) \<and>
     (let payer = seen al (sm_fee_payer message); fee = bl_total_fee (vd_limits v); account = la_account (vd_loaded_fee_payer v) in
      fee \<le> sa_lamports payer \<and>
      account = (update_rent_exempt_status_for_account (se_runtime (le_svm le)) payer)\<lparr>sa_lamports := sa_lamports payer - fee\<rparr> \<and>
      vd_rollback_accounts v = rollback_accounts_new (cd_nonce details) (sm_fee_payer message) account (sa_rent_epoch payer))"

lemma validate_fee_payer_loads: "loads al (validate_transaction_fee_payer le message details al) (charged le al message details)"
proof (cases "cd_limits details")
  case (Inr limits)
  obtain loaded al' where l: "al_load_transaction_account le (sm_fee_payer message) al = (loaded, al')" by fastforce
  show ?thesis
    using Inr l al_load_seen [OF l]
    by (cases loaded)
      (auto simp: validate_transaction_fee_payer_def loads_pair charged_def Let_def and_then_Inr_iff dest!: validate_fee_payer_Inr)
qed (simp add: validate_transaction_fee_payer_def loads_pair)

lemma validate_nonce_loads: "loads al (validate_transaction_nonce le message address al) (\<lambda>_. True)"
  using al_load_seen(1) [of le address al] by (auto simp: validate_transaction_nonce_def loads_def split: prod.splits)

lemma validate_loads: "loads al (validate_transaction_nonce_and_fee_payer le message details al) (charged le al message details)"
  unfolding validate_transaction_nonce_and_fee_payer_def
proof (rule then_load_loads [where P = "\<lambda>_. True"])
  show "loads al (case cd_nonce details of Some (address, account) \<Rightarrow> validate_transaction_nonce le message address al | None \<Rightarrow> (Inr (), al)) (\<lambda>_. True)"
    by (auto simp: loads_pair validate_nonce_loads split: option.splits)
  show "loads al' (validate_transaction_fee_payer le message details al') (charged le al message details)" if "seen al' = seen al" for al'
    using validate_fee_payer_loads [of al' le message details] that by (simp add: charged_def [abs_def])
qed

section \<open>The loaded accounts\<close>

text \<open>An account in the list that is loaded has the lamports that are seen, but for the sysvar built from the message.\<close>

definition entry_for :: "loader_env \<Rightarrow> account_loader \<Rightarrow> pubkey \<times> shared_account \<Rightarrow> bool" where
  "entry_for le al x \<longleftrightarrow> fst x = rt_instructions_id (se_runtime (le_svm le)) \<or> sa_lamports (snd x) = sa_lamports (seen al (fst x))"

lemma load_transaction_account_loads:
  "loads al (load_transaction_account le message key i al) (\<lambda>l. entry_for le al (key, la_account l))"
proof -
  obtain loaded al' where l: "al_load_transaction_account le key al = (loaded, al')" by fastforce
  show ?thesis
    using al_load_seen [OF l]
    by (cases loaded) (auto simp: load_transaction_account_def l loads_pair entry_for_def default_account_def split: if_splits)
qed

lemma count_programdata_loads: "loads al (count_programdata le message limit account st al) (\<lambda>st'. lo_accounts st' = lo_accounts st)"
  using load_account_seen(1) [of "the (le_programdata_address le account)" al]
  by (auto simp: count_programdata_def loads_def and_then_Inr_iff split: option.splits prod.splits)

lemma collect_simd186_loads:
  "loads al (collect_loaded_account_simd186 le message limit key loaded st al)
     (\<lambda>st'. lo_accounts st' = lo_accounts st @ [(key, la_account loaded)])"
  unfolding collect_loaded_account_simd186_def
  by (rule then_load_loads [where P = "\<lambda>st'. lo_accounts st' = lo_accounts st"], auto simp: loads_pair and_then_Inr_iff)
    (rule then_load_loads, rule count_programdata_loads, simp add: loads_pair)

lemma collect_old: "collect_loaded_account_old limit key loaded st = Inr st' \<Longrightarrow> lo_accounts st' = lo_accounts st @ [(key, la_account loaded)]"
  by (auto simp: collect_loaded_account_old_def and_then_Inr_iff)

definition extends :: "loader_env \<Rightarrow> account_loader \<Rightarrow> pubkey list \<Rightarrow> load_state \<Rightarrow> load_state \<Rightarrow> bool" where
  "extends le al keys st st' \<longleftrightarrow>
     (\<exists>xs. lo_accounts st' = lo_accounts st @ xs \<and> map fst xs = keys \<and> (\<forall>x\<in>set xs. entry_for le al x))"

lemma extends_Cons:
  assumes "entry_for le al (key, a)" and "lo_accounts st1 = lo_accounts st @ [(key, a)]" and "extends le al keys st1 st2"
  shows "extends le al (key # keys) st st2"
proof -
  obtain xs where "lo_accounts st2 = lo_accounts st1 @ xs" "map fst xs = keys" "\<forall>x\<in>set xs. entry_for le al x"
    using assms(3) by (auto simp: extends_def)
  then show ?thesis using assms(1,2) unfolding extends_def by (intro exI [of _ "(key, a) # xs"]) simp
qed

lemma entry_for_cong: "seen al' = seen al \<Longrightarrow> entry_for le al' = entry_for le al"
  by (simp add: entry_for_def fun_eq_iff)

lemma extends_cong: "seen al' = seen al \<Longrightarrow> extends le al' = extends le al"
  by (simp add: extends_def [abs_def] entry_for_cong [of al' al])

lemma load_remaining_simd186_loads: "loads al (load_remaining_simd186 le message limit i keys st al) (extends le al keys st)"
proof (induction keys arbitrary: i st al)
  case (Cons key keys)
  show ?case
    unfolding load_remaining_simd186.simps
  proof (rule then_load_loads [OF load_transaction_account_loads], rule then_load_loads [OF collect_simd186_loads])
    fix loaded :: loaded_account and al1 al2 :: account_loader and st1 :: load_state
    assume *: "entry_for le al (key, la_account loaded)" "seen al1 = seen al" "lo_accounts st1 = lo_accounts st @ [(key, la_account loaded)]"
      "seen al2 = seen al1"
    show "loads al2 (load_remaining_simd186 le message limit (i + 1) keys st1 al2) (extends le al (key # keys) st)"
      using Cons.IH [of al2 "i + 1" st1] extends_cong [of al2 al le] * by (auto intro: extends_Cons elim!: loads_mono)
  qed
qed (simp add: loads_pair extends_def)

lemma load_remaining_old_loads: "loads al (load_remaining_old le message limit i keys st al) (extends le al keys st)"
proof (induction keys arbitrary: i st al)
  case (Cons key keys)
  show ?case
    unfolding load_remaining_old.simps
  proof (rule then_load_loads [OF load_transaction_account_loads], rule then_load_loads)
    fix loaded :: loaded_account and al1 al2 :: account_loader and st1 :: load_state
    assume *: "entry_for le al (key, la_account loaded)" "seen al1 = seen al"
    show "loads al1 (collect_loaded_account_old limit key loaded st, al1) (\<lambda>st1. lo_accounts st1 = lo_accounts st @ [(key, la_account loaded)])"
      by (simp add: loads_pair collect_old)
    show "loads al2 (load_remaining_old le message limit (i + 1) keys st1 al2) (extends le al (key # keys) st)"
      if "lo_accounts st1 = lo_accounts st @ [(key, la_account loaded)]" "seen al2 = seen al1"
      using Cons.IH [of al2 "i + 1" st1] extends_cong [of al2 al le] * that by (auto intro: extends_Cons elim!: loads_mono)
  qed
qed (simp add: loads_pair extends_def)

lemma load_account_loads:
  assumes "\<And>al'. seen al' = seen al \<Longrightarrow> loads al' (f al') Q" and "\<And>a al'. seen al' = seen al \<Longrightarrow> loads al' (g a al') Q"
  shows "loads al (case load_account key al of (None, al') \<Rightarrow> f al' | (Some a, al') \<Rightarrow> g a al') Q"
  using assms load_account_seen(1) [of key al] by (cases "load_account key al") (auto simp: loads_def split: option.splits)

lemma check_programs_simd186_loads: "loads al (check_programs_simd186 le ixs indices al) (\<lambda>_. True)"
proof (induction ixs arbitrary: indices al)
  case (Cons x ixs)
  obtain program_id ix where x: "x = (program_id, ix)" by (cases x)
  show ?case
    unfolding x check_programs_simd186.simps by (rule load_account_loads) (auto simp: loads_pair Cons.IH)
qed (simp add: loads_pair)

lemma check_owner_old_loads: "loads al (check_owner_old le limit owner_id st al) (\<lambda>st'. lo_accounts st' = lo_accounts st)"
  using load_account_seen(1) [of owner_id al]
  by (auto simp: check_owner_old_def loads_def and_then_Inr_iff split: prod.splits option.splits)

lemma check_programs_old_loads: "loads al (check_programs_old le limit ixs indices st al) (\<lambda>(_, st'). lo_accounts st' = lo_accounts st)"
proof (induction ixs arbitrary: indices st al)
  case (Cons x ixs)
  obtain program_id ix where x: "x = (program_id, ix)" by (cases x)
  have step: "loads al1 (then_load (if sa_owner a = le_native_loader le then (Inr st, al1)
        else check_owner_old le limit (sa_owner a) st al1) (\<lambda>st al. check_programs_old le limit ixs indices' st al))
      (\<lambda>(_, st'). lo_accounts st' = lo_accounts st)" for a al1 indices'
    by (rule then_load_loads [where P = "\<lambda>st'. lo_accounts st' = lo_accounts st"])
      (auto simp: loads_pair check_owner_old_loads intro: loads_mono [OF Cons.IH])
  show ?case
    unfolding x check_programs_old.simps using Cons.IH by (auto intro!: load_account_loads step simp: loads_pair)
qed (simp add: loads_pair)

definition loaded_for :: "loader_env \<Rightarrow> account_loader \<Rightarrow> svm_message \<Rightarrow> loaded_account \<Rightarrow> loaded_transaction_accounts \<Rightarrow> bool" where
  "loaded_for le al message payer lt \<longleftrightarrow>
     (\<exists>xs. lt_accounts lt = (sm_fee_payer message, la_account payer) # xs \<and> map fst xs = tl (sm_account_keys message) \<and>
        (\<forall>x\<in>set xs. entry_for le al x))"

lemma loaded_forI:
  assumes "lo_accounts st = [(sm_fee_payer message, la_account payer)]" and "extends le al (tl (sm_account_keys message)) st st'"
    and "lt_accounts lt = lo_accounts st'"
  shows "loaded_for le al message payer lt"
  using assms by (auto simp: loaded_for_def extends_def)

lemma load_simd186_loads: "loads al (load_transaction_accounts_simd186 le message payer limit al) (loaded_for le al message payer)"
  unfolding load_transaction_accounts_simd186_def
proof (rule then_load_loads [where P = "\<lambda>st. lo_accounts st = []"], goal_cases)
  case (2 st al1)
  show ?case
  proof (rule then_load_loads [OF collect_simd186_loads], rule then_load_loads [OF load_remaining_simd186_loads],
      rule then_load_loads [OF check_programs_simd186_loads])
    fix st1 st2 :: load_state and al2 al3 al4 :: account_loader and indices
    assume *: "lo_accounts st1 = lo_accounts st @ [(sm_fee_payer message, la_account payer)]" "seen al2 = seen al1"
      "extends le al2 (tl (sm_account_keys message)) st1 st2"
    have "extends le al (tl (sm_account_keys message)) st1 st2" using *(2,3) 2 extends_cong [of al2 al le] by simp
    then show "loads al4 (Inr \<lparr>lt_accounts = lo_accounts st2, lt_program_indices = indices, lt_loaded_accounts_data_size = lo_size st2\<rparr>, al4)
        (loaded_for le al message payer)"
      using *(1) 2 by (auto simp: loads_pair intro: loaded_forI)
  qed
qed (auto simp: loads_pair and_then_Inr_iff)

lemma load_old_loads: "loads al (load_transaction_accounts_old le message payer limit al) (loaded_for le al message payer)"
  unfolding load_transaction_accounts_old_def
proof (rule then_load_loads [where P = "\<lambda>st. lo_accounts st = [(sm_fee_payer message, la_account payer)]"], goal_cases)
  case (2 st al1)
  show ?case
  proof (rule then_load_loads [OF load_remaining_old_loads], rule then_load_loads [OF check_programs_old_loads], clarify)
    fix st1 st2 :: load_state and al2 al3 :: account_loader and indices
    assume *: "extends le al1 (tl (sm_account_keys message)) st st1" "lo_accounts st2 = lo_accounts st1"
    have "extends le al (tl (sm_account_keys message)) st st1" using * 2 extends_cong [of al1 al le] by simp
    then show "loads al3 (Inr \<lparr>lt_accounts = lo_accounts st2, lt_program_indices = indices, lt_loaded_accounts_data_size = lo_size st2\<rparr>, al3)
        (loaded_for le al message payer)"
      using *(2) 2 by (auto simp: loads_pair intro: loaded_forI)
  qed
qed (auto simp: loads_pair dest: collect_old)

lemma load_transaction_accounts_loads: "loads al (load_transaction_accounts le message payer limit al) (loaded_for le al message payer)"
  by (simp add: load_transaction_accounts_def load_simd186_loads load_old_loads)

section \<open>One transaction\<close>


definition tx_env_for :: "loader_env \<Rightarrow> programs \<Rightarrow> budget_limits \<Rightarrow> svm_env" where
  "tx_env_for le programs limits = (le_svm le)\<lparr>se_programs := programs,
     se_max_instruction_stack_depth := bl_max_instruction_stack_depth limits,
     se_max_instruction_trace_length := bl_max_instruction_trace_length limits\<rparr>"

lemma tx_env_for_simps [simp]:
  "se_runtime (tx_env_for le programs limits) = se_runtime (le_svm le)" "se_programs (tx_env_for le programs limits) = programs"
  by (simp_all add: tx_env_for_def)

lemma process_transaction_cases:
  assumes "process_transaction le cache message (Inr details) al = Some (result, al')"
  obtains (rejected) err where "result = Inl err" "seen al' = seen al"
  | (fees_only) v al1 err where "charged le al message details v" "seen al1 = seen al"
      "result = Inr (ProcessedFeesOnly err (bl_fee_details (vd_limits v)) (vd_rollback_accounts v))" "al' = update_accounts_for_failed_tx (vd_rollback_accounts v) al1"
  | (executed) v al1 lt programs status where "charged le al message details v" "seen al1 = seen al"
      "loaded_for le al message (vd_loaded_fee_payer v) lt" "cache al1 = Some programs"
      "status = execute_loaded_transaction (tx_env_for le programs (vd_limits v)) message (lt_accounts lt) (lt_program_indices lt)"
      "result = Inr (ProcessedExecuted status (bl_fee_details (vd_limits v)) (vd_rollback_accounts v))"
      "al' = update_accounts_for_executed_tx message (vd_rollback_accounts v) status al1"
proof -
  obtain r al0 where v: "validate_transaction_nonce_and_fee_payer le message details al = (r, al0)" by fastforce
  have l: "seen al0 = seen al" "\<And>x. r = Inr x \<Longrightarrow> charged le al message details x"
    using validate_loads [of al le message details] v by (simp_all add: loads_pair)
  show thesis
  proof (cases r)
    case (Inl err)
    then show ?thesis using assms v l by (auto simp: process_transaction_def load_transaction_def intro: rejected)
  next
    case (Inr d)
    obtain r1 al1 where t: "load_transaction_accounts le message (vd_loaded_fee_payer d)
        (bl_loaded_accounts_data_size_limit (vd_limits d)) al0 = (r1, al1)" by fastforce
    have "seen al1 = seen al0" "\<And>x. r1 = Inr x \<Longrightarrow> loaded_for le al0 message (vd_loaded_fee_payer d) x"
      using load_transaction_accounts_loads [of al0 le message] t by (metis loads_pair)+
    moreover have "loaded_for le al0 = loaded_for le al" using entry_for_cong [OF l(1)] by (simp add: loaded_for_def [abs_def])
    ultimately have t': "seen al1 = seen al" "\<And>x. r1 = Inr x \<Longrightarrow> loaded_for le al message (vd_loaded_fee_payer d) x" using l by simp_all
    show ?thesis
    proof (cases r1)
      case (Inl err)
      then show ?thesis using assms v t Inr l t' by (auto simp: process_transaction_def load_transaction_def intro: fees_only)
    next
      case r1: (Inr lt)
      then show ?thesis
        using assms v t Inr l t'
        by (auto simp: process_transaction_def load_transaction_def Let_def tx_env_for_def [symmetric] intro!: executed [of d al1 lt] split: option.splits)
    qed
  qed
qed

lemma seen_failed:
  "seen (update_accounts_for_failed_tx rollback al) = foldl (\<lambda>f (k, a). f(k := a)) (seen al) (rollback_iter rollback)"
proof -
  have "seen (update_accounts_for_failed_loop xs al) = foldl (\<lambda>f (k, a). f(k := a)) (seen al) xs" for xs
    by (induction xs al rule: update_accounts_for_failed_loop.induct) simp_all
  then show ?thesis by (simp add: update_accounts_for_failed_tx_def)
qed



section \<open>The books of a batch\<close>













section \<open>A sample batch\<close>

definition batch_env :: loader_env where
  "batch_env = \<lparr>le_svm = tx_env, le_formalize_loaded_transaction_data_size = True, le_slot_history = 90, le_system_program = 0,
     le_native_loader = 9, le_program_owners = [40, 41], le_upgradeable_loader = 41, le_programdata_address = (\<lambda>account. None),
     le_construct_instructions_data = (\<lambda>ixs. []),
     le_system_account_kind = (\<lambda>account. if sa_owner account = 0 \<and> sa_data account = [] then Some SystemKind else None),
     le_nonce_minimum_balance = 81, le_nonce_state = (\<lambda>account. None), le_next_durable_nonce = 5\<rparr>"

definition batch_chain :: "pubkey \<Rightarrow> shared_account option" where
  "batch_chain key = (if key = 0 then Some program_account else if key = 1 then Some (plain_account 105)
     else if key = 2 then Some (plain_account 5) else None)"

definition batch_fee :: fee_details where
  "batch_fee = \<lparr>fd_transaction_fee = 5, fd_prioritization_fee = 0, fd_total_fee = 5\<rparr>"

definition batch_details :: "nat \<Rightarrow> checked_details" where
  "batch_details limit = \<lparr>cd_nonce = None, cd_limits = Inr \<lparr>bl_max_instruction_stack_depth = 5, bl_max_instruction_trace_length = 64,
     bl_loaded_accounts_data_size_limit = limit, bl_fee_details = batch_fee\<rparr>\<rparr>"

definition batch_start :: account_loader where
  "batch_start = account_loader_new batch_env None batch_chain"

lemmas batch_defs = batch_env_def batch_chain_def batch_details_def batch_fee_def batch_start_def account_loader_new_def

lemma batch_start_seen: "seen batch_start k = (case batch_chain k of Some a \<Rightarrow> a | None \<Rightarrow> default_account)"
  by (simp add: batch_start_def account_loader_new_def seen_def)

lemma batch_validates:
  "\<exists>al. validate_transaction_nonce_and_fee_payer batch_env tx_message (batch_details limit) batch_start =
     (Inr \<lparr>vd_rollback_accounts = FeePayerOnly (1, plain_account 100), vd_limits = projr (cd_limits (batch_details limit)),
        vd_loaded_fee_payer = \<lparr>la_account = plain_account 100, la_loaded_size = 64\<rparr>\<rparr>, al) \<and>
     al_loaded_accounts al = [1 \<mapsto> plain_account 105] \<and> al_callbacks al = batch_chain"
  by (simp add: validate_transaction_nonce_and_fee_payer_def then_load_def validate_transaction_fee_payer_def tx_message_def batch_defs
      al_load_transaction_account_def load_account_def do_load_def insert_account_def plain_account_def program_account_def
      update_rent_exempt_status_for_account_def RENT_EXEMPT_RENT_EPOCH_def validate_fee_payer_def tx_env_def tx_runtime_def
      get_account_rent_state_def check_rent_state_with_account_def result_defs checked_sub_def rollback_accounts_new_def
      TRANSACTION_ACCOUNT_BASE_SIZE_def saturate_usize_def Let_def)

lemma batch_loads:
  assumes "al_loaded_accounts al = [1 \<mapsto> plain_account 105]" and "al_callbacks al = batch_chain"
  shows "\<exists>al'. load_transaction_accounts batch_env tx_message \<lparr>la_account = plain_account 100, la_loaded_size = 64\<rparr> 1000 al =
      (Inr \<lparr>lt_accounts = tx_accounts_loaded, lt_program_indices = [2], lt_loaded_accounts_data_size = 192\<rparr>, al')"
    and "load_transaction_accounts batch_env tx_message \<lparr>la_account = plain_account 100, la_loaded_size = 64\<rparr> 10 al =
      (Inl TeMaxLoadedAccountsDataSizeExceeded, al)"
  by (simp_all add: assms load_transaction_accounts_def batch_env_def load_transaction_accounts_simd186_def then_load_def tx_message_def
      increase_calculated_data_size_def saturate_usize_def ADDRESS_LOOKUP_TABLE_BASE_SIZE_def TRANSACTION_ACCOUNT_BASE_SIZE_def Let_def
      collect_loaded_account_simd186_def count_programdata_def plain_account_def program_account_def load_transaction_account_def
      tx_env_def tx_runtime_def al_load_transaction_account_def load_account_def do_load_def insert_account_def batch_chain_def
      update_rent_exempt_status_for_account_def RENT_EXEMPT_RENT_EPOCH_def result_defs tx_accounts_loaded_def)




lemma batch_fails:
  "\<exists>al. process_transaction batch_env (\<lambda>_. Some tx_programs) tx_message (Inr (batch_details 10)) batch_start =
     Some (Inr (ProcessedFeesOnly TeMaxLoadedAccountsDataSizeExceeded batch_fee (FeePayerOnly (1, plain_account 100))), al)"
proof -
  obtain al where al: "validate_transaction_nonce_and_fee_payer batch_env tx_message (batch_details 10) batch_start =
     (Inr \<lparr>vd_rollback_accounts = FeePayerOnly (1, plain_account 100), vd_limits = projr (cd_limits (batch_details 10)),
        vd_loaded_fee_payer = \<lparr>la_account = plain_account 100, la_loaded_size = 64\<rparr>\<rparr>, al)"
    "al_loaded_accounts al = [1 \<mapsto> plain_account 105]" "al_callbacks al = batch_chain"
    using batch_validates by blast
  then show ?thesis
    using batch_loads(2) [OF al(2,3)] by (simp add: process_transaction_def load_transaction_def) (simp add: batch_details_def)
qed

section \<open>Failed transactions\<close>

text \<open>
  What a failed transaction leaves: its payer has paid the fee, and its nonce, if it uses one, is the
  advanced account that was captured when the transaction was checked.
\<close>

definition rolled_back :: "loader_env \<Rightarrow> account_loader \<Rightarrow> svm_message \<Rightarrow> checked_details \<Rightarrow> u64 \<Rightarrow> account_loader \<Rightarrow> bool" where
  "rolled_back le al message details fee al' \<longleftrightarrow>
     (let key = sm_fee_payer message; lamports = sa_lamports (seen al key);
          payer = (update_rent_exempt_status_for_account (se_runtime (le_svm le)) (seen al key))\<lparr>sa_lamports := lamports - fee\<rparr> in
      fee \<le> lamports \<and>
      seen al' = (case cd_nonce details of
         None \<Rightarrow> (seen al)(key := (seen al key)\<lparr>sa_lamports := lamports - fee\<rparr>)
       | Some (address, account) \<Rightarrow>
           if address = key then (seen al)(key := payer\<lparr>sa_data := sa_data account\<rparr>)
           else (seen al)(key := payer, address := account)))"

lemma charged_rolled_back:
  assumes "charged le al message details v" and "seen al1 = seen al"
  shows "rolled_back le al message details (bl_total_fee (vd_limits v)) (update_accounts_for_failed_tx (vd_rollback_accounts v) al1)"
  using assms unfolding charged_def rolled_back_def Let_def
  by (auto simp: seen_failed rollback_accounts_new_def update_rent_exempt_status_for_account_def fun_eq_iff split: option.splits prod.splits)

text \<open>
  Claim C38. A transaction that is processed but fails, be it that its accounts cannot be loaded or
  that an instruction fails at any point, costs its fee payer exactly the fee and changes nothing
  else of the chain but the nonce it uses, whatever its programs did before the failure. The nonce
  becomes the account captured when the transaction was checked, its lamports included. A transaction
  that is rejected changes nothing at all.
\<close>

theorem failed_transaction_costs_only_the_fee:
  assumes "process_transaction le cache message (Inr details) al = Some (result, al')"
  shows "case result of
      Inl err \<Rightarrow> seen al' = seen al
    | Inr (ProcessedExecuted (Inr rec) fee rollback) \<Rightarrow> True
    | Inr (ProcessedFeesOnly err fee rollback) \<Rightarrow> rolled_back le al message details (fd_total_fee fee) al'
    | Inr (ProcessedExecuted (Inl err) fee rollback) \<Rightarrow> rolled_back le al message details (fd_total_fee fee) al'"
  using assms by (elim process_transaction_cases) (auto simp: charged_rolled_back update_accounts_for_executed_tx_def split: sum.splits)

theorem failed_transaction_costs_only_the_fee_witness:
  "\<exists>al. process_transaction batch_env (\<lambda>_. Some tx_programs) tx_message (Inr (batch_details 10)) batch_start =
     Some (Inr (ProcessedFeesOnly TeMaxLoadedAccountsDataSizeExceeded batch_fee (FeePayerOnly (1, plain_account 100))), al) \<and> seen al = (seen batch_start)(1 := plain_account 100)"
proof -
  obtain al where run: "process_transaction batch_env (\<lambda>_. Some tx_programs) tx_message (Inr (batch_details 10)) batch_start =
     Some (Inr (ProcessedFeesOnly TeMaxLoadedAccountsDataSizeExceeded batch_fee (FeePayerOnly (1, plain_account 100))), al)" using batch_fails by blast
  with failed_transaction_costs_only_the_fee [OF run] show ?thesis
    by (simp add: rolled_back_def batch_fee_def batch_details_def tx_message_def batch_start_seen batch_chain_def plain_account_def)
qed

section \<open>Whole batches\<close>








end
