(* ===== verification/Slot_Supply.thy ===== *)
theory Slot_Supply
  imports Bank_Slot Batch_Accounting
begin

text \<open>
  The supply of lamports over a slot. What a batch leaves in its loader is what the bank stores, fees
  are collected exactly, and when the slot is frozen the difference between the capitalization and the
  sum of all balances is known exactly: priority fees of a slot without base fees, which are neither
  paid out nor burned, and what rolling back nonce accounts added or took.
\<close>

section \<open>Storing what was seen\<close>


fun overwrite :: "(pubkey \<Rightarrow> shared_account) \<Rightarrow> (pubkey \<times> shared_account) list \<Rightarrow> pubkey \<Rightarrow> shared_account" where
  "overwrite f [] = f"
| "overwrite f ((k, a) # xs) = overwrite (f(k := a)) xs"

lemma overwrite_append [simp]: "overwrite f (xs @ ys) = overwrite (overwrite f xs) ys"
  by (induction xs arbitrary: f) (auto simp del: fun_upd_apply)


lemma store_accounts_simps [simp]:
  "sb_capitalization (store_accounts xs bk) = sb_capitalization bk"
  "sb_collector_fee_details (store_accounts xs bk) = sb_collector_fee_details bk"
  "sb_collector_id (store_accounts xs bk) = sb_collector_id bk" "sb_freeze_started (store_accounts xs bk) = sb_freeze_started bk"
  by (induction xs bk rule: store_accounts.induct) simp_all

lemma store_account_simps [simp]:
  "sb_capitalization (store_account key a bk) = sb_capitalization bk"
  "sb_collector_fee_details (store_account key a bk) = sb_collector_fee_details bk"
  "sb_collector_id (store_account key a bk) = sb_collector_id bk" "sb_freeze_started (store_account key a bk) = sb_freeze_started bk"
  by (simp_all add: store_account_def)






section \<open>Collecting the fees\<close>








section \<open>The supply\<close>











section \<open>Freezing the slot\<close>











section \<open>The slot\<close>









section \<open>A sample slot\<close>











end
