(* ===== verification/Spec2Isabelle.thy ===== *)
theory Spec2Isabelle
  imports Vault_Queue Vault_Backing Restaking_Program Runtime_Contract Slot_Supply
begin

text \<open>
  \<^bold>\<open>Restaking programs and the runtime that executes them.\<close>

  The repository holds a fork of the Jito restaking programs (\<open>src/restaking\<close>) and a fork of the
  Agave validator (\<open>src/gorchain\<close>). The vault program takes deposits of one token, issues shares
  (VRT) for them, delegates the deposits to operators and pays withdrawals after a cooldown. The
  restaking program keeps the registry of operators, node consensus networks (NCNs) and their
  mutual opt-ins, which the vault program reads. Both run inside the runtime of the validator,
  which executes the instructions of a transaction on loaded accounts, checks who may change what,
  and lets programs invoke one another. This library models both programs completely, from the
  dispatch of an instruction to the bytes of the accounts, and the part of the runtime that their
  correctness rests on.

  \<^bold>\<open>Conventions.\<close> \<open>Prelude\<close>: a fallible function returns \<open>'e + 'a\<close>; \<open>?\<close> is \<open>and_then\<close>, an early
  return is \<open>err_if\<close>, \<open>ok_or\<close> and \<open>map_err\<close> are those of Rust. A panic is an error value of its
  own. Integers are words of their width and \<open>checked_*\<close> arithmetic is an option; nothing wraps
  silently that does not wrap in the source. An error aborts the transaction, so a function
  returns the new state or an error. Definitions carry the names of the source, with a prefix or
  suffix where several functions share a name.

  \<^bold>\<open>Core data types\<close> (\<open>vault_core\<close>, \<open>restaking_core\<close>, \<open>core\<close>).
  \<^item> \<open>Errors\<close>: the error enums and their codes. \<open>Jsm_Core\<close>: epochs and the signer check.
  \<^item> \<open>Slot_Toggle\<close>: \<open>SlotToggle\<close> as two slots and its derived state; the state moves along one cycle
    only, and warm-up and cooldown last through the epoch after the one they begin in.
  \<^item> \<open>Delegation_State\<close>: what an operator holds in three stages; slashing is exact.
  \<^item> \<open>Vault_Config\<close>, \<open>Vault_State\<close>, \<open>Vault_Ops\<close>: the configuration and the vault with every operation:
    minting, burning, fees, reserve, delegation, roles.
  \<^item> \<open>Share_Ledger\<close>: the locale \<open>share_ledger\<close> is the contract of a share register (no operation
    dilutes the holders), interpreted on the operations of the vault; the value of a share never
    falls, fees and payouts are exact, deposits and redemptions succeed under stated conditions.
  \<^item> \<open>Epoch_Update\<close>: the cranks of an epoch, their rotating order and the books they keep.
  \<^item> \<open>Vault_Tickets\<close>, \<open>Restaking_Core\<close>: the remaining account types of the two programs.

  \<^bold>\<open>Accounts.\<close> A bank is a function from addresses to accounts, whose data are one of the structs.
  \<^item> \<open>Accounts\<close>: banks, the environment \<open>env\<close> of outside functions, invocations as values of \<open>cpi\<close>.
  \<^item> \<open>Account_Loads\<close>: addresses derived from seeds and the \<open>load\<close> function of every type; different
    accounts have different seeds, within the limits of the runtime.
  \<^item> \<open>Account_Registry\<close>: what another program may do to the accounts of a program (\<open>outside_step\<close>,
    \<open>cpi_runtime\<close>), and the locale \<open>registry\<close> of account creation.
  \<^item> \<open>Account_Bytes\<close>: the layout of every struct as bytes (locales \<open>pod\<close>, \<open>exact_pod\<close>,
    \<open>account_type\<close>); reading, changing and creating an account of the bank is the corresponding
    access to its bytes, so that the theorems on banks hold of the bytes.

  \<^bold>\<open>Programs.\<close> Every handler is one definition \<open>process_X e program_id b accounts args\<close> from banks
  to banks or an error, in the order of its source file, invocations included.
  \<^item> \<open>Vault_Token_Handlers\<close>, \<open>Vault_Admin_Handlers\<close>, \<open>Vault_Update_Handlers\<close>,
    \<open>Vault_Ticket_Handlers\<close> and the dispatcher in \<open>Vault_Program\<close>; \<open>Restaking_Handlers\<close> and
    \<open>Restaking_Program\<close>.
  \<^item> \<open>Vault_Change\<close>, \<open>Vault_Program\<close>: what an instruction may change of a vault, who signed for it,
    that paused vaults keep their funds and that no instruction dilutes a share.
  \<^item> \<open>Vault_Effects\<close>: the abstract vault program, an inductive relation with one rule per kind of
    instruction over a list of actions; every handler refines one rule.
  \<^item> \<open>Vault_Queue\<close>, \<open>Vault_Backing\<close>: from the rules, the withdrawal queue of a vault is exactly the
    sum of its open tickets, and the token account of a vault always covers what it records. The
    token program is a parameter there; \<open>token_laws\<close> are its documented behaviour.
  \<^item> \<open>Restaking_Program\<close>: the lists of the registry have no gaps (locale \<open>numbered\<close>), opt-ins and
    settings change only with the right signatures.
  \<^item> \<open>Sample_Bank\<close>, \<open>Sample_Chain\<close>: concrete banks on which the theorems are applied.

  \<^bold>\<open>Runtime\<close> (\<open>src/gorchain\<close>).
  \<^item> \<open>Transaction_Context\<close> (\<open>transaction-context/src/lib.rs\<close>): loaded accounts, instruction stack and
    trace, and all operations on borrowed accounts.
  \<^item> \<open>Invoke_Context\<close> (\<open>program-runtime/src/invoke_context.rs\<close>): preparing, pushing, running and popping
    instructions. The inductive predicate \<open>body\<close> is what a program can do, whatever it computes.
  \<^item> \<open>Runtime_Rules\<close>, \<open>Runtime_Safety\<close>, \<open>Runtime_Privileges\<close>: what one operation changes; the locale
    \<open>kept_by_steps\<close> lifts a relation from operations and entries to whole executions and is
    interpreted three times: for the sum of lamports, for the accounts of a waiting program, and for
    read-only accounts.
  \<^item> \<open>System_Program\<close> (\<open>programs/system\<close>): all instructions of the system program, which is shown to
    work through the operations of the runtime.
  \<^item> \<open>Transaction_Processor\<close> (\<open>svm/src\<close>): the instructions of a message, rent states and the execution
    of a loaded transaction. \<open>Execution_Safety\<close>: lamports are conserved, accounts that are not
    writable are unchanged, no account falls below the rent exemption. \<open>Invocation_Safety\<close>: an
    invocation cannot touch the accounts of the caller and gains no privileges.
    \<open>Sample_Transaction\<close>: a concrete transaction.
  \<^item> \<open>Account_Loader\<close> (\<open>svm/src/account_loader.rs\<close>, \<open>rollback_accounts.rs\<close>, the batch loop of
    \<open>transaction_processor.rs\<close>): loading accounts through the cache of a batch, fee and nonce checks,
    the limits on loaded data, and storing the result or the rollback. \<open>Batch_Accounting\<close>: loading
    changes nothing that can be seen, a failed transaction costs its fee and nothing else, and a batch
    loses exactly its fees.
  \<^item> \<open>Bank_Slot\<close> (\<open>runtime/src/bank.rs\<close>, \<open>bank/fee_distribution.rs\<close>, \<open>account_saver.rs\<close>, \<open>fee/src/lib.rs\<close>):
    committing batches, collecting fees, paying the leader and freezing a slot. \<open>Slot_Supply\<close>: what is
    stored is what the loader last showed, and after freezing the capitalization is exactly the sum of
    the balances.
  \<^item> \<open>Runtime_Contract\<close> joins the two halves: what the handlers assume of an invocation
    (\<open>outside_step\<close>, accounts handed over by the system program) is proved of \<open>native_invoke\<close> on the
    bytes of the accounts of a transaction.

  \<^bold>\<open>Bounds.\<close> No function needs fuel: every loop of the modelled code runs over a list or a counter, and
  the one recursion that is not structural (\<open>chunks_exact\<close>) has a measure. The theorems on
  transactions assume at most 65536 accounts, the range of an account index; a transaction has at
  most 256. Instructions of a message are assumed to have at most 255 accounts, beyond which the map
  from accounts to entries is ambiguous. The books of a batch assume messages as sanitising leaves them
  (\<open>valid_message\<close>) and nonce accounts whose lamports have not changed since the transaction was
  checked (\<open>nonce_current\<close>): the rollback stores the account captured then.

  \<^bold>\<open>Parameters.\<close> Code outside \<open>src\<close> is a parameter: address derivation, the token and metadata
  programs, Borsh and bincode decoders, the sysvar cache, rent tables, precompiles. So are the program
  cache and the accounts database, which the loading of a batch reads. The derivation of
  addresses is assumed injective where a theorem says so.

  \<^bold>\<open>Not modelled.\<close>
  \<^item> In the handlers, borrowing an account twice (a \<open>RefCell\<close> panic), a failing \<open>Clock::get\<close> or
    \<open>Rent::get\<close>, and log messages.
  \<^item> In the runtime, logs, the compute meter, timings and metrics, the recording of inner instructions,
    balance recording, the inspection callback of the loader, and the virtual machine with its memory
    translation and fault handler. A deployed program is any sequence of runtime operations.
  \<^item> The rest of the validator: networking, consensus, storage, RPC and tooling. The programs do not
    depend on it.
  \<^item> The command line client, the crankers, the instruction builders, generated clients and IDLs,
    integration tests and the TypeScript packages: code around an RPC connection, generated code and
    tests.
\<close>

end
